(* ===== verification/Prelude.thy ===== *)
theory Prelude
  imports Main "HOL-Library.AList" "HOL-Library.State_Monad" "HOL-Library.Word"
    "HOL-Library.List_Lexorder" "HOL-Library.Char_ord" "HOL-Library.Sublist"
    "HOL-Library.Signed_Division" "HOL-Library.Multiset"
begin

text \<open>
  Shared vocabulary of the development: Go's \<^verbatim>\<open>map[string]string\<close> as an association list,
  bytes, the theorem collections the component theories fill, and generic lemmas on lists,
  association lists and the state monad.

  A Go map is an association list with distinct keys. Go leaves the iteration order of a map
  unspecified; here the position in the list is the order that one call uses. A statement about one
  call quantifies over the list, hence over the order; a statement about two calls with the same map
  takes two lists, related by \<open>same_map\<close>.
\<close>

named_theorems go_eval \<open>evaluation rules for the string and JSON layer\<close>
named_theorems handler_defs \<open>definitions of the request handlers\<close>
named_theorems cloud_defs \<open>definitions of the cloud operations\<close>

type_synonym params = "(string \<times> string) list"

abbreviation keys :: "('a \<times> 'b) list \<Rightarrow> 'a set" where
  "keys m \<equiv> fst ` set m"

abbreviation gomap :: "('a \<times> 'b) list \<Rightarrow> bool" where
  "gomap m \<equiv> distinct (map fst m)"

text \<open>\<^verbatim>\<open>m[k]\<close> of a \<^verbatim>\<open>map[string]string\<close>: the zero value when the key is absent.\<close>

definition get_param :: "params \<Rightarrow> string \<Rightarrow> string" where
  "get_param m k = (case map_of m k of None \<Rightarrow> [] | Some v \<Rightarrow> v)"

definition has_param :: "(string \<times> 'v) list \<Rightarrow> string \<Rightarrow> bool" where
  "has_param m k = (map_of m k \<noteq> None)"

abbreviation byte :: "char \<Rightarrow> nat" where
  "byte c \<equiv> of_char c"

lemma has_param_iff: "has_param m k \<longleftrightarrow> k \<in> keys m"
  by (simp add: has_param_def map_of_eq_None_iff)

lemma gomap_update [simp]: "gomap m \<Longrightarrow> gomap (AList.update k v m)"
  by (simp add: distinct_update)

lemma gomap_delete [simp]: "gomap m \<Longrightarrow> gomap (AList.delete k m)"
  by (simp add: distinct_delete)

lemma gomap_filter [simp]: "gomap m \<Longrightarrow> gomap (filter P m)"
  by (induction m) auto

lemma keys_update [simp]: "keys (AList.update k v m) = insert k (keys m)"
  by (induction m) auto

lemma keys_delete [simp]: "keys (AList.delete k m) = keys m - {k}"
  by (auto simp: AList.delete_eq)

lemma map_of_update [simp]: "map_of (AList.update k v m) = (map_of m)(k \<mapsto> v)"
  by (rule update_conv')

lemma map_of_delete [simp]: "map_of (AList.delete k m) = (map_of m)(k := None)"
  by (rule delete_conv')

lemma map_of_filter_keys: "map_of (filter (\<lambda>(k, v). P k) m) k = (if P k then map_of m k else None)"
  by (induction m) auto

lemma get_param_update [simp]:
  "get_param (AList.update k v m) k' = (if k = k' then v else get_param m k')"
  by (simp add: get_param_def)

lemma get_param_delete [simp]:
  "get_param (AList.delete k m) k' = (if k = k' then [] else get_param m k')"
  by (simp add: get_param_def)

lemma gomap_sort_key [simp]: "gomap (sort_key fst m) \<longleftrightarrow> gomap (m :: (string \<times> 'v) list)"
  by (rule mset_eq_imp_distinct_iff) simp

lemma map_of_sort_key [simp]: "gomap m \<Longrightarrow> map_of (sort_key fst m) = map_of (m :: (string \<times> 'v) list)"
  by (subst map_of_inject_set) simp_all

section \<open>One map in two orders\<close>

definition same_map :: "('a \<times> 'b) list \<Rightarrow> ('a \<times> 'b) list \<Rightarrow> bool" where
  "same_map m m' \<longleftrightarrow> gomap m \<and> gomap m' \<and> map_of m = map_of m'"

lemma same_map_update [intro]: "same_map m m' \<Longrightarrow> same_map (AList.update k v m) (AList.update k v m')"
  by (simp add: same_map_def)

lemma same_map_delete [intro]: "same_map m m' \<Longrightarrow> same_map (AList.delete k m) (AList.delete k m')"
  by (simp add: same_map_def)

lemma same_map_filter [intro]:
  "same_map m m' \<Longrightarrow> same_map (filter (\<lambda>(k, v). P k) m) (filter (\<lambda>(k, v). P k) m')"
  by (simp add: same_map_def fun_eq_iff map_of_filter_keys)

lemma same_map_get: "same_map m m' \<Longrightarrow> get_param m' k = get_param m k"
  by (simp add: same_map_def get_param_def)

lemma same_map_set: "same_map m m' \<Longrightarrow> set m' = set m"
  unfolding same_map_def by (metis map_of_inject_set)

lemma same_map_perm: "gomap m \<Longrightarrow> mset m' = mset m \<Longrightarrow> same_map m m'"
proof -
  assume g: "gomap m" and p: "mset m' = mset m"
  then have g': "gomap m'" by (metis mset_eq_imp_distinct_iff mset_map)
  with g p show ?thesis by (simp add: same_map_def map_of_inject_set mset_eq_setD [OF p])
qed

lemma same_map_sort_key:
  fixes m :: "(string \<times> 'v) list"
  assumes "same_map m m'" shows "sort_key fst m' = sort_key fst m"
proof -
  have "distinct m" "distinct m'" using assms by (auto simp: same_map_def distinct_map)
  then have "mset m' = mset m" using same_map_set [OF assms] by (simp add: set_eq_iff_mset_eq_distinct)
  then show ?thesis
    using assms by (intro sort_key_inj_key_eq) (simp_all add: same_map_def distinct_map)
qed

section \<open>Lists\<close>

lemma length_dropWhile_Suc: "length (dropWhile P xs) < Suc (length xs)"
  by (simp add: length_dropWhile_le less_Suc_eq_le)

lemma prefix_append_iff_take: "prefix p s \<longleftrightarrow> take (length p) s = p"
  by (metis append_eq_conv_conj append_take_drop_id prefix_def)

end
