(* ===== verification/GoStrings.thy ===== *)
theory GoStrings
  imports Prelude
begin

text \<open>
  The parts of Go's \<^verbatim>\<open>strings\<close>, \<^verbatim>\<open>unicode/utf8\<close> and \<^verbatim>\<open>strconv\<close> that the driver calls. A Go
  string is a sequence of bytes, as \<^typ>\<open>string\<close> is. The table behind \<^verbatim>\<open>strconv.IsPrint\<close> is a
  parameter above U+00FF; below it is written out.
\<close>

section \<open>strings\<close>

definition HasPrefix :: "string \<Rightarrow> string \<Rightarrow> bool" where
  "HasPrefix s p = (take (length p) s = p)"

definition HasSuffix :: "string \<Rightarrow> string \<Rightarrow> bool" where
  "HasSuffix s x = (length x \<le> length s \<and> drop (length s - length x) s = x)"

definition TrimSuffix :: "string \<Rightarrow> string \<Rightarrow> string" where
  "TrimSuffix s x = (if HasSuffix s x then take (length s - length x) s else s)"

fun Contains :: "string \<Rightarrow> string \<Rightarrow> bool" where
  "Contains [] sub = (sub = [])"
| "Contains (c # cs) sub = (HasPrefix (c # cs) sub \<or> Contains cs sub)"

definition ContainsAny :: "string \<Rightarrow> string \<Rightarrow> bool" where
  "ContainsAny s chars = list_ex (\<lambda>c. List.member chars c) s"

text \<open>\<^verbatim>\<open>strings.ReplaceAll\<close> for a non-empty old string: matches are taken left to right and do not overlap.\<close>

function ReplaceAll :: "string \<Rightarrow> string \<Rightarrow> string \<Rightarrow> string" where
  "ReplaceAll old new s =
     (case s of
        [] \<Rightarrow> []
      | c # cs \<Rightarrow>
          if old \<noteq> [] \<and> HasPrefix s old then new @ ReplaceAll old new (drop (length old) s)
          else c # ReplaceAll old new cs)"
  by pat_completeness auto
termination
  by (relation "measure (\<lambda>(old, new, s). length s)") auto

declare ReplaceAll.simps [simp del]

lemma ReplaceAll_Nil [simp]: "ReplaceAll old new [] = []"
  by (simp add: ReplaceAll.simps)

lemma ReplaceAll_match:
  "old \<noteq> [] \<Longrightarrow> ReplaceAll old new (old @ s) = new @ ReplaceAll old new s"
  by (cases old) (simp_all, subst ReplaceAll.simps, simp add: HasPrefix_def)

lemma ReplaceAll_skip:
  "\<not> HasPrefix (c # s) old \<Longrightarrow> ReplaceAll old new (c # s) = c # ReplaceAll old new s"
  by (simp add: ReplaceAll.simps [of old new "c # s"])

text \<open>\<^verbatim>\<open>strings.Split(s, "-")\<close> and \<^verbatim>\<open>strings.SplitN(s, "-", 2)\<close>, the separator a single byte.\<close>

fun Split :: "char \<Rightarrow> string \<Rightarrow> string list" where
  "Split sep [] = [[]]"
| "Split sep (c # cs) =
     (if c = sep then [] # Split sep cs
      else (case Split sep cs of [] \<Rightarrow> [[c]] | w # ws \<Rightarrow> (c # w) # ws))"

definition SplitN2 :: "char \<Rightarrow> string \<Rightarrow> string list" where
  "SplitN2 sep s =
     (if List.member s sep then [takeWhile (\<lambda>c. c \<noteq> sep) s, tl (dropWhile (\<lambda>c. c \<noteq> sep) s)] else [s])"

lemma HasPrefix_eq: "HasPrefix s p \<Longrightarrow> s = p @ drop (length p) s"
  unfolding HasPrefix_def by (metis append_take_drop_id)

lemma Split_not_Nil [simp]: "Split sep s \<noteq> []"
  by (induction s) (auto split: list.splits)

lemma hd_Split: "hd (Split sep s) = takeWhile (\<lambda>c. c \<noteq> sep) s"
  by (induction s) (auto split: list.splits)

lemma length_Split: "length (Split sep s) = Suc (count_list s sep)"
  by (induction s) (auto split: list.splits)

lemma Split_two:
  "length (Split c s) = 2 \<and> Split c s ! 0 = a \<longleftrightarrow> (\<exists>b. s = a @ c # b \<and> c \<notin> set a \<and> c \<notin> set b)"
proof
  assume l: "length (Split c s) = 2 \<and> Split c s ! 0 = a"
  then have n: "count_list s c = 1" by (simp add: length_Split)
  then have "c \<in> set s" by (metis count_notin zero_neq_one)
  then obtain p b where s: "s = p @ c # b" "c \<notin> set p" by (auto dest: split_list_first)
  then have "takeWhile (\<lambda>x. x \<noteq> c) s = p" by (auto simp: takeWhile_tail takeWhile_eq_all_conv)
  with l hd_Split [of c s] have "p = a" by (simp add: hd_conv_nth)
  moreover have "count_list b c = 0" using n s by simp
  then have "c \<notin> set b" by (simp add: count_list_0_iff)
  ultimately show "\<exists>b. s = a @ c # b \<and> c \<notin> set a \<and> c \<notin> set b" using s by auto
next
  assume "\<exists>b. s = a @ c # b \<and> c \<notin> set a \<and> c \<notin> set b"
  then obtain b where b: "s = a @ c # b" "c \<notin> set a" "c \<notin> set b" by blast
  then have "takeWhile (\<lambda>x. x \<noteq> c) s = a" by (auto simp: takeWhile_tail takeWhile_eq_all_conv)
  with hd_Split [of c s] have "Split c s ! 0 = a" by (simp add: hd_conv_nth)
  moreover have "length (Split c s) = 2" using b by (simp add: length_Split)
  ultimately show "length (Split c s) = 2 \<and> Split c s ! 0 = a" by simp
qed

lemma SplitN2_not_Nil [simp]: "SplitN2 sep s \<noteq> []"
  by (simp add: SplitN2_def)

lemma hd_SplitN2: "hd (SplitN2 sep s) = takeWhile (\<lambda>c. c \<noteq> sep) s"
proof (cases "sep \<in> set s")
  case False
  then have eq: "takeWhile (\<lambda>c. c \<noteq> sep) s = s" by (auto simp: takeWhile_eq_all_conv)
  show ?thesis using False by (subst eq) (simp add: SplitN2_def)
qed (simp add: SplitN2_def)

lemma TrimSuffix_append [simp]: "TrimSuffix (s @ x) x = s"
  by (simp add: TrimSuffix_def HasSuffix_def)

lemma HasSuffix_append [simp]: "HasSuffix (s @ x) x"
  by (simp add: HasSuffix_def)

lemma HasSuffix_iff: "HasSuffix s x \<longleftrightarrow> (\<exists>p. s = p @ x)"
proof
  assume "HasSuffix s x"
  then have "s = take (length s - length x) s @ x"
    by (metis HasSuffix_def append_take_drop_id)
  then show "\<exists>p. s = p @ x" ..
qed auto

lemma TrimSuffix_HasSuffix: "HasSuffix s x \<Longrightarrow> TrimSuffix s x @ x = s"
  by (auto simp: HasSuffix_iff)

lemma Contains_iff_sublist: "Contains s sub \<longleftrightarrow> (\<exists>p q. s = p @ sub @ q)"
proof (induction s)
  case Nil
  show ?case by auto
next
  case (Cons c cs)
  have pre: "HasPrefix (c # cs) sub \<longleftrightarrow> (\<exists>q. c # cs = sub @ q)"
    by (metis HasPrefix_def append_eq_conv_conj append_take_drop_id)
  have "(\<exists>p q. c # cs = p @ sub @ q) \<longleftrightarrow> (\<exists>q. c # cs = sub @ q) \<or> (\<exists>p q. cs = p @ sub @ q)"
    by (metis append_Cons append_Nil append_eq_Cons_conv)
  then show ?case using Cons.IH pre by simp
qed

text \<open>
  Replacing by one character that the searched text does not hold removes every occurrence of the
  text and makes no new ones of any text without that character.
\<close>

lemma ReplaceAll_hit:
  "old \<noteq> [] \<Longrightarrow> HasPrefix (a # s) old \<Longrightarrow> ReplaceAll old new (a # s) = new @ ReplaceAll old new (drop (length old) (a # s))"
  by (simp add: ReplaceAll.simps [of old new "a # s"])

lemma ReplaceAll_prefix:
  "HasPrefix (ReplaceAll old [c] s) p \<Longrightarrow> c \<notin> set p \<Longrightarrow> HasPrefix s p"
proof (induction s arbitrary: p)
  case (Cons a s)
  show ?case
  proof (cases "old \<noteq> [] \<and> HasPrefix (a # s) old")
    case True
    with Cons.prems(1) have "HasPrefix (c # ReplaceAll old [c] (drop (length old) (a # s))) p"
      by (simp add: ReplaceAll_hit)
    with Cons.prems(2) have "p = []" by (cases p) (auto simp: HasPrefix_def)
    then show ?thesis by (simp add: HasPrefix_def)
  next
    case False
    then have "ReplaceAll old [c] (a # s) = a # ReplaceAll old [c] s" by (auto simp: ReplaceAll.simps [of old _ "a # s"])
    with Cons show ?thesis by (cases p) (auto simp: HasPrefix_def)
  qed
qed simp

lemma ReplaceAll_Contains:
  "Contains (ReplaceAll old [c] s) u \<Longrightarrow> c \<notin> set u \<Longrightarrow> Contains s u"
proof (induction old "[c]" s rule: ReplaceAll.induct)
  case (1 old s)
  show ?case
  proof (cases s)
    case Nil
    with 1 show ?thesis by simp
  next
    case (Cons a s')
    show ?thesis
    proof (cases "old \<noteq> [] \<and> HasPrefix s old")
      case True
      have r: "ReplaceAll old [c] s = c # ReplaceAll old [c] (drop (length old) s)"
        using True ReplaceAll_hit [of old a s' "[c]"] unfolding Cons by simp
      have "HasPrefix (ReplaceAll old [c] s) u \<or> Contains (ReplaceAll old [c] (drop (length old) s)) u"
        using 1(3) unfolding r by simp
      then show ?thesis
      proof
        assume "HasPrefix (ReplaceAll old [c] s) u"
        then have "HasPrefix s u" using 1(4) by (rule ReplaceAll_prefix)
        with Cons show ?thesis by simp
      next
        assume "Contains (ReplaceAll old [c] (drop (length old) s)) u"
        from 1(1) [OF Cons True this 1(4)] show ?thesis
          unfolding Contains_iff_sublist by (metis append_assoc append_take_drop_id)
      qed
    next
      case False
      have r: "ReplaceAll old [c] s = a # ReplaceAll old [c] s'"
        using False unfolding Cons by (auto simp: ReplaceAll.simps [of old _ "a # s'"])
      have "HasPrefix (ReplaceAll old [c] s) u \<or> Contains (ReplaceAll old [c] s') u"
        using 1(3) unfolding r by simp
      then show ?thesis
      proof
        assume "HasPrefix (ReplaceAll old [c] s) u"
        then have "HasPrefix s u" using 1(4) by (rule ReplaceAll_prefix)
        with Cons show ?thesis by simp
      next
        assume "Contains (ReplaceAll old [c] s') u"
        from 1(2) [OF Cons False this 1(4)] Cons show ?thesis by simp
      qed
    qed
  qed
qed

lemma ReplaceAll_removes:
  assumes "old \<noteq> []" and "c \<notin> set old"
  shows "\<not> Contains (ReplaceAll old [c] s) old"
  using assms
proof (induction old "[c]" s rule: ReplaceAll.induct)
  case (1 old s)
  show ?case
  proof (cases s)
    case Nil
    with 1 show ?thesis by simp
  next
    case (Cons a s')
    show ?thesis
    proof (cases "HasPrefix s old")
      case True
      have r: "ReplaceAll old [c] s = c # ReplaceAll old [c] (drop (length old) s)"
        using True 1(3) ReplaceAll_hit [of old a s' "[c]"] unfolding Cons by simp
      have "\<not> HasPrefix (ReplaceAll old [c] s) old" unfolding r using 1(3,4) by (cases old) (auto simp: HasPrefix_def)
      with 1(1) [OF Cons _ 1(3,4)] True 1(3) show ?thesis unfolding r by simp
    next
      case False
      have r: "ReplaceAll old [c] s = a # ReplaceAll old [c] s'"
        using False unfolding Cons by (auto simp: ReplaceAll.simps [of old _ "a # s'"])
      have "\<not> HasPrefix (ReplaceAll old [c] s) old" using False ReplaceAll_prefix [OF _ 1(4), of old s] by blast
      with 1(2) [OF Cons _ 1(3,4)] False show ?thesis unfolding r by simp
    qed
  qed
qed

section \<open>unicode/utf8\<close>

definition cont_byte :: "char \<Rightarrow> bool" where
  "cont_byte c = (128 \<le> byte c \<and> byte c \<le> 191)"

text \<open>The width of the rune at the head of a byte string, 0 when there is no valid one
  (\<^verbatim>\<open>utf8.DecodeRune\<close> then returns \<^verbatim>\<open>(RuneError, 1)\<close>).\<close>

fun rune_width :: "string \<Rightarrow> nat" where
  "rune_width [] = 0"
| "rune_width (a # s) =
     (if byte a < 128 then 1
      else case s of
        [] \<Rightarrow> 0
      | b # s' \<Rightarrow>
          if 194 \<le> byte a \<and> byte a \<le> 223 \<and> cont_byte b then 2
          else (case s' of
            [] \<Rightarrow> 0
          | c # s'' \<Rightarrow>
              if 224 \<le> byte a \<and> byte a \<le> 239 \<and> cont_byte b \<and> cont_byte c
                 \<and> (byte a = 224 \<longrightarrow> 160 \<le> byte b) \<and> (byte a = 237 \<longrightarrow> byte b \<le> 159) then 3
              else (case s'' of
                [] \<Rightarrow> 0
              | d # _ \<Rightarrow>
                  if 240 \<le> byte a \<and> byte a \<le> 244 \<and> cont_byte b \<and> cont_byte c \<and> cont_byte d
                     \<and> (byte a = 240 \<longrightarrow> 144 \<le> byte b) \<and> (byte a = 244 \<longrightarrow> byte b \<le> 143) then 4
                  else 0)))"

fun rune_value :: "string \<Rightarrow> nat" where
  "rune_value [a] = byte a"
| "rune_value [a, b] = (byte a - 192) * 64 + (byte b - 128)"
| "rune_value [a, b, c] = (byte a - 224) * 4096 + (byte b - 128) * 64 + (byte c - 128)"
| "rune_value [a, b, c, d] =
     (byte a - 240) * 262144 + (byte b - 128) * 4096 + (byte c - 128) * 64 + (byte d - 128)"
| "rune_value _ = 65533"

text \<open>\<^verbatim>\<open>utf8.AppendRune\<close>: surrogates and values beyond U+10FFFF become U+FFFD.\<close>

definition utf8_encode :: "nat \<Rightarrow> string" where
  "utf8_encode r =
     (if r < 128 then [char_of r]
      else if r < 2048 then [char_of (192 + r div 64), char_of (128 + r mod 64)]
      else if (55296 \<le> r \<and> r \<le> 57343) \<or> 1114111 < r
        then [char_of (239 :: nat), char_of (191 :: nat), char_of (189 :: nat)]
      else if r < 65536
        then [char_of (224 + r div 4096), char_of (128 + r div 64 mod 64), char_of (128 + r mod 64)]
      else [char_of (240 + r div 262144), char_of (128 + r div 4096 mod 64),
            char_of (128 + r div 64 mod 64), char_of (128 + r mod 64)])"

lemma rune_width_le: "rune_width s \<le> length s"
  by (cases s) (auto split: list.splits)

lemma rune_width_ascii [simp]: "byte a < 128 \<Longrightarrow> rune_width (a # s) = 1"
  by simp

declare rune_width.simps(2) [simp del]

text \<open>A string whose bytes all belong to valid runes; what JSON decoding always produces.\<close>

function valid_utf8 :: "string \<Rightarrow> bool" where
  "valid_utf8 s =
     (if s = [] then True
      else if rune_width s = 0 then False
      else valid_utf8 (drop (rune_width s) s))"
  by pat_completeness auto
termination
  by (relation "measure length") auto

declare valid_utf8.simps [simp del]

lemma valid_utf8_Nil [simp]: "valid_utf8 []"
  by (simp add: valid_utf8.simps)

lemma valid_utf8_ascii [simp]: "byte c < 128 \<Longrightarrow> valid_utf8 (c # s) = valid_utf8 s"
  by (subst valid_utf8.simps) simp

lemma valid_utf8_all_ascii: "list_all (\<lambda>c. byte c < 128) s \<Longrightarrow> valid_utf8 s"
  by (induction s) simp_all

section \<open>strconv\<close>

definition hexdigit :: "nat \<Rightarrow> char" where
  "hexdigit n = (if n < 10 then char_of (48 + n) else char_of (87 + n))"

definition hex2 :: "nat \<Rightarrow> string" where
  "hex2 n = [hexdigit (n div 16 mod 16), hexdigit (n mod 16)]"

definition hex4 :: "nat \<Rightarrow> string" where
  "hex4 n = hex2 (n div 256) @ hex2 (n mod 256)"

definition hex8 :: "nat \<Rightarrow> string" where
  "hex8 n = hex4 (n div 65536) @ hex4 (n mod 65536)"

definition hexval :: "char \<Rightarrow> nat option" where
  "hexval c =
     (let n = byte c in
      if 48 \<le> n \<and> n \<le> 57 then Some (n - 48)
      else if 97 \<le> n \<and> n \<le> 102 then Some (n - 87)
      else if 65 \<le> n \<and> n \<le> 70 then Some (n - 55)
      else None)"

definition IsPrint :: "(nat \<Rightarrow> bool) \<Rightarrow> nat \<Rightarrow> bool" where
  "IsPrint pr r =
     (if r \<le> 255 then (32 \<le> r \<and> r < 127) \<or> (161 \<le> r \<and> r \<noteq> 173) else pr r)"

text \<open>\<^verbatim>\<open>appendEscapedRune\<close> with the quote character \<^verbatim>\<open>"\<close>; the second argument is the rune's bytes.\<close>

definition escape_rune :: "(nat \<Rightarrow> bool) \<Rightarrow> string \<Rightarrow> string" where
  "escape_rune pr bs =
     (let r = rune_value bs in
      if r = 34 \<or> r = 92 then CHR 0x5C # bs
      else if IsPrint pr r then bs
      else if r = 7 then [CHR 0x5C, CHR ''a'']
      else if r = 8 then [CHR 0x5C, CHR ''b'']
      else if r = 12 then [CHR 0x5C, CHR ''f'']
      else if r = 10 then [CHR 0x5C, CHR ''n'']
      else if r = 13 then [CHR 0x5C, CHR ''r'']
      else if r = 9 then [CHR 0x5C, CHR ''t'']
      else if r = 11 then [CHR 0x5C, CHR ''v'']
      else if r < 32 \<or> r = 127 then [CHR 0x5C, CHR ''x''] @ hex2 r
      else if r < 65536 then [CHR 0x5C, CHR ''u''] @ hex4 r
      else [CHR 0x5C, CHR ''U''] @ hex8 r)"

function quote_body :: "(nat \<Rightarrow> bool) \<Rightarrow> string \<Rightarrow> string" where
  "quote_body pr s =
     (case s of
        [] \<Rightarrow> []
      | c # cs \<Rightarrow>
          if rune_width s = 0 then [CHR 0x5C, CHR ''x''] @ hex2 (byte c) @ quote_body pr cs
          else escape_rune pr (take (rune_width s) s) @ quote_body pr (drop (rune_width s) s))"
  by pat_completeness auto
termination
  by (relation "measure (\<lambda>(pr, s). length s)") auto

declare quote_body.simps [simp del]

definition Quote :: "(nat \<Rightarrow> bool) \<Rightarrow> string \<Rightarrow> string" where
  "Quote pr s = CHR 0x22 # quote_body pr s @ [CHR 0x22]"

lemma quote_body_Nil [simp]: "quote_body pr [] = []"
  by (simp add: quote_body.simps)

lemma quote_body_ascii:
  "byte c < 128 \<Longrightarrow> quote_body pr (c # s) = escape_rune pr [c] @ quote_body pr s"
  by (simp add: quote_body.simps [of pr "c # s"])

definition digit_char :: "nat \<Rightarrow> char" where
  "digit_char d = char_of (48 + d)"

definition is_digit :: "char \<Rightarrow> bool" where
  "is_digit c = (48 \<le> byte c \<and> byte c \<le> 57)"

fun dec_nat :: "nat \<Rightarrow> string" where
  "dec_nat n = (if n < 10 then [digit_char n] else dec_nat (n div 10) @ [digit_char (n mod 10)])"

declare dec_nat.simps [simp del]

definition Itoa :: "int \<Rightarrow> string" where
  "Itoa i = (if i < 0 then CHR ''-'' # dec_nat (nat (- i)) else dec_nat (nat i))"

datatype num_error = ErrSyntax | ErrRange

fun parse_uint_loop :: "nat \<Rightarrow> nat \<Rightarrow> string \<Rightarrow> num_error + nat" where
  "parse_uint_loop maxv acc [] = Inr acc"
| "parse_uint_loop maxv acc (c # cs) =
     (if \<not> is_digit c then Inl ErrSyntax
      else let n = acc * 10 + (byte c - 48) in
        if n > maxv then Inl ErrRange else parse_uint_loop maxv n cs)"

definition ParseUint :: "nat \<Rightarrow> string \<Rightarrow> num_error + nat" where
  "ParseUint bits s = (if s = [] then Inl ErrSyntax else parse_uint_loop (2 ^ bits - 1) 0 s)"

text \<open>\<^verbatim>\<open>strconv.ParseInt(s, 10, bits)\<close>.\<close>

definition ParseInt :: "nat \<Rightarrow> string \<Rightarrow> num_error + int" where
  "ParseInt bits s =
     (if s = [] then Inl ErrSyntax
      else
        let neg = (hd s = CHR ''-'');
            body = (if hd s = CHR ''-'' \<or> hd s = CHR ''+'' then tl s else s)
        in (case ParseUint bits body of
              Inl e \<Rightarrow> Inl e
            | Inr un \<Rightarrow>
                if \<not> neg \<and> un \<ge> 2 ^ (bits - 1) then Inl ErrRange
                else if neg \<and> un > 2 ^ (bits - 1) then Inl ErrRange
                else Inr (if neg then - int un else int un)))"

definition ParseBool :: "string \<Rightarrow> bool option" where
  "ParseBool s =
     (if s \<in> {''1'', ''t'', ''T'', ''TRUE'', ''true'', ''True''} then Some True
      else if s \<in> {''0'', ''f'', ''F'', ''FALSE'', ''false'', ''False''} then Some False
      else None)"

lemma byte_digit_char [simp]: "d < 10 \<Longrightarrow> byte (digit_char d) = 48 + d"
  by (simp add: digit_char_def)

lemma is_digit_digit_char [simp]: "d < 10 \<Longrightarrow> is_digit (digit_char d)"
  by (simp add: is_digit_def)

lemma dec_nat_digits: "list_all is_digit (dec_nat n)"
proof (induction n rule: dec_nat.induct)
  case (1 n)
  then show ?case by (subst dec_nat.simps) simp
qed

lemma dec_nat_not_Nil [simp]: "dec_nat n \<noteq> []"
  by (subst dec_nat.simps) simp

lemma parse_uint_loop_append:
  "parse_uint_loop m a (xs @ ys) =
     (case parse_uint_loop m a xs of Inl e \<Rightarrow> Inl e | Inr b \<Rightarrow> parse_uint_loop m b ys)"
  by (induction xs arbitrary: a) (auto simp: Let_def)

lemma parse_uint_dec_nat: "n \<le> m \<Longrightarrow> parse_uint_loop m 0 (dec_nat n) = Inr n"
proof (induction n rule: dec_nat.induct)
  case (1 n)
  show ?case
  proof (cases "n < 10")
    case True
    with "1.prems" show ?thesis by (subst dec_nat.simps) simp
  next
    case False
    with "1.prems" have "n div 10 \<le> m" by simp
    with False "1.IH" have "parse_uint_loop m 0 (dec_nat (n div 10)) = Inr (n div 10)" by blast
    with False "1.prems" show ?thesis
      by (subst dec_nat.simps) (simp add: parse_uint_loop_append Let_def)
  qed
qed

lemma hd_dec_nat: "is_digit (hd (dec_nat n))"
  using dec_nat_digits [of n] by (cases "dec_nat n") simp_all

lemma hd_dec_nat_sign: "hd (dec_nat n) \<noteq> CHR ''-''" "hd (dec_nat n) \<noteq> CHR ''+''"
  using hd_dec_nat [of n] by (auto simp: is_digit_def)

text \<open>Decimal printing and parsing are inverse on the range of the width.\<close>

lemma ParseInt_Itoa:
  assumes "0 < bits" and "- (2 ^ (bits - 1)) \<le> i" and "i < 2 ^ (bits - 1)"
  shows "ParseInt bits (Itoa i) = Inr i"
proof (cases "i < 0")
  case True
  then have b: "nat (- i) \<le> 2 ^ (bits - 1)" using assms(2) by (simp add: nat_le_iff)
  have "(2 :: nat) ^ (bits - 1) \<le> 2 ^ bits - 1"
    using assms(1) by (cases bits) (simp_all add: Suc_leI)
  with b have "nat (- i) \<le> 2 ^ bits - 1" by linarith
  with True b show ?thesis
    by (simp add: ParseInt_def ParseUint_def Itoa_def parse_uint_dec_nat)
next
  case False
  then have b: "nat i < 2 ^ (bits - 1)" using assms(3) by (simp add: nat_less_iff)
  have "(2 :: nat) ^ (bits - 1) \<le> 2 ^ bits - 1"
    using assms(1) by (cases bits) (simp_all add: Suc_leI)
  with b have "nat i \<le> 2 ^ bits - 1" by linarith
  with False b show ?thesis
    by (simp add: ParseInt_def ParseUint_def Itoa_def parse_uint_dec_nat hd_dec_nat_sign)
qed

section \<open>Evaluation on binary integers\<close>

text \<open>Code equations that keep decimal conversion on binary integers instead of unary naturals.\<close>

fun parse_int_loop :: "int \<Rightarrow> int \<Rightarrow> string \<Rightarrow> num_error + int" where
  "parse_int_loop maxv acc [] = Inr acc"
| "parse_int_loop maxv acc (c # cs) =
     (if \<not> is_digit c then Inl ErrSyntax
      else let n = acc * 10 + (int (byte c) - 48) in
        if n > maxv then Inl ErrRange else parse_int_loop maxv n cs)"

lemma parse_int_loop_nat:
  "parse_int_loop (int m) (int a) s = (case parse_uint_loop m a s of Inl e \<Rightarrow> Inl e | Inr n \<Rightarrow> Inr (int n))"
proof (induction s arbitrary: a)
  case (Cons c s)
  show ?case
  proof (cases "is_digit c")
    case True
    then have d: "int (byte c) - 48 = int (byte c - 48)"
      by (simp add: is_digit_def of_nat_diff)
    have e: "int a * 10 + int (byte c - 48) = int (a * 10 + (byte c - 48))" by simp
    show ?thesis using True Cons
      by (simp add: Let_def d e del: of_nat_add of_nat_mult of_nat_diff)
  qed simp
qed simp

definition ParseUint_int :: "nat \<Rightarrow> string \<Rightarrow> num_error + int" where
  "ParseUint_int bits s = (if s = [] then Inl ErrSyntax else parse_int_loop (2 ^ bits - 1) 0 s)"

lemma ParseUint_int_eq:
  "ParseUint_int bits s = (case ParseUint bits s of Inl e \<Rightarrow> Inl e | Inr n \<Rightarrow> Inr (int n))"
proof -
  have m: "(2 :: int) ^ bits - 1 = int (2 ^ bits - 1)" by (simp add: of_nat_diff)
  have "parse_int_loop (2 ^ bits - 1) 0 s =
      (case parse_uint_loop (2 ^ bits - 1) 0 s of Inl e \<Rightarrow> Inl e | Inr n \<Rightarrow> Inr (int n))"
    using parse_int_loop_nat [of "2 ^ bits - 1" 0 s] unfolding m by simp
  then show ?thesis by (simp only: ParseUint_int_def ParseUint_def) simp
qed

lemma ParseInt_code [code]:
  "ParseInt bits s =
     (if s = [] then Inl ErrSyntax
      else
        let neg = (hd s = CHR ''-'');
            body = (if hd s = CHR ''-'' \<or> hd s = CHR ''+'' then tl s else s)
        in (case ParseUint_int bits body of
              Inl e \<Rightarrow> Inl e
            | Inr un \<Rightarrow>
                if \<not> neg \<and> un \<ge> 2 ^ (bits - 1) then Inl ErrRange
                else if neg \<and> un > 2 ^ (bits - 1) then Inl ErrRange
                else Inr (if neg then - un else un)))"
proof -
  define h :: nat where "h = 2 ^ (bits - 1)"
  have h: "(2 :: int) ^ (bits - 1) = int h" "(2 :: nat) ^ (bits - 1) = h" by (simp_all add: h_def)
  have c: "(case (case x of Inl e \<Rightarrow> Inl e | Inr n \<Rightarrow> Inr (int n)) of Inl e \<Rightarrow> F e | Inr u \<Rightarrow> G u) =
      (case x of Inl e \<Rightarrow> F e | Inr n \<Rightarrow> G (int n))" for x :: "num_error + nat" and F and G :: "int \<Rightarrow> 'b"
    by (cases x) simp_all
  show ?thesis
    unfolding ParseInt_def Let_def ParseUint_int_eq c h of_nat_le_iff of_nat_less_iff by simp
qed

function dec_int :: "int \<Rightarrow> string" where
  "dec_int i = (if i < 10 then [digit_char (nat i)] else dec_int (i div 10) @ [digit_char (nat (i mod 10))])"
  by auto
termination by (relation "measure nat") (auto simp: nat_less_iff)

declare dec_int.simps [simp del]

lemma dec_int_nat: "dec_int (int n) = dec_nat n"
proof (induction n rule: dec_nat.induct)
  case (1 n)
  have d: "int n div 10 = int (n div 10)" "nat (int n mod 10) = n mod 10"
    by (simp_all add: zdiv_int nat_mod_distrib)
  show ?case
    using 1 by (subst dec_int.simps, subst dec_nat.simps) (simp add: d del: of_nat_div)
qed

lemma Itoa_code [code]: "Itoa i = (if i < 0 then CHR ''-'' # dec_int (- i) else dec_int i)"
  using dec_int_nat [of "nat i"] dec_int_nat [of "nat (- i)"] by (auto simp: Itoa_def split: if_splits)

end
