(* ===== verification/GoErrors.thy ===== *)
theory GoErrors
  imports GoStrings
begin

text \<open>
  Go errors as values. A formatted error keeps its format and its arguments, so that its text is
  computed only where the code looks at it (\<^verbatim>\<open>strings.Contains(err.Error(), ...)\<close>). The text of a
  gRPC status and the Unicode print table are third-party and live in \<open>text_env\<close>. The result of a
  call is a value, an error or a panic (a nil dereference); calls that reach a service run in the
  state monad over its state.
\<close>

datatype code =
  InvalidArgument | Aborted | AlreadyExists | Internal | Unimplemented | NotFound
  | OutOfRange | PermissionDenied

text \<open>The exception types of the FSx SDK that the driver distinguishes by \<^verbatim>\<open>errors.As\<close>.\<close>

datatype sdk_kind =
  IncompatibleParameterError | BadRequest | FileSystemNotFound | VolumeNotFound
  | SnapshotNotFound | OtherSdkError

datatype os_kind = OsNotExist | OsExist | OsPermission | OsOther

datatype goerr =
    ErrAlreadyExists
  | ErrInvalidInput
  | ErrMultipleFound
  | ErrNotFound
  | Errorf string "arg list"
  | Wrapf string "arg list" goerr
  | StatusErr code string "arg list"
  | NumError string num_error
  | SyntaxError string
  | MarshalerError goerr
  | UnmarshalTypeError string string string string
  | SdkErr sdk_kind string string
  | OsErr os_kind string
  | ExtErr string
and arg = AStr string | AInt int | AErr goerr | AMap "(string \<times> string) list"

record text_env =
  unicode_print :: "nat \<Rightarrow> bool"
  status_text :: "code \<Rightarrow> string \<Rightarrow> string"

text \<open>\<^verbatim>\<open>fmt.Sprintf\<close> for the verbs the driver uses; an argument comes as its plain and its quoted text.\<close>

fun sprintf :: "string \<Rightarrow> (string \<times> string) list \<Rightarrow> string" where
  "sprintf [] as = []"
| "sprintf [c] as = [c]"
| "sprintf (c # v # cs) as =
     (if c = CHR ''%'' then
        (case as of
           [] \<Rightarrow> c # v # sprintf cs []
         | a # as' \<Rightarrow> (if v = CHR ''q'' then snd a else fst a) @ sprintf cs as')
      else c # sprintf (v # cs) as)"

fun join :: "string \<Rightarrow> string list \<Rightarrow> string" where
  "join sep [] = []"
| "join sep [x] = x"
| "join sep (x # xs) = x @ sep @ join sep xs"

definition show_map :: "(string \<times> string) list \<Rightarrow> string" where
  "show_map m = ''map['' @ join '' '' (map (\<lambda>(k, v). k @ '':'' @ v) (sort_key fst m)) @ '']''"

definition num_error_text :: "num_error \<Rightarrow> string" where
  "num_error_text e = (case e of ErrSyntax \<Rightarrow> ''invalid syntax'' | ErrRange \<Rightarrow> ''value out of range'')"

fun Error :: "text_env \<Rightarrow> goerr \<Rightarrow> string"
  and arg_text :: "text_env \<Rightarrow> arg \<Rightarrow> string \<times> string" where
  "Error env ErrAlreadyExists =
     ''resource already exists with the given name and different parameters''"
| "Error env ErrInvalidInput = ''invalid input''"
| "Error env ErrMultipleFound = ''multiple resource found with the given ID''"
| "Error env ErrNotFound = ''resource could not be found using the respective ID''"
| "Error env (Errorf f as) = sprintf f (map (arg_text env) as)"
| "Error env (Wrapf f as e) = sprintf f (map (arg_text env) as)"
| "Error env (StatusErr c f as) = status_text env c (sprintf f (map (arg_text env) as))"
| "Error env (NumError s e) =
     ''strconv.ParseInt: parsing '' @ Quote (unicode_print env) s @ '': '' @ num_error_text e"
| "Error env (SyntaxError m) = m"
| "Error env (MarshalerError e) =
     ''json: error calling MarshalJSON for type json.RawMessage: '' @ Error env e"
| "Error env (UnmarshalTypeError v st f t) =
     (if st \<noteq> [] \<or> f \<noteq> []
      then ''json: cannot unmarshal '' @ v @ '' into Go struct field '' @ st @ ''.'' @ f @ '' of type '' @ t
      else ''json: cannot unmarshal '' @ v @ '' into Go value of type '' @ t)"
| "Error env (SdkErr k m t) = t"
| "Error env (OsErr k t) = t"
| "Error env (ExtErr t) = t"
| "arg_text env (AStr s) = (s, Quote (unicode_print env) s)"
| "arg_text env (AInt i) = (Itoa i, Itoa i)"
| "arg_text env (AErr e) = (Error env e, Quote (unicode_print env) (Error env e))"
| "arg_text env (AMap m) = (show_map m, show_map m)"

text \<open>\<^verbatim>\<open>errors.Is(e, target)\<close> follows the chain of wrapped errors.\<close>

fun err_is :: "goerr \<Rightarrow> goerr \<Rightarrow> bool" where
  "err_is (Wrapf f as e) t = (Wrapf f as e = t \<or> err_is e t)"
| "err_is (MarshalerError e) t = (MarshalerError e = t \<or> err_is e t)"
| "err_is e t = (e = t)"

text \<open>\<^verbatim>\<open>errors.As\<close> for an SDK exception type: its kind and service message.\<close>

fun as_sdk :: "goerr \<Rightarrow> (sdk_kind \<times> string) option" where
  "as_sdk (SdkErr k m t) = Some (k, m)"
| "as_sdk (Wrapf f as e) = as_sdk e"
| "as_sdk (MarshalerError e) = as_sdk e"
| "as_sdk e = None"

definition is_sdk :: "sdk_kind \<Rightarrow> goerr \<Rightarrow> bool" where
  "is_sdk k e = (case as_sdk e of Some (k', m) \<Rightarrow> k' = k | None \<Rightarrow> False)"

definition os_IsNotExist :: "goerr \<Rightarrow> bool" where
  "os_IsNotExist e = (case e of OsErr k t \<Rightarrow> k = OsNotExist | _ \<Rightarrow> False)"

definition os_IsExist :: "goerr \<Rightarrow> bool" where
  "os_IsExist e = (case e of OsErr k t \<Rightarrow> k = OsExist | _ \<Rightarrow> False)"

definition os_IsPermission :: "goerr \<Rightarrow> bool" where
  "os_IsPermission e = (case e of OsErr k t \<Rightarrow> k = OsPermission | _ \<Rightarrow> False)"

abbreviation status_Error :: "code \<Rightarrow> string \<Rightarrow> goerr" where
  "status_Error c m \<equiv> StatusErr c m []"

abbreviation status_ErrorOf :: "code \<Rightarrow> goerr \<Rightarrow> goerr" where
  "status_ErrorOf c e \<equiv> StatusErr c ''%s'' [AErr e]"

section \<open>Results and calls\<close>

datatype 'a res = Ok 'a | Err goerr | Panic

type_synonym ('w, 'a) go = "('w, 'a res) state"

definition invoke :: "('w, 'a) go \<Rightarrow> (goerr + 'a \<Rightarrow> ('w, 'b) go) \<Rightarrow> ('w, 'b) go" where
  "invoke m k = do {
     r \<leftarrow> m;
     (case r of
        Ok x \<Rightarrow> k (Inr x)
      | Err e \<Rightarrow> k (Inl e)
      | Panic \<Rightarrow> State_Monad.return Panic)
   }"

abbreviation ret :: "'a res \<Rightarrow> ('w, 'a) go" where
  "ret r \<equiv> State_Monad.return r"

text \<open>\<^verbatim>\<open>x, err := m(); if err != nil { return onerr(err) }\<close> followed by the rest.\<close>

definition check :: "('w, 'a) go \<Rightarrow> (goerr \<Rightarrow> goerr) \<Rightarrow> ('a \<Rightarrow> ('w, 'b) go) \<Rightarrow> ('w, 'b) go" where
  "check m onerr k =
     invoke m (\<lambda>r. case r of Inl e \<Rightarrow> ret (Err (onerr e)) | Inr x \<Rightarrow> k x)"

definition deref :: "'a option \<Rightarrow> ('a \<Rightarrow> ('w, 'b) go) \<Rightarrow> ('w, 'b) go" where
  "deref p k = (case p of None \<Rightarrow> ret Panic | Some x \<Rightarrow> k x)"

fun is_ok :: "'a res \<Rightarrow> bool" where
  "is_ok (Ok x) = True"
| "is_ok r = False"

lemma run_invoke:
  "run_state (invoke m k) w =
     (case run_state m w of (r, w') \<Rightarrow>
        case r of Ok x \<Rightarrow> run_state (k (Inr x)) w'
                | Err e \<Rightarrow> run_state (k (Inl e)) w'
                | Panic \<Rightarrow> (Panic, w'))"
  by (simp add: invoke_def split: prod.splits res.splits)

lemma run_check:
  "run_state (check m onerr k) w =
     (case run_state m w of (r, w') \<Rightarrow>
        case r of Ok x \<Rightarrow> run_state (k x) w'
                | Err e \<Rightarrow> (Err (onerr e), w')
                | Panic \<Rightarrow> (Panic, w'))"
  by (simp add: check_def run_invoke split: prod.splits res.splits)

lemma run_deref:
  "run_state (deref p k) w = (case p of None \<Rightarrow> (Panic, w) | Some x \<Rightarrow> run_state (k x) w)"
  by (simp add: deref_def split: option.splits)

lemmas run_go = run_invoke run_check run_deref

lemma run_check_Ok:
  "run_state (check m onerr k) w = (Ok y, w'') \<longleftrightarrow>
     (\<exists>x w'. run_state m w = (Ok x, w') \<and> run_state (k x) w' = (Ok y, w''))"
  by (auto simp: run_check split: prod.splits res.splits)

lemma err_is_sentinel: "as_sdk e = Some x \<Longrightarrow> t = ErrInvalidInput \<or> t = ErrNotFound \<or>
    t = ErrAlreadyExists \<or> t = ErrMultipleFound \<Longrightarrow> \<not> err_is e t"
  by (induction e t rule: err_is.induct) auto

end
