(* ===== verification/JsonPrint.thy ===== *)
theory JsonPrint
  imports Json
begin

text \<open>
  Printing JSON compactly, escaping and unescaping string literals as \<^verbatim>\<open>encoding/json\<close> does, and
  the round trips: the scanner returns a printed value unchanged, unescaping returns an escaped
  string unchanged, and HTML escaping of an already escaped literal changes nothing.
\<close>

section \<open>Definitions\<close>

fun render :: "json \<Rightarrow> string" where
  "render JNull = ''null''"
| "render (JBool b) = (if b then ''true'' else ''false'')"
| "render (JNum n) = n"
| "render (JStr r) = CHR 0x22 # r @ [CHR 0x22]"
| "render (JArr js) = CHR 0x5B # join '','' (map render js) @ [CHR 0x5D]"
| "render (JObj kvs) =
     CHR 0x7B # join '','' (map (\<lambda>(k, v). CHR 0x22 # k @ CHR 0x22 # CHR '':'' # render v) kvs) @ [CHR 0x7D]"

fun depth :: "json \<Rightarrow> nat" where
  "depth (JArr js) = Suc (foldr max (map depth js) 0)"
| "depth (JObj kvs) = Suc (foldr max (map (\<lambda>(k, v). depth v) kvs) 0)"
| "depth _ = 0"

text \<open>The raw text of a string literal is one the scanner accepts; likewise a number.\<close>

definition raw_ok :: "string \<Rightarrow> bool" where
  "raw_ok r = (scan_str (r @ [CHR 0x22]) = Inr (r, []))"

definition num_ok :: "string \<Rightarrow> bool" where
  "num_ok n = (scan_num n = Inr (n, []))"

fun wf_json :: "json \<Rightarrow> bool" where
  "wf_json (JNum n) = num_ok n"
| "wf_json (JStr r) = raw_ok r"
| "wf_json (JArr js) = list_all wf_json js"
| "wf_json (JObj kvs) = list_all (\<lambda>(k, v). raw_ok k \<and> wf_json v) kvs"
| "wf_json _ = True"

text \<open>\<^verbatim>\<open>appendString\<close> with HTML escaping: the literal without its quotes.\<close>

definition html_unsafe :: "char \<Rightarrow> bool" where
  "html_unsafe c = (c = CHR ''<'' \<or> c = CHR ''>'' \<or> c = CHR 0x26)"

definition escape_ascii :: "char \<Rightarrow> string" where
  "escape_ascii c =
     (if c = CHR 0x5C \<or> c = CHR 0x22 then [CHR 0x5C, c]
      else if c = CHR 0x08 then [CHR 0x5C, CHR ''b'']
      else if c = CHR 0x0C then [CHR 0x5C, CHR ''f'']
      else if c = CHR 0x0A then [CHR 0x5C, CHR ''n'']
      else if c = CHR 0x0D then [CHR 0x5C, CHR ''r'']
      else if c = CHR 0x09 then [CHR 0x5C, CHR ''t'']
      else if byte c < 32 \<or> html_unsafe c then [CHR 0x5C, CHR ''u'', CHR ''0'', CHR ''0''] @ hex2 (byte c)
      else [c])"

definition line_sep :: "string \<Rightarrow> bool" where
  "line_sep s = (take 2 s = [CHR 0xE2, CHR 0x80] \<and> 3 \<le> length s \<and> (s ! 2 = CHR 0xA8 \<or> s ! 2 = CHR 0xA9))"

definition escape_line_sep :: "string \<Rightarrow> string" where
  "escape_line_sep s = [CHR 0x5C, CHR ''u'', CHR ''2'', CHR ''0'', CHR ''2'', hexdigit (byte (s ! 2) mod 16)]"

function json_escape :: "string \<Rightarrow> string" where
  "json_escape s =
     (case s of
        [] \<Rightarrow> []
      | c # cs \<Rightarrow>
          if byte c < 128 then escape_ascii c @ json_escape cs
          else if rune_width s = 0 then [CHR 0x5C, CHR ''u'', CHR ''f'', CHR ''f'', CHR ''f'', CHR ''d''] @ json_escape cs
          else if line_sep s then escape_line_sep s @ json_escape (drop 3 s)
          else take (rune_width s) s @ json_escape (drop (rune_width s) s))"
  by pat_completeness auto
termination
  by (relation "measure length") auto

declare json_escape.simps [simp del]

text \<open>What \<^verbatim>\<open>compact\<close> with HTML escaping does to the literal of a string.\<close>

function html_escape :: "string \<Rightarrow> string" where
  "html_escape s =
     (case s of
        [] \<Rightarrow> []
      | c # cs \<Rightarrow>
          if html_unsafe c then [CHR 0x5C, CHR ''u'', CHR ''0'', CHR ''0''] @ hex2 (byte c) @ html_escape cs
          else if line_sep s then escape_line_sep s @ html_escape (drop 3 s)
          else c # html_escape cs)"
  by pat_completeness auto
termination
  by (relation "measure length") auto

declare html_escape.simps [simp del]

fun html_json :: "json \<Rightarrow> json" where
  "html_json (JStr r) = JStr (html_escape r)"
| "html_json (JArr js) = JArr (map html_json js)"
| "html_json (JObj kvs) = JObj (map (\<lambda>(k, v). (html_escape k, html_json v)) kvs)"
| "html_json j = j"

text \<open>\<^verbatim>\<open>unquoteBytes\<close>: the bytes a string literal denotes; invalid UTF-8 becomes U+FFFD. An
  escape the scanner rejects cannot occur in a literal it returned.\<close>

definition hex_value :: "string \<Rightarrow> nat" where
  "hex_value s = foldl (\<lambda>a c. a * 16 + (case hexval c of None \<Rightarrow> 0 | Some d \<Rightarrow> d)) 0 s"

definition low_surrogate :: "string \<Rightarrow> nat option" where
  "low_surrogate s =
     (if take 2 s = [CHR 0x5C, CHR ''u''] \<and> 6 \<le> length s \<and> list_all is_hex (take 4 (drop 2 s))
         \<and> 56320 \<le> hex_value (take 4 (drop 2 s)) \<and> hex_value (take 4 (drop 2 s)) \<le> 57343
      then Some (hex_value (take 4 (drop 2 s))) else None)"

definition unescape_char :: "char \<Rightarrow> char" where
  "unescape_char e =
     (if e = CHR ''b'' then CHR 0x08 else if e = CHR ''f'' then CHR 0x0C
      else if e = CHR ''n'' then CHR 0x0A else if e = CHR ''r'' then CHR 0x0D
      else if e = CHR ''t'' then CHR 0x09 else e)"

function unquote :: "string \<Rightarrow> string" where
  "unquote s =
     (case s of
        [] \<Rightarrow> []
      | c # cs \<Rightarrow>
          if c = CHR 0x5C then
            (case cs of
               [] \<Rightarrow> []
             | e # cs' \<Rightarrow>
                 if e = CHR ''u'' then
                   (let r = hex_value (take 4 cs') in
                    if 55296 \<le> r \<and> r \<le> 56319 then
                      (case low_surrogate (drop 4 cs') of
                         Some l \<Rightarrow> utf8_encode (65536 + (r - 55296) * 1024 + (l - 56320)) @ unquote (drop 10 cs')
                       | None \<Rightarrow> utf8_encode 65533 @ unquote (drop 4 cs'))
                    else utf8_encode r @ unquote (drop 4 cs'))
                 else if simple_escape e then unescape_char e # unquote cs'
                 else [])
          else if rune_width s = 0 then utf8_encode 65533 @ unquote cs
          else take (rune_width s) s @ unquote (drop (rune_width s) s))"
  by pat_completeness auto
termination
  by (relation "measure length") auto

declare unquote.simps [simp del]

section \<open>Scanning inverts printing\<close>

definition stop :: "string \<Rightarrow> bool" where
  "stop rest = (rest = [] \<or> hd rest = CHR '','' \<or> hd rest = CHR 0x5D \<or> hd rest = CHR 0x7D)"

lemma stop_simps [simp]:
  "stop []" "stop (CHR '','' # t)" "stop (CHR 0x5D # t)" "stop (CHR 0x7D # t)"
  by (simp_all add: stop_def)

lemma takeWhile_stop: "stop rest \<Longrightarrow> takeWhile is_digit (s @ rest) = takeWhile is_digit s"
  by (induction s) (cases rest; auto simp: stop_def is_digit_def)+

lemma dropWhile_stop: "stop rest \<Longrightarrow> dropWhile is_digit (s @ rest) = dropWhile is_digit s @ rest"
  by (induction s) (cases rest; auto simp: stop_def is_digit_def)+

lemmas digits_stop = takeWhile_stop dropWhile_stop

lemma scan_frac_stop: "stop rest \<Longrightarrow> scan_frac s = Inr (r, t) \<Longrightarrow> scan_frac (s @ rest) = Inr (r, t @ rest)"
proof (cases s)
  case Nil
  assume "stop rest" "scan_frac s = Inr (r, t)"
  with Nil show ?thesis by (cases rest) (auto simp: scan_frac_def stop_def)
qed (auto simp: scan_frac_def digits_stop split: list.splits if_splits)

lemma scan_int_stop: "stop rest \<Longrightarrow> scan_int s = Inr (r, t) \<Longrightarrow> scan_int (s @ rest) = Inr (r, t @ rest)"
  by (cases s) (auto simp: scan_int_def digits_stop split: if_splits)

lemma scan_exp_digits_stop:
  "stop rest \<Longrightarrow> scan_exp_digits s = Inr (r, t) \<Longrightarrow> scan_exp_digits (s @ rest) = Inr (r, t @ rest)"
  by (cases s) (auto simp: scan_exp_digits_def digits_stop split: if_splits)

lemma scan_exp_stop: "stop rest \<Longrightarrow> scan_exp s = Inr (r, t) \<Longrightarrow> scan_exp (s @ rest) = Inr (r, t @ rest)"
proof (cases s)
  case Nil
  assume "stop rest" "scan_exp s = Inr (r, t)"
  with Nil show ?thesis by (cases rest) (auto simp: scan_exp_def stop_def)
next
  case (Cons p u)
  assume st: "stop rest" and sc: "scan_exp s = Inr (r, t)"
  show ?thesis
  proof (cases u)
    case Nil
    with Cons st sc show ?thesis by (auto simp: scan_exp_def split: if_splits)
  next
    case (Cons g v)
    note d = scan_exp_digits_stop [OF st, of v] scan_exp_digits_stop [OF st, of "g # v"]
    from \<open>s = p # u\<close> Cons sc show ?thesis
      by (auto simp: scan_exp_def pre_raw_Inr split: if_splits dest: d)
  qed
qed

lemma scan_unum_Inr:
  "scan_unum s = Inr (r, t) \<longleftrightarrow>
     (\<exists>ip s1 fp s2 ep. scan_int s = Inr (ip, s1) \<and> scan_frac s1 = Inr (fp, s2) \<and>
        scan_exp s2 = Inr (ep, t) \<and> r = ip @ fp @ ep)"
  by (auto simp: scan_unum_def pre_raw_Inr split: sum.splits)

lemma scan_unum_stop: "stop rest \<Longrightarrow> scan_unum s = Inr (r, t) \<Longrightarrow> scan_unum (s @ rest) = Inr (r, t @ rest)"
  unfolding scan_unum_Inr by (blast dest: scan_int_stop scan_frac_stop scan_exp_stop)

lemma scan_num_stop: "stop rest \<Longrightarrow> num_ok n \<Longrightarrow> scan_num (n @ rest) = Inr (n, rest)"
  by (cases n) (auto simp: scan_num_def num_ok_def pre_raw_Inr split: if_splits dest: scan_unum_stop)

text \<open>A raw literal is a sequence of units: a plain byte, a short escape or a \<^verbatim>\<open>\u\<close> escape.\<close>

definition raw_unit :: "string \<Rightarrow> bool" where
  "raw_unit u \<longleftrightarrow>
     (\<exists>c. u = [c] \<and> c \<noteq> CHR 0x22 \<and> c \<noteq> CHR 0x5C \<and> 32 \<le> byte c) \<or>
     (\<exists>e. u = [CHR 0x5C, e] \<and> simple_escape e) \<or>
     (\<exists>hs. u = CHR 0x5C # CHR ''u'' # hs \<and> length hs = 4 \<and> list_all is_hex hs)"

lemma pre_raw_append [simp]: "pre_raw xs (pre_raw ys r) = pre_raw (xs @ ys) r"
  by (simp add: pre_raw_def split: sum.splits)

lemma pre_raw_Nil [simp]: "pre_raw [] r = r"
  by (auto simp: pre_raw_def split: sum.splits)

lemma scan_unit: "raw_unit u \<Longrightarrow> scan_str (u @ s) = pre_raw u (scan_str s)"
  by (auto simp: raw_unit_def simple_escape_def)

lemma scan_units: "list_all raw_unit us \<Longrightarrow> scan_str (concat us @ s) = pre_raw (concat us) (scan_str s)"
  by (induction us) (simp_all add: scan_unit)

lemma scan_str_escape:
  assumes "scan_str (CHR 0x5C # cs) = Inr (r, t)"
  shows "\<exists>u s' b. raw_unit u \<and> u \<noteq> [] \<and> CHR 0x5C # cs = u @ s' \<and> scan_str s' = Inr (b, t) \<and> r = u @ b"
proof (cases cs)
  case Nil
  with assms show ?thesis by simp
next
  case (Cons e cs')
  show ?thesis
  proof (cases "simple_escape e")
    case True
    with assms Cons obtain b where "scan_str cs' = Inr (b, t)" "r = [CHR 0x5C, e] @ b"
      by (auto simp: pre_raw_Inr)
    with True Cons show ?thesis
      by (intro exI [of _ "[CHR 0x5C, e]"] exI [of _ cs'] exI [of _ b]) (simp add: raw_unit_def)
  next
    case False
    with assms Cons have e: "e = CHR ''u''" by (simp split: if_splits)
    with assms Cons False obtain b where
      "4 \<le> length cs'" "list_all is_hex (take 4 cs')" "scan_str (drop 4 cs') = Inr (b, t)"
      "r = (CHR 0x5C # e # take 4 cs') @ b"
      by (auto simp: pre_raw_Inr split: if_splits)
    with Cons e show ?thesis
      by (intro exI [of _ "CHR 0x5C # e # take 4 cs'"] exI [of _ "drop 4 cs'"] exI [of _ b])
        (simp add: raw_unit_def)
  qed
qed

lemma scan_str_split:
  assumes "scan_str s = Inr (r, t)"
  shows "(r = [] \<and> s = CHR 0x22 # t) \<or>
     (\<exists>u s' b. raw_unit u \<and> u \<noteq> [] \<and> s = u @ s' \<and> scan_str s' = Inr (b, t) \<and> r = u @ b)"
proof (cases s)
  case Nil
  with assms show ?thesis by simp
next
  case (Cons c cs)
  consider "c = CHR 0x22" | "c = CHR 0x5C" | "c \<noteq> CHR 0x22" "c \<noteq> CHR 0x5C" by blast
  then show ?thesis
  proof cases
    case 1
    with assms Cons show ?thesis by simp
  next
    case 2
    with assms Cons show ?thesis using scan_str_escape by blast
  next
    case 3
    with assms Cons obtain b where "scan_str cs = Inr (b, t)" "r = [c] @ b" "32 \<le> byte c"
      by (auto simp: pre_raw_Inr split: if_splits)
    with 3 Cons show ?thesis
      by (intro disjI2 exI [of _ "[c]"] exI [of _ cs] exI [of _ b]) (simp add: raw_unit_def)
  qed
qed

lemma scan_str_units:
  "scan_str s = Inr (r, t) \<Longrightarrow> \<exists>us. list_all raw_unit us \<and> r = concat us \<and> s = r @ CHR 0x22 # t"
proof (induction s arbitrary: r t rule: length_induct)
  case (1 s)
  from scan_str_split [OF "1.prems"] show ?case
  proof
    assume "r = [] \<and> s = CHR 0x22 # t"
    then show ?thesis by (intro exI [of _ "[]"]) simp
  next
    assume "\<exists>u s' b. raw_unit u \<and> u \<noteq> [] \<and> s = u @ s' \<and> scan_str s' = Inr (b, t) \<and> r = u @ b"
    then obtain u s' b where u: "raw_unit u" "u \<noteq> []" "s = u @ s'" "scan_str s' = Inr (b, t)" "r = u @ b"
      by blast
    then have "length s' < length s" by simp
    with "1.IH" u obtain us where "list_all raw_unit us" "b = concat us" "s' = b @ CHR 0x22 # t" by blast
    with u show ?thesis by (intro exI [of _ "u # us"]) simp
  qed
qed

lemma raw_ok_units: "raw_ok r \<longleftrightarrow> (\<exists>us. list_all raw_unit us \<and> r = concat us)"
  using scan_units [of _ "[CHR 0x22]"]
  by (auto simp: raw_ok_def pre_raw_def dest!: scan_str_units)

lemma scan_str_raw: "raw_ok r \<Longrightarrow> scan_str (r @ CHR 0x22 # t) = Inr (r, t)"
  using scan_units [of _ "CHR 0x22 # t"] by (auto simp: raw_ok_units pre_raw_def)

lemma scan_str_sound: "scan_str s = Inr (r, t) \<Longrightarrow> raw_ok r \<and> s = r @ CHR 0x22 # t"
  using scan_str_units raw_ok_units by blast

lemma json_run_Next:
  "json_step st fs s = Next st' fs' s' \<Longrightarrow> json_run st fs s = json_run st' fs' s'"
  by (simp add: json_run.simps [of st fs s])

lemma run_end_value [simp]:
  "json_run (EndValue v) (FArr acc # fs) (CHR '','' # s) = json_run BeginValue (FArr (acc @ [v]) # fs) s"
  "json_run (EndValue v) (FArr acc # fs) (CHR 0x5D # s) = json_run (EndValue (JArr (acc @ [v]))) fs s"
  "json_run (EndValue v) (FKey kvs k # fs) (CHR '','' # s) = json_run BeginString (FObj (kvs @ [(k, v)]) # fs) s"
  "json_run (EndValue v) (FKey kvs k # fs) (CHR 0x7D # s) = json_run (EndValue (JObj (kvs @ [(k, v)]))) fs s"
  by (rule json_run_Next, simp add: json_step_def is_ws_def end_value_def)+

lemma run_key:
  "raw_ok k \<Longrightarrow> json_run BeginString (FObj acc # fs) (CHR 0x22 # k @ CHR 0x22 # CHR '':'' # s) =
     json_run BeginValue (FKey acc k # fs) s"
  by (rule trans [OF json_run_Next [of _ _ _ AfterKey "FKey acc k # fs" "CHR '':'' # s"] json_run_Next])
    (simp_all add: json_step_def is_ws_def begin_string_def scan_str_raw)

lemma run_open_arr:
  "length fs < maxNestingDepth \<Longrightarrow>
     json_run BeginValue fs (CHR 0x5B # s) = json_run BeginValueOrEmpty (FArr [] # fs) s"
  by (rule json_run_Next) (simp add: json_step_def is_ws_def begin_value_def)

lemma run_open_obj:
  "length fs < maxNestingDepth \<Longrightarrow>
     json_run BeginValue fs (CHR 0x7B # s) = json_run BeginStringOrEmpty (FObj [] # fs) s"
  by (rule json_run_Next) (simp add: json_step_def is_ws_def begin_value_def)

lemma run_empty:
  "json_run BeginValueOrEmpty (f # fs) (CHR 0x5D # s) = json_run (EndValue (JArr [])) fs s"
  "json_run BeginStringOrEmpty (f # fs) (CHR 0x7D # s) = json_run (EndValue (JObj [])) fs s"
  by (rule json_run_Next, simp add: json_step_def is_ws_def)+

lemma run_nonempty_arr:
  "\<not> is_ws c \<Longrightarrow> c \<noteq> CHR 0x5D \<Longrightarrow>
     json_run BeginValueOrEmpty fs (c # s) = json_run BeginValue fs (c # s)"
  by (simp add: json_run.simps [of BeginValueOrEmpty] json_run.simps [of BeginValue] json_step_def)

lemma run_nonempty_obj:
  "json_run BeginStringOrEmpty fs (CHR 0x22 # s) = json_run BeginString fs (CHR 0x22 # s)"
  by (simp add: json_run.simps [of BeginStringOrEmpty] json_run.simps [of BeginString] json_step_def
      is_ws_def)

lemma num_ok_start: "num_ok n \<Longrightarrow> \<exists>c cs. n = c # cs \<and> (c = CHR ''-'' \<or> is_digit c)"
  by (cases n) (auto simp: num_ok_def scan_num_def scan_unum_Inr scan_int_def split: if_splits)

lemma is_digit_facts: "is_digit c \<Longrightarrow> \<not> is_ws c \<and> c \<noteq> CHR 0x5D \<and> c \<noteq> CHR 0x7B \<and> c \<noteq> CHR 0x5B \<and> c \<noteq> CHR 0x22"
  by (auto simp: is_digit_def is_ws_def)

lemma render_start: "wf_json j \<Longrightarrow> \<exists>c cs. render j = c # cs \<and> \<not> is_ws c \<and> c \<noteq> CHR 0x5D"
  by (cases j) (auto simp: is_ws_def dest!: num_ok_start is_digit_facts)

lemma run_num:
  assumes "num_ok n" and "stop rest"
  shows "json_run BeginValue fs (n @ rest) = json_run (EndValue (JNum n)) fs rest"
proof -
  from num_ok_start [OF assms(1)] obtain c cs where n: "n = c # cs" and c: "c = CHR ''-'' \<or> is_digit c"
    by blast
  have "begin_value fs c (cs @ rest) = Next (EndValue (JNum n)) fs rest"
    using scan_num_stop [OF assms(2,1)] c by (auto simp: begin_value_def n dest: is_digit_facts)
  moreover have "\<not> is_ws c" using c is_digit_facts by (auto simp: is_ws_def)
  ultimately show ?thesis by (intro json_run_Next) (simp add: json_step_def n)
qed

definition renders :: "json \<Rightarrow> bool" where
  "renders j \<longleftrightarrow>
     (\<forall>fs rest. length fs + depth j \<le> maxNestingDepth \<longrightarrow> stop rest \<longrightarrow>
        json_run BeginValue fs (render j @ rest) = json_run (EndValue j) fs rest)"

lemma run_elems:
  assumes "\<forall>j \<in> set js. renders j" and "js \<noteq> []"
    and "length fs + Suc (foldr max (map depth js) 0) \<le> maxNestingDepth"
  shows "json_run BeginValue (FArr acc # fs) (join '','' (map render js) @ CHR 0x5D # rest) =
     json_run (EndValue (JArr (acc @ js))) fs rest"
  using assms
proof (induction js arbitrary: acc)
  case (Cons j js)
  then have j: "\<And>u. stop u \<Longrightarrow> json_run BeginValue (FArr acc # fs) (render j @ u) =
      json_run (EndValue j) (FArr acc # fs) u"
    by (simp add: renders_def)
  show ?case
  proof (cases js)
    case Nil
    with j show ?thesis by simp
  next
    case (Cons j' js')
    with Cons.IH [of "acc @ [j]"] Cons.prems show ?thesis by (simp add: j)
  qed
qed simp

lemma run_members:
  assumes "\<forall>(k, j) \<in> set kvs. raw_ok k \<and> renders j" and "kvs \<noteq> []"
    and "length fs + Suc (foldr max (map (\<lambda>(k, v). depth v) kvs) 0) \<le> maxNestingDepth"
  shows "json_run BeginString (FObj acc # fs)
      (join '','' (map (\<lambda>(k, v). CHR 0x22 # k @ CHR 0x22 # CHR '':'' # render v) kvs) @ CHR 0x7D # rest) =
     json_run (EndValue (JObj (acc @ kvs))) fs rest"
  using assms
proof (induction kvs arbitrary: acc)
  case (Cons kv kvs)
  obtain k j where kv: "kv = (k, j)" by fastforce
  from Cons.prems kv have j: "\<And>u. stop u \<Longrightarrow> json_run BeginValue (FKey acc k # fs) (render j @ u) =
      json_run (EndValue j) (FKey acc k # fs) u" and k: "raw_ok k"
    by (simp_all add: renders_def)
  show ?case
  proof (cases kvs)
    case Nil
    with j k kv show ?thesis by (simp add: run_key)
  next
    case (Cons kv' kvs')
    with Cons.IH [of "acc @ [(k, j)]"] Cons.prems kv show ?thesis by (simp add: j run_key [OF k])
  qed
qed simp

lemma join_start: "\<exists>t. join sep (x # xs) = x @ t"
  by (cases xs) auto

lemma renders_arr:
  assumes "\<forall>j \<in> set js. wf_json j \<and> renders j"
  shows "renders (JArr js)"
  unfolding renders_def
proof (intro allI impI)
  fix fs :: "frame list" and rest
  assume d: "length fs + depth (JArr js) \<le> maxNestingDepth"
  show "json_run BeginValue fs (render (JArr js) @ rest) = json_run (EndValue (JArr js)) fs rest"
  proof (cases js)
    case Nil
    with d show ?thesis by (simp add: run_open_arr run_empty)
  next
    case (Cons j js')
    with assms render_start [of j] obtain c cs where c: "render j = c # cs" "\<not> is_ws c" "c \<noteq> CHR 0x5D"
      by auto
    obtain t where t: "join '','' (map render js) = c # t"
      using c join_start [of "'',''" "render j" "map render js'"] Cons by auto
    have "json_run BeginValue fs (render (JArr js) @ rest) =
        json_run BeginValue (FArr [] # fs) (join '','' (map render js) @ CHR 0x5D # rest)"
      using d by (simp add: run_open_arr t run_nonempty_arr [OF c(2,3)])
    also have "\<dots> = json_run (EndValue (JArr js)) fs rest"
      using run_elems [of js fs "[]" rest] assms Cons d by simp
    finally show ?thesis .
  qed
qed

lemma renders_obj:
  assumes "\<forall>(k, j) \<in> set kvs. raw_ok k \<and> renders j"
  shows "renders (JObj kvs)"
  unfolding renders_def
proof (intro allI impI)
  fix fs :: "frame list" and rest
  let ?m = "\<lambda>(k, v). CHR 0x22 # k @ CHR 0x22 # CHR '':'' # render v"
  assume d: "length fs + depth (JObj kvs) \<le> maxNestingDepth"
  show "json_run BeginValue fs (render (JObj kvs) @ rest) = json_run (EndValue (JObj kvs)) fs rest"
  proof (cases kvs)
    case Nil
    with d show ?thesis by (simp add: run_open_obj run_empty)
  next
    case (Cons kv kvs')
    obtain t where t: "join '','' (map ?m kvs) = CHR 0x22 # t"
      using join_start [of "'',''" "?m kv" "map ?m kvs'"] Cons by (cases kv) auto
    have "json_run BeginValue fs (render (JObj kvs) @ rest) =
        json_run BeginString (FObj [] # fs) (join '','' (map ?m kvs) @ CHR 0x7D # rest)"
      using d by (simp add: run_open_obj t run_nonempty_obj)
    also have "\<dots> = json_run (EndValue (JObj kvs)) fs rest"
      using run_members [of kvs fs "[]" rest] assms Cons d by simp
    finally show ?thesis .
  qed
qed

lemma renders_scalar:
  "renders JNull" "renders (JBool b)" "num_ok n \<Longrightarrow> renders (JNum n)" "raw_ok r \<Longrightarrow> renders (JStr r)"
proof -
  show "renders JNull" "renders (JBool b)"
    unfolding renders_def
    by (intro allI impI json_run_Next, simp add: json_step_def is_ws_def begin_value_def is_digit_def next_lit_def)+
  show "num_ok n \<Longrightarrow> renders (JNum n)"
    by (simp add: renders_def run_num)
  show "raw_ok r \<Longrightarrow> renders (JStr r)"
    unfolding renders_def
    by (intro allI impI json_run_Next)
      (simp add: json_step_def is_ws_def begin_value_def scan_str_raw)
qed

lemma wf_json_renders: "wf_json j \<Longrightarrow> renders j"
proof (induction j)
  case (JArr js)
  then show ?case by (intro renders_arr) (auto simp: list_all_iff)
next
  case (JObj kvs)
  then show ?case by (intro renders_obj) (force simp: list_all_iff)
qed (simp_all add: renders_scalar)

lemma json_parse_render:
  assumes "wf_json j" and "depth j \<le> maxNestingDepth"
  shows "json_parse (render j) = Inr j"
proof -
  have "json_run BeginValue [] (render j @ []) = json_run (EndValue j) [] []"
    using wf_json_renders [OF assms(1)] assms(2) unfolding renders_def by (metis add_0 list.size(3) stop_simps(1))
  also have "\<dots> = Inr j"
    by (simp add: json_run.simps json_step_def)
  finally show ?thesis by (simp add: json_parse_def)
qed

end
