(* ===== verification/JsonEscape.thy ===== *)
theory JsonEscape
  imports JsonPrint
begin

text \<open>
  Lemmas about string literals: an escaped string is a literal the scanner accepts, HTML escaping
  leaves it unchanged, and unescaping gives the string back when it is valid UTF-8.
\<close>


lemma raw_ok_Nil [simp]: "raw_ok []"
  by (auto simp: raw_ok_units intro: exI [of _ "[]"])

lemma raw_ok_append: "raw_ok a \<Longrightarrow> raw_ok b \<Longrightarrow> raw_ok (a @ b)"
  unfolding raw_ok_units by (metis concat_append list_all_append)

lemma raw_ok_unit: "raw_unit u \<Longrightarrow> raw_ok u"
  unfolding raw_ok_units by (intro exI [of _ "[u]"]) simp

lemma raw_unit_plain: "c \<noteq> CHR 0x22 \<Longrightarrow> c \<noteq> CHR 0x5C \<Longrightarrow> 32 \<le> byte c \<Longrightarrow> raw_unit [c]"
  by (simp add: raw_unit_def)

lemma raw_unit_short: "simple_escape e \<Longrightarrow> raw_unit [CHR 0x5C, e]"
  by (simp add: raw_unit_def)

lemma raw_unit_hex:
  "is_hex a \<Longrightarrow> is_hex b \<Longrightarrow> is_hex c \<Longrightarrow> is_hex d \<Longrightarrow> raw_unit [CHR 0x5C, CHR ''u'', a, b, c, d]"
  by (simp add: raw_unit_def)

lemma hexval_hexdigit [simp]: "n < 16 \<Longrightarrow> hexval (hexdigit n) = Some n"
  by (simp add: hexval_def hexdigit_def Let_def)

lemma is_hex_hexdigit [simp]: "n < 16 \<Longrightarrow> is_hex (hexdigit n)"
  by (simp add: is_hex_def)

lemma is_hex_literals [simp]: "is_hex CHR ''0''" "is_hex CHR ''2''" "is_hex CHR ''f''" "is_hex CHR ''d''"
  by (simp_all add: is_hex_def hexval_def)

lemma raw_unit_if: "(b \<Longrightarrow> raw_unit x) \<Longrightarrow> (\<not> b \<Longrightarrow> raw_unit y) \<Longrightarrow> raw_unit (if b then x else y)"
  by simp

lemma raw_unit_escape_ascii: "raw_unit (escape_ascii c)"
  unfolding escape_ascii_def hex2_def append.simps
  by (intro raw_unit_if raw_unit_short raw_unit_hex raw_unit_plain) (auto simp: simple_escape_def)

lemma rune_width_high:
  "128 \<le> byte a \<Longrightarrow> list_all (\<lambda>c. 128 \<le> byte c) (take (rune_width (a # s)) (a # s))"
  by (auto simp: rune_width.simps cont_byte_def split: list.splits)

lemma raw_ok_high: "list_all (\<lambda>c. 128 \<le> byte c) s \<Longrightarrow> raw_ok s"
proof (induction s)
  case (Cons c s)
  then have "raw_ok ([c] @ s)" by (intro raw_ok_append [OF raw_ok_unit [OF raw_unit_plain]]) auto
  then show ?case by simp
qed simp

lemma line_sep_width: "line_sep s \<Longrightarrow> rune_width s = 3"
  by (auto simp: line_sep_def numeral_eq_Suc Suc_le_length_iff rune_width.simps cont_byte_def)

text \<open>The shape of the recursion the escaping functions share: an ASCII byte, an invalid byte, a rune.\<close>

lemma rune_induct [case_names Nil ascii invalid rune]:
  assumes "P []"
    and "\<And>c cs. byte c < 128 \<Longrightarrow> P cs \<Longrightarrow> P (c # cs)"
    and "\<And>c cs. 128 \<le> byte c \<Longrightarrow> rune_width (c # cs) = 0 \<Longrightarrow> P cs \<Longrightarrow> P (c # cs)"
    and "\<And>c cs. 128 \<le> byte c \<Longrightarrow> rune_width (c # cs) \<noteq> 0 \<Longrightarrow>
        P (drop (rune_width (c # cs)) (c # cs)) \<Longrightarrow> P (c # cs)"
  shows "P s"
proof (induction s rule: length_induct)
  case (1 s)
  show ?case
  proof (cases s)
    case Nil
    with assms(1) show ?thesis by simp
  next
    case (Cons c cs)
    have "rune_width (c # cs) \<noteq> 0 \<Longrightarrow> length (drop (rune_width (c # cs)) (c # cs)) < length s"
      unfolding Cons by (cases "rune_width (c # cs)") auto
    with 1 have "P cs" "rune_width (c # cs) \<noteq> 0 \<Longrightarrow> P (drop (rune_width (c # cs)) (c # cs))"
      using Cons by auto
    then show ?thesis
      unfolding Cons using assms(2-4) by (metis not_less)
  qed
qed

lemma json_escape_Nil [simp]: "json_escape [] = []"
  by (simp add: json_escape.simps)

lemma json_escape_ascii: "byte c < 128 \<Longrightarrow> json_escape (c # cs) = escape_ascii c @ json_escape cs"
  by (simp add: json_escape.simps [of "c # cs"])

lemma json_escape_invalid:
  "128 \<le> byte c \<Longrightarrow> rune_width (c # cs) = 0 \<Longrightarrow>
     json_escape (c # cs) = [CHR 0x5C, CHR ''u'', CHR ''f'', CHR ''f'', CHR ''f'', CHR ''d''] @ json_escape cs"
  by (simp add: json_escape.simps [of "c # cs"])

lemma json_escape_rune:
  "128 \<le> byte c \<Longrightarrow> rune_width (c # cs) \<noteq> 0 \<Longrightarrow>
     json_escape (c # cs) =
       (if line_sep (c # cs) then escape_line_sep (c # cs) else take (rune_width (c # cs)) (c # cs))
       @ json_escape (drop (rune_width (c # cs)) (c # cs))"
  using line_sep_width [of "c # cs"]
  by (simp add: json_escape.simps [of "c # cs"])

lemma raw_ok_json_escape [simp]: "raw_ok (json_escape s)"
proof (induction s rule: rune_induct)
  case (ascii c cs)
  then show ?case by (simp add: json_escape_ascii raw_ok_append raw_ok_unit raw_unit_escape_ascii)
next
  case (invalid c cs)
  have "raw_ok ([CHR 0x5C, CHR ''u'', CHR ''f'', CHR ''f'', CHR ''f'', CHR ''d''] @ json_escape cs)"
    using invalid by (intro raw_ok_append [OF raw_ok_unit [OF raw_unit_hex]]) simp_all
  with invalid show ?case by (simp only: json_escape_invalid)
next
  case (rune c cs)
  have "raw_ok (escape_line_sep (c # cs))"
    unfolding escape_line_sep_def by (intro raw_ok_unit raw_unit_hex) simp_all
  with rune show ?case
    by (simp add: json_escape_rune raw_ok_append raw_ok_high rune_width_high)
qed simp


section \<open>HTML escaping\<close>

lemma html_escape_Nil [simp]: "html_escape [] = []"
  by (simp add: html_escape.simps)

lemma html_escape_plain:
  "\<not> html_unsafe c \<Longrightarrow> c \<noteq> CHR 0xE2 \<Longrightarrow> html_escape (c # s) = c # html_escape s"
  by (simp add: html_escape.simps [of "c # s"] line_sep_def)

lemma html_escape_E2: "\<not> line_sep (CHR 0xE2 # s) \<Longrightarrow> html_escape (CHR 0xE2 # s) = CHR 0xE2 # html_escape s"
  by (simp add: html_escape.simps [of "CHR 0xE2 # s"] html_unsafe_def)

definition html_plain :: "string \<Rightarrow> bool" where
  "html_plain s = list_all (\<lambda>c. \<not> html_unsafe c \<and> c \<noteq> CHR 0xE2) s"

lemma html_escape_html_plain: "html_plain s \<Longrightarrow> html_escape (s @ t) = s @ html_escape t"
  by (induction s) (simp_all add: html_plain_def html_escape_plain)

lemma hexdigit_html_plain: "n < 16 \<Longrightarrow> \<not> html_unsafe (hexdigit n) \<and> hexdigit n \<noteq> CHR 0xE2"
proof -
  assume "n < 16"
  then have "byte (hexdigit n) = (if n < 10 then 48 + n else 87 + n)"
    by (simp add: hexdigit_def)
  with \<open>n < 16\<close> show ?thesis
    by (auto simp: html_unsafe_def split: if_splits)
qed

lemma html_plain_if: "(b \<Longrightarrow> html_plain x) \<Longrightarrow> (\<not> b \<Longrightarrow> html_plain y) \<Longrightarrow> html_plain (if b then x else y)"
  by simp

lemma html_unsafe_literals [simp]:
  "\<not> html_unsafe CHR 0x5C" "\<not> html_unsafe CHR 0x22" "\<not> html_unsafe CHR ''b''" "\<not> html_unsafe CHR ''f''"
  "\<not> html_unsafe CHR ''n''" "\<not> html_unsafe CHR ''r''" "\<not> html_unsafe CHR ''t''" "\<not> html_unsafe CHR ''u''"
  "\<not> html_unsafe CHR ''0''" "\<not> html_unsafe CHR ''2''"
  by (simp_all add: html_unsafe_def)

lemma html_plain_hex: "html_plain ([CHR 0x5C, CHR ''u'', CHR ''0'', CHR ''0''] @ hex2 n)"
  by (simp add: html_plain_def hex2_def hexdigit_html_plain)

lemma html_plain_single: "byte c < 128 \<Longrightarrow> \<not> html_unsafe c \<Longrightarrow> html_plain [c]"
  by (auto simp: html_plain_def)

lemma html_plain_escape_ascii: "byte c < 128 \<Longrightarrow> html_plain (escape_ascii c)"
  unfolding escape_ascii_def
  by (intro html_plain_if html_plain_hex html_plain_single) (auto simp: html_plain_def)

lemma html_plain_escape_line_sep: "html_plain (escape_line_sep s)"
  by (simp add: escape_line_sep_def html_plain_def hexdigit_html_plain)

lemma rune_tl_cont: "list_all cont_byte (tl (take (rune_width s) s))"
  by (cases s) (auto simp: rune_width.simps split: list.splits)

lemma html_plain_rune_tl: "html_plain (tl (take (rune_width s) s))"
  unfolding html_plain_def
  by (rule list.pred_mono_strong [OF rune_tl_cont]) (auto simp: cont_byte_def html_unsafe_def)

lemma line_sep_take: "rune_width s = 3 \<Longrightarrow> line_sep (take 3 s @ t) = line_sep s"
  using rune_width_le [of s] by (auto simp: line_sep_def numeral_eq_Suc Suc_le_length_iff)

lemma html_escape_rune:
  assumes "128 \<le> byte c" and "rune_width (c # cs) \<noteq> 0" and "\<not> line_sep (c # cs)"
  shows "html_escape (take (rune_width (c # cs)) (c # cs) @ t) = take (rune_width (c # cs)) (c # cs) @ html_escape t"
proof -
  let ?r = "take (rune_width (c # cs)) (c # cs)"
  have r: "?r = c # tl ?r" using assms(2) by (cases "rune_width (c # cs)") auto
  have tl: "html_escape (tl ?r @ t) = tl ?r @ html_escape t"
    by (intro html_escape_html_plain html_plain_rune_tl)
  have hd: "html_escape (c # tl ?r @ t) = c # html_escape (tl ?r @ t)"
  proof (cases "c = CHR 0xE2")
    case True
    then have "rune_width (c # cs) = 3"
      using assms(2) by (auto simp: rune_width.simps split: list.splits if_splits)
    with assms(3) line_sep_take [of "c # cs" t] r have "\<not> line_sep (c # tl ?r @ t)"
      by (metis append_Cons)
    with True show ?thesis by (simp add: html_escape_E2)
  next
    case False
    with assms(1) show ?thesis by (intro html_escape_plain) (auto simp: html_unsafe_def)
  qed
  show ?thesis using hd tl r by (metis append_Cons)
qed

lemma html_escape_json_escape [simp]: "html_escape (json_escape s) = json_escape s"
proof (induction s rule: rune_induct)
  case (ascii c cs)
  then show ?case by (simp add: json_escape_ascii html_escape_html_plain html_plain_escape_ascii)
next
  case (invalid c cs)
  have "html_plain [CHR 0x5C, CHR ''u'', CHR ''f'', CHR ''f'', CHR ''f'', CHR ''d'']"
    by (simp add: html_plain_def html_unsafe_def)
  from html_escape_html_plain [OF this] invalid show ?case by (simp only: json_escape_invalid)
next
  case (rune c cs)
  then show ?case
    by (simp add: json_escape_rune html_escape_rune html_escape_html_plain html_plain_escape_line_sep)
qed simp

section \<open>Unescaping\<close>

lemma unquote_Nil [simp]: "unquote [] = []"
  by (simp add: unquote.simps)

lemma unquote_plain: "byte c < 128 \<Longrightarrow> c \<noteq> CHR 0x5C \<Longrightarrow> unquote (c # s) = c # unquote s"
  by (simp add: unquote.simps [of "c # s"])

lemma unquote_short: "simple_escape e \<Longrightarrow> unquote (CHR 0x5C # e # s) = unescape_char e # unquote s"
  by (auto simp: unquote.simps [of "CHR 0x5C # e # s"] simple_escape_def)

lemma unquote_hex:
  "length h = 4 \<Longrightarrow> \<not> (55296 \<le> hex_value h \<and> hex_value h \<le> 56319) \<Longrightarrow>
     unquote (CHR 0x5C # CHR ''u'' # h @ s) = utf8_encode (hex_value h) @ unquote s"
  by (auto simp: unquote.simps [of "CHR 0x5C # CHR ''u'' # h @ s"] Let_def)

lemma rune_width_take: "rune_width s = w \<Longrightarrow> w \<noteq> 0 \<Longrightarrow> rune_width (take w s @ t) = w"
  by (cases s) (auto simp: rune_width.simps split: list.splits if_splits)

lemma unquote_rune:
  assumes "128 \<le> byte c" and "rune_width (c # cs) \<noteq> 0"
  shows "unquote (take (rune_width (c # cs)) (c # cs) @ t) = take (rune_width (c # cs)) (c # cs) @ unquote t"
proof -
  let ?w = "rune_width (c # cs)"
  obtain u where u: "take ?w (c # cs) @ t = c # u" using assms(2) by (cases ?w) auto
  have w: "rune_width (c # u) = ?w" using rune_width_take [OF refl assms(2), of t] u by simp
  have len: "length (take ?w (c # cs)) = ?w" using rune_width_le [of "c # cs"] by simp
  have "unquote (c # u) = take ?w (c # u) @ unquote (drop ?w (c # u))"
    using assms by (subst unquote.simps) (auto simp: w)
  moreover have "take ?w (c # u) = take ?w (c # cs)" "drop ?w (c # u) = t"
    using len u [symmetric] by simp_all
  ultimately show ?thesis using u by simp
qed

lemma hexval_literals [simp]: "hexval CHR ''0'' = Some 0" "hexval CHR ''2'' = Some 2"
  by (simp_all add: hexval_def)

lemma hex_value_byte: "n < 256 \<Longrightarrow> hex_value ([CHR ''0'', CHR ''0''] @ hex2 n) = n"
  by (simp add: hex_value_def hex2_def)

lemma unquote_escape_ascii:
  assumes "byte c < 128"
  shows "unquote (escape_ascii c @ s) = c # unquote s"
proof (cases "escape_ascii c = [CHR 0x5C, CHR ''u'', CHR ''0'', CHR ''0''] @ hex2 (byte c)")
  case True
  have "unquote (CHR 0x5C # CHR ''u'' # ([CHR ''0'', CHR ''0''] @ hex2 (byte c)) @ s) =
      utf8_encode (hex_value ([CHR ''0'', CHR ''0''] @ hex2 (byte c))) @ unquote s"
    using assms by (intro unquote_hex) (simp_all only: hex_value_byte, simp_all add: hex2_def)
  with True assms show ?thesis by (simp add: hex_value_byte [simplified] utf8_encode_def)
next
  case False
  with assms show ?thesis
    by (auto simp: escape_ascii_def unquote_short simple_escape_def unquote_plain unescape_char_def
        split: if_splits)
qed

lemma char_of_literals [simp]:
  "char_of (226 :: nat) = CHR 0xE2" "char_of (128 :: nat) = CHR 0x80"
  "char_of (168 :: nat) = CHR 0xA8" "char_of (169 :: nat) = CHR 0xA9"
  by code_simp+

lemma unquote_line_sep: "line_sep s \<Longrightarrow> unquote (escape_line_sep s @ t) = take 3 s @ unquote t"
proof -
  assume l: "line_sep s"
  then have s: "take 3 s = [CHR 0xE2, CHR 0x80, s ! 2]"
    by (auto simp: line_sep_def numeral_eq_Suc Suc_le_length_iff)
  have "unquote (CHR 0x5C # CHR ''u'' # [CHR ''2'', CHR ''0'', CHR ''2'', hexdigit (byte (s ! 2) mod 16)] @ t) =
      utf8_encode (hex_value [CHR ''2'', CHR ''0'', CHR ''2'', hexdigit (byte (s ! 2) mod 16)]) @ unquote t"
    using l by (intro unquote_hex) (auto simp: line_sep_def hex_value_def)
  with l s show ?thesis
    by (auto simp: escape_line_sep_def line_sep_def hex_value_def utf8_encode_def)
qed

lemma unquote_json_escape: "valid_utf8 s \<Longrightarrow> unquote (json_escape s) = s"
proof (induction s rule: rune_induct)
  case (ascii c cs)
  then show ?case by (simp add: json_escape_ascii unquote_escape_ascii)
next
  case (invalid c cs)
  then show ?case by (simp add: valid_utf8.simps [of "c # cs"])
next
  case (rune c cs)
  then have "valid_utf8 (drop (rune_width (c # cs)) (c # cs))"
    by (simp add: valid_utf8.simps [of "c # cs"])
  with rune have IH: "unquote (json_escape (drop (rune_width (c # cs)) (c # cs))) =
      drop (rune_width (c # cs)) (c # cs)" by blast
  show ?case
  proof (cases "line_sep (c # cs)")
    case True
    then have "unquote (json_escape (c # cs)) =
        take 3 (c # cs) @ unquote (json_escape (drop (rune_width (c # cs)) (c # cs)))"
      by (simp only: json_escape_rune [OF rune(1,2)] if_True unquote_line_sep)
    with IH show ?thesis by (simp only: line_sep_width [OF True] append_take_drop_id)
  next
    case False
    with rune(1,2) IH show ?thesis by (simp add: json_escape_rune unquote_rune)
  qed
qed simp

end
