(* ===== verification/JsonSound.thy ===== *)
theory JsonSound
  imports JsonEscape
begin

text \<open>
  What the scanner and the unescaping of literals guarantee: a scanned value consists of literals
  the scanner accepts and respects the nesting limit, and an unescaped literal is valid UTF-8.
\<close>

section \<open>Unescaped literals are valid UTF-8\<close>


lemma rune_width_append: "rune_width a \<noteq> 0 \<Longrightarrow> rune_width (a @ b) = rune_width a"
  by (cases a) (auto simp: rune_width.simps split: list.splits if_splits)

lemma valid_utf8_append: "valid_utf8 a \<Longrightarrow> valid_utf8 b \<Longrightarrow> valid_utf8 (a @ b)"
proof (induction a rule: valid_utf8.induct)
  case (1 s)
  show ?case
  proof (cases "s = []")
    case False
    with 1 have w: "rune_width s \<noteq> 0" "valid_utf8 (drop (rune_width s) s)"
      by (auto simp: valid_utf8.simps [of s] split: if_splits)
    with 1 False have IH: "valid_utf8 (drop (rune_width s) s @ b)" by blast
    have "drop (rune_width s) (s @ b) = drop (rune_width s) s @ b"
      using rune_width_le [of s] by simp
    with False w IH show ?thesis
      by (subst valid_utf8.simps) (simp add: rune_width_append)
  qed (use 1 in simp)
qed

lemma valid_utf8_single_rune:
  "rune_width s = length s \<Longrightarrow> valid_utf8 s"
  by (cases "s = []") (simp_all add: valid_utf8.simps [of s])

lemma byte_char_of: "n < 256 \<Longrightarrow> byte (char_of n) = (n :: nat)"
  by simp

lemma rune2: "(2 :: nat) \<le> a \<Longrightarrow> a \<le> 31 \<Longrightarrow> b < 64 \<Longrightarrow> valid_utf8 [char_of (192 + a), char_of (128 + b :: nat)]"
  by (rule valid_utf8_single_rune) (simp add: rune_width.simps cont_byte_def byte_char_of del: of_char_of)

lemma rune3:
  fixes a b c :: nat
  assumes "a \<le> 15" "b < 64" "c < 64" "a = 0 \<longrightarrow> 32 \<le> b" "a = 13 \<longrightarrow> b \<le> 31"
  shows "valid_utf8 [char_of (224 + a), char_of (128 + b), char_of (128 + c :: nat)]"
  using assms
  by (intro valid_utf8_single_rune) (simp add: rune_width.simps cont_byte_def byte_char_of del: of_char_of)

lemma rune4:
  fixes a b c d :: nat
  assumes "a \<le> 4" "b < 64" "c < 64" "d < 64" "a = 0 \<longrightarrow> 16 \<le> b" "a = 4 \<longrightarrow> b \<le> 15"
  shows "valid_utf8 [char_of (240 + a), char_of (128 + b), char_of (128 + c), char_of (128 + d :: nat)]"
  using assms
  by (intro valid_utf8_single_rune) (simp add: rune_width.simps cont_byte_def byte_char_of del: of_char_of)

lemma div_facts3: "2048 \<le> r \<Longrightarrow> r < 65536 \<Longrightarrow> \<not> (55296 \<le> r \<and> r \<le> 57343) \<Longrightarrow>
    r div 4096 \<le> 15 \<and> (r div 4096 = 0 \<longrightarrow> 32 \<le> r div 64 mod 64) \<and> (r div 4096 = 13 \<longrightarrow> r div 64 mod 64 \<le> 31)"
  for r :: nat
proof -
  assume r: "2048 \<le> r" "r < 65536" "\<not> (55296 \<le> r \<and> r \<le> 57343)"
  have e: "r div 64 = r div 4096 * 64 + r div 64 mod 64"
    using div_mult_mod_eq [of "r div 64" 64] by (simp add: div_mult2_eq [symmetric])
  have "r div 4096 \<le> 15" "32 \<le> r div 64" using r by auto
  moreover have "r div 4096 = 13 \<Longrightarrow> r div 64 < 864"
  proof -
    assume "r div 4096 = 13"
    then have "r < 57344" by linarith
    with r show ?thesis by auto
  qed
  ultimately show ?thesis using e by auto
qed

lemma div_facts4: "65536 \<le> r \<Longrightarrow> r \<le> 1114111 \<Longrightarrow>
    r div 262144 \<le> 4 \<and> (r div 262144 = 0 \<longrightarrow> 16 \<le> r div 4096 mod 64) \<and> (r div 262144 = 4 \<longrightarrow> r div 4096 mod 64 \<le> 15)"
  for r :: nat
proof -
  assume r: "65536 \<le> r" "r \<le> 1114111"
  have e: "r div 4096 = r div 262144 * 64 + r div 4096 mod 64"
    using div_mult_mod_eq [of "r div 4096" 64] by (simp add: div_mult2_eq [symmetric])
  have "r div 262144 \<le> 4" "16 \<le> r div 4096" "r div 4096 \<le> 271" using r by auto
  with e show ?thesis by auto
qed

lemma if_cases: "(b \<Longrightarrow> P x) \<Longrightarrow> (\<not> b \<Longrightarrow> P y) \<Longrightarrow> P (if b then x else y)"
  by simp

lemma valid_utf8_FFFD: "valid_utf8 [char_of (239 :: nat), char_of (191 :: nat), char_of (189 :: nat)]"
  by code_simp

lemma valid_utf8_encode: "valid_utf8 (utf8_encode r)"
  unfolding utf8_encode_def
proof (intro if_cases [where P = valid_utf8])
  assume "r < 128"
  then show "valid_utf8 [char_of r]" by (intro valid_utf8_all_ascii) simp
next
  assume "\<not> r < 128" "r < 2048"
  then show "valid_utf8 [char_of (192 + r div 64), char_of (128 + r mod 64)]"
    by (intro rune2) linarith+
next
  assume "\<not> r < 2048" "\<not> ((55296 \<le> r \<and> r \<le> 57343) \<or> 1114111 < r)" "r < 65536"
  then show "valid_utf8 [char_of (224 + r div 4096), char_of (128 + r div 64 mod 64), char_of (128 + r mod 64)]"
    using div_facts3 [of r] by (intro rune3) (simp_all only: not_less, auto)
next
  assume "\<not> r < 65536" "\<not> ((55296 \<le> r \<and> r \<le> 57343) \<or> 1114111 < r)"
  then show "valid_utf8 [char_of (240 + r div 262144), char_of (128 + r div 4096 mod 64),
      char_of (128 + r div 64 mod 64), char_of (128 + r mod 64)]"
    using div_facts4 [of r] by (intro rune4) (simp_all only: not_less, auto)
qed (rule valid_utf8_FFFD)

lemma valid_utf8_rune: "rune_width s \<noteq> 0 \<Longrightarrow> valid_utf8 (take (rune_width s) s)"
proof (rule valid_utf8_single_rune)
  assume "rune_width s \<noteq> 0"
  from rune_width_take [OF refl this, of "[]"] show "rune_width (take (rune_width s) s) = length (take (rune_width s) s)"
    using rune_width_le [of s] by simp
qed

lemma unescape_char_ascii: "simple_escape e \<Longrightarrow> byte (unescape_char e) < 128"
  unfolding simple_escape_def List.member_iff unescape_char_def
  by (simp only: list.set insert_iff empty_iff simp_thms, elim disjE) simp_all

lemma valid_utf8_unquote: "valid_utf8 (unquote r)"
proof (induction r rule: unquote.induct)
  case (1 s)
  show ?case
  proof (cases s)
    case (Cons c cs)
    show ?thesis
    proof (cases "c = CHR 0x5C")
      case False
      with 1 Cons show ?thesis
        by (subst unquote.simps) (simp add: valid_utf8_append valid_utf8_encode valid_utf8_rune)
    next
      case True
      show ?thesis
      proof (cases cs)
        case Nil
        with True \<open>s = c # cs\<close> show ?thesis by (simp add: unquote.simps)
      next
        case (Cons e cs')
        with 1 True \<open>s = c # cs\<close> show ?thesis
          by (subst unquote.simps)
            (auto simp: Let_def valid_utf8_append valid_utf8_encode unescape_char_ascii split: option.splits)
      qed
    qed
  qed simp
qed

section \<open>Scanned values are well-formed\<close>

lemma takeWhile_digits_append:
  "list_all is_digit a \<Longrightarrow> (b = [] \<or> \<not> is_digit (hd b)) \<Longrightarrow>
     takeWhile is_digit (a @ b) = a \<and> dropWhile is_digit (a @ b) = b"
  by (induction a) (cases b; auto)+

lemma list_all_takeWhile: "list_all P (takeWhile P xs)"
  by (induction xs) auto

definition exp_lit :: "string \<Rightarrow> bool" where
  "exp_lit e = (scan_exp e = Inr (e, []) \<and> (e = [] \<or> hd e = CHR ''e'' \<or> hd e = CHR ''E''))"

lemma scan_exp_digits_lit: "scan_exp_digits s = Inr (r, t) \<Longrightarrow> scan_exp_digits r = Inr (r, [])"
  using list_all_takeWhile [of is_digit "tl s"] takeWhile_digits_append [of "takeWhile is_digit (tl s)" "[]"]
  by (cases s) (auto simp: scan_exp_digits_def split: if_splits)

lemma scan_exp_lit: "scan_exp s = Inr (r, t) \<Longrightarrow> exp_lit r"
proof (cases s)
  case (Cons p u)
  assume sc: "scan_exp s = Inr (r, t)"
  show ?thesis
  proof (cases "p = CHR ''e'' \<or> p = CHR ''E''")
    case False
    with Cons sc show ?thesis by (auto simp: scan_exp_def exp_lit_def)
  next
    case True
    with Cons sc obtain g v where u: "u = g # v" by (cases u) (auto simp: scan_exp_def)
    show ?thesis
    proof (cases "g = CHR ''+'' \<or> g = CHR ''-''")
      case s: True
      with Cons True sc u obtain b where "r = p # g # b" "scan_exp_digits v = Inr (b, t)"
        by (auto simp: scan_exp_def pre_raw_Inr)
      with True s show ?thesis
        by (auto simp: exp_lit_def scan_exp_def pre_raw_Inr dest: scan_exp_digits_lit)
    next
      case False
      with Cons True sc u obtain b where b: "r = p # b" "scan_exp_digits u = Inr (b, t)"
        by (auto simp: scan_exp_def pre_raw_Inr)
      then have "b \<noteq> [] \<and> hd b = g" using u by (auto simp: scan_exp_digits_def split: if_splits)
      then obtain b' where "b = g # b'" by (cases b) auto
      with b True False show ?thesis
        by (auto simp: exp_lit_def scan_exp_def pre_raw_Inr dest: scan_exp_digits_lit)
    qed
  qed
qed (simp add: scan_exp_def exp_lit_def)

lemma exp_lit_not_digit: "exp_lit e \<Longrightarrow> e = [] \<or> \<not> is_digit (hd e)"
  by (auto simp: exp_lit_def is_digit_def)

lemma scan_frac_lit:
  assumes "scan_frac s = Inr (r, t)" and "exp_lit e"
  shows "scan_frac (r @ e) = Inr (r, e) \<and> (r @ e = [] \<or> \<not> is_digit (hd (r @ e)))"
proof (cases "r = []")
  case True
  have "e = [] \<or> hd e \<noteq> CHR ''.''" using assms(2) by (auto simp: exp_lit_def)
  with True exp_lit_not_digit [OF assms(2)] show ?thesis by (cases e) (auto simp: scan_frac_def)
next
  case False
  with assms(1) obtain u where u: "s = CHR ''.'' # u" "r = CHR ''.'' # takeWhile is_digit u" "u \<noteq> []" "is_digit (hd u)"
    by (auto simp: scan_frac_def split: list.splits if_splits)
  then have "takeWhile is_digit u \<noteq> [] \<and> is_digit (hd (takeWhile is_digit u))" by (cases u) auto
  moreover have "takeWhile is_digit (takeWhile is_digit u @ e) = takeWhile is_digit u"
    "dropWhile is_digit (takeWhile is_digit u @ e) = e"
    using takeWhile_digits_append [OF list_all_takeWhile exp_lit_not_digit [OF assms(2)]] by blast+
  ultimately show ?thesis
    using u by (auto simp: scan_frac_def is_digit_def split: list.splits)
qed

lemma scan_int_lit:
  assumes "scan_int s = Inr (r, t)" and "x = [] \<or> \<not> is_digit (hd x)"
  shows "scan_int (r @ x) = Inr (r, x)"
proof -
  from assms(1) obtain c u where s: "s = c # u" "is_digit c"
    by (auto simp: scan_int_def split: list.splits if_splits)
  show ?thesis
  proof (cases "c = CHR ''0''")
    case True
    with assms s show ?thesis by (auto simp: scan_int_def)
  next
    case False
    with assms(1) s have r: "r = c # takeWhile is_digit u" by (auto simp: scan_int_def)
    from takeWhile_digits_append [of "c # takeWhile is_digit u" x] assms(2) s list_all_takeWhile [of is_digit u]
    have "takeWhile is_digit (r @ x) = r \<and> dropWhile is_digit (r @ x) = x" by (simp add: r)
    with False s r show ?thesis by (simp add: scan_int_def)
  qed
qed

lemma scan_unum_lit: "scan_unum s = Inr (r, t) \<Longrightarrow> scan_unum r = Inr (r, [])"
  unfolding scan_unum_Inr
proof (elim exE conjE)
  fix ip s1 fp s2 ep
  assume i: "scan_int s = Inr (ip, s1)" and f: "scan_frac s1 = Inr (fp, s2)"
    and e: "scan_exp s2 = Inr (ep, t)" and r: "r = ip @ fp @ ep"
  note e' = scan_exp_lit [OF e]
  note f' = scan_frac_lit [OF f e']
  show "\<exists>ip s1 fp s2 ep. scan_int r = Inr (ip, s1) \<and> scan_frac s1 = Inr (fp, s2) \<and>
      scan_exp s2 = Inr (ep, []) \<and> r = ip @ fp @ ep"
    using scan_int_lit [OF i, of "fp @ ep"] f' e' r by (auto simp: exp_lit_def)
qed

lemma scan_num_ok: "scan_num s = Inr (n, t) \<Longrightarrow> num_ok n"
proof (cases s)
  case (Cons c u)
  assume sc: "scan_num s = Inr (n, t)"
  show ?thesis
  proof (cases "c = CHR ''-''")
    case True
    with Cons sc show ?thesis
      by (auto simp: scan_num_def num_ok_def pre_raw_Inr dest: scan_unum_lit)
  next
    case False
    with Cons sc have "scan_unum s = Inr (n, t)" by (simp add: scan_num_def)
    then have n: "scan_unum n = Inr (n, [])" by (rule scan_unum_lit)
    then obtain d ds where "n = d # ds" "is_digit d"
      by (cases n) (auto simp: scan_unum_Inr scan_int_def split: if_splits)
    with n show ?thesis by (auto simp: num_ok_def scan_num_def is_digit_def)
  qed
qed (simp add: scan_num_def)

definition value_ok :: "nat \<Rightarrow> json \<Rightarrow> bool" where
  "value_ok d j = (wf_json j \<and> depth j \<le> d)"

fun frame_ok :: "nat \<Rightarrow> frame \<Rightarrow> bool" where
  "frame_ok d (FArr js) = list_all (value_ok d) js"
| "frame_ok d (FObj kvs) = list_all (\<lambda>(k, v). raw_ok k \<and> value_ok d v) kvs"
| "frame_ok d (FKey kvs k) = (raw_ok k \<and> list_all (\<lambda>(k, v). raw_ok k \<and> value_ok d v) kvs)"

fun frames_ok :: "frame list \<Rightarrow> bool" where
  "frames_ok [] = True"
| "frames_ok (f # fs) =
     (length fs < maxNestingDepth \<and> frame_ok (maxNestingDepth - Suc (length fs)) f \<and> frames_ok fs)"

fun pst_ok :: "pst \<Rightarrow> frame list \<Rightarrow> bool" where
  "pst_ok (EndValue v) fs = value_ok (maxNestingDepth - length fs) v"
| "pst_ok BeginValueOrEmpty fs = (fs \<noteq> [])"
| "pst_ok BeginStringOrEmpty fs = (fs \<noteq> [])"
| "pst_ok st fs = True"

lemma foldr_max_le: "(\<forall>x \<in> set xs. x \<le> d) \<Longrightarrow> foldr max xs 0 \<le> (d :: nat)"
  by (induction xs) auto

lemma value_ok_arr: "list_all (value_ok d) js \<Longrightarrow> value_ok (Suc d) (JArr js)"
  by (auto simp: value_ok_def list_all_iff intro!: foldr_max_le)

lemma value_ok_obj: "list_all (\<lambda>(k, v). raw_ok k \<and> value_ok d v) kvs \<Longrightarrow> value_ok (Suc d) (JObj kvs)"
  by (auto simp: value_ok_def list_all_iff intro!: foldr_max_le)

lemma value_ok_scalar:
  "value_ok d JNull" "value_ok d (JBool b)" "raw_ok r \<Longrightarrow> value_ok d (JStr r)" "num_ok n \<Longrightarrow> value_ok d (JNum n)"
  by (simp_all add: value_ok_def)

lemma begin_value_ok:
  "begin_value fs c cs = Next st' fs' s' \<Longrightarrow> frames_ok fs \<Longrightarrow> frames_ok fs' \<and> pst_ok st' fs'"
  by (auto simp: begin_value_def next_lit_def value_ok_scalar split: if_splits sum.splits
      dest!: scan_str_sound scan_num_ok)

lemma begin_string_ok:
  "begin_string fs c cs = Next st' fs' s' \<Longrightarrow> frames_ok fs \<Longrightarrow> frames_ok fs' \<and> pst_ok st' fs'"
  by (auto simp: begin_string_def split: if_splits sum.splits list.splits frame.splits dest!: scan_str_sound)

lemma Suc_diff_depth: "n < maxNestingDepth \<Longrightarrow> Suc (maxNestingDepth - Suc n) = maxNestingDepth - n"
  by simp

lemma end_value_ok:
  "end_value v fs c cs = Next st' fs' s' \<Longrightarrow> frames_ok fs \<Longrightarrow> pst_ok (EndValue v) fs \<Longrightarrow>
     frames_ok fs' \<and> pst_ok st' fs'"
  using value_ok_arr [of "maxNestingDepth - Suc (length fs')"] value_ok_obj [of "maxNestingDepth - Suc (length fs')"]
  by (auto simp: end_value_def Suc_diff_depth split: if_splits list.splits frame.splits)

lemma json_step_ok:
  assumes "json_step st fs s = Next st' fs' s'" and "frames_ok fs" and "pst_ok st fs"
  shows "frames_ok fs' \<and> pst_ok st' fs'"
proof -
  have "value_ok d (JArr [])" "value_ok d (JObj [])" if "0 < d" for d
    using that by (simp_all add: value_ok_def)
  with assms show ?thesis
    by (cases fs) (auto simp: json_step_def split: list.splits pst.splits if_splits
        dest: begin_value_ok begin_string_ok end_value_ok)
qed

lemma json_run_ok: "json_run st fs s = Inr j \<Longrightarrow> frames_ok fs \<Longrightarrow> pst_ok st fs \<Longrightarrow> value_ok maxNestingDepth j"
proof (induction st fs s rule: json_run.induct)
  case (1 st fs s)
  show ?case
  proof (cases "json_step st fs s")
    case (Done r)
    with "1.prems" show ?thesis
      by (auto simp: json_run.simps [of st fs s] json_step_def begin_value_def begin_string_def end_value_def
          next_lit_def split: list.splits pst.splits if_splits sum.splits frame.splits)
  next
    case (Next st' fs' s')
    with 1 show ?thesis using json_step_ok [OF Next] by (simp add: json_run.simps [of st fs s])
  qed
qed

lemma json_parse_ok: "json_parse s = Inr j \<Longrightarrow> wf_json j \<and> depth j \<le> maxNestingDepth"
  using json_run_ok [of BeginValue "[]" s j] by (simp add: json_parse_def value_ok_def)

section \<open>HTML escaping keeps literals well formed\<close>

lemma raw_ok_unit_cases:
  assumes "raw_ok r" and "r \<noteq> []"
  obtains u s where "raw_unit u" and "u \<noteq> []" and "r = u @ s" and "raw_ok s"
proof -
  from assms(1) obtain us where us: "list_all raw_unit us" "r = concat us" by (auto simp: raw_ok_units)
  then have "concat us \<noteq> [] \<longrightarrow> (\<exists>u s. raw_unit u \<and> u \<noteq> [] \<and> concat us = u @ s \<and> raw_ok s)"
  proof (induction us arbitrary: r)
    case (Cons u us)
    show ?case
    proof (cases "u = []")
      case True
      with Cons show ?thesis by simp
    next
      case False
      with Cons.prems show ?thesis
        by (intro impI exI [of _ u] exI [of _ "concat us"]) (auto simp: raw_ok_units)
    qed
  qed simp
  with us assms(2) that show thesis by blast
qed

lemma raw_ok_plain_tl: "raw_ok (c # s) \<Longrightarrow> c \<noteq> CHR 0x5C \<Longrightarrow> raw_ok s"
  by (auto simp: raw_ok_def pre_raw_def split: if_splits sum.splits prod.splits)

lemma is_hex_html_plain: "is_hex c \<Longrightarrow> \<not> html_unsafe c \<and> c \<noteq> CHR 0xE2"
  by (auto simp: is_hex_def hexval_def html_unsafe_def)

lemma escape_unit_html_plain:
  assumes "raw_unit u" and "hd u = CHR 0x5C"
  shows "html_plain u"
proof -
  from assms consider (short) e where "u = [CHR 0x5C, e]" "simple_escape e"
    | (hex) hs where "u = CHR 0x5C # CHR ''u'' # hs" "list_all is_hex hs"
    unfolding raw_unit_def by auto
  then show ?thesis
  proof cases
    case short
    then show ?thesis by (auto simp: html_plain_def simple_escape_def html_unsafe_def)
  next
    case hex
    moreover have "list_all (\<lambda>c. \<not> html_unsafe c \<and> c \<noteq> CHR 0xE2) hs"
      using hex(2) by (rule list.pred_mono_strong) (rule is_hex_html_plain)
    ultimately show ?thesis by (simp add: html_plain_def)
  qed
qed

lemma raw_ok_html_escape [simp]: "raw_ok r \<Longrightarrow> raw_ok (html_escape r)"
proof (induction r rule: length_induct)
  case (1 r)
  show ?case
  proof (cases r)
    case (Cons c cs)
    show ?thesis
    proof (cases "c = CHR 0x5C")
      case True
      obtain u s where u: "raw_unit u" "u \<noteq> []" "r = u @ s" "raw_ok s"
        using raw_ok_unit_cases [OF 1(2)] Cons by blast
      then have "hd u = CHR 0x5C" using Cons True by (cases u) auto
      with u have "html_escape r = u @ html_escape s"
        by (simp add: html_escape_html_plain escape_unit_html_plain)
      moreover have "raw_ok (html_escape s)" using u 1(1) by simp
      ultimately show ?thesis using u(1) by (simp add: raw_ok_append raw_ok_unit)
    next
      case False
      have cs: "raw_ok cs" using 1(2) Cons False by (simp add: raw_ok_plain_tl)
      have d3: "raw_ok (drop 3 r)" if "line_sep r"
      proof -
        from that Cons obtain a s where r: "r = CHR 0xE2 # CHR 0x80 # a # s" "a = CHR 0xA8 \<or> a = CHR 0xA9"
          by (auto simp: line_sep_def numeral_eq_Suc Suc_le_length_iff)
        have "raw_ok (CHR 0x80 # a # s)" using cs r Cons by simp
        then have "raw_ok (a # s)" by (rule raw_ok_plain_tl) simp
        then have "raw_ok s" using r(2) by (auto dest: raw_ok_plain_tl)
        with r show ?thesis by simp
      qed
      have c1: "raw_ok [c]" if "\<not> html_unsafe c"
      proof -
        obtain u s where "raw_unit u" "u \<noteq> []" "r = u @ s" using raw_ok_unit_cases [OF 1(2)] Cons by blast
        with Cons False have "u = [c]" "raw_unit u" by (auto simp: raw_unit_def)
        then show ?thesis using raw_ok_unit by blast
      qed
      have hex: "raw_ok ([CHR 0x5C, CHR ''u'', CHR ''0'', CHR ''0''] @ hex2 (byte c))"
        unfolding hex2_def append.simps by (intro raw_ok_unit raw_unit_hex) simp_all
      have sep: "raw_ok (escape_line_sep r)"
        unfolding escape_line_sep_def by (intro raw_ok_unit raw_unit_hex) simp_all
      show ?thesis
      proof (cases "html_unsafe c")
        case True
        with Cons have "html_escape r = ([CHR 0x5C, CHR ''u'', CHR ''0'', CHR ''0''] @ hex2 (byte c)) @ html_escape cs"
          by (simp add: html_escape.simps [of "c # cs"])
        with hex cs 1(1) Cons show ?thesis by (auto intro: raw_ok_append simp del: append_assoc append_Cons)
      next
        case plain: False
        show ?thesis
        proof (cases "line_sep r")
          case True
          with Cons plain have "html_escape r = escape_line_sep r @ html_escape (drop 3 r)"
            by (simp add: html_escape.simps [of "c # cs"])
          moreover have "raw_ok (html_escape (drop 3 r))" using 1(1) d3 [OF True] Cons by auto
          ultimately show ?thesis using sep by (simp add: raw_ok_append)
        next
          case False
          with Cons plain have "html_escape r = [c] @ html_escape cs" by (simp add: html_escape.simps [of "c # cs"])
          moreover have "raw_ok (html_escape cs)" using 1(1) cs Cons by auto
          ultimately show ?thesis using c1 [OF plain] raw_ok_append by metis
        qed
      qed
    qed
  qed simp
qed

lemma wf_json_html_json [simp]: "wf_json j \<Longrightarrow> wf_json (html_json j)"
proof (induction j)
  case (JObj kvs)
  then show ?case by (force simp: list_all_iff)
qed (auto simp: list_all_iff)

lemma depth_html_json [simp]: "depth (html_json j) = depth j"
proof (induction j)
  case (JArr js)
  then have "map (depth \<circ> html_json) js = map depth js" by simp
  then show ?case by (simp only: html_json.simps depth.simps map_map)
next
  case (JObj kvs)
  then have "map ((\<lambda>(k, v). depth v) \<circ> (\<lambda>(k, v). (html_escape k, html_json v))) kvs = map (\<lambda>(k, v). depth v) kvs"
    by force
  then show ?case by (simp only: html_json.simps depth.simps map_map)
qed auto
end
