(* ===== verification/GoTypes.thy ===== *)
theory GoTypes
  imports JsonSound
begin

text \<open>
  Reflection and typed JSON: Go types as descriptors, Go values, \<^verbatim>\<open>json.Marshal\<close> and
  \<^verbatim>\<open>json.Unmarshal\<close> between them, with Go's rules for null, pointers, repeated and unknown keys,
  case-insensitive field names and type errors. The structs of the FSx SDK are third-party, so
  their descriptors are arguments everywhere. The main result is that unmarshalling what was
  marshalled gives the value back.

  \<open>dec\<close> stops at the first type error. Go records the first one and goes on, but every caller in
  the driver discards the object when an error is returned.
\<close>

section \<open>Types and values\<close>

datatype gotype =
    GString string
  | GBool
  | GInt nat
  | GPtr gotype
  | GSlice gotype
  | GMap gotype
  | GStruct string string "(string \<times> bool \<times> gotype) list"

datatype govalue =
    VString string
  | VBool bool
  | VInt int
  | VNil
  | VPtr govalue
  | VSlice "govalue list"
  | VMap "(string \<times> govalue) list"
  | VStruct "(string \<times> govalue) list"

fun type_string :: "gotype \<Rightarrow> string" where
  "type_string (GString n) = n"
| "type_string GBool = ''bool''"
| "type_string (GInt b) = ''int'' @ Itoa (int b)"
| "type_string (GPtr t) = ''*'' @ type_string t"
| "type_string (GSlice t) = ''[]'' @ type_string t"
| "type_string (GMap t) = ''map[string]'' @ type_string t"
| "type_string (GStruct pkg n fs) = pkg @ ''.'' @ n"

fun zero_value :: "gotype \<Rightarrow> govalue" where
  "zero_value (GString n) = VString []"
| "zero_value GBool = VBool False"
| "zero_value (GInt b) = VInt 0"
| "zero_value (GStruct pkg n fs) =
     VStruct (concat (map (\<lambda>(f, e, t). if e then [(f, zero_value t)] else []) fs))"
| "zero_value t = VNil"

text \<open>\<^verbatim>\<open>reflect.TypeOf(config).Elem().Field(i).Name\<close> for every field, exported or not.\<close>

fun field_names :: "gotype \<Rightarrow> string list" where
  "field_names (GStruct pkg n fs) = map fst fs"
| "field_names t = []"

text \<open>\<^verbatim>\<open>foldName\<close>, exact for comparison with ASCII names: U+017F folds to S and U+212A to K.\<close>

definition fold_char :: "char \<Rightarrow> char" where
  "fold_char c = (if 97 \<le> byte c \<and> byte c \<le> 122 then char_of (byte c - 32) else c)"

fun fold_name :: "string \<Rightarrow> string" where
  "fold_name [] = []"
| "fold_name (a # s) =
     (if a = CHR 0xC5 \<and> take 1 s = [CHR 0xBF] then CHR ''S'' # fold_name (drop 1 s)
      else if a = CHR 0xE2 \<and> take 2 s = [CHR 0x84, CHR 0xAA] then CHR ''K'' # fold_name (drop 2 s)
      else fold_char a # fold_name s)"

definition find_field :: "(string \<times> bool \<times> gotype) list \<Rightarrow> string \<Rightarrow> (string \<times> gotype) option" where
  "find_field fs k =
     (case find (\<lambda>(f, e, t). e \<and> f = k) fs of
        Some (f, e, t) \<Rightarrow> Some (f, t)
      | None \<Rightarrow>
          (case find (\<lambda>(f, e, t). e \<and> fold_name f = fold_name k) fs of
             Some (f, e, t) \<Rightarrow> Some (f, t)
           | None \<Rightarrow> None))"

section \<open>json.Unmarshal\<close>

fun base_type :: "gotype \<Rightarrow> gotype" where
  "base_type (GPtr t) = base_type t"
| "base_type t = t"

text \<open>The value under the pointers of a type, allocated where a pointer is nil, and wrapping it again.\<close>

fun under :: "gotype \<Rightarrow> govalue \<Rightarrow> govalue" where
  "under (GPtr t) (VPtr v) = under t v"
| "under (GPtr t) v = under t (zero_value t)"
| "under t v = v"

fun wrap :: "gotype \<Rightarrow> govalue \<Rightarrow> govalue" where
  "wrap (GPtr t) v = VPtr (wrap t v)"
| "wrap t v = v"

fun nilable :: "gotype \<Rightarrow> bool" where
  "nilable (GPtr t) = True"
| "nilable (GSlice t) = True"
| "nilable (GMap t) = True"
| "nilable t = False"

fun slice_elems :: "govalue \<Rightarrow> govalue list" where
  "slice_elems (VSlice vs) = vs"
| "slice_elems v = []"

fun map_entries :: "govalue \<Rightarrow> (string \<times> govalue) list" where
  "map_entries (VMap m) = m"
| "map_entries v = []"

fun struct_fields :: "govalue \<Rightarrow> (string \<times> govalue) list" where
  "struct_fields (VStruct fs) = fs"
| "struct_fields v = []"

text \<open>The kinds the decoder branches on.\<close>

fun slice_of :: "gotype \<Rightarrow> gotype option" where
  "slice_of (GSlice t) = Some t"
| "slice_of t = None"

fun map_elem_of :: "gotype \<Rightarrow> gotype option" where
  "map_elem_of (GMap t) = Some t"
| "map_elem_of t = None"

fun struct_of :: "gotype \<Rightarrow> (string \<times> (string \<times> bool \<times> gotype) list) option" where
  "struct_of (GStruct pkg n fs) = Some (n, fs)"
| "struct_of t = None"

fun is_string_type :: "gotype \<Rightarrow> bool" where
  "is_string_type (GString n) = True"
| "is_string_type t = False"

type_synonym ctx = "string \<times> string list"

definition type_err :: "ctx \<Rightarrow> string \<Rightarrow> gotype \<Rightarrow> goerr" where
  "type_err ctx v t = UnmarshalTypeError v (fst ctx) (join ''.'' (snd ctx)) (type_string t)"

definition wrap_res :: "gotype \<Rightarrow> goerr + govalue \<Rightarrow> goerr + govalue" where
  "wrap_res t r = (case r of Inl e \<Rightarrow> Inl e | Inr v \<Rightarrow> Inr (wrap t v))"

definition dec_num :: "ctx \<Rightarrow> gotype \<Rightarrow> string \<Rightarrow> goerr + govalue" where
  "dec_num ctx t n =
     (case t of
        GInt b \<Rightarrow>
          (case ParseInt 64 n of
             Inl e \<Rightarrow> Inl (type_err ctx (''number '' @ n) t)
           | Inr i \<Rightarrow>
               if - (2 ^ (b - 1)) \<le> i \<and> i < 2 ^ (b - 1) then Inr (VInt i)
               else Inl (type_err ctx (''number '' @ n) t))
      | _ \<Rightarrow> Inl (type_err ctx ''number'' t))"

function (sequential) dec :: "json \<Rightarrow> ctx \<Rightarrow> gotype \<Rightarrow> govalue \<Rightarrow> goerr + govalue"
  and dec_elems :: "json list \<Rightarrow> ctx \<Rightarrow> gotype \<Rightarrow> govalue list \<Rightarrow> goerr + govalue list"
  and dec_members :: "(string \<times> json) list \<Rightarrow> ctx \<Rightarrow> string \<Rightarrow> (string \<times> bool \<times> gotype) list \<Rightarrow>
        (string \<times> govalue) list \<Rightarrow> goerr + (string \<times> govalue) list"
  and dec_entries :: "(string \<times> json) list \<Rightarrow> ctx \<Rightarrow> gotype \<Rightarrow> (string \<times> govalue) list \<Rightarrow>
        goerr + (string \<times> govalue) list" where
  "dec JNull ctx t v = Inr (if nilable t then VNil else v)"
| "dec (JBool b) ctx t v =
     (if base_type t = GBool then Inr (wrap t (VBool b))
      else Inl (type_err ctx ''bool'' (base_type t)))"
| "dec (JNum n) ctx t v = wrap_res t (dec_num ctx (base_type t) n)"
| "dec (JStr r) ctx t v =
     (if is_string_type (base_type t) then Inr (wrap t (VString (unquote r)))
      else Inl (type_err ctx ''string'' (base_type t)))"
| "dec (JArr js) ctx t v =
     (case slice_of (base_type t) of
        Some u \<Rightarrow>
          (case dec_elems js ctx u (slice_elems (under t v)) of
             Inl e \<Rightarrow> Inl e
           | Inr vs \<Rightarrow> Inr (wrap t (VSlice vs)))
      | None \<Rightarrow> Inl (type_err ctx ''array'' (base_type t)))"
| "dec (JObj kvs) ctx t v =
     (case struct_of (base_type t) of
        Some (nm, fs) \<Rightarrow>
          (case dec_members kvs ctx nm fs (struct_fields (under t v)) of
             Inl e \<Rightarrow> Inl e
           | Inr fv \<Rightarrow> Inr (wrap t (VStruct fv)))
      | None \<Rightarrow>
          (case map_elem_of (base_type t) of
             Some u \<Rightarrow>
               (case dec_entries kvs ctx u (map_entries (under t v)) of
                  Inl e \<Rightarrow> Inl e
                | Inr m \<Rightarrow> Inr (wrap t (VMap (sort_key fst m))))
           | None \<Rightarrow> Inl (type_err ctx ''object'' (base_type t))))"
| "dec_elems [] ctx t olds = Inr []"
| "dec_elems (j # js) ctx t olds =
     (case dec j ctx t (case olds of [] \<Rightarrow> zero_value t | w # ws \<Rightarrow> w) of
        Inl e \<Rightarrow> Inl e
      | Inr v \<Rightarrow>
          (case dec_elems js ctx t (tl olds) of
             Inl e \<Rightarrow> Inl e
           | Inr vs \<Rightarrow> Inr (v # vs)))"
| "dec_members [] ctx nm fs fv = Inr fv"
| "dec_members ((k, j) # kvs) ctx nm fs fv =
     (case find_field fs (unquote k) of
        None \<Rightarrow> dec_members kvs ctx nm fs fv
      | Some (f, t) \<Rightarrow>
          (case dec j (nm, snd ctx @ [f]) t
                  (case map_of fv f of None \<Rightarrow> zero_value t | Some w \<Rightarrow> w) of
             Inl e \<Rightarrow> Inl e
           | Inr w \<Rightarrow> dec_members kvs ctx nm fs (AList.update f w fv)))"
| "dec_entries [] ctx t m = Inr m"
| "dec_entries ((k, j) # kvs) ctx t m =
     (case dec j ctx t (zero_value t) of
        Inl e \<Rightarrow> Inl e
      | Inr w \<Rightarrow> dec_entries kvs ctx t (AList.update (unquote k) w m))"
  by pat_completeness auto
termination
  by (relation "measure (case_sum
        (case_sum (\<lambda>(j, ctx, t, v). size j) (\<lambda>(js, ctx, t, olds). size_list size js))
        (case_sum (\<lambda>(kvs, ctx, nm, fs, fv). size_list (size_prod (\<lambda>_. 0) size) kvs)
          (\<lambda>(kvs, ctx, t, m). size_list (size_prod (\<lambda>_. 0) size) kvs)))") auto

definition Unmarshal :: "gotype \<Rightarrow> govalue \<Rightarrow> string \<Rightarrow> goerr + govalue" where
  "Unmarshal t v s =
     (case json_parse s of Inl m \<Rightarrow> Inl (SyntaxError m) | Inr j \<Rightarrow> dec j ([], []) t v)"

section \<open>json.Marshal\<close>

fun enc :: "govalue \<Rightarrow> json" where
  "enc (VString s) = JStr (json_escape s)"
| "enc (VBool b) = JBool b"
| "enc (VInt i) = JNum (Itoa i)"
| "enc VNil = JNull"
| "enc (VPtr v) = enc v"
| "enc (VSlice vs) = JArr (map enc vs)"
| "enc (VMap m) = JObj (map (\<lambda>(k, j). (json_escape k, j)) (sort_key fst (map (\<lambda>(k, v). (k, enc v)) m)))"
| "enc (VStruct fs) = JObj (map (\<lambda>(k, v). (json_escape k, enc v)) fs)"

definition Marshal :: "govalue \<Rightarrow> string" where
  "Marshal v = render (enc v)"

section \<open>Well-typed values\<close>

fun wf_type :: "gotype \<Rightarrow> bool" where
  "wf_type (GInt b) = (0 < b \<and> b \<le> 64)"
| "wf_type (GPtr t) = (wf_type t \<and> \<not> nilable t)"
| "wf_type (GSlice t) = wf_type t"
| "wf_type (GMap t) = wf_type t"
| "wf_type (GStruct pkg n fs) =
     (distinct (map fst fs) \<and> list_all (\<lambda>(f, e, t). valid_utf8 f \<and> wf_type t) fs)"
| "wf_type t = True"

definition exported :: "(string \<times> bool \<times> gotype) list \<Rightarrow> (string \<times> gotype) list" where
  "exported fs = concat (map (\<lambda>(f, e, t). if e then [(f, t)] else []) fs)"

fun wt :: "govalue \<Rightarrow> gotype \<Rightarrow> bool" where
  "wt (VString s) t = ((\<exists>n. t = GString n) \<and> valid_utf8 s)"
| "wt (VBool b) t = (t = GBool)"
| "wt (VInt i) t = (\<exists>b. t = GInt b \<and> - (2 ^ (b - 1)) \<le> i \<and> i < 2 ^ (b - 1))"
| "wt VNil t = nilable t"
| "wt (VPtr v) t = (\<exists>u. t = GPtr u \<and> wt v u)"
| "wt (VSlice vs) t = (\<exists>u. t = GSlice u \<and> (\<forall>v \<in> set vs. wt v u))"
| "wt (VMap m) t =
     (\<exists>u. t = GMap u \<and> gomap m \<and> sorted (map fst m) \<and> (\<forall>(k, v) \<in> set m. valid_utf8 k \<and> wt v u))"
| "wt (VStruct fv) t =
     (\<exists>pkg n fs. t = GStruct pkg n fs \<and>
        list_all2 (\<lambda>(k, v) (f, u). k = f \<and> wt v u) fv (exported fs))"

section \<open>Unmarshalling inverts marshalling\<close>

lemma zero_value_struct: "zero_value (GStruct pkg n fs) = VStruct (map (\<lambda>(f, t). (f, zero_value t)) (exported fs))"
  by (induction fs) (auto simp: exported_def)

lemma keys_exported: "f \<in> keys (exported fs) \<Longrightarrow> f \<in> keys fs"
  by (auto simp: exported_def split: if_splits) force+

lemma gomap_exported: "gomap fs \<Longrightarrow> gomap (exported fs)"
proof (induction fs)
  case (Cons a fs)
  then show ?case using keys_exported [of _ fs] by (cases a) (force simp: exported_def)
qed (simp add: exported_def)

lemma find_field_exported:
  assumes "gomap fs" and "(f, t) \<in> set (exported fs)"
  shows "find_field fs f = Some (f, t)"
proof -
  have "find (\<lambda>(g, e, u). e \<and> g = f) fs = Some (f, True, t)"
    using assms
  proof (induction fs)
    case (Cons a fs)
    obtain g e u where a: "a = (g, e, u)" by (cases a)
    show ?case
    proof (cases "e \<and> g = f")
      case True
      with Cons.prems a have "(f, t) \<notin> set (exported fs)"
        using keys_exported [of f fs] by force
      with Cons.prems a True show ?thesis by (auto simp: exported_def)
    next
      case False
      with Cons a show ?thesis by (auto simp: exported_def split: if_splits)
    qed
  qed (simp add: exported_def)
  then show ?thesis by (simp add: find_field_def)
qed

lemma update_append: "k \<notin> keys xs \<Longrightarrow> AList.update k v (xs @ ys) = xs @ AList.update k v ys"
  by (induction xs) auto

lemma dec_members_enc:
  assumes "list_all2 (\<lambda>(k, v) (f, u). k = f \<and> (\<forall>c. dec (enc v) c u (zero_value u) = Inr v)) fv es"
    and "gomap es" and "\<forall>(f, t) \<in> set es. find_field fs f = Some (f, t) \<and> valid_utf8 f"
    and "keys pre \<inter> keys es = {}"
  shows "dec_members (map (\<lambda>(k, v). (json_escape k, enc v)) fv) ctx nm fs
      (pre @ map (\<lambda>(f, t). (f, zero_value t)) es) = Inr (pre @ fv)"
  using assms
proof (induction fv es arbitrary: pre rule: list_all2_induct)
  case (Cons kv fv ft es)
  obtain k v where kv: "kv = (k, v)" by fastforce
  obtain t where ft: "ft = (k, t)" using Cons.hyps kv by fastforce
  let ?z = "map (\<lambda>(f, t). (f, zero_value t)) es"
  have k: "k \<notin> keys pre" using Cons.prems ft by auto
  then have "map_of pre k = None" by (simp add: map_of_eq_None_iff)
  then have m: "map_of (pre @ (k, zero_value t) # ?z) k = Some (zero_value t)"
    by (simp add: map_add_def)
  have "dec_members (map (\<lambda>(k, v). (json_escape k, enc v)) fv) ctx nm fs ((pre @ [(k, v)]) @ ?z) =
      Inr ((pre @ [(k, v)]) @ fv)"
    using Cons.prems ft by (intro Cons.IH) auto
  with Cons.hyps Cons.prems kv ft k m show ?case
    by (simp add: unquote_json_escape update_append)
qed simp

lemma dec_entries_enc:
  assumes "\<forall>(k, v) \<in> set m. valid_utf8 k \<and> dec (enc v) ctx u (zero_value u) = Inr v"
    and "gomap m" and "keys pre \<inter> keys m = {}"
  shows "dec_entries (map (\<lambda>(k, v). (json_escape k, enc v)) m) ctx u pre = Inr (pre @ m)"
  using assms
proof (induction m arbitrary: pre)
  case (Cons kv m)
  obtain k v where kv: "kv = (k, v)" by fastforce
  have k: "k \<notin> keys pre" using Cons.prems kv by auto
  have "dec_entries (map (\<lambda>(k, v). (json_escape k, enc v)) m) ctx u (pre @ [(k, v)]) = Inr ((pre @ [(k, v)]) @ m)"
    using Cons.prems kv by (intro Cons.IH) auto
  with Cons.prems kv k update_append [of k pre v "[]"] show ?case
    by (simp add: unquote_json_escape)
qed simp

lemma dec_elems_enc:
  "\<forall>v \<in> set vs. dec (enc v) ctx u (zero_value u) = Inr v \<Longrightarrow> dec_elems (map enc vs) ctx u [] = Inr vs"
  by (induction vs) simp_all

lemma dec_GPtr:
  "j \<noteq> JNull \<Longrightarrow> dec j ctx (GPtr u) VNil =
     (case dec j ctx u (zero_value u) of Inl e \<Rightarrow> Inl e | Inr w \<Rightarrow> Inr (VPtr w))"
  by (cases j) (auto simp: wrap_res_def split: sum.splits option.splits)

lemma enc_not_null: "wt v t \<Longrightarrow> \<not> nilable t \<Longrightarrow> enc v \<noteq> JNull"
  by (cases v) auto

lemma wf_type_base: "wf_type t \<Longrightarrow> \<not> nilable t \<Longrightarrow> base_type t = t"
  by (cases t) auto

lemma enc_map_sorted:
  "sorted (map fst m) \<Longrightarrow> enc (VMap m) = JObj (map (\<lambda>(k, v). (json_escape k, enc v)) m)"
  by (simp add: sort_key_id_if_sorted comp_def case_prod_unfold)

lemma dec_enc: "wt v t \<Longrightarrow> wf_type t \<Longrightarrow> dec (enc v) ctx t (zero_value t) = Inr v"
proof (induction v arbitrary: t ctx)
  case (VString s)
  then show ?case by (auto simp: unquote_json_escape)
next
  case (VInt i)
  then obtain b where t: "t = GInt b" "0 < b" "b \<le> 64" "- (2 ^ (b - 1)) \<le> i" "i < 2 ^ (b - 1)" by auto
  have "(2 :: int) ^ (b - 1) \<le> 2 ^ (64 - 1)" using t by (intro power_increasing) auto
  with t have "ParseInt 64 (Itoa i) = Inr i" by (intro ParseInt_Itoa) auto
  with t show ?case by (simp add: dec_num_def wrap_res_def)
next
  case VNil
  then show ?case by (cases t) auto
next
  case (VPtr v)
  then obtain u where t: "t = GPtr u" "wt v u" "wf_type u" "\<not> nilable u" by auto
  then have "dec (enc v) ctx u (zero_value u) = Inr v" using VPtr.IH by blast
  with t show ?case by (simp add: dec_GPtr enc_not_null)
next
  case (VSlice vs)
  then obtain u where t: "t = GSlice u" "\<forall>v \<in> set vs. wt v u" "wf_type u" by auto
  then have "\<forall>v \<in> set vs. dec (enc v) ctx u (zero_value u) = Inr v" using VSlice.IH by blast
  with t show ?case by (simp add: dec_elems_enc)
next
  case (VMap m)
  then obtain u where t: "t = GMap u" and m: "gomap m" "sorted (map fst m)"
    "\<forall>(k, v) \<in> set m. valid_utf8 k \<and> wt v u" "wf_type u" by auto
  have "\<forall>(k, v) \<in> set m. valid_utf8 k \<and> dec (enc v) ctx u (zero_value u) = Inr v"
    using VMap.IH m by fastforce
  then show ?case
    using m dec_entries_enc [of m ctx u "[]"] by (simp add: t enc_map_sorted sort_key_id_if_sorted del: enc.simps)
next
  case (VStruct fv)
  then obtain pkg n fs where t: "t = GStruct pkg n fs"
    and l: "list_all2 (\<lambda>(k, v) (f, u). k = f \<and> wt v u) fv (exported fs)" by auto
  from VStruct.prems t have g: "gomap fs" and w: "\<forall>(f, e, u) \<in> set fs. valid_utf8 f \<and> wf_type u"
    by (auto simp: list_all_iff)
  have w': "\<forall>(f, u) \<in> set (exported fs). valid_utf8 f \<and> wf_type u"
    using w by (auto simp: exported_def split: if_splits)
  have "list_all2 (\<lambda>(k, v) (f, u). k = f \<and> (\<forall>c. dec (enc v) c u (zero_value u) = Inr v)) fv (exported fs)"
    using l
  proof (rule list.rel_mono_strong)
    fix kv fu
    assume a: "kv \<in> set fv" "fu \<in> set (exported fs)" "(\<lambda>(k, v) (f, u). k = f \<and> wt v u) kv fu"
    then obtain k v u where e: "kv = (k, v)" "fu = (k, u)" "wt v u" by auto
    with a w' have "wf_type u" by auto
    with a e VStruct.IH [of kv v] have "\<forall>c. dec (enc v) c u (zero_value u) = Inr v" by simp
    with e show "(\<lambda>(k, v) (f, u). k = f \<and> (\<forall>c. dec (enc v) c u (zero_value u) = Inr v)) kv fu" by simp
  qed
  moreover have "\<forall>(f, u) \<in> set (exported fs). find_field fs f = Some (f, u) \<and> valid_utf8 f"
    using find_field_exported [OF g] w' by blast
  ultimately have "dec_members (map (\<lambda>(k, v). (json_escape k, enc v)) fv) ctx n fs
      ([] @ map (\<lambda>(f, t). (f, zero_value t)) (exported fs)) = Inr ([] @ fv)"
    by (intro dec_members_enc gomap_exported g) simp_all
  then show ?case unfolding t zero_value_struct by simp
qed auto

lemma dec_nat_head: "0 < n \<Longrightarrow> hd (dec_nat n) \<noteq> CHR ''0''"
proof (induction n rule: dec_nat.induct)
  case (1 n)
  show ?case
  proof (cases "n < 10")
    case True
    have "byte (digit_char n) \<noteq> byte CHR ''0''" using True 1 by simp
    then have "digit_char n \<noteq> CHR ''0''" by metis
    with True show ?thesis by (subst dec_nat.simps) simp
  next
    case False
    with 1 show ?thesis by (subst dec_nat.simps) simp
  qed
qed

lemma dec_nat_0: "dec_nat 0 = ''0''"
  by code_simp

lemma scan_unum_dec_nat: "scan_unum (dec_nat n) = Inr (dec_nat n, [])"
proof (cases "n = 0")
  case True
  then show ?thesis
    by (simp add: dec_nat_0 scan_unum_def scan_int_def scan_frac_def scan_exp_def pre_raw_def is_digit_def)
next
  case False
  obtain d ds where d: "dec_nat n = d # ds" by (cases "dec_nat n") auto
  have all: "is_digit d" "\<forall>c \<in> set ds. is_digit c" using dec_nat_digits [of n] d by (auto simp: list_all_iff)
  then have tw: "takeWhile is_digit ds = ds" "dropWhile is_digit ds = []" by auto
  from all False d dec_nat_head [of n] show ?thesis
    by (simp add: tw scan_unum_def scan_int_def scan_frac_def scan_exp_def pre_raw_def)
qed

lemma num_ok_Itoa [simp]: "num_ok (Itoa i)"
proof (cases "i < 0")
  case True
  then show ?thesis by (simp add: num_ok_def scan_num_def Itoa_def scan_unum_dec_nat pre_raw_def)
next
  case False
  then show ?thesis
    using hd_dec_nat_sign [of "nat i"] scan_unum_dec_nat [of "nat i"]
    by (cases "dec_nat (nat i)") (simp_all add: num_ok_def scan_num_def Itoa_def)
qed

lemma wf_json_enc [simp]: "wf_json (enc v)"
proof (induction v)
  case (VMap m)
  then show ?case by (force simp: list_all_iff)
next
  case (VStruct fs)
  then show ?case by (force simp: list_all_iff)
qed (auto simp: list_all_iff)

lemma html_json_enc [simp]: "html_json (enc v) = enc v"
proof (induction v)
  case (VMap m)
  then show ?case by (force intro!: map_idI)
next
  case (VStruct fs)
  then show ?case by (force intro!: map_idI)
qed (auto intro!: map_idI)

lemma Unmarshal_Marshal:
  assumes "wt v t" and "wf_type t" and "depth (enc v) \<le> maxNestingDepth"
  shows "Unmarshal t (zero_value t) (Marshal v) = Inr v"
  using assms by (simp add: Unmarshal_def Marshal_def json_parse_render dec_enc)

end
