(* ===== verification/Util.thy ===== *)
theory Util
  imports GoTypes
begin

text \<open>
  The package \<^verbatim>\<open>pkg/util\<close>: capacity conversion, the encoding of deletion parameters in tags, and
  the conversion between parameter maps and SDK structs through JSON.
\<close>

section \<open>Capacity\<close>

definition GiB :: int where
  "GiB = 1024 * 1024 * 1024"

definition BytesToGiB :: "64 word \<Rightarrow> goerr + 32 word" where
  "BytesToGiB volumeSizeBytes =
     (let volumeGiB = sint volumeSizeBytes sdiv GiB in
      if volumeGiB > 2 ^ 31 - 1
      then Inl (Errorf ''volume size %d would overflow int32'' [AInt volumeGiB])
      else Inr (word_of_int volumeGiB))"

definition GiBToBytes :: "32 word \<Rightarrow> 64 word" where
  "GiBToBytes volumeSizeGiB = word_of_int (sint volumeSizeGiB) * word_of_int GiB"

fun util_Contains :: "string list \<Rightarrow> string \<Rightarrow> bool" where
  "util_Contains [] element = False"
| "util_Contains (v # values) element = (if v = element then True else util_Contains values element)"

section \<open>Deletion tags\<close>

definition EncodeDeletionTag :: "string \<Rightarrow> string" where
  "EncodeDeletionTag input =
     (let input = ReplaceAll [CHR 0x22] '' @ '' input;
          input = ReplaceAll '','' '' . '' input;
          input = ReplaceAll ''['' '' - '' input;
          input = ReplaceAll '']'' '' _ '' input;
          input = ReplaceAll ''{'' '' + '' input;
          input = ReplaceAll ''}'' '' = '' input
      in input)"

definition DecodeDeletionTag :: "string \<Rightarrow> string" where
  "DecodeDeletionTag input =
     (let input = ReplaceAll '' @ '' [CHR 0x22] input;
          input = ReplaceAll '' . '' '','' input;
          input = ReplaceAll '' - '' ''['' input;
          input = ReplaceAll '' _ '' '']'' input;
          input = ReplaceAll '' + '' ''{'' input;
          input = ReplaceAll '' = '' ''}'' input
      in input)"

section \<open>Parameter maps and objects\<close>

datatype anyval = AnyInt int | AnyBool bool | AnyRaw string

definition any_of_string :: "string \<Rightarrow> anyval" where
  "any_of_string value =
     (case ParseInt 64 value of
        Inr i \<Rightarrow> AnyInt i
      | Inl e \<Rightarrow> (case ParseBool value of Some b \<Rightarrow> AnyBool b | None \<Rightarrow> AnyRaw value))"

definition ConvertStringMapToAny :: "params \<Rightarrow> (string \<times> anyval) list" where
  "ConvertStringMapToAny input = map (\<lambda>(key, value). (key, any_of_string value)) input"

text \<open>\<^verbatim>\<open>json.Marshal\<close> of an \<^verbatim>\<open>any\<close> that holds an int64, a bool or a \<^verbatim>\<open>json.RawMessage\<close>.\<close>

definition any_json :: "anyval \<Rightarrow> goerr + json" where
  "any_json v =
     (case v of
        AnyInt i \<Rightarrow> Inr (JNum (Itoa i))
      | AnyBool b \<Rightarrow> Inr (JBool b)
      | AnyRaw s \<Rightarrow>
          (case json_parse s of
             Inl m \<Rightarrow> Inl (MarshalerError (SyntaxError m))
           | Inr j \<Rightarrow> Inr (html_json j)))"

fun any_members :: "(string \<times> anyval) list \<Rightarrow> goerr + (string \<times> json) list" where
  "any_members [] = Inr []"
| "any_members ((k, v) # m) =
     (case any_json v of
        Inl e \<Rightarrow> Inl e
      | Inr j \<Rightarrow>
          (case any_members m of
             Inl e \<Rightarrow> Inl e
           | Inr ms \<Rightarrow> Inr ((json_escape k, j) # ms)))"

text \<open>\<^verbatim>\<open>ConvertObjectToJsonString\<close> on a \<^verbatim>\<open>map[string]any\<close> and on the values of the driver's other types.\<close>

definition ConvertMapToJsonString :: "(string \<times> anyval) list \<Rightarrow> goerr + string" where
  "ConvertMapToJsonString input =
     (case any_members (sort_key fst input) of Inl e \<Rightarrow> Inl e | Inr ms \<Rightarrow> Inr (render (JObj ms)))"

definition ConvertObjectToJsonString :: "govalue \<Rightarrow> goerr + string" where
  "ConvertObjectToJsonString input = Inr (Marshal input)"

definition ConvertJsonStringToObject :: "string \<Rightarrow> gotype \<Rightarrow> govalue \<Rightarrow> goerr + govalue" where
  "ConvertJsonStringToObject input t object =
     (if input = [] then Inr object else Unmarshal t object input)"

definition ConvertObjectType :: "(string \<times> anyval) list \<Rightarrow> gotype \<Rightarrow> govalue \<Rightarrow> goerr + govalue" where
  "ConvertObjectType from t to =
     (case ConvertMapToJsonString from of
        Inl e \<Rightarrow> Inl e
      | Inr fromString \<Rightarrow> ConvertJsonStringToObject fromString t to)"

definition raw_text :: "anyval \<Rightarrow> string" where
  "raw_text v = (case v of AnyRaw s \<Rightarrow> s | AnyInt i \<Rightarrow> Itoa i | AnyBool b \<Rightarrow> if b then ''true'' else ''false'')"

fun identifyImproperlyFormattedParameter :: "(string \<times> anyval) list \<Rightarrow> goerr" where
  "identifyImproperlyFormattedParameter [] =
     Errorf ''failed to parse parameter JSON, but could not determine which parameter could not be parsed'' []"
| "identifyImproperlyFormattedParameter ((key, v) # parameters) =
     (case ConvertMapToJsonString [(key, v)] of
        Inl err \<Rightarrow>
          Errorf ''failed to parse parameter key=%s, value=%s with error=%s''
            [AStr key, AStr (raw_text v), AErr err]
      | Inr s \<Rightarrow> identifyImproperlyFormattedParameter parameters)"

definition delete_fields :: "gotype \<Rightarrow> params \<Rightarrow> params" where
  "delete_fields t parameters = fold AList.delete (field_names t) parameters"

definition RemoveParametersAndPopulateObject ::
    "text_env \<Rightarrow> gotype \<Rightarrow> params \<Rightarrow> params \<times> (goerr + govalue)" where
  "RemoveParametersAndPopulateObject env config parameters =
     (let from = ConvertStringMapToAny parameters in
      case ConvertObjectType from config (zero_value config) of
        Inl err \<Rightarrow>
          if Contains (Error env err) ''error calling MarshalJSON''
          then (parameters, Inl (identifyImproperlyFormattedParameter from))
          else (delete_fields config parameters, Inl err)
      | Inr v \<Rightarrow> (delete_fields config parameters, Inr v))"

definition StrictRemoveParametersAndPopulateObject ::
    "text_env \<Rightarrow> gotype \<Rightarrow> params \<Rightarrow> params \<times> (goerr + govalue)" where
  "StrictRemoveParametersAndPopulateObject env config parameters =
     (case RemoveParametersAndPopulateObject env config parameters of
        (parameters', Inl err) \<Rightarrow> (parameters', Inl err)
      | (parameters', Inr v) \<Rightarrow>
          if parameters' \<noteq> []
          then (parameters', Inl (Errorf ''expected no unknown fields, instead had the following: %s'' [AMap parameters']))
          else (parameters', Inr v))"

definition ReplaceParametersAndPopulateObject ::
    "text_env \<Rightarrow> string \<Rightarrow> gotype \<Rightarrow> params \<Rightarrow> params \<times> (goerr + govalue)" where
  "ReplaceParametersAndPopulateObject env newKey config parameters =
     (case RemoveParametersAndPopulateObject env config parameters of
        (parameters', Inl err) \<Rightarrow> (parameters', Inl err)
      | (parameters', Inr v) \<Rightarrow>
          (case ConvertObjectToJsonString v of
             Inl err \<Rightarrow> (parameters', Inl err)
           | Inr configJsonString \<Rightarrow> (AList.update newKey configJsonString parameters', Inr v)))"

fun map_copy_loop :: "params \<Rightarrow> params \<Rightarrow> params" where
  "map_copy_loop newMap [] = newMap"
| "map_copy_loop newMap ((key, value) # oldMap) = map_copy_loop (AList.update key value newMap) oldMap"

definition MapCopy :: "params \<Rightarrow> params" where
  "MapCopy oldMap = map_copy_loop [] oldMap"

section \<open>Capacity: exactness and bounds\<close>

lemma GiBToBytes_exact: "sint (GiBToBytes g) = sint g * GiB"
proof -
  have r: "- (2 ^ 31) \<le> sint g \<and> sint g < 2 ^ 31"
    using sint_greater_eq [of g] sint_less [of g] by simp
  then have "- (2 ^ 63) \<le> sint g * GiB \<and> sint g * GiB < 2 ^ 63"
    by (auto simp: GiB_def)
  then show ?thesis
    unfolding GiBToBytes_def wi_hom_mult sint_sbintrunc' by (intro signed_take_bit_int_eq_self) auto
qed

lemma sdiv_nonneg: "0 \<le> (a :: int) \<Longrightarrow> 0 < b \<Longrightarrow> a sdiv b = a div b"
  by (simp add: signed_divide_int_def sgn_if)

lemma sint_word_of_int32: "- (2 ^ 31) \<le> i \<Longrightarrow> i < 2 ^ 31 \<Longrightarrow> sint (word_of_int i :: 32 word) = i"
  unfolding sint_sbintrunc' by (intro signed_take_bit_int_eq_self) auto

text \<open>Converting to bytes and back is the identity on every capacity, and never overflows.\<close>

lemma BytesToGiB_GiBToBytes: "BytesToGiB (GiBToBytes g) = Inr g"
proof -
  have "sint (GiBToBytes g) sdiv GiB = sint g"
    by (simp add: GiBToBytes_exact signed_divide_int_def GiB_def sgn_mult abs_mult mult_sgn_abs)
  moreover have "sint g \<le> 2 ^ 31 - 1" using sint_less [of g] by simp
  ultimately show ?thesis by (simp add: BytesToGiB_def)
qed

lemma BytesToGiB_nonneg:
  assumes "0 \<le> sint b"
  shows "case BytesToGiB b of
      Inr g \<Rightarrow> sint b < 2 ^ 31 * GiB \<and> 0 \<le> sint g \<and> sint g * GiB \<le> sint b \<and> sint b < (sint g + 1) * GiB
    | Inl e \<Rightarrow> 2 ^ 31 * GiB \<le> sint b"
proof -
  let ?q = "sint b div GiB"
  have q: "sint b sdiv GiB = ?q" using assms by (intro sdiv_nonneg) (simp_all add: GiB_def)
  have b: "?q * GiB \<le> sint b" "sint b < (?q + 1) * GiB" "0 \<le> ?q"
    using assms by (auto simp: GiB_def)
  show ?thesis
  proof (cases "?q > 2 ^ 31 - 1")
    case True
    then have "2 ^ 31 * GiB \<le> sint b" by (simp add: GiB_def)
    with True show ?thesis by (simp add: BytesToGiB_def q)
  next
    case False
    then have "sint (word_of_int ?q :: 32 word) = ?q"
      using b(3) by (intro sint_word_of_int32) simp_all
    moreover have "sint b < 2 ^ 31 * GiB" using False by (simp add: GiB_def)
    ultimately show ?thesis using False b by (simp add: BytesToGiB_def q)
  qed
qed

section \<open>Deletion tags: round trip\<close>

definition tag_code :: "char \<Rightarrow> char option" where
  "tag_code c =
     map_of [(CHR 0x22, CHR ''@''), (CHR '','', CHR ''.''), (CHR ''['', CHR ''-''),
             (CHR '']'', CHR ''_''), (CHR ''{'', CHR ''+''), (CHR ''}'', CHR ''='')] c"

definition is_code :: "char \<Rightarrow> bool" where
  "is_code c = List.member ''@.-_+='' c"

definition is_gap :: "char \<Rightarrow> bool" where
  "is_gap c = (c = CHR '' '' \<or> tag_code c \<noteq> None)"

text \<open>
  Values the tag encoding keeps: no code letter stands by itself between two gaps, where a gap is
  a blank or a character that is encoded. Every JSON list of FSx enum names is such a value.
\<close>

fun tag_safe :: "string \<Rightarrow> bool" where
  "tag_safe (a # b # c # s) = (\<not> (is_gap a \<and> is_code b \<and> is_gap c) \<and> tag_safe (b # c # s))"
| "tag_safe s = True"

text \<open>The text between the passes of \<open>DecodeDeletionTag\<close>: the characters in \<open>D\<close> are decoded already.\<close>

definition tag_text :: "char set \<Rightarrow> string \<Rightarrow> string" where
  "tag_text D s =
     concat (map (\<lambda>c. case tag_code c of
        Some x \<Rightarrow> if c \<in> D then [c] else [CHR '' '', x, CHR '' '']
      | None \<Rightarrow> [c]) s)"

lemma ReplaceAll_char: "ReplaceAll [c] new s = concat (map (\<lambda>x. if x = c then new else [x]) s)"
proof (induction s)
  case (Cons x s)
  show ?case
  proof (cases "x = c")
    case True
    with Cons ReplaceAll_match [of "[c]" new s] show ?thesis by simp
  next
    case False
    with Cons show ?thesis by (simp add: ReplaceAll_skip HasPrefix_def)
  qed
qed simp

lemma EncodeDeletionTag_text: "EncodeDeletionTag s = tag_text {} s"
  unfolding EncodeDeletionTag_def Let_def ReplaceAll_char tag_text_def
  by (induction s) (auto simp: tag_code_def)

lemma tag_text_all: "(\<And>c x. tag_code c = Some x \<Longrightarrow> c \<in> D) \<Longrightarrow> tag_text D s = s"
  by (induction s) (auto simp: tag_text_def split: option.splits)

lemma tag_code_is_code: "tag_code c = Some x \<Longrightarrow> is_code x \<and> x \<noteq> CHR '' '' \<and> c \<noteq> CHR '' '' \<and> tag_code x = None"
  by (auto simp: tag_code_def is_code_def split: if_splits)

lemma tag_code_inj: "tag_code c = Some x \<Longrightarrow> tag_code d = Some x \<Longrightarrow> c = d"
  by (auto simp: tag_code_def split: if_splits)

lemma tag_text_Cons:
  "tag_text D (c # s) =
     (case tag_code c of Some x \<Rightarrow> if c \<in> D then [c] else [CHR '' '', x, CHR '' ''] | None \<Rightarrow> [c]) @ tag_text D s"
  by (simp add: tag_text_def)

lemma tag_text_start:
  assumes "HasPrefix (tag_text D s) [x, CHR '' '']" and "is_code x"
  shows "\<exists>c s'. s = x # c # s' \<and> is_gap c"
proof (cases s)
  case Nil
  with assms(1) show ?thesis by (simp add: HasPrefix_def tag_text_def)
next
  case (Cons a s1)
  have x: "x \<noteq> CHR '' ''" "tag_code x = None" using assms(2) by (auto simp: is_code_def tag_code_def)
  with Cons assms(1) have a: "a = x" and t: "take 1 (tag_text D s1) = [CHR '' '']"
    by (auto simp: HasPrefix_def tag_text_Cons split: option.splits if_splits)
  then obtain c s2 where s1: "s1 = c # s2" by (cases s1) (auto simp: tag_text_def)
  with t have "is_gap c" by (auto simp: is_gap_def tag_text_Cons split: option.splits)
  with a s1 Cons show ?thesis by blast
qed

lemma tag_safe_tl: "tag_safe (a # s) \<Longrightarrow> tag_safe s"
  by (cases s rule: tag_safe.cases) auto

lemma tag_safe_gap:
  assumes "tag_safe (a # s)" and "is_gap a" and "is_code x"
  shows "\<not> HasPrefix (tag_text D s) [x, CHR '' '']"
proof
  assume "HasPrefix (tag_text D s) [x, CHR '' '']"
  from tag_text_start [OF this assms(3)] obtain c s' where "s = x # c # s'" "is_gap c" by blast
  with assms show False by simp
qed

lemma decode_pass:
  assumes "tag_code c = Some x" and "c \<notin> D"
  shows "tag_safe s \<Longrightarrow> ReplaceAll [CHR '' '', x, CHR '' ''] [c] (tag_text D s) = tag_text (insert c D) s"
proof (induction s)
  case Nil
  show ?case by (simp add: tag_text_def)
next
  case (Cons a s)
  let ?old = "[CHR '' '', x, CHR '' '']"
  from Cons have IH: "ReplaceAll ?old [c] (tag_text D s) = tag_text (insert c D) s"
    using tag_safe_tl by blast
  have gap: "is_gap a \<Longrightarrow> \<not> HasPrefix (CHR '' '' # tag_text D s) ?old"
    using tag_safe_gap [OF Cons.prems, of x D] tag_code_is_code [OF assms(1)] by (simp add: HasPrefix_def)
  show ?case
  proof (cases "tag_code a")
    case None
    have "\<not> HasPrefix (a # tag_text D s) ?old"
      using gap by (cases "a = CHR '' ''") (auto simp: HasPrefix_def is_gap_def)
    with None IH show ?thesis by (simp add: tag_text_Cons ReplaceAll_skip)
  next
    case (Some y)
    note y = tag_code_is_code [OF Some]
    consider "a = c" | "a \<noteq> c" "a \<in> D" | "a \<noteq> c" "a \<notin> D" by blast
    then show ?thesis
    proof cases
      case 1
      with assms Some IH ReplaceAll_match [of ?old "[c]"] show ?thesis by (simp add: tag_text_Cons)
    next
      case 2
      with y Some IH show ?thesis by (simp add: tag_text_Cons ReplaceAll_skip HasPrefix_def)
    next
      case 3
      have yx: "y \<noteq> x" using 3 Some assms(1) tag_code_inj by blast
      have "\<not> HasPrefix (CHR '' '' # tag_text D s) ?old" using gap Some by (simp add: is_gap_def)
      with 3 Some y yx IH show ?thesis by (simp add: tag_text_Cons ReplaceAll_skip HasPrefix_def)
    qed
  qed
qed

lemma DecodeDeletionTag_text:
  assumes "tag_safe s" shows "DecodeDeletionTag (tag_text {} s) = s"
proof -
  have c: "tag_code CHR 0x22 = Some CHR ''@''" "tag_code CHR '','' = Some CHR ''.''"
    "tag_code CHR ''['' = Some CHR ''-''" "tag_code CHR '']'' = Some CHR ''_''"
    "tag_code CHR ''{'' = Some CHR ''+''" "tag_code CHR ''}'' = Some CHR ''=''"
    by (simp_all add: tag_code_def)
  have "DecodeDeletionTag (tag_text {} s) =
      tag_text {CHR ''}'', CHR ''{'', CHR '']'', CHR ''['', CHR '','', CHR 0x22} s"
    unfolding DecodeDeletionTag_def Let_def using assms
    by (simp add: decode_pass [OF c(1)] decode_pass [OF c(2)] decode_pass [OF c(3)]
        decode_pass [OF c(4)] decode_pass [OF c(5)] decode_pass [OF c(6)])
  also have "\<dots> = s"
    by (rule tag_text_all) (auto simp: tag_code_def split: if_splits)
  finally show ?thesis .
qed

lemma Decode_Encode: "tag_safe s \<Longrightarrow> DecodeDeletionTag (EncodeDeletionTag s) = s"
  by (simp add: EncodeDeletionTag_text DecodeDeletionTag_text)

text \<open>Such a value is also kept when it is stored without being encoded.\<close>

lemma ReplaceAll_tag_safe:
  assumes "is_code x"
  shows "tag_safe s \<Longrightarrow> ReplaceAll [CHR '' '', x, CHR '' ''] new s = s"
proof (induction s rule: tag_safe.induct)
  case (1 a b c s)
  then have "\<not> HasPrefix (a # b # c # s) [CHR '' '', x, CHR '' '']"
    using assms by (auto simp: HasPrefix_def is_gap_def)
  with 1 show ?case by (simp add: ReplaceAll_skip)
qed (auto simp: ReplaceAll_skip HasPrefix_def)

lemma Decode_unencoded: "tag_safe s \<Longrightarrow> DecodeDeletionTag s = s"
  by (simp add: DecodeDeletionTag_def Let_def ReplaceAll_tag_safe is_code_def)

text \<open>No decoded value has a code letter between two blanks.\<close>

lemma Decode_no_code:
  assumes "is_code x" shows "\<not> Contains (DecodeDeletionTag t) [CHR '' '', x, CHR '' '']"
proof -
  define r where "r = (\<lambda>y c s. ReplaceAll [CHR '' '', y, CHR '' ''] [c] s)"
  have keep: "\<not> Contains s [CHR '' '', x, CHR '' ''] \<Longrightarrow> \<not> Contains (r y c s) [CHR '' '', x, CHR '' '']"
    if "c \<noteq> CHR '' ''" "c \<noteq> x" for y c s
    using ReplaceAll_Contains [of _ c s "[CHR '' '', x, CHR '' '']"] that by (auto simp: r_def)
  have gone: "\<not> Contains (r x c s) [CHR '' '', x, CHR '' '']" if "c \<noteq> CHR '' ''" "c \<noteq> x" for c s
    using ReplaceAll_removes [of "[CHR '' '', x, CHR '' '']" c s] that by (auto simp: r_def)
  have d: "DecodeDeletionTag t = r CHR ''='' CHR ''}'' (r CHR ''+'' CHR ''{'' (r CHR ''_'' CHR '']''
      (r CHR ''-'' CHR ''['' (r CHR ''.'' CHR '','' (r CHR ''@'' CHR 0x22 t)))))"
    by (simp add: DecodeDeletionTag_def r_def)
  from assms consider "x = CHR ''@''" | "x = CHR ''.''" | "x = CHR ''-''" | "x = CHR ''_''" | "x = CHR ''+''" | "x = CHR ''=''"
    by (auto simp: is_code_def)
  then show ?thesis unfolding d by cases (use gone keep in auto)
qed

end
