(* ===== verification/Cloud.thy ===== *)
theory Cloud
  imports Util
begin

text \<open>
  The package \<^verbatim>\<open>pkg/cloud\<close>: the layer between the CSI handlers and the FSx API. The AWS SDK is
  third-party. Its client is a record of operations on an abstract world \<open>'w\<close>, its structs are
  type descriptors, its client-side validators and \<^verbatim>\<open>wait.Poll\<close> are functions, all arguments of
  the definitions. A pointer is an option; a nil dereference is the result \<open>Panic\<close>.
\<close>

section \<open>Data of the SDK that the driver reads\<close>

record sdk_TargetVolumeConfiguration =
  tv_StorageCapacityQuotaGiB :: "32 word option"
  tv_StorageCapacityReservationGiB :: "32 word option"

record sdk_AdministrativeAction =
  aa_AdministrativeActionType :: string
  aa_Status :: string
  aa_TargetFileSystemValues :: "32 word option option"
  aa_TargetVolumeValues :: "sdk_TargetVolumeConfiguration option option"
  aa_FailureDetails :: "string option option"

text \<open>
  \<open>aa_TargetFileSystemValues\<close> is the pointer to the target file system, of which only
  \<^verbatim>\<open>StorageCapacity\<close> is read; \<open>aa_TargetVolumeValues\<close> the pointer to the target volume, of which
  only \<^verbatim>\<open>OpenZFSConfiguration\<close> is read; \<open>aa_FailureDetails\<close> the pointer to a struct with \<^verbatim>\<open>Message\<close>.
\<close>

record sdk_FileSystem =
  sfs_DNSName :: "string option"
  sfs_FileSystemId :: "string option"
  sfs_StorageCapacity :: "32 word option"
  sfs_StorageType :: string
  sfs_ResourceARN :: "string option"
  sfs_Lifecycle :: string
  sfs_AdministrativeActions :: "sdk_AdministrativeAction list"
  sfs_RootVolumeId :: "string option option"

record sdk_Volume =
  sv_FileSystemId :: "string option"
  sv_VolumeId :: "string option"
  sv_VolumePath :: "string option option"
  sv_ResourceARN :: "string option"
  sv_Lifecycle :: string
  sv_AdministrativeActions :: "sdk_AdministrativeAction list"

text \<open>
  \<open>sfs_RootVolumeId\<close> and \<open>sv_VolumePath\<close> are read through the pointer \<^verbatim>\<open>OpenZFSConfiguration\<close>: the
  outer option is that pointer, the inner one the pointer field.
\<close>

record sdk_Snapshot =
  ss_SnapshotId :: "string option"
  ss_VolumeId :: "string option"
  ss_ResourceARN :: "string option"
  ss_CreationTime :: "int option"
  ss_Lifecycle :: string

record sdk_Tag =
  tag_Key :: "string option"
  tag_Value :: "string option"

record 'w FSx =
  fsx_CreateFileSystem :: "govalue \<Rightarrow> ('w, sdk_FileSystem option option) go"
  fsx_UpdateFileSystem :: "string \<Rightarrow> 32 word \<Rightarrow> ('w, unit) go"
  fsx_DeleteFileSystem :: "govalue \<Rightarrow> ('w, unit) go"
  fsx_DescribeFileSystems :: "string list \<Rightarrow> ('w, sdk_FileSystem list option) go"
  fsx_CreateVolume :: "govalue \<Rightarrow> ('w, sdk_Volume option option) go"
  fsx_DeleteVolume :: "govalue \<Rightarrow> ('w, unit) go"
  fsx_DescribeVolumes :: "string list \<Rightarrow> ('w, sdk_Volume list option) go"
  fsx_CreateSnapshot :: "govalue \<Rightarrow> ('w, sdk_Snapshot option option) go"
  fsx_DeleteSnapshot :: "govalue \<Rightarrow> ('w, unit) go"
  fsx_DescribeSnapshots :: "string list \<Rightarrow> ('w, sdk_Snapshot list option) go"
  fsx_ListTagsForResource :: "string \<Rightarrow> ('w, sdk_Tag list option) go"

text \<open>
  What the driver takes from the SDK and from \<^verbatim>\<open>k8s.io/apimachinery/pkg/util/wait\<close>: the types and
  validators, which need no world, and the client and \<^verbatim>\<open>wait.Poll\<close>.
\<close>

record sdk_types =
  sdk_env :: text_env
  CreateFileSystemInput :: gotype
  DeleteFileSystemInput :: gotype
  CreateVolumeInput :: gotype
  DeleteVolumeInput :: gotype
  CreateSnapshotInput :: gotype
  DeleteSnapshotInput :: gotype
  CreateFileSystemOpenZFSConfiguration :: gotype
  DeleteFileSystemOpenZFSConfiguration :: gotype
  CreateOpenZFSVolumeConfiguration :: gotype
  DeleteVolumeOpenZFSConfiguration :: gotype
  validateDeleteFileSystemInput :: "govalue \<Rightarrow> goerr option"
  validateDeleteVolumeInput :: "govalue \<Rightarrow> goerr option"

record 'w sdk = sdk_types +
  sdk_fsx :: "'w FSx"
  sdk_Poll :: "int \<Rightarrow> int \<Rightarrow> ('w, bool) go \<Rightarrow> ('w, unit) go"

section \<open>Data of the package\<close>

record FileSystem =
  fs_DnsName :: string
  fs_FileSystemId :: string
  fs_StorageCapacity :: "32 word"
  fs_StorageType :: string

record Volume =
  vol_FileSystemId :: string
  vol_VolumeId :: string
  vol_VolumePath :: string

record Snapshot =
  snap_SnapshotID :: string
  snap_SourceVolumeID :: string
  snap_ResourceARN :: string
  snap_CreationTime :: int

definition FilesystemPrefix :: string where "FilesystemPrefix = ''fs''"

definition VolumePrefix :: string where "VolumePrefix = ''fsvol''"

text \<open>Durations in nanoseconds.\<close>

definition PollCheckInterval :: int where "PollCheckInterval = 15 * 10 ^ 9"

definition PollCheckTimeout :: int where "PollCheckTimeout = 15 * 60 * 10 ^ 9"

text \<open>\<^verbatim>\<open>aws.ToString\<close>, \<^verbatim>\<open>aws.ToInt32\<close> and \<^verbatim>\<open>aws.ToTime\<close>: the zero value for nil.\<close>

definition ToString :: "string option \<Rightarrow> string" where
  "ToString p = (case p of None \<Rightarrow> [] | Some s \<Rightarrow> s)"

definition ToInt32 :: "32 word option \<Rightarrow> 32 word" where
  "ToInt32 p = (case p of None \<Rightarrow> 0 | Some s \<Rightarrow> s)"

definition ToTime :: "int option \<Rightarrow> int" where
  "ToTime p = (case p of None \<Rightarrow> 0 | Some s \<Rightarrow> s)"

text \<open>The string behind a pointer field of an input struct.\<close>

definition string_field :: "govalue \<Rightarrow> string \<Rightarrow> string option" where
  "string_field v f =
     (case v of
        VStruct fs \<Rightarrow> (case map_of fs f of Some (VPtr (VString s)) \<Rightarrow> Some s | _ \<Rightarrow> None)
      | _ \<Rightarrow> None)"

definition volume_prefix :: "string \<Rightarrow> string" where
  "volume_prefix volumeId = hd (SplitN2 CHR ''-'' volumeId)"

section \<open>Collapsing and validating parameters\<close>

definition CollapseCreateFileSystemParameters :: "'z sdk_types_scheme \<Rightarrow> params \<Rightarrow> params \<times> (goerr + govalue)" where
  "CollapseCreateFileSystemParameters k parameters =
     ReplaceParametersAndPopulateObject (sdk_env k) ''OpenZFSConfiguration''
       (CreateFileSystemOpenZFSConfiguration k) parameters"

definition CollapseDeleteFileSystemParameters :: "'z sdk_types_scheme \<Rightarrow> params \<Rightarrow> params \<times> (goerr + govalue)" where
  "CollapseDeleteFileSystemParameters k parameters =
     ReplaceParametersAndPopulateObject (sdk_env k) ''OpenZFSConfiguration''
       (DeleteFileSystemOpenZFSConfiguration k) parameters"

definition CollapseCreateVolumeParameters :: "'z sdk_types_scheme \<Rightarrow> params \<Rightarrow> params \<times> (goerr + govalue)" where
  "CollapseCreateVolumeParameters k parameters =
     ReplaceParametersAndPopulateObject (sdk_env k) ''OpenZFSConfiguration''
       (CreateOpenZFSVolumeConfiguration k) parameters"

definition CollapseDeleteVolumeParameters :: "'z sdk_types_scheme \<Rightarrow> params \<Rightarrow> params \<times> (goerr + govalue)" where
  "CollapseDeleteVolumeParameters k parameters =
     ReplaceParametersAndPopulateObject (sdk_env k) ''OpenZFSConfiguration''
       (DeleteVolumeOpenZFSConfiguration k) parameters"

definition ValidateDeleteFileSystemParameters :: "'z sdk_types_scheme \<Rightarrow> params \<Rightarrow> goerr option" where
  "ValidateDeleteFileSystemParameters k parameters =
     (case StrictRemoveParametersAndPopulateObject (sdk_env k) (DeleteFileSystemInput k) parameters of
        (parameters', Inl err) \<Rightarrow> Some err
      | (parameters', Inr config) \<Rightarrow> validateDeleteFileSystemInput k config)"

definition ValidateDeleteVolumeParameters :: "'z sdk_types_scheme \<Rightarrow> params \<Rightarrow> goerr option" where
  "ValidateDeleteVolumeParameters k parameters =
     (case StrictRemoveParametersAndPopulateObject (sdk_env k) (DeleteVolumeInput k) parameters of
        (parameters', Inl err) \<Rightarrow> Some err
      | (parameters', Inr config) \<Rightarrow> validateDeleteVolumeInput k config)"

section \<open>Describing one resource\<close>

text \<open>The body shared by the three getters after a successful call: exactly one result.\<close>

definition single :: "'a list option \<Rightarrow> ('w, 'a) go" where
  "single output = deref output (\<lambda>xs.
     case xs of [] \<Rightarrow> ret (Err ErrNotFound) | [x] \<Rightarrow> ret (Ok x) | _ \<Rightarrow> ret (Err ErrMultipleFound))"

definition getFileSystem :: "'w sdk \<Rightarrow> string \<Rightarrow> ('w, sdk_FileSystem) go" where
  "getFileSystem k fileSystemId =
     check (fsx_DescribeFileSystems (sdk_fsx k) [fileSystemId]) id single"

definition getVolume :: "'w sdk \<Rightarrow> string \<Rightarrow> ('w, sdk_Volume) go" where
  "getVolume k volumeId = check (fsx_DescribeVolumes (sdk_fsx k) [volumeId]) id single"

definition getSnapshot :: "'w sdk \<Rightarrow> string \<Rightarrow> ('w, sdk_Snapshot) go" where
  "getSnapshot k snapshotId = check (fsx_DescribeSnapshots (sdk_fsx k) [snapshotId]) id single"

definition getTagsForResource :: "'w sdk \<Rightarrow> string \<Rightarrow> ('w, sdk_Tag list) go" where
  "getTagsForResource k resourceARN =
     check (fsx_ListTagsForResource (sdk_fsx k) resourceARN) id
       (\<lambda>output. deref output (\<lambda>tags. ret (Ok tags)))"

section \<open>Administrative actions\<close>

fun find_filesystem_update :: "32 word \<Rightarrow> sdk_AdministrativeAction list \<Rightarrow> sdk_AdministrativeAction option res" where
  "find_filesystem_update resizeGiB [] = Ok None"
| "find_filesystem_update resizeGiB (action # actions) =
     (if aa_AdministrativeActionType action = ''FILE_SYSTEM_UPDATE''
      then (case aa_TargetFileSystemValues action of
              None \<Rightarrow> Panic
            | Some capacity \<Rightarrow>
                if capacity = Some resizeGiB then Ok (Some action)
                else find_filesystem_update resizeGiB actions)
      else find_filesystem_update resizeGiB actions)"

fun find_volume_update :: "32 word \<Rightarrow> sdk_AdministrativeAction list \<Rightarrow> sdk_AdministrativeAction option res" where
  "find_volume_update resizeGiB [] = Ok None"
| "find_volume_update resizeGiB (action # actions) =
     (if aa_AdministrativeActionType action = ''VOLUME_UPDATE''
      then (case aa_TargetVolumeValues action of
              None \<Rightarrow> Panic
            | Some config \<Rightarrow>
                if config \<noteq> None
                  \<and> tv_StorageCapacityQuotaGiB (the config) = Some resizeGiB
                  \<and> tv_StorageCapacityReservationGiB (the config) = Some resizeGiB
                then Ok (Some action)
                else find_volume_update resizeGiB actions)
      else find_volume_update resizeGiB actions)"

definition getUpdateResizeFilesystemAdministrativeAction ::
    "'w sdk \<Rightarrow> string \<Rightarrow> 32 word \<Rightarrow> ('w, sdk_AdministrativeAction) go" where
  "getUpdateResizeFilesystemAdministrativeAction k fileSystemId resizeGiB =
     check (getFileSystem k fileSystemId) (\<lambda>err. Errorf ''DescribeFileSystems failed: %v'' [AErr err])
       (\<lambda>fs. if sfs_AdministrativeActions fs = []
          then ret (Err (Errorf ''there is no update on filesystem %s'' [AStr fileSystemId]))
          else check (ret (find_filesystem_update resizeGiB (sfs_AdministrativeActions fs))) id
            (\<lambda>found. case found of
               Some action \<Rightarrow> ret (Ok action)
             | None \<Rightarrow> ret (Err (Errorf ''there is no update with storage capacity of %d GiB on filesystem %s''
                 [AInt (sint resizeGiB), AStr fileSystemId]))))"

definition getUpdateResizeVolumeAdministrativeAction ::
    "'w sdk \<Rightarrow> string \<Rightarrow> 32 word \<Rightarrow> ('w, sdk_AdministrativeAction) go" where
  "getUpdateResizeVolumeAdministrativeAction k volumeId resizeGiB =
     check (getVolume k volumeId) (\<lambda>err. Errorf ''DescribeVolumes failed: %v'' [AErr err])
       (\<lambda>v. if sv_AdministrativeActions v = []
          then ret (Err (Errorf ''there is no update on volume %s'' [AStr volumeId]))
          else check (ret (find_volume_update resizeGiB (sv_AdministrativeActions v))) id
            (\<lambda>found. case found of
               Some action \<Rightarrow> ret (Ok action)
             | None \<Rightarrow> ret (Err (Errorf ''there is no update with storage capacity of %d GiB on volume %s''
                 [AInt (sint resizeGiB), AStr volumeId]))))"

section \<open>File systems\<close>

definition to_FileSystem :: "sdk_FileSystem \<Rightarrow> FileSystem" where
  "to_FileSystem fs =
     \<lparr>fs_DnsName = ToString (sfs_DNSName fs), fs_FileSystemId = ToString (sfs_FileSystemId fs),
      fs_StorageCapacity = ToInt32 (sfs_StorageCapacity fs), fs_StorageType = sfs_StorageType fs\<rparr>"

definition cloud_CreateFileSystem :: "'w sdk \<Rightarrow> params \<Rightarrow> ('w, FileSystem option) go" where
  "cloud_CreateFileSystem k parameters =
     (case StrictRemoveParametersAndPopulateObject (sdk_env k) (CreateFileSystemInput k) parameters of
        (parameters', Inl err) \<Rightarrow> ret (Err err)
      | (parameters', Inr input) \<Rightarrow>
          check (fsx_CreateFileSystem (sdk_fsx k) input)
            (\<lambda>err. if is_sdk IncompatibleParameterError err then ErrAlreadyExists else err)
            (\<lambda>output. deref output (\<lambda>o1. deref o1 (\<lambda>fs. ret (Ok (Some (to_FileSystem fs)))))))"

definition update_in_progress_msg :: string where
  "update_in_progress_msg =
     ''Unable to perform the storage capacity update. There is an update already in progress.''"

definition cloud_ResizeFileSystem :: "'w sdk \<Rightarrow> string \<Rightarrow> 32 word \<Rightarrow> ('w, 32 word option) go" where
  "cloud_ResizeFileSystem k fileSystemId newSizeGiB =
     invoke (fsx_UpdateFileSystem (sdk_fsx k) fileSystemId newSizeGiB) (\<lambda>r.
       case r of
         Inr _ \<Rightarrow> ret (Ok (Some newSizeGiB))
       | Inl err \<Rightarrow>
           if as_sdk err = Some (BadRequest, update_in_progress_msg)
           then check (getUpdateResizeFilesystemAdministrativeAction k fileSystemId newSizeGiB) id
                  (\<lambda>_. ret (Ok (Some newSizeGiB)))
           else ret (Err (Errorf ''UpdateFileSystem failed: %v'' [AErr err])))"

definition cloud_DeleteFileSystem :: "'w sdk \<Rightarrow> params \<Rightarrow> ('w, unit) go" where
  "cloud_DeleteFileSystem k parameters =
     (case RemoveParametersAndPopulateObject (sdk_env k) (DeleteFileSystemInput k) parameters of
        (parameters', Inl err) \<Rightarrow> ret (Err err)
      | (parameters', Inr input) \<Rightarrow>
          check (fsx_DeleteFileSystem (sdk_fsx k) input)
            (\<lambda>err. if is_sdk FileSystemNotFound err then ErrNotFound else err)
            (\<lambda>_. ret (Ok ())))"

definition cloud_DescribeFileSystem :: "'w sdk \<Rightarrow> string \<Rightarrow> ('w, FileSystem option) go" where
  "cloud_DescribeFileSystem k fileSystemId =
     check (getFileSystem k fileSystemId) id (\<lambda>fs. ret (Ok (Some (to_FileSystem fs))))"

text \<open>The condition functions given to \<^verbatim>\<open>wait.Poll\<close>: an error, or whether the wait is over.\<close>

definition filesystem_available :: "'w sdk \<Rightarrow> string \<Rightarrow> ('w, bool) go" where
  "filesystem_available k fileSystemId =
     check (getFileSystem k fileSystemId) id (\<lambda>fs.
       if sfs_Lifecycle fs = ''AVAILABLE'' then ret (Ok True)
       else if sfs_Lifecycle fs = ''CREATING'' then ret (Ok False)
       else ret (Err (Errorf ''unexpected state for filesystem %s: %q''
              [AStr fileSystemId, AStr (sfs_Lifecycle fs)])))"

definition cloud_WaitForFileSystemAvailable :: "'w sdk \<Rightarrow> string \<Rightarrow> ('w, unit) go" where
  "cloud_WaitForFileSystemAvailable k fileSystemId =
     sdk_Poll k PollCheckInterval PollCheckTimeout (filesystem_available k fileSystemId)"

text \<open>The \<^verbatim>\<open>switch\<close> on the status of an update, shared by the two resize waits.\<close>

definition update_done :: "string \<Rightarrow> string \<Rightarrow> sdk_AdministrativeAction \<Rightarrow> ('w, bool) go" where
  "update_done fmt resourceId updateAction =
     (if aa_Status updateAction = ''PENDING'' \<or> aa_Status updateAction = ''IN_PROGRESS'' then ret (Ok False)
      else if aa_Status updateAction = ''UPDATED_OPTIMIZING'' \<or> aa_Status updateAction = ''COMPLETED'' then ret (Ok True)
      else deref (aa_FailureDetails updateAction) (\<lambda>details. deref details (\<lambda>message.
             ret (Err (Errorf fmt [AStr resourceId, AStr message])))))"

definition filesystem_resized :: "'w sdk \<Rightarrow> string \<Rightarrow> 32 word \<Rightarrow> ('w, bool) go" where
  "filesystem_resized k fileSystemId resizeGiB =
     check (getUpdateResizeFilesystemAdministrativeAction k fileSystemId resizeGiB) id
       (update_done ''update failed for filesystem %s: %q'' fileSystemId)"

definition cloud_WaitForFileSystemResize :: "'w sdk \<Rightarrow> string \<Rightarrow> 32 word \<Rightarrow> ('w, unit) go" where
  "cloud_WaitForFileSystemResize k fileSystemId resizeGiB =
     sdk_Poll k PollCheckInterval PollCheckTimeout (filesystem_resized k fileSystemId resizeGiB)"

section \<open>Volumes\<close>

definition cloud_CreateVolume :: "'w sdk \<Rightarrow> params \<Rightarrow> ('w, Volume option) go" where
  "cloud_CreateVolume k parameters =
     (case StrictRemoveParametersAndPopulateObject (sdk_env k) (CreateVolumeInput k) parameters of
        (parameters', Inl err) \<Rightarrow> ret (Err err)
      | (parameters', Inr input) \<Rightarrow>
          if parameters' \<noteq> [] then ret (Err ErrInvalidInput)
          else check (fsx_CreateVolume (sdk_fsx k) input)
            (\<lambda>err. if is_sdk IncompatibleParameterError err then ErrAlreadyExists else err)
            (\<lambda>output. deref output (\<lambda>o1. deref o1 (\<lambda>v. deref (sv_VolumePath v) (\<lambda>path.
               ret (Ok (Some \<lparr>vol_FileSystemId = ToString (sv_FileSystemId v),
                 vol_VolumeId = ToString (sv_VolumeId v), vol_VolumePath = ToString path\<rparr>)))))))"

definition cloud_DeleteVolume :: "'w sdk \<Rightarrow> params \<Rightarrow> ('w, unit) go" where
  "cloud_DeleteVolume k parameters =
     (case RemoveParametersAndPopulateObject (sdk_env k) (DeleteVolumeInput k) parameters of
        (parameters', Inl err) \<Rightarrow> ret (Err err)
      | (parameters', Inr input) \<Rightarrow>
          check (fsx_DeleteVolume (sdk_fsx k) input)
            (\<lambda>err. if is_sdk VolumeNotFound err then ErrNotFound else err)
            (\<lambda>_. ret (Ok ())))"

definition cloud_DescribeVolume :: "'w sdk \<Rightarrow> string \<Rightarrow> ('w, Volume option) go" where
  "cloud_DescribeVolume k volumeId =
     check (getVolume k volumeId) id (\<lambda>v. deref (sv_VolumePath v) (\<lambda>path.
       ret (Ok (Some \<lparr>vol_FileSystemId = [], vol_VolumeId = ToString (sv_VolumeId v),
         vol_VolumePath = ToString path\<rparr>))))"

definition volume_available :: "'w sdk \<Rightarrow> string \<Rightarrow> ('w, bool) go" where
  "volume_available k volumeId =
     check (getVolume k volumeId) id (\<lambda>v.
       if sv_Lifecycle v = ''AVAILABLE'' then ret (Ok True)
       else if sv_Lifecycle v = ''PENDING'' \<or> sv_Lifecycle v = ''CREATING'' then ret (Ok False)
       else ret (Err (Errorf ''unexpected state for volume %s: %q''
              [AStr volumeId, AStr (sv_Lifecycle v)])))"

definition cloud_WaitForVolumeAvailable :: "'w sdk \<Rightarrow> string \<Rightarrow> ('w, unit) go" where
  "cloud_WaitForVolumeAvailable k volumeId =
     sdk_Poll k PollCheckInterval PollCheckTimeout (volume_available k volumeId)"

definition volume_resized :: "'w sdk \<Rightarrow> string \<Rightarrow> 32 word \<Rightarrow> ('w, bool) go" where
  "volume_resized k volumeId resizeGiB =
     check (getUpdateResizeVolumeAdministrativeAction k volumeId resizeGiB) id
       (update_done ''update failed for volume %s: %q'' volumeId)"

definition cloud_WaitForVolumeResize :: "'w sdk \<Rightarrow> string \<Rightarrow> 32 word \<Rightarrow> ('w, unit) go" where
  "cloud_WaitForVolumeResize k volumeId resizeGiB =
     sdk_Poll k PollCheckInterval PollCheckTimeout (volume_resized k volumeId resizeGiB)"

section \<open>Snapshots\<close>

definition to_Snapshot :: "sdk_Snapshot \<Rightarrow> Snapshot" where
  "to_Snapshot s =
     \<lparr>snap_SnapshotID = ToString (ss_SnapshotId s), snap_SourceVolumeID = ToString (ss_VolumeId s),
      snap_ResourceARN = ToString (ss_ResourceARN s), snap_CreationTime = ToTime (ss_CreationTime s)\<rparr>"

definition cloud_CreateSnapshot :: "'w sdk \<Rightarrow> params \<Rightarrow> ('w, Snapshot option) go" where
  "cloud_CreateSnapshot k parameters =
     (case StrictRemoveParametersAndPopulateObject (sdk_env k) (CreateSnapshotInput k) parameters of
        (parameters', Inl err) \<Rightarrow> ret (Err err)
      | (parameters', Inr input) \<Rightarrow>
          invoke (fsx_CreateSnapshot (sdk_fsx k) input) (\<lambda>r.
            case r of
              Inl err \<Rightarrow>
                if is_sdk IncompatibleParameterError err then ret (Err ErrAlreadyExists)
                else deref (string_field input ''VolumeId'') (\<lambda>volumeId.
                  ret (Err (Wrapf ''error creating snapshot of volume %s: %w'' [AStr volumeId, AErr err] err)))
            | Inr None \<Rightarrow> ret (Err (Errorf ''nil CreateSnapshotResponse'' []))
            | Inr (Some output) \<Rightarrow> deref output (\<lambda>s. ret (Ok (Some (to_Snapshot s))))))"

definition cloud_DeleteSnapshot :: "'w sdk \<Rightarrow> params \<Rightarrow> ('w, unit) go" where
  "cloud_DeleteSnapshot k parameters =
     (case RemoveParametersAndPopulateObject (sdk_env k) (DeleteSnapshotInput k) parameters of
        (parameters', Inl err) \<Rightarrow> ret (Err err)
      | (parameters', Inr input) \<Rightarrow>
          invoke (fsx_DeleteSnapshot (sdk_fsx k) input) (\<lambda>r.
            case r of
              Inl err \<Rightarrow> deref (string_field input ''SnapshotId'') (\<lambda>snapshotId.
                if is_sdk SnapshotNotFound err
                then ret (Err (Errorf ''DeleteSnapshot: Unable to find snapshot %s'' [AStr snapshotId]))
                else ret (Err (Errorf ''DeleteSnapshot: Failed to delete snapshot %s, received error %v''
                       [AStr snapshotId, AErr err])))
            | Inr _ \<Rightarrow> ret (Ok ())))"

definition cloud_DescribeSnapshot :: "'w sdk \<Rightarrow> string \<Rightarrow> ('w, Snapshot option) go" where
  "cloud_DescribeSnapshot k snapshotId =
     check (getSnapshot k snapshotId) id (\<lambda>s. ret (Ok (Some (to_Snapshot s))))"

definition snapshot_available :: "'w sdk \<Rightarrow> string \<Rightarrow> ('w, bool) go" where
  "snapshot_available k snapshotId =
     check (getSnapshot k snapshotId) id (\<lambda>s.
       if ss_Lifecycle s = ''AVAILABLE'' then ret (Ok True)
       else if ss_Lifecycle s = ''PENDING'' \<or> ss_Lifecycle s = ''CREATING'' then ret (Ok False)
       else ret (Err (Errorf ''WaitForSnapshotAvailable: Snapshot %s has unexpected status %q''
              [AStr snapshotId, AStr (ss_Lifecycle s)])))"

definition cloud_WaitForSnapshotAvailable :: "'w sdk \<Rightarrow> string \<Rightarrow> ('w, unit) go" where
  "cloud_WaitForSnapshotAvailable k snapshotId =
     (if snapshotId = [] then ret (Err (Errorf ''snapshot id not provided'' []))
      else sdk_Poll k PollCheckInterval PollCheckTimeout (snapshot_available k snapshotId))"

section \<open>Delete parameters and volume ids\<close>

definition valid_delete_parameter :: "'w sdk \<Rightarrow> string \<Rightarrow> string \<Rightarrow> string \<Rightarrow> bool" where
  "valid_delete_parameter k idPrefix deleteKey deleteValue =
     (let valid = (\<lambda>config. case StrictRemoveParametersAndPopulateObject (sdk_env k) config
            [(deleteKey, deleteValue)] of (_, Inl err) \<Rightarrow> False | (_, Inr _) \<Rightarrow> True)
      in if idPrefix = FilesystemPrefix then valid (DeleteFileSystemOpenZFSConfiguration k)
         else if idPrefix = VolumePrefix then valid (DeleteVolumeOpenZFSConfiguration k)
         else True)"

fun delete_parameters_of_tags :: "'w sdk \<Rightarrow> string \<Rightarrow> sdk_Tag list \<Rightarrow> params \<Rightarrow> params" where
  "delete_parameters_of_tags k idPrefix [] parameters = parameters"
| "delete_parameters_of_tags k idPrefix (tag # tags) parameters =
     (case (tag_Key tag, tag_Value tag) of
        (Some key, Some value) \<Rightarrow>
          if HasSuffix key ''OnDeletion'' then
            (let deleteKey = TrimSuffix key ''OnDeletion'';
                 deleteValue = DecodeDeletionTag value
             in if valid_delete_parameter k idPrefix deleteKey deleteValue
                then delete_parameters_of_tags k idPrefix tags (AList.update deleteKey deleteValue parameters)
                else delete_parameters_of_tags k idPrefix tags parameters)
          else delete_parameters_of_tags k idPrefix tags parameters
      | _ \<Rightarrow> delete_parameters_of_tags k idPrefix tags parameters)"

definition resource_arn :: "'w sdk \<Rightarrow> string \<Rightarrow> ('w, string) go" where
  "resource_arn k id1 =
     (if volume_prefix id1 = FilesystemPrefix
      then check (getFileSystem k id1) id (\<lambda>f. deref (sfs_ResourceARN f) (\<lambda>arn. ret (Ok arn)))
      else if volume_prefix id1 = VolumePrefix
      then check (getVolume k id1) id (\<lambda>v. deref (sv_ResourceARN v) (\<lambda>arn. ret (Ok arn)))
      else ret (Ok []))"

definition cloud_GetDeleteParameters :: "'w sdk \<Rightarrow> string \<Rightarrow> ('w, params) go" where
  "cloud_GetDeleteParameters k id1 =
     check (resource_arn k id1) id (\<lambda>resourceArn.
       check (getTagsForResource k resourceArn) id (\<lambda>tags.
         ret (Ok (delete_parameters_of_tags k (volume_prefix id1) tags []))))"

definition cloud_GetVolumeId :: "'w sdk \<Rightarrow> string \<Rightarrow> ('w, string) go" where
  "cloud_GetVolumeId k volumeId =
     (let splitVolumeId = Split CHR ''-'' volumeId in
      if length splitVolumeId \<noteq> 2
      then ret (Err (Errorf ''volume id %s is improperly formatted'' [AStr volumeId]))
      else if splitVolumeId ! 0 = FilesystemPrefix
      then check (getFileSystem k volumeId) id (\<lambda>filesystem.
             case sfs_RootVolumeId filesystem of
               None \<Rightarrow> ret (Err (Errorf ''failed to retrieve root volume id for file system %s'' [AStr volumeId]))
             | Some rootVolumeId \<Rightarrow> deref rootVolumeId (\<lambda>r.
                 if length r > 0 then ret (Ok r)
                 else ret (Err (Errorf ''failed to retrieve root volume id for file system %s'' [AStr volumeId]))))
      else if splitVolumeId ! 0 = VolumePrefix then ret (Ok volumeId)
      else ret (Err (Errorf ''volume id %s is improperly formatted'' [AStr volumeId])))"

section \<open>The interface\<close>

record 'w Cloud =
  CreateFileSystem :: "params \<Rightarrow> ('w, FileSystem option) go"
  ResizeFileSystem :: "string \<Rightarrow> 32 word \<Rightarrow> ('w, 32 word option) go"
  DeleteFileSystem :: "params \<Rightarrow> ('w, unit) go"
  DescribeFileSystem :: "string \<Rightarrow> ('w, FileSystem option) go"
  WaitForFileSystemAvailable :: "string \<Rightarrow> ('w, unit) go"
  WaitForFileSystemResize :: "string \<Rightarrow> 32 word \<Rightarrow> ('w, unit) go"
  CreateVolume :: "params \<Rightarrow> ('w, Volume option) go"
  DeleteVolume :: "params \<Rightarrow> ('w, unit) go"
  DescribeVolume :: "string \<Rightarrow> ('w, Volume option) go"
  WaitForVolumeAvailable :: "string \<Rightarrow> ('w, unit) go"
  WaitForVolumeResize :: "string \<Rightarrow> 32 word \<Rightarrow> ('w, unit) go"
  CreateSnapshot :: "params \<Rightarrow> ('w, Snapshot option) go"
  DeleteSnapshot :: "params \<Rightarrow> ('w, unit) go"
  DescribeSnapshot :: "string \<Rightarrow> ('w, Snapshot option) go"
  WaitForSnapshotAvailable :: "string \<Rightarrow> ('w, unit) go"
  GetDeleteParameters :: "string \<Rightarrow> ('w, params) go"
  GetVolumeId :: "string \<Rightarrow> ('w, string) go"

text \<open>The method set of \<^verbatim>\<open>*cloud\<close>.\<close>

definition cloud :: "'w sdk \<Rightarrow> 'w Cloud" where
  "cloud k =
     \<lparr>CreateFileSystem = cloud_CreateFileSystem k,
      ResizeFileSystem = cloud_ResizeFileSystem k,
      DeleteFileSystem = cloud_DeleteFileSystem k,
      DescribeFileSystem = cloud_DescribeFileSystem k,
      WaitForFileSystemAvailable = cloud_WaitForFileSystemAvailable k,
      WaitForFileSystemResize = cloud_WaitForFileSystemResize k,
      CreateVolume = cloud_CreateVolume k,
      DeleteVolume = cloud_DeleteVolume k,
      DescribeVolume = cloud_DescribeVolume k,
      WaitForVolumeAvailable = cloud_WaitForVolumeAvailable k,
      WaitForVolumeResize = cloud_WaitForVolumeResize k,
      CreateSnapshot = cloud_CreateSnapshot k,
      DeleteSnapshot = cloud_DeleteSnapshot k,
      DescribeSnapshot = cloud_DescribeSnapshot k,
      WaitForSnapshotAvailable = cloud_WaitForSnapshotAvailable k,
      GetDeleteParameters = cloud_GetDeleteParameters k,
      GetVolumeId = cloud_GetVolumeId k\<rparr>"

end
