(* ===== verification/InFlight.thy ===== *)
theory InFlight
  imports GoErrors
begin

text \<open>
  The package \<^verbatim>\<open>pkg/driver/internal\<close>: the table of requests in flight. Both services refuse a
  request whose key is already in the table. \<open>guarded\<close> is the frame every handler puts around its
  work (insert, abort when busy, delete on every way out); its laws are proved once against the
  interface \<open>in_flight\<close> and obtained for the code's table by interpretation. The last section runs
  handlers concurrently: the mutex makes each table operation one atomic step.
\<close>

section \<open>The table\<close>

record InFlight =
  inFlight :: "(string \<times> bool) list"

definition NewInFlight :: InFlight where
  "NewInFlight = \<lparr>inFlight = []\<rparr>"

definition Insert :: "InFlight \<Rightarrow> string \<Rightarrow> InFlight \<times> bool" where
  "Insert db key =
     (if has_param (inFlight db) key
      then (db, False)
      else (db\<lparr>inFlight := AList.update key True (inFlight db)\<rparr>, True))"

definition Delete :: "InFlight \<Rightarrow> string \<Rightarrow> InFlight" where
  "Delete db key = db\<lparr>inFlight := AList.delete key (inFlight db)\<rparr>"

definition VolumeOperationAlreadyExistsErrorMsg :: string where
  "VolumeOperationAlreadyExistsErrorMsg = ''An operation with the given volume %s already exists''"

definition VolumeTargetPathOperationAlreadyExistsErrorMsg :: string where
  "VolumeTargetPathOperationAlreadyExistsErrorMsg =
     ''An operation with the given volume=%q and target path=%q already exists''"

definition SnapshotOperationAlreadyExistsErrorMsg :: string where
  "SnapshotOperationAlreadyExistsErrorMsg = ''An operation with the given snapshot %s already exists''"

definition in_flight_keys :: "InFlight \<Rightarrow> string set" where
  "in_flight_keys db = keys (inFlight db)"

definition table_ok :: "InFlight \<Rightarrow> bool" where
  "table_ok db = gomap (inFlight db)"

section \<open>The frame of a handler\<close>

text \<open>
  \<^verbatim>\<open>if ok := inFlight.Insert(key); !ok { return busy }; defer inFlight.Delete(key); body\<close>. The
  deferred call runs on every way out of the body, a panic included.
\<close>

definition guarded ::
    "('f \<Rightarrow> string \<Rightarrow> 'f \<times> bool) \<Rightarrow> ('f \<Rightarrow> string \<Rightarrow> 'f) \<Rightarrow> string \<Rightarrow> goerr \<Rightarrow> ('w, 'a) go \<Rightarrow> ('f \<times> 'w, 'a) go" where
  "guarded ins del key busy body = State (\<lambda>(db, w).
     case ins db key of (db', ok) \<Rightarrow>
       if \<not> ok then (Err busy, (db', w))
       else (case run_state body w of (r, w') \<Rightarrow> (r, (del db' key, w'))))"

abbreviation with_inflight :: "string \<Rightarrow> goerr \<Rightarrow> ('w, 'a) go \<Rightarrow> (InFlight \<times> 'w, 'a) go" where
  "with_inflight \<equiv> guarded Insert Delete"

lemma run_guarded:
  "run_state (guarded ins del key busy body) (db, w) =
     (case ins db key of (db', ok) \<Rightarrow>
       if \<not> ok then (Err busy, (db', w))
       else (case run_state body w of (r, w') \<Rightarrow> (r, (del db' key, w'))))"
  by (simp add: guarded_def)

text \<open>The interface the services rely on, stated on the set of keys a table holds.\<close>

locale in_flight =
  fixes new :: 'f
    and ins :: "'f \<Rightarrow> string \<Rightarrow> 'f \<times> bool"
    and del :: "'f \<Rightarrow> string \<Rightarrow> 'f"
    and mem :: "'f \<Rightarrow> string set"
    and inv :: "'f \<Rightarrow> bool"
  assumes new_mem: "mem new = {}"
    and new_inv: "inv new"
    and ins_ok: "inv db \<Longrightarrow> snd (ins db k) \<longleftrightarrow> k \<notin> mem db"
    and ins_mem: "inv db \<Longrightarrow> mem (fst (ins db k)) = insert k (mem db)"
    and ins_inv: "inv db \<Longrightarrow> inv (fst (ins db k))"
    and del_mem: "inv db \<Longrightarrow> mem (del db k) = mem db - {k}"
    and del_inv: "inv db \<Longrightarrow> inv (del db k)"
    and busy_same: "inv db \<Longrightarrow> \<not> snd (ins db k) \<Longrightarrow> fst (ins db k) = db"
begin

lemma guarded_free:
  assumes "inv db" and "k \<notin> mem db"
  shows "\<exists>db'. run_state (guarded ins del k busy body) (db, w) =
      (fst (run_state body w), (db', snd (run_state body w))) \<and> mem db' = mem db \<and> inv db'"
proof -
  obtain db1 where i: "ins db k = (db1, True)"
    using ins_ok [OF assms(1), of k] assms(2) by (metis (full_types) prod.collapse)
  have m: "mem db1 = insert k (mem db)" "inv db1"
    using ins_mem [OF assms(1), of k] ins_inv [OF assms(1), of k] i by simp_all
  have "mem (del db1 k) = mem db" using del_mem [OF m(2), of k] m(1) assms(2) by simp
  with del_inv [OF m(2)] i show ?thesis
    by (auto simp: run_guarded split: prod.splits)
qed

lemma guarded_busy:
  assumes "inv db" and "k \<in> mem db"
  shows "run_state (guarded ins del k busy body) (db, w) = (Err busy, (db, w))"
  using ins_ok [OF assms(1), of k] busy_same [OF assms(1), of k] assms(2)
  by (auto simp: run_guarded split: prod.splits)

lemma guarded_keeps:
  assumes "inv db"
  shows "mem (fst (snd (run_state (guarded ins del k busy body) (db, w)))) = mem db \<and>
    inv (fst (snd (run_state (guarded ins del k busy body) (db, w))))"
proof (cases "k \<in> mem db")
  case True
  with assms show ?thesis by (simp add: guarded_busy)
next
  case False
  with assms guarded_free [of db k busy body w] show ?thesis by fastforce
qed

end

interpretation table: in_flight NewInFlight Insert Delete in_flight_keys table_ok
  by unfold_locales
    (auto simp: NewInFlight_def Insert_def Delete_def in_flight_keys_def table_ok_def has_param_iff)

section \<open>Concurrent requests\<close>

text \<open>
  Any number of request threads. A thread asks for its key once; it is then either refused for
  good or holds the key until its handler returns. The work of a holder changes only the world.
\<close>

datatype phase = Waiting | Holding string | Refused | Finished

record 'w system =
  table :: InFlight
  phase_of :: "nat \<Rightarrow> phase"
  sys_world :: 'w

inductive sys_step :: "'w system \<Rightarrow> 'w system \<Rightarrow> bool" where
  enter: "phase_of s t = Waiting \<Longrightarrow> Insert (table s) k = (db, True) \<Longrightarrow>
    sys_step s (s\<lparr>table := db, phase_of := (phase_of s)(t := Holding k)\<rparr>)"
| refuse: "phase_of s t = Waiting \<Longrightarrow> Insert (table s) k = (db, False) \<Longrightarrow>
    sys_step s (s\<lparr>table := db, phase_of := (phase_of s)(t := Refused)\<rparr>)"
| work: "phase_of s t = Holding k \<Longrightarrow> sys_step s (s\<lparr>sys_world := w\<rparr>)"
| leave: "phase_of s t = Holding k \<Longrightarrow>
    sys_step s (s\<lparr>table := Delete (table s) k, phase_of := (phase_of s)(t := Finished)\<rparr>)"

inductive_cases sys_stepE: "sys_step s s'"

inductive sys_reachable :: "'w system \<Rightarrow> bool" where
  start: "sys_reachable \<lparr>table = NewInFlight, phase_of = (\<lambda>t. Waiting), sys_world = w\<rparr>"
| step: "sys_reachable s \<Longrightarrow> sys_step s s' \<Longrightarrow> sys_reachable s'"

definition holders :: "(nat \<Rightarrow> phase) \<Rightarrow> string set" where
  "holders f = {k. \<exists>t. f t = Holding k}"

lemma holders_take: "f t = Waiting \<Longrightarrow> holders (f(t := Holding k)) = insert k (holders f)"
  unfolding holders_def by (auto split: if_splits) (metis phase.distinct(1))

lemma holders_skip: "f t = Waiting \<Longrightarrow> holders (f(t := Refused)) = holders f"
  unfolding holders_def by (auto split: if_splits) (metis phase.distinct(1))

lemma holders_drop:
  assumes "f t = Holding k" and "\<forall>u. f u = Holding k \<longrightarrow> u = t"
  shows "holders (f(t := Finished)) = holders f - {k}"
proof -
  have "(f(t := Finished)) u = Holding x \<longleftrightarrow> f u = Holding x \<and> x \<noteq> k" for x u
  proof (cases "u = t")
    case False
    with assms(2) show ?thesis by auto
  qed (simp add: assms(1))
  then show ?thesis by (auto simp: holders_def simp del: fun_upd_apply)
qed

definition sys_inv :: "'w system \<Rightarrow> bool" where
  "sys_inv s \<longleftrightarrow> table_ok (table s)
     \<and> in_flight_keys (table s) = holders (phase_of s)
     \<and> (\<forall>t u k. phase_of s t = Holding k \<longrightarrow> phase_of s u = Holding k \<longrightarrow> t = u)"

lemma sys_inv_start: "sys_inv \<lparr>table = NewInFlight, phase_of = (\<lambda>t. Waiting), sys_world = w\<rparr>"
  by (simp add: sys_inv_def holders_def table.new_mem table.new_inv)

lemma sys_inv_enter:
  assumes "sys_inv s" and "phase_of s t = Waiting" and "Insert (table s) k = (db, True)"
  shows "sys_inv (s\<lparr>table := db, phase_of := (phase_of s)(t := Holding k)\<rparr>)"
proof -
  have ok: "table_ok (table s)" using assms(1) by (simp add: sys_inv_def)
  have "k \<notin> in_flight_keys (table s)" using table.ins_ok [OF ok, of k] assms(3) by simp
  moreover have "in_flight_keys db = insert k (in_flight_keys (table s))" "table_ok db"
    using table.ins_mem [OF ok, of k] table.ins_inv [OF ok, of k] assms(3) by simp_all
  moreover have "\<forall>u. phase_of s u \<noteq> Holding k" if "k \<notin> holders (phase_of s)"
    using that by (simp add: holders_def)
  ultimately show ?thesis
    using assms(1) by (auto simp: sys_inv_def holders_take [where f = "phase_of s" and t = t, OF assms(2)])
qed

lemma sys_inv_leave:
  assumes "sys_inv s" and "phase_of s t = Holding k"
  shows "sys_inv (s\<lparr>table := Delete (table s) k, phase_of := (phase_of s)(t := Finished)\<rparr>)"
proof -
  have ok: "table_ok (table s)" using assms(1) by (simp add: sys_inv_def)
  have "\<forall>u. phase_of s u = Holding k \<longrightarrow> u = t" using assms by (auto simp: sys_inv_def)
  with assms table.del_mem [OF ok, of k] table.del_inv [OF ok, of k] show ?thesis
    by (auto simp: sys_inv_def holders_drop [where f = "phase_of s" and t = t, OF assms(2)])
qed

lemma sys_inv_step: "sys_step s s' \<Longrightarrow> sys_inv s \<Longrightarrow> sys_inv s'"
proof (induction rule: sys_step.induct)
  case (refuse s t k db)
  then have "db = table s" by (auto simp: Insert_def split: if_splits)
  with refuse show ?case
    by (auto simp: sys_inv_def holders_skip [where f = "phase_of s" and t = t] split: if_splits)
next
  case (work s t k w)
  then show ?case by (simp add: sys_inv_def)
qed (auto intro: sys_inv_enter sys_inv_leave)

lemma sys_reachable_inv: "sys_reachable s \<Longrightarrow> sys_inv s"
  by (induction rule: sys_reachable.induct) (auto intro: sys_inv_start sys_inv_step)

section \<open>Properties\<close>

text \<open>
  C7. Mutual exclusion, for every interleaving of any number of request threads: no two requests
  hold the same key at the same time.
\<close>

theorem in_flight_mutual_exclusion:
  assumes "sys_reachable s" and "phase_of s t = Holding k" and "phase_of s u = Holding k"
  shows "t = u"
  using sys_reachable_inv [OF assms(1)] assms(2,3) by (auto simp: sys_inv_def)

lemma sample_run:
  "sys_reachable \<lparr>table = fst (Insert NewInFlight ''a''), phase_of = (\<lambda>t. Waiting)(0 := Holding ''a''), sys_world = ()\<rparr>"
proof -
  let ?s = "\<lparr>table = NewInFlight, phase_of = (\<lambda>t. Waiting), sys_world = ()\<rparr>"
  have "Insert (table ?s) ''a'' = (fst (Insert NewInFlight ''a''), True)" by (simp add: Insert_def NewInFlight_def has_param_iff)
  then have "sys_step ?s (?s\<lparr>table := fst (Insert NewInFlight ''a''), phase_of := (phase_of ?s)(0 := Holding ''a'')\<rparr>)"
    by (intro sys_step.enter) simp_all
  from sys_reachable.step [OF sys_reachable.start this] show ?thesis by simp
qed

theorem in_flight_mutual_exclusion_witness:
  "{t. ((\<lambda>t. Waiting)(0 := Holding ''a'')) t = Holding ''a''} = {0 :: nat}"
proof (intro set_eqI iffI)
  fix t :: nat
  assume "t \<in> {t. ((\<lambda>t. Waiting)(0 := Holding ''a'')) t = Holding ''a''}"
  then have "phase_of \<lparr>table = fst (Insert NewInFlight ''a''), phase_of = (\<lambda>t. Waiting)(0 := Holding ''a''), sys_world = ()\<rparr> t = Holding ''a''"
    by simp
  from in_flight_mutual_exclusion [OF sample_run this, of 0] show "t \<in> {0}" by simp
qed simp

text \<open>
  No key leaks and none is lost: in every reachable state a request for a key is admitted
  exactly when no running request holds it, however the requests before it ended.
\<close>

theorem in_flight_admission:
  assumes "sys_reachable s"
  shows "snd (Insert (table s) k) \<longleftrightarrow> (\<forall>t. phase_of s t \<noteq> Holding k)"
  using sys_reachable_inv [OF assms] table.ins_ok [of "table s" k] by (auto simp: sys_inv_def holders_def)

theorem in_flight_admission_witness:
  "\<not> snd (Insert (fst (Insert NewInFlight ''a'')) ''a'') \<and> snd (Insert (fst (Insert NewInFlight ''a'')) ''b'')"
  using in_flight_admission [OF sample_run, of "''a''"] in_flight_admission [OF sample_run, of "''b''"] by auto

text \<open>
  The specification: a lock manager whose state is the set of keys held. A request takes a free
  key, is turned away, or gives its key back.
\<close>

inductive lock_step :: "string set \<Rightarrow> string set \<Rightarrow> bool" where
  acquire: "k \<notin> H \<Longrightarrow> lock_step H (insert k H)"
| turn_away: "k \<in> H \<Longrightarrow> lock_step H H"
| release: "k \<in> H \<Longrightarrow> lock_step H (H - {k})"

inductive_cases lock_stepE: "lock_step H H'"

text \<open>
  C13. The table refines the lock manager: every step of the concurrent system is a step of the
  specification on the set of keys held, or leaves that set alone while a holder works.
\<close>

theorem in_flight_refines_locks:
  assumes "sys_reachable s" and "sys_step s s'"
  shows "lock_step (in_flight_keys (table s)) (in_flight_keys (table s'))
    \<or> (in_flight_keys (table s') = in_flight_keys (table s) \<and> phase_of s' = phase_of s)"
proof -
  have inv: "sys_inv s" using assms(1) by (rule sys_reachable_inv)
  then have ok: "table_ok (table s)" by (simp add: sys_inv_def)
  from assms(2) show ?thesis
  proof cases
    case (enter t k db)
    then have "k \<notin> in_flight_keys (table s)" "in_flight_keys db = insert k (in_flight_keys (table s))"
      using table.ins_ok [OF ok, of k] table.ins_mem [OF ok, of k] by simp_all
    with enter show ?thesis by (auto intro: acquire)
  next
    case (refuse t k db)
    then have "k \<in> in_flight_keys (table s)" "db = table s"
      using table.ins_ok [OF ok, of k] table.busy_same [OF ok, of k] by simp_all
    with refuse show ?thesis by (auto intro: turn_away)
  next
    case (work t k w)
    then show ?thesis by simp
  next
    case (leave t k)
    then have "k \<in> in_flight_keys (table s)" using inv by (auto simp: sys_inv_def holders_def)
    with leave table.del_mem [OF ok, of k] show ?thesis by (auto intro: release)
  qed
qed

theorem in_flight_refines_locks_witness:
  "lock_step {''a''} {}"
proof -
  let ?s = "\<lparr>table = fst (Insert NewInFlight ''a''), phase_of = (\<lambda>t. Waiting)(0 := Holding ''a''), sys_world = ()\<rparr>"
  have st: "sys_step ?s (?s\<lparr>table := Delete (table ?s) ''a'', phase_of := (phase_of ?s)(0 := Finished)\<rparr>)"
    by (rule sys_step.leave) simp
  have k: "in_flight_keys (fst (Insert NewInFlight ''a'')) = {''a''}" "table_ok (fst (Insert NewInFlight ''a''))"
    by (simp_all add: table.ins_mem table.ins_inv table.new_mem table.new_inv)
  have d: "in_flight_keys (Delete (fst (Insert NewInFlight ''a'')) ''a'') = {}"
    using table.del_mem [OF k(2), of "''a''"] k(1) by simp
  have "phase_of (?s\<lparr>table := Delete (table ?s) ''a'', phase_of := (phase_of ?s)(0 := Finished)\<rparr>) \<noteq> phase_of ?s"
    by (simp add: fun_eq_iff)
  with in_flight_refines_locks [OF sample_run st] k d show ?thesis by simp
qed

end
