(* ===== verification/Controller.thy ===== *)
theory Controller
  imports Cloud InFlight
begin

text \<open>
  The controller service, \<^verbatim>\<open>pkg/driver/controller.go\<close>. A handler takes the SDK's types, the cloud it
  talks to and the request, and runs over the table of requests in flight and the cloud's world.
  Requests and responses are records with the fields the code reads and writes. The parameter map
  of a request is passed as a value: the code mutates the map of the request it owns.
\<close>

section \<open>Requests and responses\<close>

datatype access_mode =
    UNKNOWN | SINGLE_NODE_WRITER | SINGLE_NODE_READER_ONLY | MULTI_NODE_READER_ONLY
  | MULTI_NODE_SINGLE_WRITER | MULTI_NODE_MULTI_WRITER | SINGLE_NODE_SINGLE_WRITER
  | SINGLE_NODE_MULTI_WRITER

text \<open>\<open>vc_Mount\<close> is \<^verbatim>\<open>GetMount()\<close>: the mount flags, or nil for another access type.\<close>

record VolumeCapability =
  vc_AccessMode :: "access_mode option"
  vc_Mount :: "string list option"

record CapacityRange =
  RequiredBytes :: "64 word"
  LimitBytes :: "64 word"

datatype content_source = Source_Snapshot "string option" | Source_Volume "string option"

record CreateVolumeRequest =
  cvr_Name :: string
  cvr_CapacityRange :: "CapacityRange option"
  cvr_VolumeCapabilities :: "VolumeCapability list"
  cvr_Parameters :: "params option"
  cvr_VolumeContentSource :: "content_source option option"

record csi_Volume =
  CapacityBytes :: "64 word"
  csi_VolumeId :: string
  VolumeContext :: params
  ContentSource :: "content_source option option"

record CreateSnapshotRequest =
  csr_Name :: string
  csr_SourceVolumeId :: string
  csr_Parameters :: "params option"

record csi_Snapshot =
  csi_SnapshotId :: string
  csi_SourceVolumeId :: string
  csi_CreationTime :: int
  csi_ReadyToUse :: bool

record ControllerExpandVolumeRequest =
  cer_VolumeId :: string
  cer_CapacityRange :: "CapacityRange option"

record ControllerExpandVolumeResponse =
  expand_CapacityBytes :: "64 word"
  NodeExpansionRequired :: bool

datatype controller_capability = CREATE_DELETE_VOLUME | CREATE_DELETE_SNAPSHOT | EXPAND_VOLUME

section \<open>Constants\<close>

definition volumeCaps :: "access_mode list" where
  "volumeCaps = [SINGLE_NODE_WRITER, MULTI_NODE_MULTI_WRITER]"

definition controllerCaps :: "controller_capability list" where
  "controllerCaps = [CREATE_DELETE_VOLUME, CREATE_DELETE_SNAPSHOT, EXPAND_VOLUME]"

definition fsType :: string where "fsType = ''filesystem''"

definition volType :: string where "volType = ''volume''"

definition snapshotType :: string where "snapshotType = ''snapshot''"

definition deletionSuffix :: string where "deletionSuffix = ''OnDeletion''"

definition reservedVolumeParamsPrefix :: string where
  "reservedVolumeParamsPrefix = ''csi.storage.k8s.io''"

definition AwsFsxOpenZfsDriverTagKey :: string where
  "AwsFsxOpenZfsDriverTagKey = ''fsx.openzfs.csi.aws.com/cluster''"

text \<open>The keys of the volume context and of the parameters, and two messages.\<close>

abbreviation volumeContextDnsName :: string where "volumeContextDnsName \<equiv> ''DNSName''"

abbreviation volumeContextResourceType :: string where "volumeContextResourceType \<equiv> ''ResourceType''"

abbreviation volumeContextVolumePath :: string where "volumeContextVolumePath \<equiv> ''VolumePath''"

abbreviation volumeParamsClientRequestToken :: string where "volumeParamsClientRequestToken \<equiv> ''ClientRequestToken''"

abbreviation volumeParamsFileSystemId :: string where "volumeParamsFileSystemId \<equiv> ''FileSystemId''"

abbreviation volumeParamsFileSystemType :: string where "volumeParamsFileSystemType \<equiv> ''FileSystemType''"

abbreviation volumeParamsName :: string where "volumeParamsName \<equiv> ''Name''"

abbreviation volumeParamsOpenZFSConfiguration :: string where "volumeParamsOpenZFSConfiguration \<equiv> ''OpenZFSConfiguration''"

abbreviation volumeParamsOriginSnapshot :: string where "volumeParamsOriginSnapshot \<equiv> ''OriginSnapshot''"

abbreviation volumeParamsResourceType :: string where "volumeParamsResourceType \<equiv> ''ResourceType''"

abbreviation volumeParamsSkipFinalBackup :: string where "volumeParamsSkipFinalBackup \<equiv> ''SkipFinalBackup''"

abbreviation volumeParamsStorageCapacity :: string where "volumeParamsStorageCapacity \<equiv> ''StorageCapacity''"

abbreviation volumeParamsStorageType :: string where "volumeParamsStorageType \<equiv> ''StorageType''"

abbreviation volumeParamsTags :: string where "volumeParamsTags \<equiv> ''Tags''"

abbreviation volumeParamsVolumeId :: string where "volumeParamsVolumeId \<equiv> ''VolumeId''"

abbreviation volumeParamsVolumeType :: string where "volumeParamsVolumeType \<equiv> ''VolumeType''"

abbreviation ErrResourceTypeNotProvided :: string where
  "ErrResourceTypeNotProvided \<equiv> ''ResourceType is not provided''"

abbreviation ErrResourceTypeNotSupported :: string where
  "ErrResourceTypeNotSupported \<equiv> ''ResourceType is not supported: %s''"

definition ErrContainsDriverProviderParameter :: string where
  "ErrContainsDriverProviderParameter = ''Contains parameter that is defined by driver: %s''"

definition ErrIncorrectlyFormatted :: string where
  "ErrIncorrectlyFormatted = ''%s is incorrectly formatted: %s''"

abbreviation quote :: "'z sdk_types_scheme \<Rightarrow> string \<Rightarrow> string" where
  "quote T s \<equiv> Quote (unicode_print (sdk_env T)) s"

section \<open>Parameters\<close>

fun hasSupport :: "access_mode list \<Rightarrow> VolumeCapability \<Rightarrow> bool" where
  "hasSupport [] cap = False"
| "hasSupport (c # cs) cap =
     (if c = (case vc_AccessMode cap of None \<Rightarrow> UNKNOWN | Some m \<Rightarrow> m) then True else hasSupport cs cap)"

definition isValidVolumeCapabilities :: "VolumeCapability list \<Rightarrow> bool" where
  "isValidVolumeCapabilities volCaps =
     fold (\<lambda>c foundAll. if \<not> hasSupport volumeCaps c then False else foundAll) volCaps True"

definition deleteReservedParameters :: "params \<Rightarrow> params" where
  "deleteReservedParameters parameters =
     filter (\<lambda>(key, value). \<not> HasPrefix key reservedVolumeParamsPrefix) parameters"

definition driverDefinedParameters :: "string list" where
  "driverDefinedParameters =
     [volumeParamsClientRequestToken, volumeParamsFileSystemType, volumeParamsName, volumeParamsOpenZFSConfiguration,
      volumeParamsStorageCapacity, volumeParamsVolumeId, volumeParamsVolumeType]"

definition containsDriverProvidedParameters :: "params \<Rightarrow> goerr option" where
  "containsDriverProvidedParameters parameters =
     (case List.find (has_param parameters) driverDefinedParameters of
        Some parameter \<Rightarrow> Some (Errorf ErrContainsDriverProviderParameter [AStr parameter])
      | None \<Rightarrow>
          if Contains (get_param parameters volumeParamsOriginSnapshot) ''SnapshotARN''
          then Some (Errorf ErrContainsDriverProviderParameter [AStr ''SnapshotARN''])
          else None)"

text \<open>\<^verbatim>\<open>[]map[string]string\<close> and Go's \<^verbatim>\<open>append\<close> of one tag.\<close>

definition tags_type :: gotype where
  "tags_type = GSlice (GMap (GString ''string''))"

definition tag_value :: "string \<Rightarrow> string \<Rightarrow> govalue" where
  "tag_value key value = VMap [(''Key'', VString key), (''Value'', VString value)]"

definition append_tag :: "govalue \<Rightarrow> govalue \<Rightarrow> govalue" where
  "append_tag tags tag = (case tags of VSlice vs \<Rightarrow> VSlice (vs @ [tag]) | _ \<Rightarrow> VSlice [tag])"

definition appendCustomTags :: "params \<Rightarrow> string \<Rightarrow> goerr + params" where
  "appendCustomTags parameters resourceType =
     (case ConvertJsonStringToObject (get_param parameters volumeParamsTags) tags_type VNil of
        Inl err \<Rightarrow> Inl err
      | Inr existingTags \<Rightarrow>
          (case ConvertObjectToJsonString (append_tag existingTags (tag_value AwsFsxOpenZfsDriverTagKey ''true'')) of
             Inl err \<Rightarrow> Inl err
           | Inr combinedJsonString \<Rightarrow> Inr (AList.update volumeParamsTags combinedJsonString parameters)))"

text \<open>
  The loop of \<^verbatim>\<open>appendDeleteTags\<close> over the parameter map, in the order of one iteration: the
  delete parameters, the tags and the parameters that stay.
\<close>

definition deletion_tag_value :: "string \<Rightarrow> string" where
  "deletion_tag_value value =
     (if ContainsAny value [CHR ''['', CHR '']'', CHR '','', CHR 0x22] then EncodeDeletionTag value else value)"

fun delete_tags_loop :: "params \<Rightarrow> params \<Rightarrow> govalue \<Rightarrow> params \<Rightarrow> params \<times> govalue \<times> params" where
  "delete_tags_loop [] deleteParameters existingTags parameters = (deleteParameters, existingTags, parameters)"
| "delete_tags_loop ((key, value) # rest) deleteParameters existingTags parameters =
     (if HasSuffix key deletionSuffix
      then delete_tags_loop rest
             (AList.update (TrimSuffix key deletionSuffix) value deleteParameters)
             (append_tag existingTags (tag_value key (deletion_tag_value value)))
             (AList.delete key parameters)
      else delete_tags_loop rest deleteParameters existingTags parameters)"

definition validate_delete_tags :: "'z sdk_types_scheme \<Rightarrow> string \<Rightarrow> params \<Rightarrow> goerr option" where
  "validate_delete_tags T resourceType deleteParameters =
     (if resourceType = fsType then
        (if \<not> has_param deleteParameters volumeParamsSkipFinalBackup
         then Some (Errorf ErrIncorrectlyFormatted [AStr ''SkipFinalBackup'', AStr ''field is required''])
         else (case CollapseDeleteFileSystemParameters T
                      (AList.update volumeParamsFileSystemId (quote T ''fs-1234567890abc'') deleteParameters) of
                 (_, Inl err) \<Rightarrow> Some err
               | (deleteParameters', Inr _) \<Rightarrow> ValidateDeleteFileSystemParameters T deleteParameters'))
      else if resourceType = volType then
        (case CollapseDeleteVolumeParameters T
                (AList.update volumeParamsVolumeId (quote T ''fsvol-1234567890abcdefghijm'') deleteParameters) of
           (_, Inl err) \<Rightarrow> Some err
         | (deleteParameters', Inr _) \<Rightarrow> ValidateDeleteVolumeParameters T deleteParameters')
      else None)"

definition appendDeleteTags :: "'z sdk_types_scheme \<Rightarrow> params \<Rightarrow> string \<Rightarrow> goerr + params" where
  "appendDeleteTags T parameters resourceType =
     (case ConvertJsonStringToObject (get_param parameters volumeParamsTags) tags_type VNil of
        Inl err \<Rightarrow> Inl err
      | Inr existingTags \<Rightarrow>
          (case delete_tags_loop parameters [] existingTags parameters of
             (deleteParameters, existingTags', parameters') \<Rightarrow>
               (case validate_delete_tags T resourceType deleteParameters of
                  Some err \<Rightarrow> Inl err
                | None \<Rightarrow>
                    (case ConvertObjectToJsonString existingTags' of
                       Inl err \<Rightarrow> Inl err
                     | Inr combinedJsonString \<Rightarrow> Inr (AList.update volumeParamsTags combinedJsonString parameters')))))"

definition appendSnapshotARN :: "'w Cloud \<Rightarrow> params \<Rightarrow> string \<Rightarrow> ('w, params) go" where
  "appendSnapshotARN c parameters snapshotId =
     (case ConvertJsonStringToObject (get_param parameters volumeParamsOriginSnapshot) (GMap (GString ''string'')) (VMap []) of
        Inl err \<Rightarrow> ret (Err err)
      | Inr existingOriginSnapshot \<Rightarrow>
          check (DescribeSnapshot c snapshotId) id (\<lambda>snapshot. deref snapshot (\<lambda>s.
            case existingOriginSnapshot of
              VMap m \<Rightarrow>
                (case ConvertObjectToJsonString (VMap (AList.update ''SnapshotARN'' (VString (snap_ResourceARN s)) m)) of
                   Inl err \<Rightarrow> ret (Err err)
                 | Inr originSnapshotJsonString \<Rightarrow>
                     ret (Ok (AList.update volumeParamsOriginSnapshot originSnapshotJsonString parameters)))
            | _ \<Rightarrow> ret Panic)))"

section \<open>CreateVolume\<close>

definition could_not_create :: "string \<Rightarrow> goerr \<Rightarrow> goerr" where
  "could_not_create volName err =
     (if err_is err ErrInvalidInput then status_ErrorOf InvalidArgument err
      else if err_is err ErrAlreadyExists then status_ErrorOf AlreadyExists err
      else StatusErr Internal ''Could not create volume %q: %v'' [AStr volName, AErr err])"

definition create_filesystem ::
    "'z sdk_types_scheme \<Rightarrow> 'w Cloud \<Rightarrow> CreateVolumeRequest \<Rightarrow> 32 word \<Rightarrow> params \<Rightarrow> ('w, csi_Volume) go" where
  "create_filesystem T c req storageCapacity volumeParams =
     (if cvr_VolumeContentSource req \<noteq> None
      then ret (Err (status_Error Unimplemented ''Cannot create new file system from a snapshot. To create a new volume from a snapshot, set ResourceType to volume.''))
      else
        let volumeParams = AList.update volumeParamsFileSystemType (quote T ''OPENZFS'') volumeParams;
            tiering = (get_param volumeParams volumeParamsStorageType = quote T ''INTELLIGENT_TIERING'')
        in if tiering \<and> storageCapacity \<noteq> 1
           then ret (Err (status_Error InvalidArgument ''storageType INTELLIGENT_TIERING expects storage capacity to be 1Gi''))
           else
             let volumeParams = (if tiering then volumeParams
                   else AList.update volumeParamsStorageCapacity (Itoa (sint storageCapacity)) volumeParams)
             in case CollapseCreateFileSystemParameters T volumeParams of
                  (_, Inl err) \<Rightarrow> ret (Err (StatusErr InvalidArgument ErrIncorrectlyFormatted [AStr ''OpenZFSConfiguration'', AErr err]))
                | (volumeParams, Inr _) \<Rightarrow>
                    check (CreateFileSystem c volumeParams) (could_not_create (cvr_Name req)) (\<lambda>fsp. deref fsp (\<lambda>fs.
                      check (WaitForFileSystemAvailable c (fs_FileSystemId fs))
                        (\<lambda>err. StatusErr Internal ''Filesystem is not ready: %v'' [AErr err]) (\<lambda>_.
                      ret (Ok \<lparr>CapacityBytes = GiBToBytes (fs_StorageCapacity fs), csi_VolumeId = fs_FileSystemId fs,
                        VolumeContext = [(volumeContextDnsName, fs_DnsName fs), (volumeContextResourceType, fsType)],
                        ContentSource = None\<rparr>)))))"

definition content_source_params ::
    "'w Cloud \<Rightarrow> CreateVolumeRequest \<Rightarrow> params \<Rightarrow> ('w, params \<times> content_source option option) go" where
  "content_source_params c req volumeParams =
     (case cvr_VolumeContentSource req of
        None \<Rightarrow> ret (Ok (volumeParams, None))
      | Some (Some (Source_Snapshot None)) \<Rightarrow>
          ret (Err (status_Error InvalidArgument ''Error retrieving snapshot from the volumeContentSource''))
      | Some (Some (Source_Snapshot (Some snapshotId))) \<Rightarrow>
          check (appendSnapshotARN c volumeParams snapshotId)
            (\<lambda>err. if err = ErrNotFound then StatusErr NotFound ''Snapshot not found with ID %q'' [AStr snapshotId]
               else StatusErr Internal ''Could not get snapshot with ID %q: %v'' [AStr snapshotId, AErr err])
            (\<lambda>volumeParams. ret (Ok (volumeParams, Some (Some (Source_Snapshot (Some snapshotId))))))
      | Some _ \<Rightarrow> ret (Err (status_Error Unimplemented ''Unsupported volumeContentSource type'')))"

definition create_openzfs_volume ::
    "'z sdk_types_scheme \<Rightarrow> 'w Cloud \<Rightarrow> CreateVolumeRequest \<Rightarrow> 32 word \<Rightarrow> params \<Rightarrow> ('w, csi_Volume) go" where
  "create_openzfs_volume T c req storageCapacity volumeParams =
     (if storageCapacity \<noteq> 1
      then ret (Err (status_Error InvalidArgument ''resourceType Volume expects storage capacity to be 1Gi''))
      else check (content_source_params c req volumeParams) id (\<lambda>(volumeParams, volumeContentSource).
        let volumeParams = AList.update volumeParamsName (quote T (cvr_Name req)) volumeParams;
            volumeParams = AList.update volumeParamsVolumeType (quote T ''OPENZFS'') volumeParams
        in case CollapseCreateVolumeParameters T volumeParams of
             (_, Inl err) \<Rightarrow> ret (Err (StatusErr InvalidArgument ErrIncorrectlyFormatted [AStr ''OpenZFSConfiguration'', AErr err]))
           | (volumeParams, Inr _) \<Rightarrow>
               check (CreateVolume c volumeParams) (could_not_create (cvr_Name req)) (\<lambda>vp. deref vp (\<lambda>v.
                 check (WaitForVolumeAvailable c (vol_VolumeId v))
                   (\<lambda>err. StatusErr Internal ''Volume is not ready: %v'' [AErr err]) (\<lambda>_.
                 check (DescribeFileSystem c (vol_FileSystemId v)) id (\<lambda>fsp. deref fsp (\<lambda>fileSystem.
                   ret (Ok \<lparr>CapacityBytes = GiBToBytes storageCapacity, csi_VolumeId = vol_VolumeId v,
                     VolumeContext = [(volumeContextDnsName, fs_DnsName fileSystem), (volumeContextResourceType, volType),
                       (volumeContextVolumePath, vol_VolumePath v)],
                     ContentSource = volumeContentSource\<rparr>))))))))"

definition create_volume_params ::
    "'z sdk_types_scheme \<Rightarrow> string \<Rightarrow> params \<Rightarrow> goerr + string \<times> params" where
  "create_volume_params T volName parameters =
     (let volumeParams = deleteReservedParameters parameters;
          resourceType = get_param volumeParams volumeParamsResourceType
      in if resourceType \<noteq> fsType \<and> resourceType \<noteq> volType
         then (if resourceType = [] then Inl (status_Error InvalidArgument ErrResourceTypeNotProvided)
               else Inl (StatusErr InvalidArgument ErrResourceTypeNotSupported [AStr resourceType]))
         else
           let volumeParams = AList.delete volumeParamsResourceType volumeParams
           in case containsDriverProvidedParameters volumeParams of
                Some err \<Rightarrow> Inl (status_ErrorOf InvalidArgument err)
              | None \<Rightarrow>
                  (case appendDeleteTags T (AList.update volumeParamsClientRequestToken (quote T volName) volumeParams) resourceType of
                     Inl err \<Rightarrow> Inl (StatusErr InvalidArgument ErrIncorrectlyFormatted [AStr ''Delete Parameters'', AErr err])
                   | Inr volumeParams \<Rightarrow>
                       (case appendCustomTags volumeParams resourceType of
                          Inl err \<Rightarrow> Inl (status_ErrorOf Internal err)
                        | Inr volumeParams \<Rightarrow> Inr (resourceType, volumeParams))))"

definition requested_capacity :: "CapacityRange option \<Rightarrow> goerr + 32 word" where
  "requested_capacity r =
     (case r of None \<Rightarrow> Inr 0
      | Some capRange \<Rightarrow> (case BytesToGiB (RequiredBytes capRange) of
          Inl err \<Rightarrow> Inl (status_ErrorOf InvalidArgument err) | Inr g \<Rightarrow> Inr g))"

definition create_volume_body ::
    "'z sdk_types_scheme \<Rightarrow> 'w Cloud \<Rightarrow> CreateVolumeRequest \<Rightarrow> ('w, csi_Volume) go" where
  "create_volume_body T c req =
     (if cvr_VolumeCapabilities req = []
      then ret (Err (status_Error InvalidArgument ''Volume capabilities not provided''))
      else if \<not> isValidVolumeCapabilities (cvr_VolumeCapabilities req)
      then ret (Err (status_Error InvalidArgument ''Volume capabilities not supported''))
      else case requested_capacity (cvr_CapacityRange req) of
        Inl err \<Rightarrow> ret (Err err)
      | Inr storageCapacity \<Rightarrow>
          (case create_volume_params T (cvr_Name req) (case cvr_Parameters req of None \<Rightarrow> [] | Some p \<Rightarrow> p) of
             Inl err \<Rightarrow> ret (Err err)
           | Inr (resourceType, volumeParams) \<Rightarrow>
               if resourceType = fsType then create_filesystem T c req storageCapacity volumeParams
               else if resourceType = volType then create_openzfs_volume T c req storageCapacity volumeParams
               else ret (Err (StatusErr InvalidArgument ''Type %s not supported'' [AStr volumeContextResourceType]))))"

definition controller_CreateVolume ::
    "'z sdk_types_scheme \<Rightarrow> 'w Cloud \<Rightarrow> CreateVolumeRequest \<Rightarrow> (InFlight \<times> 'w, csi_Volume) go" where
  "controller_CreateVolume T c req =
     (let volName = cvr_Name req in
      if volName = [] then ret (Err (status_Error InvalidArgument ''Volume name not provided''))
      else with_inflight volName
             (StatusErr Aborted (''CreateVolume: '' @ VolumeOperationAlreadyExistsErrorMsg) [AStr volName])
             (create_volume_body T c req))"

section \<open>DeleteVolume\<close>

text \<open>The deletion call for the kind of resource the id names; nothing for any other id.\<close>

definition delete_resource ::
    "'z sdk_types_scheme \<Rightarrow> 'w Cloud \<Rightarrow> string \<Rightarrow> params \<Rightarrow> goerr + ('w, unit) go" where
  "delete_resource T c volumeID deleteParams =
     (if volume_prefix volumeID = FilesystemPrefix
      then (case CollapseDeleteFileSystemParameters T (AList.update volumeParamsFileSystemId (quote T volumeID) deleteParams) of
              (_, Inl err) \<Rightarrow> Inl (status_ErrorOf Internal err)
            | (deleteParams, Inr _) \<Rightarrow> Inr (DeleteFileSystem c deleteParams))
      else if volume_prefix volumeID = VolumePrefix
      then (case CollapseDeleteVolumeParameters T (AList.update volumeParamsVolumeId (quote T volumeID) deleteParams) of
              (_, Inl err) \<Rightarrow> Inl (status_ErrorOf Internal err)
            | (deleteParams, Inr _) \<Rightarrow> Inr (DeleteVolume c deleteParams))
      else Inr (ret (Ok ())))"

definition delete_volume_body :: "'z sdk_types_scheme \<Rightarrow> 'w Cloud \<Rightarrow> string \<Rightarrow> ('w, unit) go" where
  "delete_volume_body T c volumeID =
     check (GetDeleteParameters c volumeID) (status_ErrorOf Internal) (\<lambda>deleteParams.
       case delete_resource T c volumeID deleteParams of
         Inl err \<Rightarrow> ret (Err err)
       | Inr delete \<Rightarrow> invoke delete (\<lambda>r. case r of
             Inl err \<Rightarrow>
               if err = ErrNotFound then ret (Ok ())
               else ret (Err (StatusErr Internal ''Could not delete volume ID %q: %v'' [AStr volumeID, AErr err]))
           | Inr _ \<Rightarrow> ret (Ok ())))"

definition controller_DeleteVolume ::
    "'z sdk_types_scheme \<Rightarrow> 'w Cloud \<Rightarrow> string \<Rightarrow> (InFlight \<times> 'w, unit) go" where
  "controller_DeleteVolume T c volumeID =
     (if volumeID = [] then ret (Err (status_Error InvalidArgument ''VolumeId is empty''))
      else with_inflight volumeID
             (StatusErr Aborted (''DeleteVolume: '' @ VolumeOperationAlreadyExistsErrorMsg) [AStr volumeID])
             (delete_volume_body T c volumeID))"

section \<open>Capabilities\<close>

definition controller_ValidateVolumeCapabilities ::
    "'w Cloud \<Rightarrow> string \<Rightarrow> VolumeCapability list \<Rightarrow> ('w, VolumeCapability list option) go" where
  "controller_ValidateVolumeCapabilities c volumeID volCaps =
     (if volumeID = [] then ret (Err (status_Error InvalidArgument ''Volume ID not provided''))
      else if volCaps = [] then ret (Err (status_Error InvalidArgument ''Volume capabilities not provided''))
      else
        let describe =
          (if volume_prefix volumeID = FilesystemPrefix then check (DescribeFileSystem c volumeID) id (\<lambda>_. ret (Ok ()))
           else if volume_prefix volumeID = VolumePrefix then check (DescribeVolume c volumeID) id (\<lambda>_. ret (Ok ()))
           else ret (Err ErrNotFound))
        in check describe
             (\<lambda>err. if err = ErrNotFound then StatusErr NotFound ''Volume not found with ID %q'' [AStr volumeID]
                else StatusErr Internal ''Could not get volume with ID %q: %v'' [AStr volumeID, AErr err])
             (\<lambda>_. if isValidVolumeCapabilities volCaps then ret (Ok (Some volCaps)) else ret (Ok None)))"

definition controller_ControllerGetCapabilities :: "('w, controller_capability list) go" where
  "controller_ControllerGetCapabilities = ret (Ok (map (\<lambda>cap. cap) controllerCaps))"

definition unimplemented :: "('w, 'a) go" where
  "unimplemented = ret (Err (status_Error Unimplemented []))"

definition controller_ControllerPublishVolume :: "('w, unit) go" where
  "controller_ControllerPublishVolume = unimplemented"

definition controller_ControllerUnpublishVolume :: "('w, unit) go" where
  "controller_ControllerUnpublishVolume = unimplemented"

definition controller_ListVolumes :: "('w, unit) go" where
  "controller_ListVolumes = unimplemented"

definition controller_GetCapacity :: "('w, unit) go" where
  "controller_GetCapacity = unimplemented"

definition controller_ListSnapshots :: "('w, unit) go" where
  "controller_ListSnapshots = unimplemented"

definition controller_ControllerGetVolume :: "('w, unit) go" where
  "controller_ControllerGetVolume = unimplemented"

section \<open>Snapshots\<close>

definition could_not_snapshot :: "string \<Rightarrow> goerr \<Rightarrow> goerr" where
  "could_not_snapshot name err =
     (if err_is err ErrInvalidInput then status_ErrorOf InvalidArgument err
      else if err_is err ErrAlreadyExists then status_ErrorOf AlreadyExists err
      else StatusErr Internal ''CreateSnapshot: Failed to create snapshot %q with error %v'' [AStr name, AErr err])"

definition create_snapshot_body ::
    "'z sdk_types_scheme \<Rightarrow> 'w Cloud \<Rightarrow> CreateSnapshotRequest \<Rightarrow> ('w, csi_Snapshot) go" where
  "create_snapshot_body T c req =
     (let name = csr_Name req;
          snapshotParams = deleteReservedParameters (case csr_Parameters req of None \<Rightarrow> [] | Some p \<Rightarrow> p)
      in case containsDriverProvidedParameters snapshotParams of
           Some err \<Rightarrow> ret (Err (status_ErrorOf InvalidArgument err))
         | None \<Rightarrow>
             (case appendCustomTags snapshotParams snapshotType of
                Inl err \<Rightarrow> ret (Err (status_ErrorOf Internal err))
              | Inr snapshotParams \<Rightarrow>
                  check (GetVolumeId c (csr_SourceVolumeId req))
                    (\<lambda>err. status_Error Internal ''Custom tags incorrectly added'') (\<lambda>volumeId.
                  let snapshotParams = AList.update volumeParamsClientRequestToken (quote T name) snapshotParams;
                      snapshotParams = AList.update volumeParamsVolumeId (quote T volumeId) snapshotParams;
                      snapshotParams = AList.update volumeParamsName (quote T name) snapshotParams
                  in check (CreateSnapshot c snapshotParams) (could_not_snapshot name) (\<lambda>sp. deref sp (\<lambda>snapshot.
                       check (WaitForSnapshotAvailable c (snap_SnapshotID snapshot))
                         (\<lambda>err. StatusErr Internal ''Snapshot %s is not ready: %v'' [AStr name, AErr err]) (\<lambda>_.
                       ret (Ok \<lparr>csi_SnapshotId = snap_SnapshotID snapshot,
                         csi_SourceVolumeId = snap_SourceVolumeID snapshot,
                         csi_CreationTime = snap_CreationTime snapshot, csi_ReadyToUse = True\<rparr>)))))))"

definition controller_CreateSnapshot ::
    "'z sdk_types_scheme \<Rightarrow> 'w Cloud \<Rightarrow> CreateSnapshotRequest \<Rightarrow> (InFlight \<times> 'w, csi_Snapshot) go" where
  "controller_CreateSnapshot T c req =
     (if csr_Name req = [] then ret (Err (status_Error InvalidArgument ''Snapshot name not provided''))
      else if csr_SourceVolumeId req = []
      then ret (Err (status_Error InvalidArgument ''Snapshot volume source ID not provided''))
      else with_inflight (csr_Name req)
             (StatusErr Aborted (''CreateSnapshot: '' @ SnapshotOperationAlreadyExistsErrorMsg) [AStr (csr_Name req)])
             (create_snapshot_body T c req))"

definition delete_snapshot_body :: "'z sdk_types_scheme \<Rightarrow> 'w Cloud \<Rightarrow> string \<Rightarrow> ('w, unit) go" where
  "delete_snapshot_body T c snapshotId =
     invoke (DeleteSnapshot c (AList.update ''SnapshotId'' (quote T snapshotId) [])) (\<lambda>r.
       case r of
         Inl err \<Rightarrow>
           if Contains (Error (sdk_env T) err) ''Unable to find snapshot'' then ret (Ok ())
           else ret (Err (StatusErr Internal ''DeleteSnapshot: Could not delete snapshot %s, received error %v''
                  [AStr snapshotId, AErr err]))
       | Inr _ \<Rightarrow> ret (Ok ()))"

definition controller_DeleteSnapshot ::
    "'z sdk_types_scheme \<Rightarrow> 'w Cloud \<Rightarrow> string \<Rightarrow> (InFlight \<times> 'w, unit) go" where
  "controller_DeleteSnapshot T c snapshotId =
     (if snapshotId = [] then ret (Err (status_Error InvalidArgument ''Snapshot ID not provided''))
      else with_inflight snapshotId
             (StatusErr Aborted (''DeleteSnapshot: '' @ SnapshotOperationAlreadyExistsErrorMsg) [AStr snapshotId])
             (delete_snapshot_body T c snapshotId))"

section \<open>ControllerExpandVolume\<close>

definition expand_filesystem ::
    "'w Cloud \<Rightarrow> string \<Rightarrow> 32 word \<Rightarrow> ('w, ControllerExpandVolumeResponse) go" where
  "expand_filesystem c volumeID newCapacity =
     check (DescribeFileSystem c volumeID)
       (\<lambda>err. if err = ErrNotFound then StatusErr NotFound ''Filesystem not found with ID %q'' [AStr volumeID]
          else StatusErr Internal ''Could not get filesystem with ID %q: %v'' [AStr volumeID, AErr err])
       (\<lambda>fsp. deref fsp (\<lambda>fs.
          if fs_StorageType fs = ''INTELLIGENT_TIERING''
          then ret (Err (status_Error Unimplemented ''Storage of StorageType INTELLIGENT_TIERING Filesystem can not be scaled''))
          else if newCapacity \<le>s fs_StorageCapacity fs
          then ret (Ok \<lparr>expand_CapacityBytes = GiBToBytes (fs_StorageCapacity fs), NodeExpansionRequired = False\<rparr>)
          else check (ResizeFileSystem c volumeID newCapacity)
                 (\<lambda>err. StatusErr Internal ''resize failed: %v'' [AErr err]) (\<lambda>fcp. deref fcp (\<lambda>finalCapacity.
               check (WaitForFileSystemResize c volumeID finalCapacity)
                 (\<lambda>err. StatusErr Internal ''filesystem is not resized: %v'' [AErr err]) (\<lambda>_.
               ret (Ok \<lparr>expand_CapacityBytes = GiBToBytes finalCapacity, NodeExpansionRequired = False\<rparr>))))))"

definition expand_volume_body ::
    "'w Cloud \<Rightarrow> ControllerExpandVolumeRequest \<Rightarrow> ('w, ControllerExpandVolumeResponse) go" where
  "expand_volume_body c req =
     (let volumeID = cer_VolumeId req in
      case cer_CapacityRange req of
        None \<Rightarrow> ret (Err (status_Error InvalidArgument ''Capacity range not provided''))
      | Some capRange \<Rightarrow>
          if 0 <s LimitBytes capRange \<and> LimitBytes capRange <s RequiredBytes capRange
          then ret (Err (StatusErr OutOfRange ''Requested storage capacity of %d bytes exceeds capacity limit of %d bytes.''
                 [AInt (sint (RequiredBytes capRange)), AInt (sint (LimitBytes capRange))]))
          else case BytesToGiB (RequiredBytes capRange) of
            Inl err \<Rightarrow> ret (Err (status_ErrorOf InvalidArgument err))
          | Inr newCapacity \<Rightarrow>
              if volume_prefix volumeID = FilesystemPrefix then expand_filesystem c volumeID newCapacity
              else if volume_prefix volumeID = VolumePrefix
              then ret (Err (status_Error Unimplemented ''Storage of ResourceType Volume can not be scaled''))
              else ret (Err (StatusErr NotFound ''Volume not found with ID %q'' [AStr volumeID])))"

definition controller_ControllerExpandVolume ::
    "'w Cloud \<Rightarrow> ControllerExpandVolumeRequest \<Rightarrow> (InFlight \<times> 'w, ControllerExpandVolumeResponse) go" where
  "controller_ControllerExpandVolume c req =
     (let volumeID = cer_VolumeId req in
      if volumeID = [] then ret (Err (status_Error InvalidArgument ''Volume ID not provided''))
      else with_inflight volumeID
             (StatusErr Aborted (''ControllerExpandVolume: '' @ VolumeOperationAlreadyExistsErrorMsg) [AStr volumeID])
             (expand_volume_body c req))"

end
