(* ===== verification/Metadata.thy ===== *)
theory Metadata
  imports GoErrors
begin

text \<open>
  Instance metadata, \<^verbatim>\<open>pkg/cloud/metadata*.go\<close>: the instance metadata service is asked first, the
  Kubernetes API is the fallback. Both clients are third-party and are arguments; their
  default constructors are with the driver's start-up.
\<close>

record Metadata =
  InstanceID :: string
  InstanceType :: string
  Region :: string
  AvailabilityZone :: string

record InstanceIdentityDocument =
  doc_InstanceID :: string
  doc_InstanceType :: string
  doc_Region :: string
  doc_AvailabilityZone :: string

record 'w IMDS =
  GetMetadata :: "string \<Rightarrow> ('w, unit) go"
  GetInstanceIdentityDocument :: "('w, InstanceIdentityDocument option) go"

text \<open>A node as the driver reads it; a taint's other fields are carried along unread.\<close>

record Taint =
  taint_Key :: string
  taint_Value :: string
  taint_Effect :: string

record Node =
  node_ProviderID :: string
  node_Taints :: "Taint list"

record 'w clientset =
  Nodes_Get :: "string \<Rightarrow> ('w, Node) go"
  Nodes_Patch :: "string \<Rightarrow> string \<Rightarrow> ('w, unit) go"

definition GetInstanceID :: "Metadata \<Rightarrow> string" where "GetInstanceID m = InstanceID m"

definition GetInstanceType :: "Metadata \<Rightarrow> string" where "GetInstanceType m = InstanceType m"

definition GetRegion :: "Metadata \<Rightarrow> string" where "GetRegion m = Region m"

definition GetAvailabilityZone :: "Metadata \<Rightarrow> string" where "GetAvailabilityZone m = AvailabilityZone m"

section \<open>Instance metadata service\<close>

definition metadata_of_document :: "string \<Rightarrow> InstanceIdentityDocument \<Rightarrow> goerr + Metadata" where
  "metadata_of_document regionFromSession doc =
     (if doc_InstanceID doc = [] then Inl (Errorf ''could not get valid EC2 instance ID'' [])
      else if doc_InstanceType doc = [] then Inl (Errorf ''could not get valid EC2 instance type'' [])
      else if doc_Region doc = [] \<and> regionFromSession = []
      then Inl (Errorf ''could not get valid EC2 Region'' [])
      else if doc_AvailabilityZone doc = []
      then Inl (Errorf ''could not get valid EC2 availability zone'' [])
      else Inr \<lparr>InstanceID = doc_InstanceID doc, InstanceType = doc_InstanceType doc,
        Region = (if doc_Region doc = [] then regionFromSession else doc_Region doc),
        AvailabilityZone = doc_AvailabilityZone doc\<rparr>)"

definition IMDSInstanceInfo :: "'w IMDS \<Rightarrow> string \<Rightarrow> ('w, Metadata) go" where
  "IMDSInstanceInfo svc regionFromSession =
     check (GetInstanceIdentityDocument svc)
       (\<lambda>err. Wrapf ''could not get EC2 instance identity metadata: %w'' [AErr err] err)
       (\<lambda>docp. deref docp (\<lambda>doc.
          case metadata_of_document regionFromSession doc of Inl err \<Rightarrow> ret (Err err) | Inr m \<Rightarrow> ret (Ok m)))"

section \<open>Kubernetes API\<close>

definition id_char :: "char \<Rightarrow> bool" where
  "id_char c = ((CHR ''a'' \<le> c \<and> c \<le> CHR ''z'') \<or> (CHR ''0'' \<le> c \<and> c \<le> CHR ''9''))"

text \<open>
  \<^verbatim>\<open>FindString\<close> of the pattern \<^verbatim>\<open>s\.i-[a-z0-9]+|i-[a-z0-9]+$\<close>: the leftmost match, the first
  alternative before the second, repetition greedy, \<^verbatim>\<open>$\<close> only at the end of the text.
\<close>

definition instance_id_at :: "string \<Rightarrow> string option" where
  "instance_id_at s =
     (if HasPrefix s ''s.i-'' \<and> takeWhile id_char (drop 4 s) \<noteq> []
      then Some (''s.i-'' @ takeWhile id_char (drop 4 s))
      else if HasPrefix s ''i-'' \<and> drop 2 s \<noteq> [] \<and> list_all id_char (drop 2 s)
      then Some s else None)"

fun find_instance_id :: "string \<Rightarrow> string" where
  "find_instance_id [] = []"
| "find_instance_id (c # cs) =
     (case instance_id_at (c # cs) of Some m \<Rightarrow> m | None \<Rightarrow> find_instance_id cs)"

definition KubernetesAPIInstanceInfo :: "(string \<Rightarrow> string) \<Rightarrow> 'w clientset \<Rightarrow> ('w, Metadata) go" where
  "KubernetesAPIInstanceInfo getenv clientset =
     (let nodeName = getenv ''CSI_NODE_NAME'' in
      if nodeName = [] then ret (Err (Errorf ''CSI_NODE_NAME env var not set'' []))
      else check (Nodes_Get clientset nodeName)
             (\<lambda>err. Wrapf ''error getting Node %v: %w'' [AStr nodeName, AErr err] err)
             (\<lambda>node.
                if node_ProviderID node = []
                then ret (Err (Errorf ''node providerID empty, cannot parse'' []))
                else let ec2InstanceID = find_instance_id (node_ProviderID node) in
                  if ec2InstanceID = []
                  then ret (Err (Errorf ''did not find EC2 instance ID in node providerID string'' []))
                  else ret (Ok \<lparr>InstanceID = ec2InstanceID, InstanceType = [], Region = [], AvailabilityZone = []\<rparr>)))"

section \<open>Choosing a source\<close>

definition metadata_from_kubernetes ::
    "(string \<Rightarrow> string) \<Rightarrow> ('w, 'w clientset) go \<Rightarrow> ('w, Metadata) go" where
  "metadata_from_kubernetes getenv k8sAPIClient =
     invoke k8sAPIClient (\<lambda>r. case r of
         Inl err \<Rightarrow> ret (Err (Errorf ''error getting instance data from IMDS or kubernetes api'' []))
       | Inr clientset \<Rightarrow> KubernetesAPIInstanceInfo getenv clientset)"

definition NewMetadataService ::
    "(string \<Rightarrow> string) \<Rightarrow> ('w, 'w IMDS) go \<Rightarrow> ('w, 'w clientset) go \<Rightarrow> string \<Rightarrow> ('w, Metadata) go" where
  "NewMetadataService getenv imdsClient k8sAPIClient region =
     invoke imdsClient (\<lambda>r. case r of
         Inl err \<Rightarrow> metadata_from_kubernetes getenv k8sAPIClient
       | Inr svc \<Rightarrow>
           invoke (GetMetadata svc ''instance-id'') (\<lambda>r. case r of
               Inl err \<Rightarrow> metadata_from_kubernetes getenv k8sAPIClient
             | Inr _ \<Rightarrow> IMDSInstanceInfo svc region))"

section \<open>The instance id in a provider id\<close>

lemma find_instance_id_found:
  "find_instance_id s \<noteq> [] \<Longrightarrow> \<exists>p r. s = p @ r \<and> instance_id_at r = Some (find_instance_id s)"
proof (induction s)
  case (Cons c s)
  show ?case
  proof (cases "instance_id_at (c # s)")
    case None
    with Cons obtain p r where "s = p @ r" "instance_id_at r = Some (find_instance_id s)" by auto
    with None show ?thesis by (intro exI [of _ "c # p"] exI [of _ r]) simp
  next
    case (Some m)
    then show ?thesis by (intro exI [of _ "[]"] exI [of _ "c # s"]) simp
  qed
qed simp

lemma instance_id_at_shape:
  assumes "instance_id_at s = Some m"
  shows "prefix m s \<and> (\<exists>i. i \<noteq> [] \<and> list_all id_char i \<and> (m = ''s.i-'' @ i \<or> m = ''i-'' @ i))"
proof (cases "HasPrefix s ''s.i-'' \<and> takeWhile id_char (drop 4 s) \<noteq> []")
  case True
  with assms have m: "m = ''s.i-'' @ takeWhile id_char (drop 4 s)" by (simp add: instance_id_at_def)
  have s: "s = ''s.i-'' @ drop 4 s"
    using True HasPrefix_eq [of s "''s.i-''"] by (simp add: eval_nat_numeral)
  have "prefix m s"
    by (subst s, unfold m) (metis append_assoc prefixI same_prefix_prefix takeWhile_dropWhile_id)
  moreover have "list_all id_char (takeWhile id_char (drop 4 s))"
    by (auto simp: list_all_iff dest: set_takeWhileD)
  ultimately show ?thesis using m True by blast
next
  case False
  with assms have "m = s" "HasPrefix s ''i-''" "drop 2 s \<noteq> []" "list_all id_char (drop 2 s)"
    by (auto simp: instance_id_at_def split: if_splits)
  moreover from this have "s = ''i-'' @ drop 2 s"
    using HasPrefix_eq [of s "''i-''"] by (simp add: numeral_2_eq_2)
  ultimately show ?thesis by (metis prefix_order.refl)
qed

end
