(* ===== verification/Node.thy ===== *)
theory Node
  imports Controller Metadata
begin

text \<open>
  The node service, \<^verbatim>\<open>pkg/driver/node.go\<close> and \<^verbatim>\<open>pkg/driver/mount.go\<close>. The operating system and
  the third-party \<^verbatim>\<open>mount.Interface\<close> are records of operations on an abstract world;
  \<open>NodeMounter\<close> is the code's mounter built from them.
\<close>

section \<open>The mounter\<close>

text \<open>
  \<^verbatim>\<open>IsLikelyNotMountPoint\<close> returns a boolean and an error together, and one caller uses the
  boolean without looking at the error, so its result is the pair.
\<close>

record 'w mount_interface =
  mi_IsLikelyNotMountPoint :: "string \<Rightarrow> ('w, bool \<times> goerr option) go"
  mi_Mount :: "string \<Rightarrow> string \<Rightarrow> string \<Rightarrow> string list \<Rightarrow> ('w, unit) go"
  mi_Unmount :: "string \<Rightarrow> ('w, unit) go"
  mi_IsCorruptedMnt :: "goerr \<Rightarrow> bool"

record 'w os_ops =
  os_MkdirAll :: "string \<Rightarrow> nat \<Rightarrow> ('w, unit) go"
  os_Stat :: "string \<Rightarrow> ('w, unit) go"
  os_RemoveAll :: "string \<Rightarrow> ('w, unit) go"

record 'w Mounter =
  IsLikelyNotMountPoint :: "string \<Rightarrow> ('w, bool \<times> goerr option) go"
  Mount :: "string \<Rightarrow> string \<Rightarrow> string \<Rightarrow> string list \<Rightarrow> ('w, unit) go"
  Unmount :: "string \<Rightarrow> ('w, unit) go"
  IsCorruptedMnt :: "goerr \<Rightarrow> bool"
  PathExists :: "string \<Rightarrow> ('w, bool) go"
  MakeDir :: "string \<Rightarrow> ('w, unit) go"

definition NodeMounter_MakeDir :: "'w os_ops \<Rightarrow> string \<Rightarrow> ('w, unit) go" where
  "NodeMounter_MakeDir os pathname =
     invoke (os_MkdirAll os pathname 493) (\<lambda>r. case r of
         Inl err \<Rightarrow> if \<not> os_IsExist err then ret (Err err) else ret (Ok ())
       | Inr _ \<Rightarrow> ret (Ok ()))"

definition NodeMounter_PathExists :: "'w os_ops \<Rightarrow> string \<Rightarrow> ('w, bool) go" where
  "NodeMounter_PathExists os path =
     invoke (os_Stat os path) (\<lambda>r. case r of
         Inl err \<Rightarrow> if os_IsNotExist err then ret (Ok False) else ret (Err err)
       | Inr _ \<Rightarrow> ret (Ok True))"

definition NodeMounter :: "'w os_ops \<Rightarrow> 'w mount_interface \<Rightarrow> 'w Mounter" where
  "NodeMounter os mi =
     \<lparr>IsLikelyNotMountPoint = mi_IsLikelyNotMountPoint mi,
      Mount = mi_Mount mi,
      Unmount = mi_Unmount mi,
      IsCorruptedMnt = mi_IsCorruptedMnt mi,
      PathExists = NodeMounter_PathExists os,
      MakeDir = NodeMounter_MakeDir os\<rparr>"

section \<open>Requests\<close>

record NodePublishVolumeRequest =
  npr_VolumeId :: string
  npr_VolumeCapability :: "VolumeCapability option"
  npr_TargetPath :: string
  npr_VolumeContext :: params
  npr_Readonly :: bool

record NodeUnpublishVolumeRequest =
  nur_VolumeId :: string
  nur_TargetPath :: string

definition rootVolumePath :: string where "rootVolumePath = ''fsx''"

section \<open>Publishing\<close>

definition isMounted :: "'w Mounter \<Rightarrow> string \<Rightarrow> string \<Rightarrow> ('w, bool) go" where
  "isMounted m source targetPath =
     check (IsLikelyNotMountPoint m targetPath) id (\<lambda>(notMnt, err).
       case err of
         None \<Rightarrow> ret (Ok (\<not> notMnt))
       | Some e \<Rightarrow>
           if os_IsNotExist e then ret (Ok False)
           else invoke (PathExists m targetPath) (\<lambda>p.
             case p of
               Inl pathErr \<Rightarrow>
                 if IsCorruptedMnt m pathErr
                 then check (Unmount m targetPath)
                        (\<lambda>mntErr. StatusErr Internal ''NodePublishVolume: Unable to unmount the target %q : %v''
                           [AStr targetPath, AErr mntErr])
                        (\<lambda>_. ret (Ok False))
                 else ret (Err (StatusErr Internal ''NodePublishVolume: Could not check if %q is a mount point: %v, %v''
                        [AStr targetPath, AErr e, AErr pathErr]))
             | Inr _ \<Rightarrow> ret (Err (StatusErr Internal ''NodePublishVolume: Could not check if %q is a mount point: %v, %v''
                        [AStr targetPath, AErr e, AStr ''<nil>'']))))"

fun hasOption :: "string list \<Rightarrow> string \<Rightarrow> bool" where
  "hasOption [] opt = False"
| "hasOption (o1 # options) opt = (if o1 = opt then True else hasOption options opt)"

fun add_mount_flags :: "string list \<Rightarrow> string list \<Rightarrow> string list" where
  "add_mount_flags mountOptions [] = mountOptions"
| "add_mount_flags mountOptions (f # flags) =
     (if \<not> hasOption mountOptions f then add_mount_flags (mountOptions @ [f]) flags
      else add_mount_flags mountOptions flags)"

definition mount_options :: "bool \<Rightarrow> VolumeCapability \<Rightarrow> string list" where
  "mount_options readonly volCap =
     (let mountOptions = (if readonly then [''ro''] else []) in
      case vc_Mount volCap of None \<Rightarrow> mountOptions | Some flags \<Rightarrow> add_mount_flags mountOptions flags)"

text \<open>The source to mount, from the volume context: \<^verbatim>\<open>dnsName:volumePath\<close>, or the request's error.\<close>

definition mount_source :: "params \<Rightarrow> goerr + string" where
  "mount_source volumeContext =
     (let dnsName = get_param volumeContext volumeContextDnsName;
          volumePath = get_param volumeContext volumeContextVolumePath;
          resourceType = get_param volumeContext volumeContextResourceType
      in if dnsName = [] then Inl (status_Error InvalidArgument ''NodePublishVolume: dnsName is not provided'')
         else if resourceType \<noteq> fsType \<and> resourceType \<noteq> volType
         then Inl (StatusErr InvalidArgument ''NodePublishVolume: resourceType %q is invalid'' [AStr resourceType])
         else if volumePath = [] \<and> resourceType \<noteq> fsType
         then Inl (status_Error InvalidArgument ''NodePublishVolume: volumePath must be provided when mounting an OpenZFS volume'')
         else
           let volumePath = (if volumePath = [] then rootVolumePath else volumePath)
           in if resourceType = fsType \<and> volumePath \<noteq> rootVolumePath
              then Inl (status_Error InvalidArgument ''NodePublishVolume: volumePath must match the root volume path when mounting an OpenZFS file system'')
              else Inr (dnsName @ '':'' @ volumePath))"

definition mount_error :: "text_env \<Rightarrow> goerr \<Rightarrow> goerr" where
  "mount_error env err =
     (if os_IsPermission err then status_ErrorOf PermissionDenied err
      else if Contains (Error env err) ''invalid argument'' then status_ErrorOf InvalidArgument err
      else status_ErrorOf Internal err)"

definition publish_body ::
    "text_env \<Rightarrow> 'w Mounter \<Rightarrow> NodePublishVolumeRequest \<Rightarrow> VolumeCapability \<Rightarrow> ('w, unit) go" where
  "publish_body env m req volCap =
     (let targetPath = npr_TargetPath req in
      case mount_source (npr_VolumeContext req) of
        Inl err \<Rightarrow> ret (Err err)
      | Inr source \<Rightarrow>
          check (MakeDir m targetPath)
            (\<lambda>err. StatusErr Internal ''NodePublishVolume: Could not create target dir %q: %v'' [AStr targetPath, AErr err]) (\<lambda>_.
          check (isMounted m source targetPath)
            (\<lambda>err. StatusErr Internal ''Could not check if %q is mounted: %v'' [AStr targetPath, AErr err]) (\<lambda>mounted.
          if mounted then ret (Ok ())
          else check (Mount m source targetPath ''nfs'' (mount_options (npr_Readonly req) volCap))
                 (mount_error env) (\<lambda>_. ret (Ok ())))))"

definition node_NodePublishVolume ::
    "text_env \<Rightarrow> 'w Mounter \<Rightarrow> NodePublishVolumeRequest \<Rightarrow> (InFlight \<times> 'w, unit) go" where
  "node_NodePublishVolume env m req =
     (let volumeID = npr_VolumeId req; targetPath = npr_TargetPath req in
      if volumeID = [] then ret (Err (status_Error InvalidArgument ''Volume ID missing in NodePublishVolumeRequest''))
      else case npr_VolumeCapability req of
        None \<Rightarrow> ret (Err (status_Error InvalidArgument ''Volume capability missing in NodePublishVolumeRequest''))
      | Some volCap \<Rightarrow>
          if \<not> isValidVolumeCapabilities [volCap]
          then ret (Err (status_Error InvalidArgument ''NodePublishVolume: Volume capability not supported''))
          else if targetPath = []
          then ret (Err (status_Error InvalidArgument ''NodePublishVolume: Target path not provided''))
          else with_inflight (volumeID @ targetPath)
                 (StatusErr Aborted VolumeTargetPathOperationAlreadyExistsErrorMsg [AStr volumeID, AStr targetPath])
                 (publish_body env m req volCap))"

section \<open>Unpublishing\<close>

definition unpublish_body :: "'w os_ops \<Rightarrow> 'w Mounter \<Rightarrow> string \<Rightarrow> ('w, unit) go" where
  "unpublish_body os m targetPath =
     check (IsLikelyNotMountPoint m targetPath) id (\<lambda>(notMnt, _).
       if notMnt then ret (Ok ())
       else check (Unmount m targetPath)
              (\<lambda>err. StatusErr Internal ''NodeUnpublishVolume: Could not unmount %q: %v'' [AStr targetPath, AErr err]) (\<lambda>_.
            check (os_RemoveAll os targetPath)
              (\<lambda>err. StatusErr Internal ''NodeUnpublishVolume: Could not delete %q: %v'' [AStr targetPath, AErr err]) (\<lambda>_.
            ret (Ok ()))))"

definition node_NodeUnpublishVolume ::
    "'w os_ops \<Rightarrow> 'w Mounter \<Rightarrow> NodeUnpublishVolumeRequest \<Rightarrow> (InFlight \<times> 'w, unit) go" where
  "node_NodeUnpublishVolume os m req =
     (let volumeID = nur_VolumeId req; targetPath = nur_TargetPath req in
      if volumeID = [] then ret (Err (status_Error InvalidArgument ''Volume ID missing in NodeUnpublishVolumeRequest''))
      else if targetPath = []
      then ret (Err (status_Error InvalidArgument ''NodeUnpublishVolume: Target path not provided''))
      else with_inflight (volumeID @ targetPath)
             (StatusErr Aborted VolumeTargetPathOperationAlreadyExistsErrorMsg [AStr volumeID, AStr targetPath])
             (unpublish_body os m targetPath))"

section \<open>Information\<close>

datatype node_capability = STAGE_UNSTAGE_VOLUME | GET_VOLUME_STATS | NODE_EXPAND_VOLUME

definition nodeCaps :: "node_capability list" where "nodeCaps = []"

definition node_NodeGetCapabilities :: "('w, node_capability list) go" where
  "node_NodeGetCapabilities = ret (Ok (map (\<lambda>cap. cap) nodeCaps))"

definition node_NodeGetInfo :: "Metadata \<Rightarrow> ('w, string) go" where
  "node_NodeGetInfo metadata = ret (Ok (GetInstanceID metadata))"

definition node_NodeStageVolume :: "('w, unit) go" where
  "node_NodeStageVolume = unimplemented"

definition node_NodeUnstageVolume :: "('w, unit) go" where
  "node_NodeUnstageVolume = unimplemented"

definition node_NodeGetVolumeStats :: "('w, unit) go" where
  "node_NodeGetVolumeStats = unimplemented"

definition node_NodeExpandVolume :: "('w, unit) go" where
  "node_NodeExpandVolume = unimplemented"

section \<open>The startup taint\<close>

definition AgentNotReadyNodeTaintKey :: string where
  "AgentNotReadyNodeTaintKey = ''fsx.openzfs.csi.aws.com/agent-not-ready''"

fun taints_to_keep :: "Taint list \<Rightarrow> Taint list" where
  "taints_to_keep [] = []"
| "taints_to_keep (taint # taints) =
     (if taint_Key taint \<noteq> AgentNotReadyNodeTaintKey then taint # taints_to_keep taints
      else taints_to_keep taints)"

text \<open>
  The JSON patch. \<open>tj\<close> is the API library's marshalling of a taint. A Go slice that nothing was
  appended to is nil and marshals as \<^verbatim>\<open>null\<close>.
\<close>

definition taints_value :: "(Taint \<Rightarrow> govalue) \<Rightarrow> Taint list \<Rightarrow> govalue" where
  "taints_value tj taints = (if taints = [] then VNil else VSlice (map tj taints))"

definition JSONPatch :: "string \<Rightarrow> string \<Rightarrow> govalue \<Rightarrow> govalue" where
  "JSONPatch op path value = VStruct [(''op'', VString op), (''path'', VString path), (''value'', value)]"

definition patchRemoveTaints :: "(Taint \<Rightarrow> govalue) \<Rightarrow> Taint list \<Rightarrow> govalue" where
  "patchRemoveTaints tj taints =
     VSlice [JSONPatch ''test'' ''/spec/taints'' (taints_value tj taints),
             JSONPatch ''replace'' ''/spec/taints'' (taints_value tj (taints_to_keep taints))]"

definition removeNotReadyTaint ::
    "(Taint \<Rightarrow> govalue) \<Rightarrow> (string \<Rightarrow> string) \<Rightarrow> ('w, 'w clientset) go \<Rightarrow> ('w, unit) go" where
  "removeNotReadyTaint tj getenv k8sClient =
     (let nodeName = getenv ''CSI_NODE_NAME'' in
      if nodeName = [] then ret (Ok ())
      else invoke k8sClient (\<lambda>r. case r of
          Inl err \<Rightarrow> ret (Ok ())
        | Inr clientset \<Rightarrow>
            check (Nodes_Get clientset nodeName) id (\<lambda>node.
              if length (taints_to_keep (node_Taints node)) = length (node_Taints node) then ret (Ok ())
              else check (Nodes_Patch clientset nodeName (Marshal (patchRemoveTaints tj (node_Taints node)))) id
                     (\<lambda>_. ret (Ok ())))))"

text \<open>
  The retry loop has no bound, so it is a partial function: \<open>None\<close> is a run that never returns.
  \<open>sleep\<close> is what happens to the world during \<^verbatim>\<open>time.Sleep\<close>.
\<close>

partial_function (option) tryRemoveNotReadyTaintUntilSucceed ::
    "('w \<Rightarrow> 'w) \<Rightarrow> ('w, unit) go \<Rightarrow> 'w \<Rightarrow> (unit res \<times> 'w) option" where
  "tryRemoveNotReadyTaintUntilSucceed sleep removeFn w =
     (case run_state removeFn w of
        (Ok _, w') \<Rightarrow> Some (Ok (), w')
      | (Panic, w') \<Rightarrow> Some (Panic, w')
      | (Err err, w') \<Rightarrow> tryRemoveNotReadyTaintUntilSucceed sleep removeFn (sleep w'))"

end
