(* ===== verification/FakeCloud.thy ===== *)
theory FakeCloud
  imports Controller Metadata
begin

text \<open>
  The in-memory cloud of \<^verbatim>\<open>pkg/cloud/fakes.go\<close>, which the sanity tests run the handlers against.
  Its state is a record; the package's random source and \<^verbatim>\<open>time.Now\<close> are sequences of values of
  which the state counts how many were drawn. Stored pointers are never nil, so the maps hold
  the structs themselves.
\<close>

section \<open>State\<close>

record FakeCloudProvider =
  fake_m :: Metadata
  fake_filesystemId :: string
  fake_fileSystems :: "(string \<times> FileSystem) list"
  fake_fileSystemsParameters :: "(string \<times> params) list"
  fake_volumes :: "(string \<times> Volume) list"
  fake_volumesParameters :: "(string \<times> params) list"
  fake_snapshots :: "(string \<times> Snapshot) list"
  fake_snapshotsParameters :: "(string \<times> params) list"
  fake_volumeIds :: "(string \<times> string) list"
  fake_random :: "nat \<Rightarrow> 64 word"
  fake_draws :: nat
  fake_now :: "nat \<Rightarrow> int"

definition NewFakeCloudProvider :: "(nat \<Rightarrow> 64 word) \<Rightarrow> (nat \<Rightarrow> int) \<Rightarrow> FakeCloudProvider" where
  "NewFakeCloudProvider random now =
     (let filesystemId = ''fs-1234'';
          filesystem = \<lparr>fs_DnsName = ''test.us-east-1.fsx.amazonaws.com'', fs_FileSystemId = filesystemId,
            fs_StorageCapacity = 100, fs_StorageType = ''SSD''\<rparr>
      in \<lparr>fake_m = \<lparr>InstanceID = ''InstanceID'', InstanceType = ''Region'', Region = ''az'', AvailabilityZone = []\<rparr>,
          fake_filesystemId = filesystemId,
          fake_fileSystems = [(filesystemId, filesystem)],
          fake_fileSystemsParameters = [],
          fake_volumes = [],
          fake_volumesParameters = [],
          fake_snapshots = [],
          fake_snapshotsParameters = [],
          fake_volumeIds = [],
          fake_random = random,
          fake_draws = 0,
          fake_now = now\<rparr>)"

type_synonym 'a fake = "(FakeCloudProvider, 'a) go"

definition random_Uint64 :: "FakeCloudProvider \<Rightarrow> 64 word \<times> FakeCloudProvider" where
  "random_Uint64 w = (fake_random w (fake_draws w), w\<lparr>fake_draws := Suc (fake_draws w)\<rparr>)"

definition numbered :: "string \<Rightarrow> 64 word \<Rightarrow> string" where
  "numbered pre n = pre @ Itoa (uint n)"

text \<open>\<^verbatim>\<open>reflect.DeepEqual\<close> on \<^verbatim>\<open>map[string]string\<close>: the same keys with the same values.\<close>

definition DeepEqual :: "params \<Rightarrow> params \<Rightarrow> bool" where
  "DeepEqual a b = list_all (\<lambda>key. map_of a key = map_of b key) (map fst a @ map fst b)"

text \<open>The loop over the stored parameters: the first entry with the same client request token.\<close>

fun find_token :: "params \<Rightarrow> (string \<times> params) list \<Rightarrow> (string \<times> params) option" where
  "find_token parameters [] = None"
| "find_token parameters ((i, ps) # rest) =
     (if get_param ps ''ClientRequestToken'' = get_param parameters ''ClientRequestToken''
      then Some (i, ps) else find_token parameters rest)"

section \<open>File systems\<close>

definition fake_CreateFileSystem :: "params \<Rightarrow> FileSystem option fake" where
  "fake_CreateFileSystem parameters = State (\<lambda>w.
     case find_token parameters (fake_fileSystemsParameters w) of
       Some (existingId, existingParams) \<Rightarrow>
         if DeepEqual existingParams parameters then (Ok (map_of (fake_fileSystems w) existingId), w)
         else (Err ErrAlreadyExists, w)
     | None \<Rightarrow>
         (case ParseInt 32 (get_param parameters ''StorageCapacity'') of
            Inl e \<Rightarrow> (Err (NumError (get_param parameters ''StorageCapacity'') e), w)
          | Inr storageCapacity \<Rightarrow>
              (case random_Uint64 w of (n, w) \<Rightarrow>
                 let fs = \<lparr>fs_DnsName = ''test.us-east-1.fsx.amazonaws.com'', fs_FileSystemId = numbered ''fs-'' n,
                       fs_StorageCapacity = word_of_int storageCapacity, fs_StorageType = ''SSD''\<rparr>
                 in (Ok (Some fs),
                     w\<lparr>fake_fileSystems := AList.update (fs_FileSystemId fs) fs (fake_fileSystems w),
                       fake_fileSystemsParameters :=
                         AList.update (fs_FileSystemId fs) parameters (fake_fileSystemsParameters w)\<rparr>))))"

fun resize_first :: "string \<Rightarrow> 32 word \<Rightarrow> (string \<times> FileSystem) list \<Rightarrow> (string \<times> FileSystem) list option" where
  "resize_first fileSystemId newSizeGiB [] = None"
| "resize_first fileSystemId newSizeGiB ((i, fs) # rest) =
     (if fs_FileSystemId fs = fileSystemId then Some ((i, fs\<lparr>fs_StorageCapacity := newSizeGiB\<rparr>) # rest)
      else map_option ((#) (i, fs)) (resize_first fileSystemId newSizeGiB rest))"

definition fake_ResizeFileSystem :: "string \<Rightarrow> 32 word \<Rightarrow> 32 word option fake" where
  "fake_ResizeFileSystem fileSystemId newSizeGiB = State (\<lambda>w.
     case resize_first fileSystemId newSizeGiB (fake_fileSystems w) of
       None \<Rightarrow> (Err ErrNotFound, w)
     | Some fss \<Rightarrow> (Ok (Some newSizeGiB), w\<lparr>fake_fileSystems := fss\<rparr>))"

definition fake_DeleteFileSystem :: "params \<Rightarrow> unit fake" where
  "fake_DeleteFileSystem parameters = State (\<lambda>w.
     (Ok (), w\<lparr>fake_fileSystems := AList.delete (get_param parameters ''FileSystemId'') (fake_fileSystems w),
       fake_fileSystemsParameters :=
         AList.delete (get_param parameters ''FileSystemId'') (fake_fileSystemsParameters w)\<rparr>))"

definition fake_DescribeFileSystem :: "string \<Rightarrow> FileSystem option fake" where
  "fake_DescribeFileSystem filesystemId = State (\<lambda>w.
     case List.find (\<lambda>(i, fs). fs_FileSystemId fs = filesystemId) (fake_fileSystems w) of
       Some (i, fs) \<Rightarrow> (Ok (Some fs), w) | None \<Rightarrow> (Err ErrNotFound, w))"

definition fake_WaitForFileSystemAvailable :: "string \<Rightarrow> unit fake" where
  "fake_WaitForFileSystemAvailable fileSystemId = ret (Ok ())"

definition fake_WaitForFileSystemResize :: "string \<Rightarrow> 32 word \<Rightarrow> unit fake" where
  "fake_WaitForFileSystemResize fileSystemId newSizeGiB = ret (Ok ())"

section \<open>Volumes\<close>

definition fake_CreateVolume :: "params \<Rightarrow> Volume option fake" where
  "fake_CreateVolume parameters = State (\<lambda>w.
     case find_token parameters (fake_volumesParameters w) of
       Some (existingId, existingParams) \<Rightarrow>
         if DeepEqual existingParams parameters then (Ok (map_of (fake_volumes w) existingId), w)
         else (Err ErrAlreadyExists, w)
     | None \<Rightarrow>
         (case random_Uint64 w of (n, w) \<Rightarrow>
            let v = \<lparr>vol_FileSystemId = fake_filesystemId w, vol_VolumeId = numbered ''fsvol-'' n,
                  vol_VolumePath = ''/''\<rparr>
            in (Ok (Some v),
                w\<lparr>fake_volumes := AList.update (vol_VolumeId v) v (fake_volumes w),
                  fake_volumesParameters := AList.update (vol_VolumeId v) parameters (fake_volumesParameters w)\<rparr>)))"

definition fake_DeleteVolume :: "params \<Rightarrow> unit fake" where
  "fake_DeleteVolume parameters = State (\<lambda>w.
     (Ok (), w\<lparr>fake_volumes := AList.delete (get_param parameters ''VolumeId'') (fake_volumes w),
       fake_volumesParameters := AList.delete (get_param parameters ''VolumeId'') (fake_volumesParameters w)\<rparr>))"

definition fake_DescribeVolume :: "string \<Rightarrow> Volume option fake" where
  "fake_DescribeVolume volumeId = State (\<lambda>w.
     case List.find (\<lambda>(i, v). vol_VolumeId v = volumeId) (fake_volumes w) of
       Some (i, v) \<Rightarrow> (Ok (Some v), w) | None \<Rightarrow> (Err ErrNotFound, w))"

definition fake_WaitForVolumeAvailable :: "string \<Rightarrow> unit fake" where
  "fake_WaitForVolumeAvailable volumeId = ret (Ok ())"

definition fake_WaitForVolumeResize :: "string \<Rightarrow> 32 word \<Rightarrow> unit fake" where
  "fake_WaitForVolumeResize volumeId newSizeGiB = ret (Ok ())"

section \<open>Snapshots and ids\<close>

definition fake_CreateSnapshot :: "params \<Rightarrow> Snapshot option fake" where
  "fake_CreateSnapshot parameters = State (\<lambda>w.
     case find_token parameters (fake_snapshotsParameters w) of
       Some (existingId, existingParams) \<Rightarrow>
         if DeepEqual existingParams parameters then (Ok (map_of (fake_snapshots w) existingId), w)
         else (Err ErrAlreadyExists, w)
     | None \<Rightarrow>
         (case random_Uint64 w of (n, w) \<Rightarrow>
            let s = \<lparr>snap_SnapshotID = numbered ''fsvolsnap-'' n, snap_SourceVolumeID = get_param parameters ''VolumeId'',
                  snap_ResourceARN = [], snap_CreationTime = fake_now w (fake_draws w)\<rparr>
            in (Ok (Some s),
                w\<lparr>fake_snapshots := AList.update (snap_SnapshotID s) s (fake_snapshots w),
                  fake_snapshotsParameters :=
                    AList.update (snap_SnapshotID s) parameters (fake_snapshotsParameters w)\<rparr>)))"

definition fake_DeleteSnapshot :: "params \<Rightarrow> unit fake" where
  "fake_DeleteSnapshot parameters = State (\<lambda>w.
     (Ok (), w\<lparr>fake_snapshots := AList.delete (get_param parameters ''SnapshotID'') (fake_snapshots w),
       fake_snapshotsParameters := AList.delete (get_param parameters ''SnapshotID'') (fake_snapshotsParameters w)\<rparr>))"

definition fake_DescribeSnapshot :: "string \<Rightarrow> Snapshot option fake" where
  "fake_DescribeSnapshot snapshotId = State (\<lambda>w.
     case List.find (\<lambda>(i, s). snap_SnapshotID s = snapshotId) (fake_snapshots w) of
       Some (i, s) \<Rightarrow> (Ok (Some s), w) | None \<Rightarrow> (Err ErrNotFound, w))"

definition fake_WaitForSnapshotAvailable :: "string \<Rightarrow> unit fake" where
  "fake_WaitForSnapshotAvailable snapshotId = ret (Ok ())"

definition fake_GetDeleteParameters :: "string \<Rightarrow> params fake" where
  "fake_GetDeleteParameters id1 = ret (Ok [])"

definition fake_GetVolumeId :: "string \<Rightarrow> string fake" where
  "fake_GetVolumeId volumeId = State (\<lambda>w.
     case map_of (fake_volumeIds w) volumeId of
       Some val \<Rightarrow> (Ok val, w)
     | None \<Rightarrow>
         if volume_prefix volumeId = FilesystemPrefix
         then (case random_Uint64 w of (n, w) \<Rightarrow>
                 let volId = numbered ''fsvol-'' n
                 in (Ok volId, w\<lparr>fake_volumeIds := AList.update volumeId volId (fake_volumeIds w)\<rparr>))
         else if volume_prefix volumeId = VolumePrefix
         then (Ok volumeId, w\<lparr>fake_volumeIds := AList.update volumeId volumeId (fake_volumeIds w)\<rparr>)
         else (Err ErrNotFound, w))"

definition fake_GetMetadata :: "FakeCloudProvider \<Rightarrow> Metadata" where
  "fake_GetMetadata w = fake_m w"

text \<open>The method set of \<^verbatim>\<open>*FakeCloudProvider\<close>.\<close>

definition fake_cloud :: "FakeCloudProvider Cloud" where
  "fake_cloud =
     \<lparr>CreateFileSystem = fake_CreateFileSystem,
      ResizeFileSystem = fake_ResizeFileSystem,
      DeleteFileSystem = fake_DeleteFileSystem,
      DescribeFileSystem = fake_DescribeFileSystem,
      WaitForFileSystemAvailable = fake_WaitForFileSystemAvailable,
      WaitForFileSystemResize = fake_WaitForFileSystemResize,
      CreateVolume = fake_CreateVolume,
      DeleteVolume = fake_DeleteVolume,
      DescribeVolume = fake_DescribeVolume,
      WaitForVolumeAvailable = fake_WaitForVolumeAvailable,
      WaitForVolumeResize = fake_WaitForVolumeResize,
      CreateSnapshot = fake_CreateSnapshot,
      DeleteSnapshot = fake_DeleteSnapshot,
      DescribeSnapshot = fake_DescribeSnapshot,
      WaitForSnapshotAvailable = fake_WaitForSnapshotAvailable,
      GetDeleteParameters = fake_GetDeleteParameters,
      GetVolumeId = fake_GetVolumeId\<rparr>"

end
