(* ===== verification/Driver.thy ===== *)
theory Driver
  imports Node FakeCloud
begin

text \<open>
  Start-up of the driver and its identity service: \<^verbatim>\<open>pkg/driver/{driver,identity,version,fakes}.go\<close>
  and \<^verbatim>\<open>NewCloud\<close>. Everything outside the repository that start-up reaches (environment, metadata
  clients, AWS configuration, mount library, operating system) is the record \<open>platform\<close>.
\<close>

section \<open>Options\<close>

definition ControllerMode :: string where "ControllerMode = ''controller''"

definition NodeMode :: string where "NodeMode = ''node''"

definition AllMode :: string where "AllMode = ''all''"

definition DefaultCSIEndpoint :: string where "DefaultCSIEndpoint = ''unix://tmp/csi.sock''"

definition DriverName :: string where "DriverName = ''fsx.openzfs.csi.aws.com''"

record DriverOptions =
  endpoint :: string
  mode :: string

definition WithEndpoint :: "string \<Rightarrow> DriverOptions \<Rightarrow> DriverOptions" where
  "WithEndpoint e opts = opts\<lparr>endpoint := e\<rparr>"

definition WithMode :: "string \<Rightarrow> DriverOptions \<Rightarrow> DriverOptions" where
  "WithMode m opts = opts\<lparr>mode := m\<rparr>"

section \<open>Services\<close>

text \<open>The functional options of \<^verbatim>\<open>config.LoadDefaultConfig\<close> that the driver passes.\<close>

datatype config_option = WithRegion string | WithRetryMaxAttempts nat

record ('w, 'g, 'k) platform =
  os_Getenv :: "string \<Rightarrow> string"
  os_Setenv :: "string \<Rightarrow> string \<Rightarrow> ('w, unit) go"
  LoadDefaultConfig :: "config_option list \<Rightarrow> ('w, 'g) go"
  imds_NewFromConfig :: "'g \<Rightarrow> 'w IMDS"
  rest_InClusterConfig :: "('w, 'k) go"
  kubernetes_NewForConfig :: "'k \<Rightarrow> ('w, 'w clientset) go"
  NewFromConfig :: "'g \<Rightarrow> 'w sdk"
  mount_New :: "'w mount_interface"
  platform_os :: "'w os_ops"
  taint_json :: "Taint \<Rightarrow> govalue"
  driverVersion :: string

record 'w cloud_struct =
  cloud_region :: string
  cloud_fsx :: "'w sdk"

record 'w controllerService =
  cs_cloud :: "'w cloud_struct"
  cs_inFlight :: InFlight
  cs_driverOptions :: DriverOptions

record 'w nodeService =
  ns_metadata :: Metadata
  ns_mounter :: "'w Mounter"
  ns_inFlight :: InFlight
  ns_driverOptions :: DriverOptions

definition DefaultIMDSClient :: "('w, 'g, 'k) platform \<Rightarrow> ('w, 'w IMDS) go" where
  "DefaultIMDSClient p = check (LoadDefaultConfig p []) id (\<lambda>cfg. ret (Ok (imds_NewFromConfig p cfg)))"

definition DefaultKubernetesAPIClient :: "('w, 'g, 'k) platform \<Rightarrow> ('w, 'w clientset) go" where
  "DefaultKubernetesAPIClient p =
     check (rest_InClusterConfig p) id (\<lambda>config.
     check (kubernetes_NewForConfig p config) id (\<lambda>clientset. ret (Ok clientset)))"

text \<open>The result of \<^verbatim>\<open>os.Setenv\<close> is ignored.\<close>

definition NewCloud :: "('w, 'g, 'k) platform \<Rightarrow> string \<Rightarrow> ('w, 'w cloud_struct) go" where
  "NewCloud p region =
     check (LoadDefaultConfig p [WithRegion region, WithRetryMaxAttempts 8]) id (\<lambda>cfg.
       invoke (os_Setenv p ''AWS_EXECUTION_ENV'' (''aws-fsx-openzfs-csi-driver-'' @ driverVersion p)) (\<lambda>_.
         ret (Ok \<lparr>cloud_region = region, cloud_fsx = NewFromConfig p cfg\<rparr>)))"

text \<open>\<^verbatim>\<open>panic(err)\<close> when the call fails.\<close>

definition must :: "('w, 'a) go \<Rightarrow> ('a \<Rightarrow> ('w, 'b) go) \<Rightarrow> ('w, 'b) go" where
  "must m k = invoke m (\<lambda>r. case r of Inl err \<Rightarrow> ret Panic | Inr x \<Rightarrow> k x)"

definition newControllerService ::
    "('w, 'g, 'k) platform \<Rightarrow> DriverOptions \<Rightarrow> ('w, 'w controllerService) go" where
  "newControllerService p driverOptions =
     (let start = (\<lambda>region. must (NewCloud p region) (\<lambda>cloudSrv.
            ret (Ok \<lparr>cs_cloud = cloudSrv, cs_inFlight = NewInFlight, cs_driverOptions = driverOptions\<rparr>)));
          region = os_Getenv p ''AWS_REGION''
      in if region = []
         then must (NewMetadataService (os_Getenv p) (DefaultIMDSClient p) (DefaultKubernetesAPIClient p) region)
                (\<lambda>metadata. start (GetRegion metadata))
         else start region)"

text \<open>
  The node service and the goroutine it starts: one attempt of the goroutine's retry loop,
  \<open>tryRemoveNotReadyTaintUntilSucceed\<close>, is the second component.
\<close>

definition newNodeService ::
    "('w, 'g, 'k) platform \<Rightarrow> DriverOptions \<Rightarrow> ('w, 'w nodeService \<times> ('w, unit) go) go" where
  "newNodeService p driverOptions =
     must (NewMetadataService (os_Getenv p) (DefaultIMDSClient p) (DefaultKubernetesAPIClient p) (os_Getenv p ''AWS_REGION''))
       (\<lambda>metadata. ret (Ok
          (\<lparr>ns_metadata = metadata, ns_mounter = NodeMounter (platform_os p) (mount_New p),
            ns_inFlight = NewInFlight, ns_driverOptions = driverOptions\<rparr>,
           removeNotReadyTaint (taint_json p) (os_Getenv p) (DefaultKubernetesAPIClient p))))"

section \<open>The driver\<close>

record 'w Driver =
  driver_controllerService :: "'w controllerService option"
  driver_nodeService :: "('w nodeService \<times> ('w, unit) go) option"
  driver_options :: DriverOptions

definition NewDriver ::
    "('w, 'g, 'k) platform \<Rightarrow> (DriverOptions \<Rightarrow> DriverOptions) list \<Rightarrow> ('w, 'w Driver) go" where
  "NewDriver p options =
     (let driverOptions = fold (\<lambda>option opts. option opts) options \<lparr>endpoint = DefaultCSIEndpoint, mode = AllMode\<rparr>
      in if mode driverOptions = ControllerMode
         then check (newControllerService p driverOptions) id (\<lambda>c.
                ret (Ok \<lparr>driver_controllerService = Some c, driver_nodeService = None, driver_options = driverOptions\<rparr>))
         else if mode driverOptions = NodeMode
         then check (newNodeService p driverOptions) id (\<lambda>n.
                ret (Ok \<lparr>driver_controllerService = None, driver_nodeService = Some n, driver_options = driverOptions\<rparr>))
         else if mode driverOptions = AllMode
         then check (newControllerService p driverOptions) id (\<lambda>c.
              check (newNodeService p driverOptions) id (\<lambda>n.
                ret (Ok \<lparr>driver_controllerService = Some c, driver_nodeService = Some n, driver_options = driverOptions\<rparr>)))
         else ret (Err (Errorf ''unknown mode: %s'' [AStr (mode driverOptions)])))"

section \<open>Identity\<close>

record GetPluginInfoResponse =
  plugin_Name :: string
  plugin_VendorVersion :: string

datatype plugin_capability = CONTROLLER_SERVICE

definition GetPluginInfo :: "string \<Rightarrow> ('w, GetPluginInfoResponse) go" where
  "GetPluginInfo version = ret (Ok \<lparr>plugin_Name = DriverName, plugin_VendorVersion = version\<rparr>)"

definition GetPluginCapabilities :: "('w, plugin_capability list) go" where
  "GetPluginCapabilities = ret (Ok [CONTROLLER_SERVICE])"

definition Probe :: "('w, unit) go" where
  "Probe = ret (Ok ())"

section \<open>Version\<close>

record VersionInfo =
  DriverVersion :: string
  GitCommit :: string
  BuildDate :: string
  GoVersion :: string
  Compiler :: string
  Platform :: string

text \<open>What the build and the runtime provide.\<close>

record build_info =
  build_driverVersion :: string
  build_gitCommit :: string
  build_buildDate :: string
  runtime_Version :: string
  runtime_Compiler :: string
  runtime_GOOS :: string
  runtime_GOARCH :: string

definition GetVersion :: "build_info \<Rightarrow> VersionInfo" where
  "GetVersion b =
     \<lparr>DriverVersion = build_driverVersion b, GitCommit = build_gitCommit b, BuildDate = build_buildDate b,
      GoVersion = runtime_Version b, Compiler = runtime_Compiler b,
      Platform = runtime_GOOS b @ ''/'' @ runtime_GOARCH b\<rparr>"

text \<open>\<^verbatim>\<open>json.MarshalIndent(v, "", "  ")\<close> of a struct of strings.\<close>

definition MarshalIndent :: "(string \<times> string) list \<Rightarrow> string" where
  "MarshalIndent fs =
     ''{'' @ join '','' (map (\<lambda>(k, v). CHR 0x0A # ''  '' @ CHR 0x22 # k @ [CHR 0x22] @ '': '' @
        CHR 0x22 # json_escape v @ [CHR 0x22]) fs) @ CHR 0x0A # ''}''"

definition GetVersionJSON :: "build_info \<Rightarrow> goerr + string" where
  "GetVersionJSON b =
     (let info = GetVersion b in
      Inr (MarshalIndent [(''driverVersion'', DriverVersion info), (''gitCommit'', GitCommit info),
        (''buildDate'', BuildDate info), (''goVersion'', GoVersion info),
        (''compiler'', Compiler info), (''platform'', Platform info)]))"

section \<open>The driver of the sanity tests\<close>

text \<open>
  The fake driver holds the state of its fake cloud and of both tables. The library's \<^verbatim>\<open>FakeMounter\<close>
  is an argument.
\<close>

definition NewFakeMounter :: "'w os_ops \<Rightarrow> 'w mount_interface \<Rightarrow> 'w Mounter" where
  "NewFakeMounter os FakeMounter = NodeMounter os FakeMounter"

record 'w fake_driver =
  fd_options :: DriverOptions
  fd_cloud :: FakeCloudProvider
  fd_inFlight :: InFlight
  fd_nodeService :: "'w nodeService"

definition NewFakeDriver ::
    "'w os_ops \<Rightarrow> 'w mount_interface \<Rightarrow> (nat \<Rightarrow> 64 word) \<Rightarrow> (nat \<Rightarrow> int) \<Rightarrow> string \<Rightarrow> 'w fake_driver" where
  "NewFakeDriver os FakeMounter random now e =
     \<lparr>fd_options = \<lparr>endpoint = e, mode = AllMode\<rparr>,
      fd_cloud = NewFakeCloudProvider random now,
      fd_inFlight = NewInFlight,
      fd_nodeService =
        \<lparr>ns_metadata = \<lparr>InstanceID = ''instanceID'', InstanceType = [], Region = ''region'', AvailabilityZone = ''az''\<rparr>,
         ns_mounter = NewFakeMounter os FakeMounter,
         ns_inFlight = NewInFlight,
         ns_driverOptions = \<lparr>endpoint = [], mode = []\<rparr>\<rparr>\<rparr>"

definition ResetCloud :: "(nat \<Rightarrow> 64 word) \<Rightarrow> (nat \<Rightarrow> int) \<Rightarrow> 'w fake_driver \<Rightarrow> 'w fake_driver" where
  "ResetCloud random now d = d\<lparr>fd_cloud := NewFakeCloudProvider random now\<rparr>"

end
