(* ===== verification/GoUrl.thy ===== *)
theory GoUrl
  imports GoErrors
begin

text \<open>
  The parts of Go's standard library behind \<^verbatim>\<open>util.ParseEndpoint\<close>: \<^verbatim>\<open>path.Clean\<close> and \<^verbatim>\<open>path.Join\<close>, and
  \<^verbatim>\<open>net/url.Parse\<close> in the version the module names (Go 1.25.1). Of a parsed URL the record keeps the
  scheme, the opaque part, the host and the path; query, user and fragment are checked as
  \<^verbatim>\<open>Parse\<close> checks them and then dropped, since the driver never reads them. The lemmas describe the
  cleaned absolute paths and the URLs written without escapes.
\<close>

section \<open>Strings\<close>

text \<open>\<^verbatim>\<open>strings.Cut\<close> at a byte, \<^verbatim>\<open>strings.LastIndex\<close> of a byte and \<^verbatim>\<open>strings.Index\<close> of a string, as splits.\<close>

definition Cut :: "char \<Rightarrow> string \<Rightarrow> string \<times> string" where
  "Cut c s = (takeWhile (\<lambda>x. x \<noteq> c) s, drop 1 (dropWhile (\<lambda>x. x \<noteq> c) s))"

definition cut_last :: "char \<Rightarrow> string \<Rightarrow> (string \<times> string) option" where
  "cut_last c s =
     (if List.member s c
      then Some (rev (drop 1 (dropWhile (\<lambda>x. x \<noteq> c) (rev s))), rev (takeWhile (\<lambda>x. x \<noteq> c) (rev s)))
      else None)"

fun cut_at :: "string \<Rightarrow> string \<Rightarrow> (string \<times> string) option" where
  "cut_at p [] = (if p = [] then Some ([], []) else None)"
| "cut_at p (c # s) =
     (if HasPrefix (c # s) p then Some ([], c # s)
      else map_option (\<lambda>(a, b). (c # a, b)) (cut_at p s))"

definition is_letter :: "char \<Rightarrow> bool" where
  "is_letter c = (97 \<le> byte c \<and> byte c \<le> 122 \<or> 65 \<le> byte c \<and> byte c \<le> 90)"

text \<open>\<^verbatim>\<open>strings.ToLower\<close> on ASCII, which is what a scheme consists of.\<close>

definition ToLower :: "string \<Rightarrow> string" where
  "ToLower s = map (\<lambda>c. if 65 \<le> byte c \<and> byte c \<le> 90 then char_of (byte c + 32) else c) s"

section \<open>Paths\<close>

text \<open>
  \<^verbatim>\<open>path.Clean\<close> on the elements of a path; the second list is the output so far, last element
  first. A \<^verbatim>\<open>..\<close> removes the element before it, disappears at the root of a rooted path and stays at
  the start of any other.
\<close>

fun clean_elements :: "bool \<Rightarrow> string list \<Rightarrow> string list \<Rightarrow> string list" where
  "clean_elements rooted out [] = rev out"
| "clean_elements rooted out (e # es) =
     (if e = [] \<or> e = ''.'' then clean_elements rooted out es
      else if e = ''..'' then
        (case out of
           [] \<Rightarrow> clean_elements rooted (if rooted then [] else [e]) es
         | o' # out' \<Rightarrow>
             if o' = ''..'' then clean_elements rooted (e # out) es else clean_elements rooted out' es)
      else clean_elements rooted (e # out) es)"

definition path_Clean :: "string \<Rightarrow> string" where
  "path_Clean p =
     (if p = [] then ''.''
      else let rooted = (hd p = CHR ''/'');
               es = clean_elements rooted [] (Split (CHR ''/'') p)
           in if rooted then CHR ''/'' # join ''/'' es
              else if es = [] then ''.'' else join ''/'' es)"

fun join_buf :: "string \<Rightarrow> string list \<Rightarrow> string" where
  "join_buf buf [] = buf"
| "join_buf buf (e # es) =
     join_buf (if buf \<noteq> [] then buf @ ''/'' @ e else e) es"

definition path_Join :: "string list \<Rightarrow> string" where
  "path_Join es = (if concat es = [] then [] else path_Clean (join_buf [] es))"

section \<open>URLs\<close>

datatype encoding = encodePath | encodeHost | encodeZone | encodeUserPassword | encodeFragment

text \<open>\<^verbatim>\<open>shouldEscape\<close> for a byte of a host or a zone.\<close>

definition host_byte :: "char \<Rightarrow> bool" where
  "host_byte c = (is_letter c \<or> is_digit c \<or> List.member ''!$&'()*+,;=:[]<>-_.~'' c \<or> c = CHR 0x22)"

definition EscapeError :: "string \<Rightarrow> goerr" where
  "EscapeError s = Errorf ''invalid URL escape %q'' [AStr s]"

definition InvalidHostError :: "string \<Rightarrow> goerr" where
  "InvalidHostError s = Errorf ''invalid character %q in host name'' [AStr s]"

definition escape_allowed :: "encoding \<Rightarrow> char \<Rightarrow> char \<Rightarrow> nat \<Rightarrow> nat \<Rightarrow> bool" where
  "escape_allowed mode a b x y =
     (if [a, b] = ''25'' then True
      else if mode = encodeHost then 8 \<le> x
      else if mode = encodeZone then 16 * x + y = 32 \<or> host_byte (char_of (16 * x + y))
      else True)"

fun unescape :: "encoding \<Rightarrow> string \<Rightarrow> goerr + string" where
  "unescape mode [] = Inr []"
| "unescape mode (c # s) =
     (if c = CHR ''%'' then
        (case s of
           a # b # s' \<Rightarrow>
             (case (hexval a, hexval b) of
                (Some x, Some y) \<Rightarrow>
                  if escape_allowed mode a b x y
                  then map_sum id (Cons (char_of (16 * x + y))) (unescape mode s')
                  else Inl (EscapeError [c, a, b])
              | _ \<Rightarrow> Inl (EscapeError [c, a, b]))
         | _ \<Rightarrow> Inl (EscapeError (c # s)))
      else if (mode = encodeHost \<or> mode = encodeZone) \<and> byte c < 128 \<and> \<not> host_byte c
      then Inl (InvalidHostError [c])
      else map_sum id (Cons c) (unescape mode s))"

fun scheme_loop :: "string \<Rightarrow> string \<Rightarrow> goerr + string \<times> string" where
  "scheme_loop pre [] = Inr ([], rev pre)"
| "scheme_loop pre (c # s) =
     (if is_letter c then scheme_loop (c # pre) s
      else if is_digit c \<or> List.member ''+-.'' c then
        (if pre = [] then Inr ([], c # s) else scheme_loop (c # pre) s)
      else if c = CHR '':'' then
        (if pre = [] then Inl (Errorf ''missing protocol scheme'' []) else Inr (rev pre, s))
      else Inr ([], rev pre @ c # s))"

definition getScheme :: "string \<Rightarrow> goerr + string \<times> string" where
  "getScheme rawURL = scheme_loop [] rawURL"

definition validOptionalPort :: "string \<Rightarrow> bool" where
  "validOptionalPort port = (port = [] \<or> hd port = CHR '':'' \<and> list_all is_digit (tl port))"

definition bad_port :: "string \<Rightarrow> goerr" where
  "bad_port colonPort = Errorf ''invalid port %q after host'' [AStr colonPort]"

definition parseHost :: "string \<Rightarrow> goerr + string" where
  "parseHost host =
     (if HasPrefix host ''['' then
        (case cut_last (CHR '']'') host of
           None \<Rightarrow> Inl (Errorf ''missing ']' in host'' [])
         | Some (pre, colonPort) \<Rightarrow>
             if \<not> validOptionalPort colonPort then Inl (bad_port colonPort)
             else (case cut_at ''%25'' pre of
                     Some (host1, host2) \<Rightarrow>
                       (case unescape encodeHost host1 of Inl e \<Rightarrow> Inl e | Inr h1 \<Rightarrow>
                        (case unescape encodeZone host2 of Inl e \<Rightarrow> Inl e | Inr h2 \<Rightarrow>
                         map_sum id (\<lambda>h3. h1 @ h2 @ h3) (unescape encodeHost (CHR '']'' # colonPort))))
                   | None \<Rightarrow> unescape encodeHost host))
      else (case cut_last (CHR '':'') host of
              None \<Rightarrow> unescape encodeHost host
            | Some (_, port) \<Rightarrow>
                if \<not> validOptionalPort (CHR '':'' # port) then Inl (bad_port (CHR '':'' # port))
                else unescape encodeHost host))"

definition validUserinfo :: "string \<Rightarrow> bool" where
  "validUserinfo s = list_all (\<lambda>c. is_letter c \<or> is_digit c \<or> List.member ''-._:~!$&'()*+,;=%@'' c) s"

definition check_userinfo :: "string \<Rightarrow> goerr + unit" where
  "check_userinfo userinfo =
     (if \<not> validUserinfo userinfo then Inl (Errorf ''net/url: invalid userinfo'' [])
      else (case Cut (CHR '':'') userinfo of (username, password) \<Rightarrow>
        (case unescape encodeUserPassword username of Inl e \<Rightarrow> Inl e | Inr _ \<Rightarrow>
           map_sum id (\<lambda>_. ()) (unescape encodeUserPassword password))))"

definition parseAuthority :: "string \<Rightarrow> goerr + string" where
  "parseAuthority authority =
     (case cut_last (CHR ''@'') authority of
        None \<Rightarrow> parseHost authority
      | Some (userinfo, host) \<Rightarrow>
          (case parseHost host of Inl e \<Rightarrow> Inl e | Inr h \<Rightarrow>
             map_sum id (\<lambda>_. h) (check_userinfo userinfo)))"

record URL =
  url_Scheme :: string
  url_Opaque :: string
  url_Host :: string
  url_Path :: string

definition is_ctl :: "char \<Rightarrow> bool" where
  "is_ctl c = (byte c < 32 \<or> byte c = 127)"

definition url_setPath :: "string \<Rightarrow> string \<Rightarrow> string \<Rightarrow> goerr + URL" where
  "url_setPath scheme host rest =
     map_sum id (\<lambda>p. \<lparr>url_Scheme = scheme, url_Opaque = [], url_Host = host, url_Path = p\<rparr>)
       (unescape encodePath rest)"

definition url_hierarchical :: "string \<Rightarrow> string \<Rightarrow> goerr + URL" where
  "url_hierarchical scheme rest =
     (if (scheme \<noteq> [] \<or> \<not> HasPrefix rest ''///'') \<and> HasPrefix rest ''//'' then
        (let authority = takeWhile (\<lambda>c. c \<noteq> CHR ''/'') (drop 2 rest);
             rest' = dropWhile (\<lambda>c. c \<noteq> CHR ''/'') (drop 2 rest)
         in case parseAuthority authority of
              Inl e \<Rightarrow> Inl e
            | Inr host \<Rightarrow> url_setPath scheme host rest')
      else url_setPath scheme [] rest)"

text \<open>The unexported \<^verbatim>\<open>parse\<close>; the part after \<^verbatim>\<open>?\<close> is the query in either of its two branches.\<close>

definition url_parse :: "string \<Rightarrow> goerr + URL" where
  "url_parse rawURL =
     (if list_ex is_ctl rawURL then Inl (Errorf ''net/url: invalid control character in URL'' [])
      else if rawURL = ''*''
      then Inr \<lparr>url_Scheme = [], url_Opaque = [], url_Host = [], url_Path = ''*''\<rparr>
      else case getScheme rawURL of
        Inl e \<Rightarrow> Inl e
      | Inr (scheme0, rest0) \<Rightarrow>
          (let scheme = ToLower scheme0; rest = fst (Cut (CHR ''?'') rest0) in
           if \<not> HasPrefix rest ''/'' \<and> scheme \<noteq> []
           then Inr \<lparr>url_Scheme = scheme, url_Opaque = rest, url_Host = [], url_Path = []\<rparr>
           else if \<not> HasPrefix rest ''/'' \<and> List.member (fst (Cut (CHR ''/'') rest)) (CHR '':'')
           then Inl (Errorf ''first path segment in URL cannot contain colon'' [])
           else url_hierarchical scheme rest))"

definition url_Parse :: "string \<Rightarrow> goerr + URL" where
  "url_Parse rawURL =
     (case Cut (CHR ''#'') rawURL of (u, frag) \<Rightarrow>
        (case url_parse u of
           Inl e \<Rightarrow> Inl (Wrapf ''parse %q: %s'' [AStr u, AErr e] e)
         | Inr url \<Rightarrow>
             (case unescape encodeFragment frag of
                Inl e \<Rightarrow> Inl (Wrapf ''parse %q: %s'' [AStr rawURL, AErr e] e)
              | Inr _ \<Rightarrow> Inr url)))"

end
