(* ===== verification/Endpoint.thy ===== *)
theory Endpoint
  imports GoUrl
begin

text \<open>
  \<^verbatim>\<open>util.ParseEndpoint\<close>, which turns the driver's endpoint into the network and address of its
  listener and removes a stale Unix socket. The removal is an argument. The lemmas show which file
  it may remove and that an endpoint written for a clean path or a host and port is understood as
  written.
\<close>

section \<open>The operation\<close>

definition ParseEndpoint :: "(string \<Rightarrow> ('w, unit) go) \<Rightarrow> string \<Rightarrow> ('w, string \<times> string) go" where
  "ParseEndpoint os_Remove endpoint =
     (case url_Parse endpoint of
        Inl err \<Rightarrow> ret (Err (Errorf ''could not parse endpoint: %v'' [AErr err]))
      | Inr u \<Rightarrow>
          (let addr = path_Join [url_Host u, url_Path u]; scheme = ToLower (url_Scheme u) in
           if scheme = ''tcp'' then ret (Ok (scheme, addr))
           else if scheme = ''unix'' then
             (let addr' = path_Join [''/'', addr] in
              invoke (os_Remove addr') (\<lambda>r. case r of
                Inl err \<Rightarrow>
                  if \<not> os_IsNotExist err
                  then ret (Err (Errorf ''could not remove unix domain socket %q: %v'' [AStr addr', AErr err]))
                  else ret (Ok (scheme, addr'))
              | Inr _ \<Rightarrow> ret (Ok (scheme, addr'))))
           else ret (Err (Errorf ''unsupported protocol: %s'' [AStr scheme]))))"

section \<open>Clean absolute paths\<close>

definition path_element :: "string \<Rightarrow> bool" where
  "path_element e = (e \<noteq> [] \<and> e \<noteq> ''.'' \<and> e \<noteq> ''..'' \<and> \<not> List.member e (CHR ''/''))"

definition clean_abs :: "string \<Rightarrow> bool" where
  "clean_abs p =
     (p = ''/'' \<or> HasPrefix p ''/'' \<and> list_all path_element (Split (CHR ''/'') (tl p)))"

lemma Split_no_sep: "sep \<notin> set s \<Longrightarrow> Split sep s = [s]"
  by (induction s) auto

lemma Split_append: "sep \<notin> set s \<Longrightarrow> Split sep (s @ sep # t) = s # Split sep t"
  by (induction s) auto

lemma Split_elements: "e \<in> set (Split sep s) \<Longrightarrow> sep \<notin> set e"
proof (induction s arbitrary: e)
  case (Cons c s)
  then show ?case
    by (cases "Split sep s") (auto split: if_splits)
qed simp

lemma Split_join: "es \<noteq> [] \<Longrightarrow> \<forall>e\<in>set es. sep \<notin> set e \<Longrightarrow> Split sep (join [sep] es) = es"
  by (induction "[sep]" es rule: join.induct) (auto simp: Split_no_sep Split_append)

lemma join_Split: "join [sep] (Split sep s) = s"
proof (induction s)
  case (Cons c s)
  then show ?case
    by (cases "Split sep s" rule: list.exhaust [case_product list.exhaust]; cases "tl (Split sep s)")
      (auto split: list.splits)
qed simp

lemma clean_elements_normal:
  "list_all path_element es \<Longrightarrow> clean_elements rooted out es = rev out @ es"
  by (induction es arbitrary: out) (auto simp: path_element_def)

lemma path_elementI:
  "e \<noteq> [] \<Longrightarrow> e \<noteq> ''.'' \<Longrightarrow> e \<noteq> ''..'' \<Longrightarrow> CHR ''/'' \<notin> set e \<Longrightarrow> path_element e"
  by (simp add: path_element_def)

lemma path_element_not_dotdot: "path_element e \<Longrightarrow> e \<noteq> ''..''"
  by (auto simp: path_element_def)

lemma path_element_of: "c \<in> set e \<Longrightarrow> c \<noteq> CHR ''.'' \<Longrightarrow> CHR ''/'' \<notin> set e \<Longrightarrow> path_element e"
  by (auto simp: path_element_def)

lemma path_element_no_sep: "path_element e \<Longrightarrow> CHR ''/'' \<notin> set e"
  by (simp add: path_element_def)

lemma clean_elements_rooted:
  "list_all path_element out \<Longrightarrow> \<forall>e\<in>set es. CHR ''/'' \<notin> set e \<Longrightarrow>
   list_all path_element (clean_elements True out es)"
proof (induction es arbitrary: out)
  case Nil
  then show ?case by (simp add: list_all_iff)
next
  case (Cons e es)
  consider "e = [] \<or> e = ''.''" | "e = ''..''" | "path_element e"
    using Cons.prems(2) path_elementI by auto
  then show ?case
  proof cases
    case 1
    then show ?thesis using Cons by simp
  next
    case 2
    then show ?thesis using Cons by (cases out) (auto simp: path_element_not_dotdot)
  next
    case 3
    then show ?thesis using Cons by (simp add: path_element_def)
  qed
qed

lemma path_Clean_rooted: "clean_abs (path_Clean (CHR ''/'' # p))"
proof -
  define es where "es = clean_elements True [] (Split (CHR ''/'') (CHR ''/'' # p))"
  have all: "list_all path_element es"
    unfolding es_def by (rule clean_elements_rooted) (use Split_elements in auto)
  have "path_Clean (CHR ''/'' # p) = CHR ''/'' # join ''/'' es"
    by (simp add: path_Clean_def es_def)
  moreover have "es \<noteq> [] \<Longrightarrow> Split (CHR ''/'') (join ''/'' es) = es"
    using all by (intro Split_join) (auto simp: list_all_iff path_element_no_sep)
  ultimately show ?thesis
    using all by (cases "es = []") (simp_all add: clean_abs_def HasPrefix_def)
qed

lemma path_Clean_clean_abs: "clean_abs p \<Longrightarrow> path_Clean p = p"
  by (cases p) (auto simp: path_Clean_def clean_abs_def HasPrefix_def clean_elements_normal join_Split)

lemma path_Join_root: "clean_abs (path_Join [''/'', p])"
  using path_Clean_rooted [of "CHR ''/'' # p"] by (simp add: path_Join_def)

lemma path_Join_host_only: "e \<noteq> [] \<Longrightarrow> path_Join [[], e] = path_Clean e"
  by (simp add: path_Join_def)

lemma path_Clean_double: "path_Clean (CHR ''/'' # CHR ''/'' # p) = path_Clean (CHR ''/'' # p)"
  by (simp add: path_Clean_def)

lemma path_Join_clean_abs:
  assumes "clean_abs p"
  shows "path_Join [[], p] = p" "path_Join [''/'', p] = p"
proof -
  obtain q where p: "p = CHR ''/'' # q"
    using assms by (cases p) (auto simp: clean_abs_def HasPrefix_def)
  then show "path_Join [[], p] = p" "path_Join [''/'', p] = p"
    using path_Clean_clean_abs [OF assms] by (simp_all add: path_Join_def path_Clean_double)
qed

lemma path_Clean_element: "path_element e \<Longrightarrow> path_Clean e = e"
  by (cases e) (auto simp: path_Clean_def path_element_def Split_no_sep)

section \<open>URLs without escapes\<close>

definition plain_byte :: "char \<Rightarrow> bool" where
  "plain_byte c = (\<not> is_ctl c \<and> c \<noteq> CHR ''%'' \<and> c \<noteq> CHR ''?'' \<and> c \<noteq> CHR ''#'')"

lemma unescape_plain_path: "CHR ''%'' \<notin> set s \<Longrightarrow> unescape encodePath s = Inr s"
  by (induction s) auto

lemma unescape_plain_host:
  "list_all host_byte s \<Longrightarrow> unescape encodeHost s = Inr s"
proof (induction s)
  case (Cons c s)
  moreover have "c \<noteq> CHR ''%''" using Cons.prems by (auto simp: host_byte_def is_letter_def is_digit_def)
  ultimately show ?case by simp
qed simp

lemma Cut_absent: "c \<notin> set s \<Longrightarrow> Cut c s = (s, [])"
  by (induction s) (auto simp: Cut_def)

lemma getScheme_unix: "getScheme (''unix:'' @ s) = Inr (''unix'', s)"
  by (simp add: getScheme_def is_letter_def is_digit_def)

lemma getScheme_tcp: "getScheme (''tcp:'' @ s) = Inr (''tcp'', s)"
  by (simp add: getScheme_def is_letter_def is_digit_def)

lemma url_Parse_unix:
  assumes "HasPrefix p ''/''" "list_all plain_byte p"
  shows "url_Parse (''unix://'' @ p) = Inr \<lparr>url_Scheme = ''unix'', url_Opaque = [], url_Host = [], url_Path = p\<rparr>"
proof -
  have n: "CHR ''%'' \<notin> set p" "CHR ''?'' \<notin> set p" "CHR ''#'' \<notin> set p" "\<not> list_ex is_ctl p"
    using assms(2) by (auto simp: plain_byte_def list_all_iff list_ex_iff)
  have "getScheme (''unix://'' @ p) = Inr (''unix'', ''//'' @ p)"
    using getScheme_unix [of "''//'' @ p"] by simp
  with n assms(1) show ?thesis
    by (cases p) (simp_all add: url_Parse_def Cut_absent url_parse_def ToLower_def is_ctl_def HasPrefix_def
        url_hierarchical_def parseAuthority_def cut_last_def parseHost_def url_setPath_def unescape_plain_path)
qed

lemma cut_last_append: "c \<notin> set t \<Longrightarrow> cut_last c (s @ c # t) = Some (s, t)"
  by (simp add: cut_last_def takeWhile_append dropWhile_append)

lemma path_Join_element: "path_element e \<Longrightarrow> path_Join [e, []] = e"
  by (cases e) (auto simp: path_Join_def path_Clean_def path_element_def Split_append)

definition host_port :: "string \<Rightarrow> string \<Rightarrow> bool" where
  "host_port host port =
     (list_all host_byte host \<and> \<not> HasPrefix host ''['' \<and> list_all is_digit port)"

lemma host_byte_plain:
  "host_byte c \<Longrightarrow> \<not> is_ctl c \<and> c \<noteq> CHR ''/'' \<and> c \<noteq> CHR ''?'' \<and> c \<noteq> CHR ''#'' \<and> c \<noteq> CHR ''@''"
  by (auto simp: host_byte_def is_letter_def is_digit_def is_ctl_def)

lemma host_byte_digit: "is_digit c \<Longrightarrow> host_byte c \<and> c \<noteq> CHR '':''"
  by (auto simp: host_byte_def is_digit_def)

lemma host_byte_colon: "host_byte (CHR '':'')"
  by (simp add: host_byte_def)

lemma host_port_facts:
  assumes "host_port host port" "hp = host @ CHR '':'' # port"
  shows "list_all host_byte hp" "cut_last (CHR '':'') hp = Some (host, port)" "\<not> HasPrefix hp ''[''"
    "validOptionalPort (CHR '':'' # port)" "path_element hp"
proof -
  show all: "list_all host_byte hp"
    using assms host_byte_digit host_byte_colon by (auto simp: host_port_def list_all_iff)
  show "cut_last (CHR '':'') hp = Some (host, port)"
    unfolding assms(2) by (rule cut_last_append) (use assms(1) host_byte_digit in \<open>auto simp: host_port_def list_all_iff\<close>)
  show "\<not> HasPrefix hp ''[''"
    using assms by (cases host) (auto simp: host_port_def HasPrefix_def)
  show "validOptionalPort (CHR '':'' # port)"
    using assms by (simp add: host_port_def validOptionalPort_def)
  have "CHR '':'' \<in> set hp" using assms(2) by simp
  then show "path_element hp"
    by (rule path_element_of) (use all host_byte_plain in \<open>auto simp: list_all_iff\<close>)
qed

lemma url_Parse_tcp:
  assumes "host_port host port" "hp = host @ CHR '':'' # port"
  shows "url_Parse (''tcp://'' @ hp) = Inr \<lparr>url_Scheme = ''tcp'', url_Opaque = [], url_Host = hp, url_Path = []\<rparr>"
proof -
  note f = host_port_facts [OF assms]
  have n: "CHR ''/'' \<notin> set hp" "CHR ''?'' \<notin> set hp" "CHR ''#'' \<notin> set hp" "CHR ''@'' \<notin> set hp"
    "\<not> list_ex is_ctl hp"
    using f(1) host_byte_plain by (auto simp: list_all_iff list_ex_iff)
  have "parseAuthority hp = Inr hp"
    using f n by (simp add: parseAuthority_def cut_last_def [of "CHR ''@''"] parseHost_def unescape_plain_host)
  moreover have "takeWhile (\<lambda>c. c \<noteq> CHR ''/'') hp = hp" "dropWhile (\<lambda>c. c \<noteq> CHR ''/'') hp = []"
    using n(1) takeWhile_eq_all_conv [of "\<lambda>c. c \<noteq> CHR ''/''" hp] by auto
  moreover have "getScheme (''tcp://'' @ hp) = Inr (''tcp'', ''//'' @ hp)"
    using getScheme_tcp [of "''//'' @ hp"] by simp
  ultimately show ?thesis
    using n(2-) by (simp del: takeWhile_eq_all_conv dropWhile_eq_Nil_conv add: url_Parse_def Cut_absent url_parse_def ToLower_def is_ctl_def HasPrefix_def
        url_hierarchical_def url_setPath_def)
qed

lemma ParseEndpoint_scheme:
  assumes "run_state (ParseEndpoint os_Remove e) w = (Ok (scheme, addr), w')"
  shows "scheme = ''tcp'' \<or> scheme = ''unix'' \<and> clean_abs addr"
  using assms
  by (auto simp: ParseEndpoint_def Let_def run_invoke path_Join_root split: sum.splits if_splits prod.splits res.splits)

section \<open>Properties\<close>

text \<open>
  C38. \<^verbatim>\<open>ParseEndpoint\<close> removes at most one file, and only under a cleaned absolute path without
  \<^verbatim>\<open>.\<close> or \<^verbatim>\<open>..\<close>. It returns only the networks \<^verbatim>\<open>tcp\<close>, for which it touches nothing, and \<^verbatim>\<open>unix\<close>, whose
  address is the cleaned absolute path it has just removed or found missing.
\<close>

theorem parse_endpoint_safe:
  assumes "run_state (ParseEndpoint os_Remove endpoint) w = (r, w')"
  shows "(w' = w \<or> (\<exists>addr. clean_abs addr \<and> w' = snd (run_state (os_Remove addr) w))) \<and>
    (case r of
       Ok (scheme, addr) \<Rightarrow>
         scheme = ''tcp'' \<and> w' = w \<or>
         scheme = ''unix'' \<and> clean_abs addr \<and>
           (\<exists>x. run_state (os_Remove addr) w = (x, w') \<and>
              (case x of Ok _ \<Rightarrow> True | Err err \<Rightarrow> os_IsNotExist err | Panic \<Rightarrow> False))
     | _ \<Rightarrow> True)"
proof (cases "url_Parse endpoint")
  case (Inl err)
  then show ?thesis using assms by (auto simp: ParseEndpoint_def)
next
  case (Inr u)
  let ?addr = "path_Join [''/'', path_Join [url_Host u, url_Path u]]"
  have "clean_abs ?addr" by (rule path_Join_root)
  moreover obtain x w1 where x: "run_state (os_Remove ?addr) w = (x, w1)" by fastforce
  ultimately show ?thesis
    using assms Inr
    by (cases x) (auto simp: ParseEndpoint_def Let_def run_go split: if_splits)
qed

text \<open>A file system that holds a list of paths.\<close>

definition sample_Remove :: "string \<Rightarrow> (string list, unit) go" where
  "sample_Remove p =
     State (\<lambda>fs. if List.member fs p then (Ok (), removeAll p fs)
                else (Err (OsErr OsNotExist ''no such file or directory''), fs))"

lemma sample_ParseEndpoint:
  "run_state (ParseEndpoint sample_Remove ''unix://tmp/csi.sock'') [''/tmp/csi.sock'', ''/etc''] =
     (Ok (''unix'', ''/tmp/csi.sock''), [''/etc''])"
  by code_simp

theorem parse_endpoint_safe_witness:
  "clean_abs ''/tmp/csi.sock'' \<and> (\<exists>x. run_state (sample_Remove ''/tmp/csi.sock'') [''/tmp/csi.sock'', ''/etc''] = (x, [''/etc'']))"
  using parse_endpoint_safe [OF sample_ParseEndpoint] by auto

text \<open>
  C39. Endpoints are understood as written: \<^verbatim>\<open>unix://\<close> followed by a clean absolute path without
  escapes names that path, which is removed first and must be removable or missing; \<^verbatim>\<open>tcp://\<close> followed
  by a host and a port names them unchanged.
\<close>

theorem parse_endpoint_roundtrip:
  assumes "clean_abs p" "list_all plain_byte p" "host_port host port"
  shows "run_state (ParseEndpoint os_Remove (''unix://'' @ p)) w =
      (case run_state (os_Remove p) w of (x, w') \<Rightarrow>
         (case x of
            Ok _ \<Rightarrow> Ok (''unix'', p)
          | Err err \<Rightarrow>
              if os_IsNotExist err then Ok (''unix'', p)
              else Err (Errorf ''could not remove unix domain socket %q: %v'' [AStr p, AErr err])
          | Panic \<Rightarrow> Panic, w')) \<and>
    run_state (ParseEndpoint os_Remove (''tcp://'' @ host @ '':'' @ port)) w =
      (Ok (''tcp'', host @ '':'' @ port), w)"
proof -
  have "HasPrefix p ''/''" using assms(1) by (auto simp: clean_abs_def HasPrefix_def)
  note unix = url_Parse_unix [OF this assms(2)] path_Join_clean_abs [OF assms(1)]
  note tcp = url_Parse_tcp [OF assms(3) refl] path_Join_element [OF host_port_facts(5) [OF assms(3) refl]]
  show ?thesis
    using unix tcp by (auto simp: ParseEndpoint_def ToLower_def Let_def run_go split: prod.splits res.splits)
qed

theorem parse_endpoint_roundtrip_witness:
  "run_state (ParseEndpoint sample_Remove (''unix://'' @ ''/csi/csi.sock'')) [''/csi/csi.sock''] =
     (Ok (''unix'', ''/csi/csi.sock''), []) \<and>
   run_state (ParseEndpoint sample_Remove (''tcp://'' @ ''127.0.0.1'' @ '':'' @ ''10000'')) [] =
     (Ok (''tcp'', ''127.0.0.1:10000''), [])"
proof -
  have h: "clean_abs ''/csi/csi.sock''" "list_all plain_byte ''/csi/csi.sock''" "host_port ''127.0.0.1'' ''10000''"
    by code_simp+
  show ?thesis
    using parse_endpoint_roundtrip [OF h, of sample_Remove "[''/csi/csi.sock'']"]
      parse_endpoint_roundtrip [OF h, of sample_Remove "[]"]
    by (simp add: sample_Remove_def)
qed

end
