(* ===== verification/Server.thy ===== *)
theory Server
  imports Driver Endpoint
begin

text \<open>
  The running driver, \<^verbatim>\<open>Run\<close> and \<^verbatim>\<open>Stop\<close> of \<^verbatim>\<open>pkg/driver/driver.go\<close>, and the program around it, \<^verbatim>\<open>cmd/main.go\<close>
  and \<^verbatim>\<open>cmd/options.go\<close> with \<^verbatim>\<open>cmd/options/\<close>. The operating system, the gRPC server and the flag library
  are records of operations; log lines and the configuration of the logger are dropped.
\<close>

section \<open>Run and Stop\<close>

text \<open>
  \<open>'s\<close> is the gRPC server, \<open>'l\<close> a listener, \<open>'q\<close> and \<open>'r\<close> the requests and responses an interceptor
  sees. \<^verbatim>\<open>Stop\<close> is called on the field \<^verbatim>\<open>srv\<close>, which is nil before \<^verbatim>\<open>Run\<close>.
\<close>

record ('w, 's, 'l, 'q, 'r) server_env =
  os_Remove :: "string \<Rightarrow> ('w, unit) go"
  net_Listen :: "string \<Rightarrow> string \<Rightarrow> ('w, 'l) go"
  grpc_NewServer :: "('q \<Rightarrow> ('q \<Rightarrow> ('w, 'r) go) \<Rightarrow> ('w, 'r) go) \<Rightarrow> 's"
  RegisterIdentityServer :: "'s \<Rightarrow> 'w Driver \<Rightarrow> 's"
  RegisterControllerServer :: "'s \<Rightarrow> 'w Driver \<Rightarrow> 's"
  RegisterNodeServer :: "'s \<Rightarrow> 'w Driver \<Rightarrow> 's"
  grpc_Serve :: "'s \<Rightarrow> 'l \<Rightarrow> ('w, unit) go"
  grpc_Stop :: "'s option \<Rightarrow> ('w, unit) go"

text \<open>The interceptor logs an error and passes both results on.\<close>

definition logErr :: "'q \<Rightarrow> ('q \<Rightarrow> ('w, 'r) go) \<Rightarrow> ('w, 'r) go" where
  "logErr req handler =
     invoke (handler req) (\<lambda>r. case r of Inl err \<Rightarrow> ret (Err err) | Inr resp \<Rightarrow> ret (Ok resp))"

text \<open>The state of a driver at work is its field \<^verbatim>\<open>srv\<close> and the world.\<close>

definition on_world :: "('w, 'a) go \<Rightarrow> ('s option \<times> 'w, 'a) go" where
  "on_world m = State (\<lambda>(srv, w). case run_state m w of (r, w') \<Rightarrow> (r, (srv, w')))"

definition set_srv :: "'s \<Rightarrow> ('s option \<times> 'w, unit) go" where
  "set_srv s = State (\<lambda>(srv, w). (Ok (), (Some s, w)))"

definition Run :: "('w, 's, 'l, 'q, 'r) server_env \<Rightarrow> 'w Driver \<Rightarrow> ('s option \<times> 'w, unit) go" where
  "Run env d =
     check (on_world (ParseEndpoint (os_Remove env) (endpoint (driver_options d)))) id (\<lambda>(scheme, addr).
     check (on_world (net_Listen env scheme addr)) id (\<lambda>listener.
       (let srv = RegisterIdentityServer env (grpc_NewServer env logErr) d;
            serve = (\<lambda>s. check (set_srv s) id (\<lambda>_. on_world (grpc_Serve env s listener)))
        in if mode (driver_options d) = ControllerMode
           then serve (RegisterControllerServer env srv d)
           else if mode (driver_options d) = NodeMode
           then serve (RegisterNodeServer env srv d)
           else if mode (driver_options d) = AllMode
           then serve (RegisterNodeServer env (RegisterControllerServer env srv d) d)
           else check (set_srv srv) id (\<lambda>_.
             ret (Err (Errorf ''unknown mode: %s'' [AStr (mode (driver_options d))]))))))"

definition Stop :: "('w, 's, 'l, 'q, 'r) server_env \<Rightarrow> ('s option \<times> 'w, unit) go" where
  "Stop env = State (\<lambda>(srv, w). case run_state (grpc_Stop env srv) w of (r, w') \<Rightarrow> (r, (srv, w')))"

section \<open>Command line\<close>

text \<open>
  The flag library: a flag set \<open>'f\<close>, the definition of a flag with its default, its current value,
  and parsing, which may return an error, or end the process for \<^verbatim>\<open>flag.ExitOnError\<close>.
\<close>

datatype 'f parsed = Parsed 'f | ParseError goerr | ParseExit nat

record 'f flag_lib =
  NewFlagSet :: "string \<Rightarrow> 'f"
  fs_Bool :: "string \<Rightarrow> bool \<Rightarrow> 'f \<Rightarrow> 'f"
  fs_StringVar :: "string \<Rightarrow> string \<Rightarrow> 'f \<Rightarrow> 'f"
  bool_value :: "'f \<Rightarrow> string \<Rightarrow> bool"
  string_value :: "'f \<Rightarrow> string \<Rightarrow> string"
  fs_Parse :: "string list \<Rightarrow> 'f \<Rightarrow> 'f parsed"
  logsapi_AddFlags :: "'f \<Rightarrow> 'f"

record ServerOptions =
  so_DriverMode :: string
  so_Endpoint :: string

text \<open>The flag set with the two flags, and the value of \<^verbatim>\<open>s.DriverMode\<close> at that moment.\<close>

definition ServerOptions_AddFlags :: "'f flag_lib \<Rightarrow> 'f \<Rightarrow> 'f \<times> string" where
  "ServerOptions_AddFlags lib fs =
     (let fs' = fs_StringVar lib ''endpoint'' DefaultCSIEndpoint (fs_StringVar lib ''mode'' AllMode fs)
      in (fs', string_value lib fs' ''mode''))"

definition ControllerOptions_AddFlags :: "'f flag_lib \<Rightarrow> 'f \<Rightarrow> 'f" where
  "ControllerOptions_AddFlags lib fs = fs"

definition NodeOptions_AddFlags :: "'f flag_lib \<Rightarrow> 'f \<Rightarrow> 'f" where
  "NodeOptions_AddFlags lib fs = fs"

text \<open>
  The ways a step of the program ends, and what it printed: the formats with their arguments. A
  panic ends the process.
\<close>

datatype 'a proc = Returned 'a | Exited nat | Panicked

type_synonym printed = "(string \<times> arg list) list"

definition parse_options :: "'f flag_lib \<Rightarrow> build_info \<Rightarrow> string list \<Rightarrow> 'f \<Rightarrow> printed \<times> ServerOptions proc" where
  "parse_options lib b args fs =
     (case fs_Parse lib args fs of
        ParseExit n \<Rightarrow> ([], Exited n)
      | ParseError err \<Rightarrow> ([], Panicked)
      | Parsed fs' \<Rightarrow>
          if bool_value lib fs' ''version''
          then (case GetVersionJSON b of
                  Inl err \<Rightarrow> ([], Exited 1)
                | Inr versionInfo \<Rightarrow> ([(''%s'' @ [CHR 0x0A], [AStr versionInfo])], Exited 0))
          else ([], Returned \<lparr>so_DriverMode = string_value lib fs' ''mode'',
                  so_Endpoint = string_value lib fs' ''endpoint''\<rparr>))"

definition GetOptions :: "'f flag_lib \<Rightarrow> build_info \<Rightarrow> string list \<Rightarrow> 'f \<Rightarrow> printed \<times> ServerOptions proc" where
  "GetOptions lib b args fs0 =
     (case ServerOptions_AddFlags lib (fs_Bool lib ''logtostderr'' False (fs_Bool lib ''version'' False fs0)) of
        (fs1, m) \<Rightarrow>
          (let fs = logsapi_AddFlags lib fs1 in
           if m = ControllerMode then parse_options lib b args (ControllerOptions_AddFlags lib fs)
           else if m = NodeMode then parse_options lib b args (NodeOptions_AddFlags lib fs)
           else if m = AllMode
           then parse_options lib b args (NodeOptions_AddFlags lib (ControllerOptions_AddFlags lib fs))
           else ([(''unknown command: %s: expected %q, %q or %q'',
                   [AStr m, AStr ControllerMode, AStr NodeMode, AStr AllMode])], Exited 1)))"

text \<open>Starting the driver and running it, an error of either ending the process with status 1.\<close>

definition exit_on_error :: "('w, 'a) go \<Rightarrow> ('a \<Rightarrow> 'w \<Rightarrow> 'b proc \<times> 'w) \<Rightarrow> 'w \<Rightarrow> 'b proc \<times> 'w" where
  "exit_on_error m k w =
     (case run_state m w of (r, w') \<Rightarrow>
        (case r of Ok x \<Rightarrow> k x w' | Err err \<Rightarrow> (Exited 1, w') | Panic \<Rightarrow> (Panicked, w')))"

definition main ::
    "'f flag_lib \<Rightarrow> build_info \<Rightarrow> ('w, 'g, 'k) platform \<Rightarrow> ('w, 's, 'l, 'q, 'r) server_env \<Rightarrow> string list
     \<Rightarrow> 's option \<times> 'w \<Rightarrow> (printed \<times> unit proc) \<times> ('s option \<times> 'w)" where
  "main lib b p env args s =
     (case GetOptions lib b args (NewFlagSet lib ''aws-fsx-openzfs-csi-driver'') of
        (out, Exited n) \<Rightarrow> ((out, Exited n), s)
      | (out, Panicked) \<Rightarrow> ((out, Panicked), s)
      | (out, Returned options) \<Rightarrow>
          (case exit_on_error (on_world (NewDriver p [WithEndpoint (so_Endpoint options), WithMode (so_DriverMode options)]))
                  (\<lambda>drv. exit_on_error (Run env drv) (\<lambda>_ s'. (Returned (), s'))) s of
             (r, s') \<Rightarrow> ((out, r), s')))"

end
