(* ===== verification/Polling.thy ===== *)
theory Polling
  imports Cloud
begin

text \<open>
  The documented behaviour of \<^verbatim>\<open>wait.Poll\<close>, the one hypothesis the waits of the cloud layer need, and
  a bounded loop that has it.
\<close>

text \<open>
  The documented behaviour of \<^verbatim>\<open>wait.Poll\<close>: it lets time pass, evaluates the condition, and repeats
  until the condition is true or fails, or the timeout is reached. \<open>elapse\<close> relates the world before
  a pause to the world after it, in which the service may have moved on.
\<close>

inductive poll_run :: "('w \<Rightarrow> 'w \<Rightarrow> bool) \<Rightarrow> ('w, bool) go \<Rightarrow> 'w \<Rightarrow> unit res \<Rightarrow> 'w \<Rightarrow> bool"
  for elapse :: "'w \<Rightarrow> 'w \<Rightarrow> bool" and cond :: "('w, bool) go" where
  poll_timeout: "elapse w w' \<Longrightarrow>
    poll_run elapse cond w (Err (ExtErr ''timed out waiting for the condition'')) w'"
| poll_done: "elapse w w1 \<Longrightarrow> run_state cond w1 = (Ok True, w') \<Longrightarrow> poll_run elapse cond w (Ok ()) w'"
| poll_fail: "elapse w w1 \<Longrightarrow> run_state cond w1 = (Err e, w') \<Longrightarrow> poll_run elapse cond w (Err e) w'"
| poll_panic: "elapse w w1 \<Longrightarrow> run_state cond w1 = (Panic, w') \<Longrightarrow> poll_run elapse cond w Panic w'"
| poll_again: "elapse w w1 \<Longrightarrow> run_state cond w1 = (Ok False, w2) \<Longrightarrow> poll_run elapse cond w2 r w' \<Longrightarrow>
    poll_run elapse cond w r w'"

definition poll_spec :: "('w \<Rightarrow> 'w \<Rightarrow> bool) \<Rightarrow> 'w sdk \<Rightarrow> bool" where
  "poll_spec elapse k \<longleftrightarrow>
     (\<forall>i t cond w. poll_run elapse cond w (fst (run_state (sdk_Poll k i t cond) w))
        (snd (run_state (sdk_Poll k i t cond) w)))"

lemma poll_run_Ok: "poll_run elapse cond w r w' \<Longrightarrow> r = Ok () \<Longrightarrow> \<exists>w1. run_state cond w1 = (Ok True, w')"
  by (induction rule: poll_run.induct) auto

lemma poll_Ok:
  assumes "poll_spec elapse k" and "run_state (sdk_Poll k i t cond) w = (Ok (), w')"
  shows "\<exists>w1. run_state cond w1 = (Ok True, w')"
proof -
  have "poll_run elapse cond w (fst (run_state (sdk_Poll k i t cond) w)) (snd (run_state (sdk_Poll k i t cond) w))"
    using assms(1) by (simp add: poll_spec_def)
  then have "poll_run elapse cond w (Ok ()) w'" by (simp add: assms(2))
  then show ?thesis by (rule poll_run_Ok) simp
qed

text \<open>A bounded poll loop: \<open>n\<close> rounds, each a pause and one evaluation of the condition.\<close>

fun poll_rounds :: "nat \<Rightarrow> ('w \<Rightarrow> 'w) \<Rightarrow> ('w, bool) go \<Rightarrow> 'w \<Rightarrow> unit res \<times> 'w" where
  "poll_rounds 0 pause cond w = (Err (ExtErr ''timed out waiting for the condition''), pause w)"
| "poll_rounds (Suc n) pause cond w =
     (case run_state cond (pause w) of
        (Ok True, w') \<Rightarrow> (Ok (), w')
      | (Ok False, w') \<Rightarrow> poll_rounds n pause cond w'
      | (Err e, w') \<Rightarrow> (Err e, w')
      | (Panic, w') \<Rightarrow> (Panic, w'))"

lemma poll_rounds_run:
  "poll_run (\<lambda>w w'. w' = pause w) cond w (fst (poll_rounds n pause cond w)) (snd (poll_rounds n pause cond w))"
proof (induction n arbitrary: w)
  case 0
  show ?case by (auto intro: poll_timeout)
next
  case (Suc n)
  obtain r w' where c: "run_state cond (pause w) = (r, w')" by fastforce
  show ?case
  proof (cases r)
    case (Ok b)
    show ?thesis
    proof (cases b)
      case True
      with c Ok show ?thesis by (auto intro: poll_done)
    next
      case False
      with c Ok Suc.IH [of w'] show ?thesis by (auto intro: poll_again)
    qed
  qed (use c in \<open>auto intro: poll_fail poll_panic\<close>)
qed

lemma poll_spec_rounds:
  "(\<And>i t cond w. run_state (sdk_Poll k i t cond) w = poll_rounds n pause cond w) \<Longrightarrow>
     poll_spec (\<lambda>w w'. w' = pause w) k"
  by (simp add: poll_spec_def poll_rounds_run)

end
