(* ===== verification/SampleTypes.thy ===== *)
theory SampleTypes
  imports GoTypes
begin

text \<open>
  Excerpts of the SDK's configuration structs, with the field names and types of the driver's
  documented parameters: instances of the type descriptors that the definitions take as arguments.
\<close>

definition sample_env :: text_env where
  "sample_env = \<lparr>unicode_print = (\<lambda>r. 32 \<le> r \<and> r < 127), status_text = (\<lambda>c m. ''rpc error: '' @ m)\<rparr>"

abbreviation str_t :: gotype where "str_t \<equiv> GString ''string''"

definition sample_Tag :: gotype where
  "sample_Tag = GStruct ''types'' ''Tag'' [(''Key'', True, GPtr str_t), (''Value'', True, GPtr str_t), (''noSmithyDocumentSerde'', False, GBool)]"

definition sample_CreateFileSystemOpenZFSConfiguration :: gotype where
  "sample_CreateFileSystemOpenZFSConfiguration = GStruct ''types'' ''CreateFileSystemOpenZFSConfiguration''
     [(''DeploymentType'', True, GString ''types.OpenZFSDeploymentType''),
      (''ThroughputCapacity'', True, GPtr (GInt 32)),
      (''AutomaticBackupRetentionDays'', True, GPtr (GInt 32)),
      (''CopyTagsToBackups'', True, GPtr GBool)]"

definition sample_DeleteFileSystemOpenZFSConfiguration :: gotype where
  "sample_DeleteFileSystemOpenZFSConfiguration = GStruct ''types'' ''DeleteFileSystemOpenZFSConfiguration''
     [(''FinalBackupTags'', True, GSlice sample_Tag),
      (''Options'', True, GSlice (GString ''types.DeleteFileSystemOpenZFSOption'')),
      (''SkipFinalBackup'', True, GPtr GBool)]"

definition sample_CreateOpenZFSVolumeConfiguration :: gotype where
  "sample_CreateOpenZFSVolumeConfiguration = GStruct ''types'' ''CreateOpenZFSVolumeConfiguration''
     [(''ParentVolumeId'', True, GPtr str_t),
      (''CopyTagsToSnapshots'', True, GPtr GBool),
      (''ReadOnly'', True, GPtr GBool),
      (''RecordSizeKiB'', True, GPtr (GInt 32))]"

definition sample_DeleteVolumeOpenZFSConfiguration :: gotype where
  "sample_DeleteVolumeOpenZFSConfiguration = GStruct ''types'' ''DeleteVolumeOpenZFSConfiguration''
     [(''Options'', True, GSlice (GString ''types.DeleteOpenZFSVolumeOption''))]"

end
