(* ===== verification/Sample.thy ===== *)
theory Sample
  imports Polling SampleTypes
begin

text \<open>
  A concrete instance of the third-party parameters, on which the hypotheses of the theorems are
  evaluated: excerpts of the SDK's structs with the field names and types the driver's documented
  parameters use, and a service whose world is a clock. Its file system becomes available at
  time 2 and its resize completes at time 3.
\<close>

section \<open>Types\<close>

definition sample_types :: sdk_types where
  "sample_types =
     \<lparr>sdk_env = sample_env,
      CreateFileSystemInput = GStruct ''fsx'' ''CreateFileSystemInput''
        [(''FileSystemType'', True, GString ''types.FileSystemType''),
         (''SubnetIds'', True, GSlice str_t),
         (''ClientRequestToken'', True, GPtr str_t),
         (''OpenZFSConfiguration'', True, GPtr sample_CreateFileSystemOpenZFSConfiguration),
         (''StorageCapacity'', True, GPtr (GInt 32)),
         (''StorageType'', True, GString ''types.StorageType''),
         (''Tags'', True, GSlice sample_Tag)],
      DeleteFileSystemInput = GStruct ''fsx'' ''DeleteFileSystemInput''
        [(''FileSystemId'', True, GPtr str_t),
         (''ClientRequestToken'', True, GPtr str_t),
         (''OpenZFSConfiguration'', True, GPtr sample_DeleteFileSystemOpenZFSConfiguration)],
      CreateVolumeInput = GStruct ''fsx'' ''CreateVolumeInput''
        [(''Name'', True, GPtr str_t),
         (''VolumeType'', True, GString ''types.VolumeType''),
         (''ClientRequestToken'', True, GPtr str_t),
         (''OpenZFSConfiguration'', True, GPtr sample_CreateOpenZFSVolumeConfiguration),
         (''Tags'', True, GSlice sample_Tag)],
      DeleteVolumeInput = GStruct ''fsx'' ''DeleteVolumeInput''
        [(''VolumeId'', True, GPtr str_t),
         (''ClientRequestToken'', True, GPtr str_t),
         (''OpenZFSConfiguration'', True, GPtr sample_DeleteVolumeOpenZFSConfiguration)],
      CreateSnapshotInput = GStruct ''fsx'' ''CreateSnapshotInput''
        [(''Name'', True, GPtr str_t),
         (''VolumeId'', True, GPtr str_t),
         (''ClientRequestToken'', True, GPtr str_t),
         (''Tags'', True, GSlice sample_Tag)],
      DeleteSnapshotInput = GStruct ''fsx'' ''DeleteSnapshotInput''
        [(''SnapshotId'', True, GPtr str_t),
         (''ClientRequestToken'', True, GPtr str_t)],
      CreateFileSystemOpenZFSConfiguration = sample_CreateFileSystemOpenZFSConfiguration,
      DeleteFileSystemOpenZFSConfiguration = sample_DeleteFileSystemOpenZFSConfiguration,
      CreateOpenZFSVolumeConfiguration = sample_CreateOpenZFSVolumeConfiguration,
      DeleteVolumeOpenZFSConfiguration = sample_DeleteVolumeOpenZFSConfiguration,
      validateDeleteFileSystemInput = (\<lambda>v. None),
      validateDeleteVolumeInput = (\<lambda>v. None)\<rparr>"

section \<open>Service\<close>

definition sample_update :: "nat \<Rightarrow> sdk_AdministrativeAction" where
  "sample_update t =
     \<lparr>aa_AdministrativeActionType = ''FILE_SYSTEM_UPDATE'',
      aa_Status = (if t < 3 then ''IN_PROGRESS'' else ''COMPLETED''),
      aa_TargetFileSystemValues = Some (Some 128), aa_TargetVolumeValues = None, aa_FailureDetails = None\<rparr>"

definition sample_filesystem :: "nat \<Rightarrow> sdk_FileSystem" where
  "sample_filesystem t =
     \<lparr>sfs_DNSName = Some ''fs-1.fsx.us-east-1.amazonaws.com'', sfs_FileSystemId = Some ''fs-1'',
      sfs_StorageCapacity = Some 64, sfs_StorageType = ''SSD'', sfs_ResourceARN = Some ''arn:fs-1'',
      sfs_Lifecycle = (if t < 2 then ''CREATING'' else ''AVAILABLE''),
      sfs_AdministrativeActions = [sample_update t], sfs_RootVolumeId = Some (Some ''fsvol-1'')\<rparr>"

definition sample_volume :: "nat \<Rightarrow> sdk_Volume" where
  "sample_volume t =
     \<lparr>sv_FileSystemId = Some ''fs-1'', sv_VolumeId = Some ''fsvol-2'', sv_VolumePath = Some (Some ''/fsx/vol''),
      sv_ResourceARN = Some ''arn:fsvol-2'',
      sv_Lifecycle = (if t < 2 then ''CREATING'' else ''AVAILABLE''), sv_AdministrativeActions = []\<rparr>"

definition sample_snapshot :: "nat \<Rightarrow> sdk_Snapshot" where
  "sample_snapshot t =
     \<lparr>ss_SnapshotId = Some ''fsvolsnap-1'', ss_VolumeId = Some ''fsvol-2'', ss_ResourceARN = Some ''arn:fsvolsnap-1'',
      ss_CreationTime = Some 7, ss_Lifecycle = (if t < 2 then ''PENDING'' else ''AVAILABLE'')\<rparr>"

definition sample_fsx :: "nat FSx" where
  "sample_fsx =
     \<lparr>fsx_CreateFileSystem = (\<lambda>input. State (\<lambda>t. (Ok (Some (Some (sample_filesystem t))), t))),
      fsx_UpdateFileSystem = (\<lambda>i g. ret (Ok ())),
      fsx_DeleteFileSystem = (\<lambda>input. ret (Ok ())),
      fsx_DescribeFileSystems = (\<lambda>ids. State (\<lambda>t. (Ok (Some [sample_filesystem t]), t))),
      fsx_CreateVolume = (\<lambda>input. State (\<lambda>t. (Ok (Some (Some (sample_volume t))), t))),
      fsx_DeleteVolume = (\<lambda>input. ret (Ok ())),
      fsx_DescribeVolumes = (\<lambda>ids. State (\<lambda>t. (Ok (Some [sample_volume t]), t))),
      fsx_CreateSnapshot = (\<lambda>input. State (\<lambda>t. (Ok (Some (Some (sample_snapshot t))), t))),
      fsx_DeleteSnapshot = (\<lambda>input. ret (Ok ())),
      fsx_DescribeSnapshots = (\<lambda>ids. State (\<lambda>t. (Ok (Some [sample_snapshot t]), t))),
      fsx_ListTagsForResource = (\<lambda>arn. ret (Ok (Some
        [\<lparr>tag_Key = Some ''SkipFinalBackupOnDeletion'', tag_Value = Some ''true''\<rparr>])))\<rparr>"

definition sample_sdk :: "nat sdk" where
  "sample_sdk = sdk_types.extend sample_types
     \<lparr>sdk_fsx = sample_fsx, sdk_Poll = (\<lambda>i t cond. State (poll_rounds 60 Suc cond))\<rparr>"

lemma sample_sdk_sel [simp]:
  "sdk_fsx sample_sdk = sample_fsx"
  "sdk_Poll sample_sdk = (\<lambda>i t cond. State (poll_rounds 60 Suc cond))"
  by (simp_all add: sample_sdk_def sdk_types.extend_def)

lemma sample_poll: "poll_spec (\<lambda>w w'. w' = Suc w) sample_sdk"
  by (rule poll_spec_rounds [of _ 60]) simp

section \<open>Shorter structs\<close>

text \<open>The same service with fewer fields, on which whole handlers are evaluated.\<close>

definition small_create_config :: gotype where
  "small_create_config = GStruct ''types'' ''CreateFileSystemOpenZFSConfiguration'' [(''ReadOnly'', True, GPtr GBool)]"

definition small_delete_config :: gotype where
  "small_delete_config = GStruct ''types'' ''DeleteFileSystemOpenZFSConfiguration'' [(''SkipFinalBackup'', True, GPtr GBool)]"

definition small_sdk :: "nat sdk" where
  "small_sdk = sample_sdk
     \<lparr>CreateFileSystemOpenZFSConfiguration := small_create_config,
      DeleteFileSystemOpenZFSConfiguration := small_delete_config,
      DeleteFileSystemInput := GStruct ''fsx'' ''DeleteFileSystemInput''
        [(''FileSystemId'', True, GPtr str_t), (''OpenZFSConfiguration'', True, GPtr small_delete_config)],
      CreateFileSystemInput := GStruct ''fsx'' ''CreateFileSystemInput''
        [(''FileSystemType'', True, GString ''types.FileSystemType''), (''ClientRequestToken'', True, GPtr str_t),
         (''OpenZFSConfiguration'', True, GPtr small_create_config), (''StorageCapacity'', True, GPtr (GInt 32)),
         (''Tags'', True, GSlice sample_Tag)]\<rparr>"

lemma small_poll: "poll_spec (\<lambda>w w'. w' = Suc w) small_sdk"
  by (rule poll_spec_rounds [of _ 60]) (simp add: small_sdk_def)

end
