(* ===== verification/GoTypesSound.thy ===== *)
theory GoTypesSound
  imports GoTypes
begin

text \<open>
  Type soundness of \<^verbatim>\<open>json.Unmarshal\<close>: what the decoder stores in a well-typed value is again
  well typed. With the round trip of the previous theory, every value the
  driver has decoded can be marshalled and decoded again without loss.
\<close>

section \<open>Decoded values are well typed\<close>

fun no_map :: "gotype \<Rightarrow> bool" where
  "no_map (GMap t) = False"
| "no_map (GPtr t) = no_map t"
| "no_map (GSlice t) = no_map t"
| "no_map (GStruct pkg n fs) = list_all (\<lambda>(f, e, t). no_map t) fs"
| "no_map t = True"

lemma exported_set: "(f, t) \<in> set (exported fs) \<longleftrightarrow> (f, True, t) \<in> set fs"
  by (force simp: exported_def split: if_splits)

lemma wt_zero_value: "wf_type t \<Longrightarrow> wt (zero_value t) t"
proof (induction t)
  case (GStruct pkg n fs)
  have "list_all2 (\<lambda>(k, v) (f, u). k = f \<and> wt v u) (map (\<lambda>(f, t). (f, zero_value t)) es) es"
    if "\<forall>(f, t) \<in> set es. wt (zero_value t) t" for es
    using that by (induction es) auto
  moreover have "\<forall>(f, t) \<in> set (exported fs). wt (zero_value t) t"
    using GStruct by (fastforce simp: exported_set list_all_iff)
  ultimately show ?case unfolding zero_value_struct by simp
qed auto

lemma find_SomeD: "List.find P xs = Some x \<Longrightarrow> x \<in> set xs \<and> P x"
  by (induction xs) (auto split: if_splits)

lemma find_field_mem: "find_field fs k = Some (f, t) \<Longrightarrow> (f, t) \<in> set (exported fs)"
  by (auto simp: find_field_def exported_set split: option.splits prod.splits dest!: find_SomeD)

lemma list_all2_update:
  assumes "list_all2 (\<lambda>(k, v) (f, u). k = f \<and> R v u) fv es" and "gomap es" and "(f, u) \<in> set es" and "R w u"
  shows "list_all2 (\<lambda>(k, v) (f, u). k = f \<and> R v u) (AList.update f w fv) es"
  using assms
proof (induction fv es rule: list_all2_induct)
  case (Cons x xs y ys)
  then show ?case by (cases x; cases y) (force split: if_splits)
qed simp

lemma list_all2_lookup:
  assumes "list_all2 (\<lambda>(k, v) (f, u). k = f \<and> R v u) fv es" and "gomap es" and "(f, u) \<in> set es"
  shows "\<exists>w. map_of fv f = Some w \<and> R w u"
  using assms
proof (induction fv es rule: list_all2_induct)
  case (Cons x xs y ys)
  then show ?case by (cases x; cases y) (force split: if_splits)
qed simp

lemma wt_wrap: "wf_type t \<Longrightarrow> wt w (base_type t) \<Longrightarrow> wt (wrap t w) t"
  by (cases t) (auto simp: wf_type_base, metis wf_type_base wrap.simps nilable.simps(1) gotype.exhaust)


lemma under_wt: "wf_type t \<Longrightarrow> wt v t \<Longrightarrow> wt (under t v) (base_type t)"
  by (induction t v rule: under.induct) (auto intro: wt_zero_value)

lemma wf_type_base_type: "wf_type t \<Longrightarrow> wf_type (base_type t)"
  by (induction t) auto

lemma dec_num_wt: "dec_num ctx t n = Inr w \<Longrightarrow> wt w t"
  by (cases t) (auto simp: dec_num_def split: sum.splits if_splits)

lemma slice_of_Some: "slice_of t = Some u \<longleftrightarrow> t = GSlice u"
  by (cases t) auto

lemma struct_of_Some: "struct_of t = Some (n, fs) \<longleftrightarrow> (\<exists>pkg. t = GStruct pkg n fs)"
  by (cases t) auto

lemma map_elem_of_Some: "map_elem_of t = Some u \<longleftrightarrow> t = GMap u"
  by (cases t) auto

lemma wf_struct_field:
  "wf_type (GStruct pkg n fs) \<Longrightarrow> (f, t) \<in> set (exported fs) \<Longrightarrow> wf_type t"
  by (auto simp: exported_set list_all_iff)

text \<open>The entries of a decoded map.\<close>

definition entries_ok :: "gotype \<Rightarrow> (string \<times> govalue) list \<Rightarrow> bool" where
  "entries_ok t m \<longleftrightarrow> gomap m \<and> list_all (\<lambda>(k, v). valid_utf8 k \<and> wt v t) m"

lemma entries_ok_update: "entries_ok t m \<Longrightarrow> valid_utf8 k \<Longrightarrow> wt v t \<Longrightarrow> entries_ok t (AList.update k v m)"
proof -
  have "list_all (\<lambda>(k, v). valid_utf8 k \<and> wt v t) m \<Longrightarrow> valid_utf8 k \<Longrightarrow> wt v t \<Longrightarrow>
      list_all (\<lambda>(k, v). valid_utf8 k \<and> wt v t) (AList.update k v m)"
    by (induction m) auto
  then show "entries_ok t m \<Longrightarrow> valid_utf8 k \<Longrightarrow> wt v t \<Longrightarrow> entries_ok t (AList.update k v m)"
    by (simp add: entries_ok_def)
qed

lemma wt_sorted_entries: "entries_ok t m \<Longrightarrow> wt (VMap (sort_key fst m)) (GMap t)"
  by (auto simp: entries_ok_def list_all_iff)

lemma entries_ok_map: "wt v (GMap t) \<Longrightarrow> entries_ok t (map_entries v)"
  by (cases v) (auto simp: entries_ok_def list_all_iff)

lemma dec_wt:
  "dec j ctx t v = Inr w \<Longrightarrow> wf_type t \<Longrightarrow> wt v t \<Longrightarrow> wt w t"
  "dec_elems js ctx t olds = Inr ws \<Longrightarrow> wf_type t \<Longrightarrow> \<forall>v \<in> set olds. wt v t \<Longrightarrow> \<forall>w \<in> set ws. wt w t"
  "dec_members kvs ctx nm fs fv = Inr fw \<Longrightarrow> wf_type (GStruct pkg nm fs) \<Longrightarrow>
     wt (VStruct fv) (GStruct pkg nm fs) \<Longrightarrow> wt (VStruct fw) (GStruct pkg nm fs)"
  "dec_entries kvs ctx t m = Inr mw \<Longrightarrow> wf_type t \<Longrightarrow> entries_ok t m \<Longrightarrow> entries_ok t mw"
proof (induction j ctx t v and js ctx t olds and kvs ctx nm fs fv and kvs ctx t m
    arbitrary: w and ws and fw pkg and mw rule: dec_dec_elems_dec_members_dec_entries.induct)
  case (3 n ctx t v)
  then show ?case
    by (auto simp: wrap_res_def split: sum.splits dest: dec_num_wt intro: wt_wrap)
next
  case (4 r ctx t v)
  then show ?case
    by (cases "base_type t") (auto intro!: wt_wrap valid_utf8_unquote split: if_splits)
next
  case (5 js ctx t v)
  then obtain u vs where u: "slice_of (base_type t) = Some u"
    and d: "dec_elems js ctx u (slice_elems (under t v)) = Inr vs" and w: "w = wrap t (VSlice vs)"
    by (auto split: option.splits sum.splits)
  then have b: "base_type t = GSlice u" by (simp add: slice_of_Some)
  have un: "wt (under t v) (GSlice u)" using under_wt [OF 5(3,4)] b by simp
  then have "\<forall>x \<in> set (slice_elems (under t v)). wt x u" by (cases "under t v") auto
  moreover have "wf_type u" using wf_type_base_type [OF 5(3)] b by simp
  ultimately have "\<forall>x \<in> set vs. wt x u" using 5(1) [OF u d] by blast
  then show ?case unfolding w using 5(3) b by (intro wt_wrap) simp_all
next
  case (6 kvs ctx t v)
  show ?case
  proof (cases "struct_of (base_type t)")
    case None
    with 6(3) obtain u m where u: "map_elem_of (base_type t) = Some u"
      and d: "dec_entries kvs ctx u (map_entries (under t v)) = Inr m" and w: "w = wrap t (VMap (sort_key fst m))"
      by (auto split: option.splits sum.splits)
    then have b: "base_type t = GMap u" by (simp add: map_elem_of_Some)
    have "entries_ok u (map_entries (under t v))" using under_wt [OF 6(4,5)] b by (simp add: entries_ok_map)
    moreover have "wf_type u" using wf_type_base_type [OF 6(4)] b by simp
    ultimately have "entries_ok u m" using 6(1) [OF None u d] by blast
    then show ?thesis unfolding w using 6(4) b by (intro wt_wrap) (simp_all add: wt_sorted_entries del: wt.simps)
  next
    case (Some nf)
    with 6(3) obtain nm fs fv where u: "struct_of (base_type t) = Some (nm, fs)"
      and d: "dec_members kvs ctx nm fs (struct_fields (under t v)) = Inr fv" and w: "w = wrap t (VStruct fv)"
      by (cases nf) (auto split: sum.splits)
    then obtain pkg where b: "base_type t = GStruct pkg nm fs" by (auto simp: struct_of_Some)
    have un: "wt (under t v) (GStruct pkg nm fs)" using under_wt [OF 6(4,5)] b by simp
    then have f: "under t v = VStruct (struct_fields (under t v))" by (cases "under t v") auto
    have wf: "wf_type (GStruct pkg nm fs)" using wf_type_base_type [OF 6(4)] b by simp
    have "wt (VStruct fv) (GStruct pkg nm fs)"
      using 6(2) [OF u refl d wf] un f by simp
    then show ?thesis unfolding w using 6(4) b by (intro wt_wrap) simp_all
  qed
next
  case (8 j js ctx t olds)
  then obtain v vs where v: "dec j ctx t (case olds of [] \<Rightarrow> zero_value t | w # ws \<Rightarrow> w) = Inr v"
    and vs: "dec_elems js ctx t (tl olds) = Inr vs" and ws: "ws = v # vs"
    by (auto split: sum.splits)
  have "wt (case olds of [] \<Rightarrow> zero_value t | w # ws \<Rightarrow> w) t"
    using 8 by (auto intro: wt_zero_value split: list.splits)
  then have "wt v t" using 8(1) [OF v] 8 by blast
  moreover have "\<forall>v \<in> set (tl olds). wt v t" using 8(5) by (cases olds) simp_all
  then have "\<forall>x \<in> set vs. wt x t" using 8(2) [OF v vs 8(4)] by blast
  ultimately show ?case by (simp add: ws)
next
  case (10 k j kvs ctx nm fs fv)
  show ?case
  proof (cases "find_field fs (unquote k)")
    case None
    with 10 show ?thesis by simp
  next
    case (Some ft)
    then obtain f t where ft: "find_field fs (unquote k) = Some (f, t)" by (cases ft) auto
    with 10(4) obtain x where x: "dec j (nm, snd ctx @ [f]) t (case map_of fv f of None \<Rightarrow> zero_value t | Some w \<Rightarrow> w) = Inr x"
      and r: "dec_members kvs ctx nm fs (AList.update f x fv) = Inr fw"
      by (auto split: sum.splits)
    have m: "(f, t) \<in> set (exported fs)" using ft by (rule find_field_mem)
    have wf: "wf_type t" using wf_struct_field [OF 10(5) m] .
    have g: "gomap (exported fs)" using 10(5) by (simp add: gomap_exported)
    have l: "list_all2 (\<lambda>(k, v) (f, u). k = f \<and> wt v u) fv (exported fs)" using 10(6) by simp
    have "wt (case map_of fv f of None \<Rightarrow> zero_value t | Some w \<Rightarrow> w) t"
      using list_all2_lookup [OF l g m] by auto
    then have "wt x t" using 10(2) [OF ft refl x wf] by blast
    then have "wt (VStruct (AList.update f x fv)) (GStruct pkg nm fs)"
      using list_all2_update [OF l g m] by simp
    then show ?thesis using 10(3) [OF ft refl x r 10(5)] by blast
  qed
next
  case (12 k j kvs ctx t m)
  then obtain x where x: "dec j ctx t (zero_value t) = Inr x"
    and r: "dec_entries kvs ctx t (AList.update (unquote k) x m) = Inr mw"
    by (auto split: sum.splits)
  have "wt x t" using 12(1) [OF x 12(4) wt_zero_value [OF 12(4)]] .
  then have "entries_ok t (AList.update (unquote k) x m)"
    using 12(5) by (intro entries_ok_update) (simp_all add: valid_utf8_unquote)
  then show ?case using 12(2) [OF x r 12(4)] by blast
qed (auto intro: wt_wrap split: if_splits)

end
