(* ===== verification/UtilSpec.thy ===== *)
theory UtilSpec
  imports Util GoTypesSound SampleTypes
begin

text \<open>
  What populating an SDK struct from a parameter map does: which parameters are used up, that each
  field holds the value of its own parameter, that a configuration collapsed into one JSON
  parameter is read back unchanged, that a parameter that is not JSON is
  reported by name, and that the order of the map does not matter for what is populated.
\<close>

section \<open>Which parameters are used\<close>

lemma map_of_delete_fields:
  "map_of (delete_fields t ps) k = (if k \<in> set (field_names t) then None else map_of ps k)"
proof -
  have "map_of (fold AList.delete ns ps) k = (if k \<in> set ns then None else map_of ps k)" for ns
    by (induction ns arbitrary: ps) auto
  then show ?thesis by (simp add: delete_fields_def)
qed

lemma delete_fields_Nil: "delete_fields t ps = [] \<longleftrightarrow> keys ps \<subseteq> set (field_names t)"
proof -
  have "keys (fold AList.delete ns ps) = keys ps - set ns" for ns
    by (induction ns arbitrary: ps) auto
  then have "keys (delete_fields t ps) = keys ps - set (field_names t)" by (simp only: delete_fields_def)
  moreover have "delete_fields t ps = [] \<longleftrightarrow> keys (delete_fields t ps) = {}" by simp
  ultimately show ?thesis by (simp only: Diff_eq_empty_iff)
qed

lemma Strict_Inr:
  assumes "StrictRemoveParametersAndPopulateObject env t ps = (rest, Inr v)"
  shows "rest = [] \<and> keys ps \<subseteq> set (field_names t)
    \<and> ConvertObjectType (ConvertStringMapToAny ps) t (zero_value t) = Inr v"
  using assms
  by (auto simp: StrictRemoveParametersAndPopulateObject_def RemoveParametersAndPopulateObject_def Let_def
      delete_fields_Nil split: sum.splits if_splits prod.splits)

lemma Strict_leftover:
  "snd (StrictRemoveParametersAndPopulateObject env t ps) = Inr v \<Longrightarrow>
     fst (StrictRemoveParametersAndPopulateObject env t ps) = []"
  using Strict_Inr [of env t ps _ v] by (metis prod.collapse)

lemma Replace_Inr:
  assumes "ReplaceParametersAndPopulateObject env key t ps = (ps', Inr v)"
  shows "ps' = AList.update key (Marshal v) (delete_fields t ps)
    \<and> ConvertObjectType (ConvertStringMapToAny ps) t (zero_value t) = Inr v"
  using assms
  by (auto simp: ReplaceParametersAndPopulateObject_def RemoveParametersAndPopulateObject_def Let_def
      ConvertObjectToJsonString_def split: sum.splits if_splits prod.splits)

section \<open>The JSON object of a parameter map\<close>

text \<open>The JSON value that a parameter stands for.\<close>

definition param_json :: "string \<Rightarrow> goerr + json" where
  "param_json s = any_json (any_of_string s)"

definition param_depth :: "string \<Rightarrow> nat" where
  "param_depth s = (case param_json s of Inr j \<Rightarrow> depth j | Inl e \<Rightarrow> 0)"

lemma wf_json_any: "any_json v = Inr j \<Longrightarrow> wf_json j"
  by (auto simp: any_json_def split: anyval.splits sum.splits dest: json_parse_ok)

lemma any_members_Inr:
  "any_members kvs = Inr ms \<longleftrightarrow>
     list_all2 (\<lambda>(k, v) (k', j). k' = json_escape k \<and> any_json v = Inr j) kvs ms"
proof (induction kvs arbitrary: ms)
  case (Cons kv kvs)
  then show ?case
    by (cases kv) (auto simp: list_all2_Cons1 Cons.IH [symmetric] split: sum.splits)
qed (auto simp: list_all2_Nil)

lemma ConvertObjectType_dec:
  assumes "ConvertObjectType from t to = Inr v"
    and "\<forall>(k, a) \<in> set from. \<forall>j. any_json a = Inr j \<longrightarrow> depth j < maxNestingDepth"
  obtains ms where "any_members (sort_key fst from) = Inr ms" and "dec (JObj ms) ([], []) t to = Inr v"
proof -
  from assms(1) obtain ms where ms: "any_members (sort_key fst from) = Inr ms"
    and u: "Unmarshal t to (render (JObj ms)) = Inr v"
    by (auto simp: ConvertObjectType_def ConvertMapToJsonString_def ConvertJsonStringToObject_def split: sum.splits)
  have l: "list_all2 (\<lambda>(k, v) (k', j). k' = json_escape k \<and> any_json v = Inr j) (sort_key fst from) ms"
    using ms by (simp add: any_members_Inr)
  have p: "raw_ok k' \<and> wf_json j \<and> depth j < maxNestingDepth" if m: "(k', j) \<in> set ms" for k' j
  proof -
    from m obtain i where i: "i < length ms" "ms ! i = (k', j)" by (auto simp: in_set_conv_nth)
    obtain k a where ka: "sort_key fst from ! i = (k, a)" by fastforce
    have "k' = json_escape k" "any_json a = Inr j"
      using list_all2_nthD2 [OF l i(1)] i(2) ka by simp_all
    moreover have "(k, a) \<in> set from"
      using i(1) ka list_all2_lengthD [OF l] nth_mem [of i "sort_key fst from"] by simp
    ultimately show ?thesis using assms(2) by (auto dest: wf_json_any)
  qed
  have "wf_json (JObj ms)" using p by (auto simp: list_all_iff)
  moreover have "foldr max (map (\<lambda>(k, v). depth v) ms) 0 \<le> maxNestingDepth - 1"
    using p by (intro foldr_max_le) fastforce
  then have "depth (JObj ms) \<le> maxNestingDepth" by (simp add: maxNestingDepth_def)
  ultimately have "dec (JObj ms) ([], []) t to = Inr v"
    using u by (simp add: Unmarshal_def json_parse_render del: depth.simps wf_json.simps render.simps)
  with ms that show thesis by blast
qed

section \<open>Each field is populated by its parameter\<close>

lemma dec_members_fields:
  assumes "dec_members ms ctx nm fs fv = Inr fw"
    and "list_all2 (\<lambda>(k, a) (k', j). k' = json_escape k \<and> any_json a = Inr j) kas ms"
    and "gomap kas" and "gomap fs" and "keys kas \<subseteq> keys (exported fs)"
    and "\<forall>(f, t) \<in> set (exported fs). valid_utf8 f"
  shows "(\<forall>(k, a) \<in> set kas. \<forall>t. (k, t) \<in> set (exported fs) \<longrightarrow>
      (\<exists>j w. any_json a = Inr j \<and> map_of fw k = Some w
         \<and> dec j (nm, snd ctx @ [k]) t (case map_of fv k of None \<Rightarrow> zero_value t | Some w \<Rightarrow> w) = Inr w))
    \<and> (\<forall>k. k \<notin> keys kas \<longrightarrow> map_of fw k = map_of fv k)"
  using assms(2,1,3,5)
proof (induction kas ms arbitrary: fv rule: list_all2_induct)
  case (Cons ka kas m ms)
  obtain k a where ka: "ka = (k, a)" by fastforce
  obtain j where m: "m = (json_escape k, j)" and aj: "any_json a = Inr j"
    using Cons.hyps ka by (cases m) auto
  from Cons.prems(3) ka obtain t where t: "(k, t) \<in> set (exported fs)" by auto
  have ff: "find_field fs (unquote (json_escape k)) = Some (k, t)"
    using find_field_exported [OF assms(4) t] assms(6) t by (auto simp: unquote_json_escape)
  let ?old = "\<lambda>fv k t. case map_of fv k of None \<Rightarrow> zero_value t | Some w \<Rightarrow> w"
  from Cons.prems(1) m ff obtain w where w: "dec j (nm, snd ctx @ [k]) t (?old fv k t) = Inr w"
    and r: "dec_members ms ctx nm fs (AList.update k w fv) = Inr fw"
    by (auto split: sum.splits)
  have k: "k \<notin> keys kas" and gk: "gomap kas" and sk: "keys kas \<subseteq> keys (exported fs)"
    using Cons.prems(2,3) ka by auto
  note IH = Cons.IH [OF r gk sk]
  have uniq: "t' = t" if "(k, t') \<in> set (exported fs)" for t'
    using that t gomap_exported [OF assms(4)] by (metis map_of_is_SomeI option.inject)
  have fwk: "map_of fw k = Some w"
    using IH [THEN conjunct2, rule_format, OF k] by simp
  have old: "?old (AList.update k w fv) k' t' = ?old fv k' t'" if "k' \<in> keys kas" for k' t'
  proof -
    have "k' \<noteq> k" using that k by blast
    then show ?thesis by simp
  qed
  show ?case unfolding ka
  proof (intro conjI ballI allI impI, clarify)
    fix k' a' t' assume in1: "(k', a') \<in> set ((k, a) # kas)" and t': "(k', t') \<in> set (exported fs)"
    show "\<exists>j w. any_json a' = Inr j \<and> map_of fw k' = Some w
        \<and> dec j (nm, snd ctx @ [k']) t' (?old fv k' t') = Inr w"
    proof (cases "k' = k")
      case True
      have "a' = a" using in1 k True by (metis fst_conv image_eqI set_ConsD prod.inject)
      moreover have "t' = t" using uniq t' True by blast
      ultimately show ?thesis using True aj w fwk by blast
    next
      case False
      with in1 have i: "(k', a') \<in> set kas" by simp
      have "k' \<in> keys kas" using i by (metis fst_conv image_eqI)
      with IH [THEN conjunct1, THEN bspec, OF i, unfolded prod.case, rule_format, OF t'] old
      show ?thesis by metis
    qed
  next
    fix k' assume "k' \<notin> keys ((k, a) # kas)"
    then have "k' \<notin> keys kas" "k' \<noteq> k" by auto
    then show "map_of fw k' = map_of fv k'" using IH [THEN conjunct2, rule_format, of k'] by simp
  qed
qed simp

lemma params_depth:
  assumes "\<forall>(k, s) \<in> set ps. param_depth s < maxNestingDepth"
  shows "\<forall>(k, a) \<in> set (ConvertStringMapToAny ps). \<forall>j. any_json a = Inr j \<longrightarrow> depth j < maxNestingDepth"
proof (clarify)
  fix k a j assume "(k, a) \<in> set (ConvertStringMapToAny ps)" and j: "any_json a = Inr j"
  then obtain s where s: "(k, s) \<in> set ps" "a = any_of_string s"
    by (auto simp: ConvertStringMapToAny_def)
  with assms have "param_depth s < maxNestingDepth" by blast
  with s j show "depth j < maxNestingDepth" by (simp add: param_depth_def param_json_def)
qed

lemma keys_ConvertStringMapToAny [simp]: "keys (ConvertStringMapToAny ps) = keys ps"
  by (simp add: ConvertStringMapToAny_def image_image case_prod_unfold)

lemma Strict_populates:
  assumes "StrictRemoveParametersAndPopulateObject env (GStruct pkg n fs) ps = (rest, Inr v)"
    and "gomap ps" and "wf_type (GStruct pkg n fs)"
    and "\<forall>(f, e, t) \<in> set fs. \<not> e \<longrightarrow> f \<notin> keys ps"
    and "\<forall>(k, s) \<in> set ps. param_depth s < maxNestingDepth"
  shows "\<exists>fv. v = VStruct fv \<and> keys ps \<subseteq> keys (exported fs) \<and>
      (\<forall>(f, t) \<in> set (exported fs).
        case map_of ps f of
          None \<Rightarrow> map_of fv f = Some (zero_value t)
        | Some s \<Rightarrow> \<exists>j w. param_json s = Inr j \<and> dec j (n, [f]) t (zero_value t) = Inr w \<and> map_of fv f = Some w)"
proof -
  let ?from = "ConvertStringMapToAny ps" and ?t = "GStruct pkg n fs"
  have st: "keys ps \<subseteq> keys fs" "ConvertObjectType ?from ?t (zero_value ?t) = Inr v"
    using Strict_Inr [OF assms(1)] by simp_all
  have ex: "keys ps \<subseteq> keys (exported fs)"
  proof
    fix k assume k: "k \<in> keys ps"
    with st(1) have "k \<in> keys fs" by blast
    then obtain e t where "(k, e, t) \<in> set fs" by (metis imageE prod.collapse)
    with k assms(4) have "(k, t) \<in> set (exported fs)" by (cases e) (auto simp: exported_set)
    then show "k \<in> keys (exported fs)" by force
  qed
  from st(2) params_depth [OF assms(5)] obtain ms where ms: "any_members (sort_key fst ?from) = Inr ms"
    and d: "dec (JObj ms) ([], []) ?t (zero_value ?t) = Inr v"
    by (rule ConvertObjectType_dec)
  let ?z = "map (\<lambda>(f, t). (f, zero_value t)) (exported fs)"
  have g: "gomap fs" using assms(3) by simp
  from d obtain fv where v: "v = VStruct fv" and dm: "dec_members ms ([], []) n fs ?z = Inr fv"
    unfolding zero_value_struct by (auto split: sum.splits)
  have gf: "gomap ?from" using assms(2) by (simp add: ConvertStringMapToAny_def comp_def case_prod_unfold)
  have kf: "keys (sort_key fst ?from) \<subseteq> keys (exported fs)"
    using ex by (simp only: set_sort keys_ConvertStringMapToAny)
  have u8: "\<forall>(f, t) \<in> set (exported fs). valid_utf8 f"
    using assms(3) by (auto simp: exported_set list_all_iff)
  have la: "list_all2 (\<lambda>(k, a) (k', j). k' = json_escape k \<and> any_json a = Inr j) (sort_key fst ?from) ms"
    using ms by (simp only: any_members_Inr)
  have gs: "gomap (sort_key fst ?from)" using gf by (simp only: gomap_sort_key)
  note F = dec_members_fields [OF dm la gs g kf u8]
  have z: "map_of ?z f = Some (zero_value t)" if "(f, t) \<in> set (exported fs)" for f t
    using that gomap_exported [OF g] by (intro map_of_is_SomeI) (force simp: comp_def case_prod_unfold)+
  have "case map_of ps f of
         None \<Rightarrow> map_of fv f = Some (zero_value t)
       | Some s \<Rightarrow> \<exists>j w. param_json s = Inr j \<and> dec j (n, [f]) t (zero_value t) = Inr w \<and> map_of fv f = Some w"
    if ft: "(f, t) \<in> set (exported fs)" for f t
    proof (cases "map_of ps f")
      case None
      then have "f \<notin> keys (sort_key fst ?from)"
        by (simp only: set_sort keys_ConvertStringMapToAny map_of_eq_None_iff not_False_eq_True)
      then have "map_of fv f = map_of ?z f" using F [THEN conjunct2] by blast
      with None z [OF ft] show ?thesis by simp
    next
      case (Some s)
      then have "(f, any_of_string s) \<in> set (sort_key fst ?from)"
        by (force simp: ConvertStringMapToAny_def dest: map_of_SomeD)
      from F [THEN conjunct1, THEN bspec, OF this, unfolded prod.case, rule_format, OF ft]
      show ?thesis using z [OF ft] Some by (auto simp: param_json_def)
    qed
  with v ex show ?thesis by blast
qed

section \<open>Collapsing parameters and reading them back\<close>

fun type_depth :: "gotype \<Rightarrow> nat" where
  "type_depth (GPtr t) = type_depth t"
| "type_depth (GSlice t) = Suc (type_depth t)"
| "type_depth (GMap t) = Suc (type_depth t)"
| "type_depth (GStruct pkg n fs) = Suc (foldr max (map (\<lambda>(f, e, t). type_depth t) fs) 0)"
| "type_depth t = 0"

text \<open>The shape of the SDK's configuration structs: no maps, well formed, and far from the decoder's nesting limit.\<close>

definition config_type :: "gotype \<Rightarrow> bool" where
  "config_type t = (struct_of t \<noteq> None \<and> wf_type t \<and> no_map t \<and> type_depth t < maxNestingDepth)"

lemma foldr_max_ge: "x \<in> set xs \<Longrightarrow> (x :: nat) \<le> foldr max xs 0"
  by (induction xs) (auto simp: le_max_iff_disj)

lemma depth_enc_type: "wt v t \<Longrightarrow> no_map t \<Longrightarrow> depth (enc v) \<le> type_depth t"
proof (induction v arbitrary: t)
  case (VSlice vs)
  then have "foldr max (map (depth \<circ> enc) vs) 0 \<le> type_depth u" if "t = GSlice u" for u
    using that by (intro foldr_max_le) auto
  with VSlice.prems show ?case by auto
next
  case (VStruct fv)
  then obtain pkg n fs where t: "t = GStruct pkg n fs"
    and l: "list_all2 (\<lambda>(k, v) (f, u). k = f \<and> wt v u) fv (exported fs)" by auto
  have "depth (enc v) \<le> foldr max (map (\<lambda>(f, e, t). type_depth t) fs) 0" if kv: "(k, v) \<in> set fv" for k v
  proof -
    from kv obtain i where i: "i < length fv" "fv ! i = (k, v)" by (auto simp: in_set_conv_nth)
    obtain f u where fu: "exported fs ! i = (f, u)" by fastforce
    have wt: "wt v u" using list_all2_nthD [OF l i(1)] i(2) fu by simp
    have m: "(f, True, u) \<in> set fs"
      using i(1) fu list_all2_lengthD [OF l] nth_mem [of i "exported fs"] by (simp add: exported_set)
    then have "no_map u" using VStruct.prems t by (auto simp: list_all_iff)
    then have "depth (enc v) \<le> type_depth u" using VStruct.IH [OF kv] wt by simp
    also have "\<dots> \<le> foldr max (map (\<lambda>(f, e, t). type_depth t) fs) 0"
      using m by (intro foldr_max_ge) force
    finally show ?thesis .
  qed
  then show ?case unfolding t by (auto intro!: foldr_max_le)
qed auto

lemma any_of_string_object: "any_of_string (CHR ''{'' # s) = AnyRaw (CHR ''{'' # s)"
  by (simp add: any_of_string_def ParseInt_def ParseUint_def ParseBool_def is_digit_def)

lemma param_json_Marshal:
  assumes "wt v t" and "config_type t"
  shows "param_json (Marshal v) = Inr (enc v)" and "depth (enc v) < maxNestingDepth"
proof -
  have "depth (enc v) \<le> type_depth t" using assms by (simp add: depth_enc_type config_type_def)
  then show d: "depth (enc v) < maxNestingDepth" using assms(2) by (simp add: config_type_def)
  obtain n fs pkg where "t = GStruct pkg n fs" using assms(2) by (auto simp: config_type_def struct_of_Some)
  then obtain fv where "v = VStruct fv" using assms(1) by (cases v) auto
  then obtain s where s: "Marshal v = CHR ''{'' # s" by (auto simp: Marshal_def)
  have "json_parse (Marshal v) = Inr (enc v)"
    using json_parse_render [of "enc v"] d by (simp add: Marshal_def)
  with s show "param_json (Marshal v) = Inr (enc v)"
    by (simp add: param_json_def any_of_string_object any_json_def)
qed

lemma populated_wt:
  assumes "ConvertObjectType (ConvertStringMapToAny ps) t (zero_value t) = Inr v" and "config_type t"
    and "\<forall>(k, s) \<in> set ps. param_depth s < maxNestingDepth"
  shows "wt v t"
proof -
  from assms(1) params_depth [OF assms(3)] obtain ms where "dec (JObj ms) ([], []) t (zero_value t) = Inr v"
    by (rule ConvertObjectType_dec)
  from dec_wt(1) [OF this] assms(2) wt_zero_value [of t] show ?thesis by (simp add: config_type_def)
qed

lemma Replace_Strict:
  assumes r: "ReplaceParametersAndPopulateObject env key t ps = (ps', Inr cfg)"
    and s: "StrictRemoveParametersAndPopulateObject env (GStruct pkg n fs) ps' = (rest, Inr v)"
    and "gomap ps" and "config_type t" and "wf_type (GStruct pkg n fs)"
    and key: "(key, GPtr t) \<in> set (exported fs)"
    and "\<forall>(f, e, u) \<in> set fs. \<not> e \<longrightarrow> f \<notin> keys ps"
    and d: "\<forall>(k, s) \<in> set ps. param_depth s < maxNestingDepth"
  shows "\<exists>fv. v = VStruct fv \<and> map_of fv key = Some (VPtr cfg)"
proof -
  have ps': "ps' = AList.update key (Marshal cfg) (delete_fields t ps)" and wt: "wt cfg t"
    using Replace_Inr [OF r] populated_wt [OF _ assms(4) d] by simp_all
  note pj = param_json_Marshal [OF wt assms(4)]
  have sub: "map_of ps' k = Some x \<Longrightarrow> k \<noteq> key \<Longrightarrow> map_of ps k = Some x" for k x
    by (auto simp: ps' map_of_delete_fields split: if_splits)
  have g: "gomap ps'"
  proof -
    have "gomap qs \<Longrightarrow> gomap (fold AList.delete ns qs)" for ns and qs :: params
      by (induction ns arbitrary: qs) auto
    then show ?thesis using assms(3) by (simp add: ps' delete_fields_def)
  qed
  have lookup: "(k, x) \<in> set ps' \<Longrightarrow> k = key \<and> x = Marshal cfg \<or> k \<noteq> key \<and> (k, x) \<in> set ps" for k x
  proof -
    assume "(k, x) \<in> set ps'"
    then have "map_of ps' k = Some x" using g by simp
    then show ?thesis using sub [of k x] by (cases "k = key") (auto simp: ps' dest: map_of_SomeD)
  qed
  have d': "\<forall>(k, s) \<in> set ps'. param_depth s < maxNestingDepth"
    using lookup d pj by (fastforce simp: param_depth_def)
  have u: "\<forall>(f, e, u) \<in> set fs. \<not> e \<longrightarrow> f \<notin> keys ps'"
  proof -
    have no: False if f: "(f, False, u) \<in> set fs" and k: "f \<in> keys ps'" for f u
    proof -
      from k obtain x where "(f, x) \<in> set ps'" by (metis imageE prod.collapse)
      then have "f = key \<or> (f, x) \<in> set ps" using lookup by blast
      then consider "f = key" | "f \<in> keys ps" by force
      then show False
      proof cases
        case 1
        have "gomap fs" using assms(5) by simp
        from eq_key_imp_eq_value [OF this f [unfolded 1]] key show False by (auto simp: exported_set)
      next
        case 2
        with f assms(7) show False by blast
      qed
    qed
    show ?thesis
    proof
      fix x assume x: "x \<in> set fs"
      obtain f e u where e: "x = (f, e, u)" by (cases x)
      show "case x of (f, e, u) \<Rightarrow> \<not> e \<longrightarrow> f \<notin> keys ps'"
        using no [of f u] x unfolding e by (cases e) auto
    qed
  qed
  obtain fv where v: "v = VStruct fv"
    and "\<forall>(f, t) \<in> set (exported fs).
        case map_of ps' f of
          None \<Rightarrow> map_of fv f = Some (zero_value t)
        | Some s \<Rightarrow> \<exists>j w. param_json s = Inr j \<and> dec j (n, [f]) t (zero_value t) = Inr w \<and> map_of fv f = Some w"
    using Strict_populates [OF s g assms(5) u d'] by blast
  note F = this(2) [THEN bspec, OF key, unfolded prod.case]
  have "map_of ps' key = Some (Marshal cfg)" by (simp add: ps')
  with F pj(1) obtain w where w: "dec (enc cfg) (n, [key]) (GPtr t) VNil = Inr w" "map_of fv key = Some w"
    by auto
  have "enc cfg \<noteq> JNull" using wt assms(4) by (intro enc_not_null) (auto simp: config_type_def struct_of_Some)
  with w(1) have "w = VPtr cfg" using dec_enc [OF wt] assms(4) by (simp add: dec_GPtr config_type_def)
  with v w(2) show ?thesis by simp
qed

section \<open>The order of the parameter map\<close>

text \<open>Two lists for the same map populate the same object and leave the same parameters over.\<close>

lemma ConvertStringMapToAny_same: "same_map ps ps' \<Longrightarrow> same_map (ConvertStringMapToAny ps) (ConvertStringMapToAny ps')"
proof -
  have "map_of (ConvertStringMapToAny qs) = map_option any_of_string \<circ> map_of qs" for qs
    by (simp add: ConvertStringMapToAny_def map_of_map)
  then show "same_map ps ps' \<Longrightarrow> ?thesis"
    by (simp add: same_map_def) (simp add: ConvertStringMapToAny_def comp_def case_prod_unfold)
qed

lemma ConvertObjectType_same:
  "same_map m m' \<Longrightarrow> ConvertObjectType m' t v = ConvertObjectType m t v"
  by (simp add: ConvertObjectType_def ConvertMapToJsonString_def same_map_sort_key)

lemma delete_fields_same: "same_map ps ps' \<Longrightarrow> same_map (delete_fields t ps) (delete_fields t ps')"
proof -
  have "same_map ps ps' \<Longrightarrow> same_map (fold AList.delete ns ps) (fold AList.delete ns ps')" for ns
    by (induction ns arbitrary: ps ps') (auto)
  then show "same_map ps ps' \<Longrightarrow> ?thesis" by (simp add: delete_fields_def)
qed

lemma Remove_Inr_same:
  assumes "same_map ps ps'" and "RemoveParametersAndPopulateObject env t ps = (rest, Inr v)"
  shows "RemoveParametersAndPopulateObject env t ps' = (delete_fields t ps', Inr v) \<and> rest = delete_fields t ps"
  using assms(2) ConvertObjectType_same [OF ConvertStringMapToAny_same [OF assms(1)], of t "zero_value t"]
  by (auto simp: RemoveParametersAndPopulateObject_def Let_def split: sum.splits if_splits)

lemma Strict_Inr_same:
  assumes "same_map ps ps'" and "StrictRemoveParametersAndPopulateObject env t ps = (rest, Inr v)"
  shows "StrictRemoveParametersAndPopulateObject env t ps' = ([], Inr v)"
proof -
  from assms(2) have r: "RemoveParametersAndPopulateObject env t ps = ([], Inr v)"
    by (auto simp: StrictRemoveParametersAndPopulateObject_def split: prod.splits sum.splits if_splits)
  with Remove_Inr_same [OF assms(1) r] same_map_set [OF delete_fields_same [OF assms(1), of t]]
  show ?thesis by (simp add: StrictRemoveParametersAndPopulateObject_def)
qed

lemma Replace_Inr_same:
  assumes "same_map ps ps'" and "ReplaceParametersAndPopulateObject env key t ps = (rest, Inr v)"
  shows "\<exists>rest'. ReplaceParametersAndPopulateObject env key t ps' = (rest', Inr v) \<and> same_map rest rest'"
proof -
  from assms(2) obtain r where r: "RemoveParametersAndPopulateObject env t ps = (r, Inr v)"
    and rest: "rest = AList.update key (Marshal v) r"
    by (auto simp: ReplaceParametersAndPopulateObject_def ConvertObjectToJsonString_def split: prod.splits sum.splits)
  with Remove_Inr_same [OF assms(1) r] same_map_update [OF delete_fields_same [OF assms(1), of t]]
  show ?thesis by (simp add: ReplaceParametersAndPopulateObject_def ConvertObjectToJsonString_def)
qed

section \<open>Reporting a parameter that is not JSON\<close>

lemma any_json_Inl: "any_json v = Inl e \<Longrightarrow> \<exists>s m. v = AnyRaw s \<and> e = MarshalerError (SyntaxError m)"
  by (auto simp: any_json_def split: anyval.splits sum.splits)

lemma any_members_Inl:
  "any_members kvs = Inl e \<Longrightarrow> \<exists>(k, v) \<in> set kvs. any_json v = Inl e"
  by (induction kvs) (auto split: sum.splits)

lemma any_members_Inr_all: "any_members kvs = Inr ms \<Longrightarrow> (k, v) \<in> set kvs \<Longrightarrow> \<exists>j. any_json v = Inr j"
  by (induction kvs arbitrary: ms) (auto split: sum.splits)

lemma Contains_MarshalJSON: "Contains (Error env (MarshalerError e)) ''error calling MarshalJSON''"
proof -
  have "Error env (MarshalerError e) =
      ''json: '' @ ''error calling MarshalJSON'' @ '' for type json.RawMessage: '' @ Error env e" by simp
  then show ?thesis unfolding Contains_iff_sublist by blast
qed

lemma identify_bad:
  assumes "(k, v) \<in> set from" and "any_json v = Inl e"
  shows "\<exists>k' s' e'. (k', AnyRaw s') \<in> set from \<and> any_json (AnyRaw s') = Inl e' \<and>
     identifyImproperlyFormattedParameter from =
       Errorf ''failed to parse parameter key=%s, value=%s with error=%s'' [AStr k', AStr s', AErr e']"
  using assms
proof (induction "from")
  case (Cons kv "from")
  obtain k1 v1 where kv: "kv = (k1, v1)" by fastforce
  show ?case
  proof (cases "any_json v1")
    case (Inl e1)
    then obtain s1 where "v1 = AnyRaw s1" using any_json_Inl by blast
    with Inl show ?thesis by (auto simp: kv ConvertMapToJsonString_def raw_text_def)
  next
    case (Inr j)
    with Cons.prems kv have "(k, v) \<in> set from" by auto
    from Cons.IH [OF this Cons.prems(2)] Inr show ?thesis
      by (auto simp: kv ConvertMapToJsonString_def)
  qed
qed simp

lemma Remove_not_json:
  assumes "(k, s) \<in> set ps" and "param_json s = Inl e"
  shows "\<exists>k' s' e'. (k', s') \<in> set ps \<and> param_json s' = Inl e' \<and>
     RemoveParametersAndPopulateObject env t ps =
       (ps, Inl (Errorf ''failed to parse parameter key=%s, value=%s with error=%s'' [AStr k', AStr s', AErr e']))"
proof -
  let ?from = "ConvertStringMapToAny ps"
  have f: "(k, any_of_string s) \<in> set ?from" "any_json (any_of_string s) = Inl e"
    using assms by (force simp: ConvertStringMapToAny_def, simp add: param_json_def)
  then have "any_members (sort_key fst ?from) \<noteq> Inr ms" for ms
    using any_members_Inr_all [of "sort_key fst ?from" ms k "any_of_string s"] by auto
  then obtain e1 where e1: "any_members (sort_key fst ?from) = Inl e1"
    by (cases "any_members (sort_key fst ?from)") auto
  then obtain m where m: "e1 = MarshalerError m"
    using any_members_Inl any_json_Inl by fastforce
  have c: "ConvertObjectType ?from t (zero_value t) = Inl e1"
    using e1 by (simp add: ConvertObjectType_def ConvertMapToJsonString_def)
  have "RemoveParametersAndPopulateObject env t ps = (ps, Inl (identifyImproperlyFormattedParameter ?from))"
    unfolding RemoveParametersAndPopulateObject_def Let_def c
    using Contains_MarshalJSON [of env m] m by (simp del: Error.simps)
  moreover obtain k' s' e' where i: "(k', AnyRaw s') \<in> set ?from" "any_json (AnyRaw s') = Inl e'"
    "identifyImproperlyFormattedParameter ?from =
       Errorf ''failed to parse parameter key=%s, value=%s with error=%s'' [AStr k', AStr s', AErr e']"
    using identify_bad [OF f] by blast
  moreover from i(1) obtain s'' where s: "(k', s'') \<in> set ps" "any_of_string s'' = AnyRaw s'"
    by (auto simp: ConvertStringMapToAny_def)
  then have "s'' = s'" by (auto simp: any_of_string_def split: sum.splits option.splits)
  ultimately show ?thesis using s unfolding param_json_def by metis
qed

section \<open>Properties\<close>

definition sample_input :: gotype where
  "sample_input = GStruct ''fsx'' ''DeleteFileSystemInput''
     [(''FileSystemId'', True, GPtr str_t), (''OpenZFSConfiguration'', True, GPtr sample_DeleteFileSystemOpenZFSConfiguration)]"

text \<open>
  C9. Populating a struct strictly from a parameter map gives each field the value of its own
  parameter: on success no parameter is left over, every parameter names an exported field, a
  field with a parameter holds that parameter's JSON value decoded at the field's type, and every
  other field is zero.
\<close>

theorem strict_populates_fields:
  assumes "StrictRemoveParametersAndPopulateObject env t ps = (rest, Inr v)"
    and "t = GStruct pkg n fs" and "wf_type t" and "gomap ps"
    and "\<forall>(f, e, u) \<in> set fs. \<not> e \<longrightarrow> f \<notin> keys ps"
    and "\<forall>(k, s) \<in> set ps. param_depth s < maxNestingDepth"
  shows "rest = [] \<and> (\<exists>fv. v = VStruct fv \<and> keys ps \<subseteq> keys (exported fs) \<and>
      (\<forall>(f, u) \<in> set (exported fs).
        case map_of ps f of
          None \<Rightarrow> map_of fv f = Some (zero_value u)
        | Some s \<Rightarrow> \<exists>j w. param_json s = Inr j \<and> dec j (n, [f]) u (zero_value u) = Inr w \<and> map_of fv f = Some w))"
  using Strict_Inr [OF assms(1)] Strict_populates [OF assms(1) [unfolded assms(2)] assms(4) assms(3) [unfolded assms(2)] assms(5,6)]
  by blast

lemma sample_strict:
  "StrictRemoveParametersAndPopulateObject sample_env sample_DeleteFileSystemOpenZFSConfiguration
     [(''SkipFinalBackup'', ''true'')] =
   ([], Inr (VStruct [(''FinalBackupTags'', VNil), (''Options'', VNil), (''SkipFinalBackup'', VPtr (VBool True))]))"
  by code_simp

lemma sample_depth: "param_depth ''true'' < maxNestingDepth"
  by code_simp

lemma sample_wf: "wf_type sample_DeleteFileSystemOpenZFSConfiguration"
  by code_simp

theorem strict_populates_fields_witness:
  "\<exists>fv. VStruct [(''FinalBackupTags'', VNil), (''Options'', VNil), (''SkipFinalBackup'', VPtr (VBool True))] = VStruct fv
     \<and> map_of fv ''SkipFinalBackup'' = Some (VPtr (VBool True))"
proof -
  note d = sample_DeleteFileSystemOpenZFSConfiguration_def
  have "\<forall>(f, e, u) \<in> set [(''FinalBackupTags'', True, GSlice sample_Tag),
      (''Options'', True, GSlice (GString ''types.DeleteFileSystemOpenZFSOption'')),
      (''SkipFinalBackup'', True, GPtr GBool)]. \<not> e \<longrightarrow> f \<notin> keys [(''SkipFinalBackup'', ''true'')]" by simp
  from strict_populates_fields [OF sample_strict d sample_wf _ this] sample_depth show ?thesis by simp
qed

text \<open>
  C10. A configuration collapsed into one JSON parameter is read back unchanged: when
  \<^verbatim>\<open>ReplaceParametersAndPopulateObject\<close> has populated a configuration and stored it under a key, and
  the resulting map populates an input struct whose field of that name points to such a
  configuration, the field points to exactly the configuration that was collapsed.
\<close>

theorem collapse_roundtrip:
  assumes "ReplaceParametersAndPopulateObject env key t ps = (ps', Inr cfg)"
    and "StrictRemoveParametersAndPopulateObject env u ps' = (rest, Inr v)"
    and "u = GStruct pkg n fs" and "wf_type u" and "config_type t" and "(key, GPtr t) \<in> set (exported fs)"
    and "gomap ps" and "\<forall>(f, e, x) \<in> set fs. \<not> e \<longrightarrow> f \<notin> keys ps"
    and "\<forall>(k, s) \<in> set ps. param_depth s < maxNestingDepth"
  shows "\<exists>fv. v = VStruct fv \<and> map_of fv key = Some (VPtr cfg)"
  by (rule Replace_Strict [OF assms(1) assms(2) [unfolded assms(3)] assms(7,5) assms(4) [unfolded assms(3)] assms(6,8,9)])

lemma sample_collapse:
  "\<exists>ps' cfg rest v.
     ReplaceParametersAndPopulateObject sample_env ''OpenZFSConfiguration'' sample_DeleteFileSystemOpenZFSConfiguration
       [(''SkipFinalBackup'', ''true'')] = (ps', Inr cfg)
     \<and> StrictRemoveParametersAndPopulateObject sample_env sample_input ps' = (rest, Inr v)"
proof -
  have "case ReplaceParametersAndPopulateObject sample_env ''OpenZFSConfiguration'' sample_DeleteFileSystemOpenZFSConfiguration
       [(''SkipFinalBackup'', ''true'')] of
      (ps', Inr cfg) \<Rightarrow> (case StrictRemoveParametersAndPopulateObject sample_env sample_input ps' of (_, Inr _) \<Rightarrow> True | _ \<Rightarrow> False)
    | _ \<Rightarrow> False" by code_simp
  then show ?thesis by (auto split: prod.splits sum.splits)
qed

lemma sample_input_facts:
  "wf_type sample_input" "config_type sample_DeleteFileSystemOpenZFSConfiguration"
  by code_simp+

theorem collapse_roundtrip_witness:
  "\<exists>ps' cfg rest fv.
     ReplaceParametersAndPopulateObject sample_env ''OpenZFSConfiguration'' sample_DeleteFileSystemOpenZFSConfiguration
       [(''SkipFinalBackup'', ''true'')] = (ps', Inr cfg)
     \<and> StrictRemoveParametersAndPopulateObject sample_env sample_input ps' = (rest, Inr (VStruct fv))
     \<and> map_of fv ''OpenZFSConfiguration'' = Some (VPtr cfg)"
proof -
  obtain ps' cfg rest v where r: "ReplaceParametersAndPopulateObject sample_env ''OpenZFSConfiguration''
      sample_DeleteFileSystemOpenZFSConfiguration [(''SkipFinalBackup'', ''true'')] = (ps', Inr cfg)"
    and s: "StrictRemoveParametersAndPopulateObject sample_env sample_input ps' = (rest, Inr v)"
    using sample_collapse by blast
  have "\<exists>fv. v = VStruct fv \<and> map_of fv ''OpenZFSConfiguration'' = Some (VPtr cfg)"
    by (rule collapse_roundtrip [OF r s sample_input_def sample_input_facts])
      (simp_all add: exported_def sample_depth)
  with r s show ?thesis by blast
qed

text \<open>
  A parameter whose value is not an integer, a boolean or JSON is reported by name: the map is left
  as it was and the error names a parameter of the map that does not parse, with its value and the
  reason; the unspecific fallback message never appears.
\<close>

theorem not_json_reported:
  assumes "(k, s) \<in> set ps" and "param_json s = Inl e"
  shows "\<exists>k' s' e'. (k', s') \<in> set ps \<and> param_json s' = Inl e' \<and>
     RemoveParametersAndPopulateObject env t ps =
       (ps, Inl (Errorf ''failed to parse parameter key=%s, value=%s with error=%s'' [AStr k', AStr s', AErr e']))"
  using assms by (rule Remove_not_json)

lemma sample_not_json: "\<exists>e. param_json ''[oops'' = Inl e"
proof -
  have "case param_json ''[oops'' of Inl e \<Rightarrow> True | Inr j \<Rightarrow> False" by code_simp
  then show ?thesis by (auto split: sum.splits)
qed

theorem not_json_reported_witness:
  "\<exists>e. RemoveParametersAndPopulateObject sample_env sample_input [(''Options'', ''[oops'')] =
     ([(''Options'', ''[oops'')],
      Inl (Errorf ''failed to parse parameter key=%s, value=%s with error=%s'' [AStr ''Options'', AStr ''[oops'', AErr e]))"
proof -
  obtain e where e: "param_json ''[oops'' = Inl e" using sample_not_json by blast
  from not_json_reported [OF _ e, of "''Options''" "[(''Options'', ''[oops'')]" sample_env sample_input]
  show ?thesis by auto
qed

text \<open>
  C29. Marshalling a value of one of the driver's types and unmarshalling the text into an empty
  value of that type gives the value back.
\<close>

theorem object_json_roundtrip:
  assumes "wt v t" and "wf_type t" and "depth (enc v) \<le> maxNestingDepth"
  shows "\<exists>s. ConvertObjectToJsonString v = Inr s \<and> ConvertJsonStringToObject s t (zero_value t) = Inr v"
proof -
  have "Marshal v \<noteq> []"
    using render_start [of "enc v"] by (auto simp: Marshal_def)
  with Unmarshal_Marshal [OF assms] show ?thesis
    by (simp add: ConvertObjectToJsonString_def ConvertJsonStringToObject_def)
qed

theorem object_json_roundtrip_witness:
  "\<exists>s. ConvertObjectToJsonString (VSlice [VMap [(''Key'', VString ''a<b''), (''Value'', VString [CHR 0x22])]]) = Inr s
     \<and> ConvertJsonStringToObject s (GSlice (GMap (GString ''string''))) VNil =
         Inr (VSlice [VMap [(''Key'', VString ''a<b''), (''Value'', VString [CHR 0x22])]])"
proof -
  have t: "wt (VSlice [VMap [(''Key'', VString ''a<b''), (''Value'', VString [CHR 0x22])]]) (GSlice (GMap (GString ''string'')))"
    "wf_type (GSlice (GMap (GString ''string'')))"
    by simp_all
  have d: "depth (enc (VSlice [VMap [(''Key'', VString ''a<b''), (''Value'', VString [CHR 0x22])]])) \<le> maxNestingDepth"
    by code_simp
  from object_json_roundtrip [OF t d] show ?thesis by simp
qed

text \<open>
  Converting a capacity from GiB to bytes and back gives the same capacity, for every int32.
\<close>

theorem capacity_roundtrip: "BytesToGiB (GiBToBytes g) = Inr g"
  by (rule BytesToGiB_GiBToBytes)

text \<open>
  C32. For a capacity that is not negative, \<^verbatim>\<open>BytesToGiB\<close> rounds down to whole GiB exactly, and fails
  exactly when the number of GiB does not fit into an int32.
\<close>

theorem capacity_bounds:
  assumes "0 \<le> sint b"
  shows "case BytesToGiB b of
      Inr g \<Rightarrow> sint b < 2 ^ 31 * GiB \<and> 0 \<le> sint g \<and> sint g * GiB \<le> sint b \<and> sint b < (sint g + 1) * GiB
    | Inl e \<Rightarrow> 2 ^ 31 * GiB \<le> sint b"
  using assms by (rule BytesToGiB_nonneg)

theorem capacity_bounds_witness: "case BytesToGiB 1610612736 of
      Inr g \<Rightarrow> 0 \<le> sint g \<and> sint g * GiB \<le> 1610612736 \<and> 1610612736 < (sint g + 1) * GiB | Inl e \<Rightarrow> False"
proof -
  have "0 \<le> sint (1610612736 :: 64 word)" by code_simp
  from capacity_bounds [OF this] show ?thesis by (auto simp: GiB_def split: sum.splits)
qed

text \<open>
  The tag encoding keeps every delete parameter in which no code letter stands alone between two
  gaps (blanks or encoded characters): decoding the encoded value gives it back.
\<close>

theorem deletion_tag_roundtrip:
  assumes "tag_safe s"
  shows "DecodeDeletionTag (EncodeDeletionTag s) = s"
  using assms by (rule Decode_Encode)

theorem deletion_tag_roundtrip_witness:
  "DecodeDeletionTag (EncodeDeletionTag ([CHR ''['', CHR 0x22] @ ''DELETE_CHILD_VOLUMES_AND_SNAPSHOTS'' @ [CHR 0x22, CHR '']'']))
     = [CHR ''['', CHR 0x22] @ ''DELETE_CHILD_VOLUMES_AND_SNAPSHOTS'' @ [CHR 0x22, CHR '']'']"
proof -
  have "tag_safe ([CHR ''['', CHR 0x22] @ ''DELETE_CHILD_VOLUMES_AND_SNAPSHOTS'' @ [CHR 0x22, CHR '']''])"
    by code_simp
  then show ?thesis by (rule deletion_tag_roundtrip)
qed

text \<open>
  C33. The encoding does not keep every value: a value in which one of the letters that stand for a
  bracket, a brace, a comma or a quote already stands between two blanks is not what its encoding
  decodes to, and no tag at all decodes to it.
\<close>

theorem deletion_tag_blank_lost:
  assumes "is_code x" and "Contains s [CHR '' '', x, CHR '' '']"
  shows "DecodeDeletionTag (EncodeDeletionTag s) \<noteq> s \<and> DecodeDeletionTag t \<noteq> s"
  using Decode_no_code [OF assms(1)] assms(2) by metis

theorem deletion_tag_blank_lost_witness:
  "DecodeDeletionTag (EncodeDeletionTag ([CHR 0x22] @ ''a - b'' @ [CHR 0x22])) \<noteq> [CHR 0x22] @ ''a - b'' @ [CHR 0x22]"
proof -
  have "is_code CHR ''-''" "Contains ([CHR 0x22] @ ''a - b'' @ [CHR 0x22]) [CHR '' '', CHR ''-'', CHR '' '']" by code_simp+
  from deletion_tag_blank_lost [OF this] show ?thesis by blast
qed

end
