(* ===== verification/CloudSpec.thy ===== *)
theory CloudSpec
  imports Sample UtilSpec
begin

text \<open>
  What the cloud layer promises its callers: a resource is described only when the service knows
  exactly one, a wait returns only once the service has reported the state waited for, a resize
  succeeds only for an update the service has accepted, and errors of the service arrive as the
  package's sentinel errors.
\<close>

section \<open>Describing\<close>

lemma run_single: "run_state (single out) w =
   ((case out of None \<Rightarrow> Panic | Some [] \<Rightarrow> Err ErrNotFound | Some [x] \<Rightarrow> Ok x | Some _ \<Rightarrow> Err ErrMultipleFound), w)"
  by (simp add: single_def run_go split: option.splits list.splits)

lemma check_single_Ok:
  "run_state (check m f single) w = (Ok x, w') \<longleftrightarrow> run_state m w = (Ok (Some [x]), w')"
  by (cases "run_state m w"; cases "fst (run_state m w)")
    (auto simp: run_check run_single split: option.splits list.splits)

lemma getFileSystem_Ok [cloud_defs]:
  "run_state (getFileSystem k i) w = (Ok fs, w') \<longleftrightarrow>
     run_state (fsx_DescribeFileSystems (sdk_fsx k) [i]) w = (Ok (Some [fs]), w')"
  by (simp add: getFileSystem_def check_single_Ok)

lemma getVolume_Ok [cloud_defs]:
  "run_state (getVolume k i) w = (Ok v, w') \<longleftrightarrow>
     run_state (fsx_DescribeVolumes (sdk_fsx k) [i]) w = (Ok (Some [v]), w')"
  by (simp add: getVolume_def check_single_Ok)

lemma getSnapshot_Ok [cloud_defs]:
  "run_state (getSnapshot k i) w = (Ok s, w') \<longleftrightarrow>
     run_state (fsx_DescribeSnapshots (sdk_fsx k) [i]) w = (Ok (Some [s]), w')"
  by (simp add: getSnapshot_def check_single_Ok)

lemma run_cloud_DescribeFileSystem:
  "run_state (cloud_DescribeFileSystem k i) w =
     (case run_state (fsx_DescribeFileSystems (sdk_fsx k) [i]) w of
        (Ok (Some [fs]), w') \<Rightarrow> (Ok (Some (to_FileSystem fs)), w')
      | (Ok (Some []), w') \<Rightarrow> (Err ErrNotFound, w')
      | (Ok (Some _), w') \<Rightarrow> (Err ErrMultipleFound, w')
      | (Ok None, w') \<Rightarrow> (Panic, w')
      | (Err e, w') \<Rightarrow> (Err e, w')
      | (Panic, w') \<Rightarrow> (Panic, w'))"
  by (simp add: cloud_DescribeFileSystem_def getFileSystem_def run_check run_single
      split: prod.splits res.splits option.splits list.splits)

section \<open>Waiting for a state\<close>

lemma filesystem_available_True:
  "run_state (filesystem_available k i) w = (Ok True, w') \<longleftrightarrow>
    (\<exists>fs. run_state (fsx_DescribeFileSystems (sdk_fsx k) [i]) w = (Ok (Some [fs]), w')
       \<and> sfs_Lifecycle fs = ''AVAILABLE'')"
  by (auto simp: filesystem_available_def run_check_Ok getFileSystem_Ok split: if_splits) force

lemma volume_available_True:
  "run_state (volume_available k i) w = (Ok True, w') \<longleftrightarrow>
    (\<exists>v. run_state (fsx_DescribeVolumes (sdk_fsx k) [i]) w = (Ok (Some [v]), w')
       \<and> sv_Lifecycle v = ''AVAILABLE'')"
  by (auto simp: volume_available_def run_check_Ok getVolume_Ok split: if_splits) force

lemma snapshot_available_True:
  "run_state (snapshot_available k i) w = (Ok True, w') \<longleftrightarrow>
    (\<exists>s. run_state (fsx_DescribeSnapshots (sdk_fsx k) [i]) w = (Ok (Some [s]), w')
       \<and> ss_Lifecycle s = ''AVAILABLE'')"
  by (auto simp: snapshot_available_def run_check_Ok getSnapshot_Ok split: if_splits) force

section \<open>Updates\<close>

definition is_filesystem_update :: "32 word \<Rightarrow> sdk_AdministrativeAction \<Rightarrow> bool" where
  "is_filesystem_update g a \<longleftrightarrow>
     aa_AdministrativeActionType a = ''FILE_SYSTEM_UPDATE'' \<and> aa_TargetFileSystemValues a = Some (Some g)"

lemma find_filesystem_update_Ok:
  "find_filesystem_update g as = Ok r \<Longrightarrow> r = List.find (is_filesystem_update g) as"
  by (induction as) (auto simp: is_filesystem_update_def split: if_splits option.splits)

definition is_volume_update :: "32 word \<Rightarrow> sdk_AdministrativeAction \<Rightarrow> bool" where
  "is_volume_update g a \<longleftrightarrow>
     aa_AdministrativeActionType a = ''VOLUME_UPDATE'' \<and>
     (\<exists>c. aa_TargetVolumeValues a = Some (Some c) \<and> tv_StorageCapacityQuotaGiB c = Some g
        \<and> tv_StorageCapacityReservationGiB c = Some g)"

lemma find_volume_update_Ok:
  "find_volume_update g as = Ok r \<Longrightarrow> r = List.find (is_volume_update g) as"
  by (induction as) (auto simp: is_volume_update_def split: if_splits option.splits)

lemma find_filesystem_update_Err: "find_filesystem_update g as \<noteq> Err e"
  by (induction as) (auto split: option.splits)

lemma find_volume_update_Err: "find_volume_update g as \<noteq> Err e"
  by (induction as) (auto split: option.splits)

lemma get_filesystem_update_Ok:
  assumes "run_state (getUpdateResizeFilesystemAdministrativeAction k i g) w = (Ok a, w')"
  shows "\<exists>fs. run_state (fsx_DescribeFileSystems (sdk_fsx k) [i]) w = (Ok (Some [fs]), w')
    \<and> List.find (is_filesystem_update g) (sfs_AdministrativeActions fs) = Some a"
  using assms
  by (auto simp: getUpdateResizeFilesystemAdministrativeAction_def run_check_Ok getFileSystem_Ok
      split: if_splits option.splits dest!: find_filesystem_update_Ok)

lemma update_done_True:
  "run_state (update_done f i a) w = (Ok True, w') \<longleftrightarrow>
     w' = w \<and> (aa_Status a = ''UPDATED_OPTIMIZING'' \<or> aa_Status a = ''COMPLETED'')"
  by (auto simp: update_done_def run_go split: option.splits)

section \<open>Resizing\<close>

lemma cloud_ResizeFileSystem_size:
  "run_state (cloud_ResizeFileSystem k i g) w = (Ok r, w') \<Longrightarrow> r = Some g"
  by (auto simp: cloud_ResizeFileSystem_def run_go split: prod.splits res.splits if_splits)

lemma cloud_ResizeFileSystem_Ok:
  assumes "run_state (cloud_ResizeFileSystem k i g) w = (Ok r, w')"
  shows "r = Some g \<and>
    (run_state (fsx_UpdateFileSystem (sdk_fsx k) i g) w = (Ok (), w')
     \<or> (\<exists>e w1 fs a. run_state (fsx_UpdateFileSystem (sdk_fsx k) i g) w = (Err e, w1)
          \<and> as_sdk e = Some (BadRequest, update_in_progress_msg)
          \<and> run_state (fsx_DescribeFileSystems (sdk_fsx k) [i]) w1 = (Ok (Some [fs]), w')
          \<and> List.find (is_filesystem_update g) (sfs_AdministrativeActions fs) = Some a))"
proof (cases "run_state (fsx_UpdateFileSystem (sdk_fsx k) i g) w")
  case (Pair u w1)
  show ?thesis
  proof (cases u)
    case (Ok x)
    with Pair assms show ?thesis by (simp add: cloud_ResizeFileSystem_def run_go)
  next
    case (Err e)
    with Pair assms have b: "as_sdk e = Some (BadRequest, update_in_progress_msg)"
      by (auto simp: cloud_ResizeFileSystem_def run_go split: if_splits)
    with Pair Err assms obtain a where "r = Some g"
      and "run_state (getUpdateResizeFilesystemAdministrativeAction k i g) w1 = (Ok a, w')"
      by (auto simp: cloud_ResizeFileSystem_def run_invoke run_check_Ok)
    with get_filesystem_update_Ok [of k i g w1 a w'] b Pair Err show ?thesis by auto
  next
    case Panic
    with Pair assms show ?thesis by (simp add: cloud_ResizeFileSystem_def run_go)
  qed
qed

section \<open>Delete parameters\<close>

text \<open>The parameter one tag contributes, if any.\<close>

definition tag_parameter :: "'w sdk \<Rightarrow> string \<Rightarrow> sdk_Tag \<Rightarrow> (string \<times> string) option" where
  "tag_parameter k p tag =
     (case (tag_Key tag, tag_Value tag) of
        (Some key, Some value) \<Rightarrow>
          if HasSuffix key ''OnDeletion''
             \<and> valid_delete_parameter k p (TrimSuffix key ''OnDeletion'') (DecodeDeletionTag value)
          then Some (TrimSuffix key ''OnDeletion'', DecodeDeletionTag value) else None
      | _ \<Rightarrow> None)"

lemma delete_parameters_of_tags_Cons:
  "delete_parameters_of_tags k p (tag # tags) acc =
     delete_parameters_of_tags k p tags
       (case tag_parameter k p tag of None \<Rightarrow> acc | Some (d, v) \<Rightarrow> AList.update d v acc)"
  by (cases "tag_Key tag"; cases "tag_Value tag") (simp_all add: tag_parameter_def Let_def)

lemma tag_parameter_Some:
  assumes "tag_parameter k p tag = Some (d, v)"
  shows "tag_Key tag = Some (d @ ''OnDeletion'') \<and> (\<exists>x. tag_Value tag = Some x \<and> v = DecodeDeletionTag x)
    \<and> valid_delete_parameter k p d v"
proof -
  from assms obtain key x where "tag_Key tag = Some key" "tag_Value tag = Some x"
    and "HasSuffix key ''OnDeletion''" "d = TrimSuffix key ''OnDeletion''" "v = DecodeDeletionTag x"
    "valid_delete_parameter k p d v"
    by (auto simp: tag_parameter_def split: option.splits if_splits)
  with TrimSuffix_HasSuffix [of key "''OnDeletion''"] show ?thesis by simp
qed

lemma delete_parameters_of_tags_sound:
  "map_of (delete_parameters_of_tags k p tags acc) d = Some v \<Longrightarrow>
     map_of acc d = Some v \<or> (\<exists>tag \<in> set tags. tag_parameter k p tag = Some (d, v))"
proof (induction tags arbitrary: acc)
  case (Cons tag tags)
  show ?case
  proof (cases "tag_parameter k p tag")
    case None
    with Cons show ?thesis unfolding delete_parameters_of_tags_Cons by auto
  next
    case (Some dv)
    with Cons show ?thesis unfolding delete_parameters_of_tags_Cons
      by (cases dv) (fastforce split: if_splits)
  qed
qed simp

text \<open>A delete parameter as the tag that \<^verbatim>\<open>appendDeleteTags\<close> stores for it.\<close>

lemma delete_parameters_of_tags_complete:
  assumes "list_all (\<lambda>(d, v). valid_delete_parameter k p d v \<and> DecodeDeletionTag (f v) = v) ps"
    and "gomap (acc @ ps)"
  shows "delete_parameters_of_tags k p
      (map (\<lambda>(d, v). \<lparr>tag_Key = Some (d @ ''OnDeletion''), tag_Value = Some (f v)\<rparr>) ps) acc = acc @ ps"
  using assms
proof (induction ps arbitrary: acc)
  case (Cons dv ps)
  obtain d v where dv: "dv = (d, v)" by fastforce
  have "AList.update d v acc = acc @ [(d, v)]"
    using Cons.prems(2) dv update_append [of d acc v "[]"] by simp
  with Cons dv show ?case
    by (simp add: delete_parameters_of_tags_Cons tag_parameter_def del: delete_parameters_of_tags.simps)
qed simp

section \<open>Properties\<close>

text \<open>
  C17. A wait for a file system, a volume or a snapshot succeeds only once the service has described
  exactly one resource with that id in the state \<^verbatim>\<open>AVAILABLE\<close>, in the world the wait ends in.
\<close>

theorem wait_until_available:
  assumes "poll_spec elapse k"
  shows "(run_state (cloud_WaitForFileSystemAvailable k i) w = (Ok (), w') \<longrightarrow>
      (\<exists>w1 fs. run_state (fsx_DescribeFileSystems (sdk_fsx k) [i]) w1 = (Ok (Some [fs]), w') \<and> sfs_Lifecycle fs = ''AVAILABLE''))
    \<and> (run_state (cloud_WaitForVolumeAvailable k i) w = (Ok (), w') \<longrightarrow>
      (\<exists>w1 v. run_state (fsx_DescribeVolumes (sdk_fsx k) [i]) w1 = (Ok (Some [v]), w') \<and> sv_Lifecycle v = ''AVAILABLE''))
    \<and> (run_state (cloud_WaitForSnapshotAvailable k i) w = (Ok (), w') \<longrightarrow> i \<noteq> [] \<and>
      (\<exists>w1 s. run_state (fsx_DescribeSnapshots (sdk_fsx k) [i]) w1 = (Ok (Some [s]), w') \<and> ss_Lifecycle s = ''AVAILABLE''))"
proof (intro conjI impI)
  assume "run_state (cloud_WaitForFileSystemAvailable k i) w = (Ok (), w')"
  from poll_Ok [OF assms this [unfolded cloud_WaitForFileSystemAvailable_def]]
  show "\<exists>w1 fs. run_state (fsx_DescribeFileSystems (sdk_fsx k) [i]) w1 = (Ok (Some [fs]), w') \<and> sfs_Lifecycle fs = ''AVAILABLE''"
    by (simp add: filesystem_available_True)
next
  assume "run_state (cloud_WaitForVolumeAvailable k i) w = (Ok (), w')"
  from poll_Ok [OF assms this [unfolded cloud_WaitForVolumeAvailable_def]]
  show "\<exists>w1 v. run_state (fsx_DescribeVolumes (sdk_fsx k) [i]) w1 = (Ok (Some [v]), w') \<and> sv_Lifecycle v = ''AVAILABLE''"
    by (simp add: volume_available_True)
next
  assume s: "run_state (cloud_WaitForSnapshotAvailable k i) w = (Ok (), w')"
  then show i: "i \<noteq> []" by (auto simp: cloud_WaitForSnapshotAvailable_def)
  with s have "run_state (sdk_Poll k PollCheckInterval PollCheckTimeout (snapshot_available k i)) w = (Ok (), w')"
    by (simp add: cloud_WaitForSnapshotAvailable_def)
  from poll_Ok [OF assms this]
  show "\<exists>w1 s. run_state (fsx_DescribeSnapshots (sdk_fsx k) [i]) w1 = (Ok (Some [s]), w') \<and> ss_Lifecycle s = ''AVAILABLE''"
    by (simp add: snapshot_available_True)
qed

lemma sample_wait: "run_state (cloud_WaitForFileSystemAvailable sample_sdk ''fs-1'') 0 = (Ok (), 2)"
  by code_simp

theorem wait_until_available_witness:
  "\<exists>w1 fs. run_state (fsx_DescribeFileSystems sample_fsx [''fs-1'']) w1 = (Ok (Some [fs]), 2) \<and> sfs_Lifecycle fs = ''AVAILABLE''"
  using wait_until_available [OF sample_poll, of "''fs-1''" 0 2] sample_wait by simp

text \<open>
  C19. A wait for a resize succeeds only once the newest file system update that targets the
  requested capacity is finished, which for the service is \<^verbatim>\<open>COMPLETED\<close> or \<^verbatim>\<open>UPDATED_OPTIMIZING\<close>.
\<close>

theorem wait_until_resized:
  assumes "poll_spec elapse k" and "run_state (cloud_WaitForFileSystemResize k i g) w = (Ok (), w')"
  shows "\<exists>w1 fs a. run_state (fsx_DescribeFileSystems (sdk_fsx k) [i]) w1 = (Ok (Some [fs]), w')
    \<and> List.find (is_filesystem_update g) (sfs_AdministrativeActions fs) = Some a
    \<and> (aa_Status a = ''UPDATED_OPTIMIZING'' \<or> aa_Status a = ''COMPLETED'')"
proof -
  from poll_Ok [OF assms(1) assms(2) [unfolded cloud_WaitForFileSystemResize_def]] obtain w1 a
    where "run_state (getUpdateResizeFilesystemAdministrativeAction k i g) w1 = (Ok a, w')"
      and a: "aa_Status a = ''UPDATED_OPTIMIZING'' \<or> aa_Status a = ''COMPLETED''"
    by (auto simp: filesystem_resized_def run_check_Ok update_done_True)
  from get_filesystem_update_Ok [OF this(1)] a show ?thesis by blast
qed

lemma sample_wait_resize: "run_state (cloud_WaitForFileSystemResize sample_sdk ''fs-1'' 128) 0 = (Ok (), 3)"
  by code_simp

theorem wait_until_resized_witness:
  "\<exists>w1 fs a. run_state (fsx_DescribeFileSystems sample_fsx [''fs-1'']) w1 = (Ok (Some [fs]), 3)
    \<and> List.find (is_filesystem_update 128) (sfs_AdministrativeActions fs) = Some a
    \<and> (aa_Status a = ''UPDATED_OPTIMIZING'' \<or> aa_Status a = ''COMPLETED'')"
  using wait_until_resized [OF sample_poll sample_wait_resize] by simp

text \<open>
  \<^verbatim>\<open>ResizeFileSystem\<close> returns the requested size, and only when the service accepted the update or
  answered that one is in progress and its own list of actions names an update to that very size.
\<close>

theorem resize_accepted:
  assumes "run_state (cloud_ResizeFileSystem k i g) w = (Ok r, w')"
  shows "r = Some g \<and>
    (run_state (fsx_UpdateFileSystem (sdk_fsx k) i g) w = (Ok (), w')
     \<or> (\<exists>e w1 fs a. run_state (fsx_UpdateFileSystem (sdk_fsx k) i g) w = (Err e, w1)
          \<and> as_sdk e = Some (BadRequest, update_in_progress_msg)
          \<and> run_state (fsx_DescribeFileSystems (sdk_fsx k) [i]) w1 = (Ok (Some [fs]), w')
          \<and> List.find (is_filesystem_update g) (sfs_AdministrativeActions fs) = Some a))"
  using assms by (rule cloud_ResizeFileSystem_Ok)

definition busy_sdk :: "nat sdk" where
  "busy_sdk = sample_sdk\<lparr>sdk_fsx := sample_fsx\<lparr>fsx_UpdateFileSystem :=
     (\<lambda>i g. ret (Err (SdkErr BadRequest update_in_progress_msg ''BadRequest'')))\<rparr>\<rparr>"

lemma busy_resize: "run_state (cloud_ResizeFileSystem busy_sdk ''fs-1'' 128) 0 = (Ok (Some 128), 0)"
  by code_simp

theorem resize_accepted_witness:
  "\<exists>fs a. run_state (fsx_DescribeFileSystems sample_fsx [''fs-1'']) 0 = (Ok (Some [fs]), 0)
     \<and> List.find (is_filesystem_update 128) (sfs_AdministrativeActions fs) = Some a"
  using resize_accepted [OF busy_resize] by (auto simp: busy_sdk_def)

text \<open>
  \<^verbatim>\<open>GetDeleteParameters\<close> invents nothing: each parameter it returns is the decoded value of a tag of
  the resource whose key is the parameter's name followed by \<^verbatim>\<open>OnDeletion\<close>, and populates the delete
  configuration of that kind of resource.
\<close>

theorem delete_parameters_from_tags:
  assumes "run_state (cloud_GetDeleteParameters k i) w = (Ok ps, w')" and "map_of ps d = Some v"
  shows "\<exists>arn w1 tags tag x. run_state (resource_arn k i) w = (Ok arn, w1)
    \<and> run_state (fsx_ListTagsForResource (sdk_fsx k) arn) w1 = (Ok (Some tags), w')
    \<and> tag \<in> set tags \<and> tag_Key tag = Some (d @ ''OnDeletion'') \<and> tag_Value tag = Some x
    \<and> v = DecodeDeletionTag x \<and> valid_delete_parameter k (volume_prefix i) d v"
proof -
  from assms(1) obtain arn w1 tags where a: "run_state (resource_arn k i) w = (Ok arn, w1)"
    and t: "run_state (fsx_ListTagsForResource (sdk_fsx k) arn) w1 = (Ok (Some tags), w')"
    and ps: "ps = delete_parameters_of_tags k (volume_prefix i) tags []"
    by (auto simp: cloud_GetDeleteParameters_def getTagsForResource_def run_check_Ok run_deref split: option.splits)
  from delete_parameters_of_tags_sound [OF assms(2) [unfolded ps]] obtain tag
    where "tag \<in> set tags" "tag_parameter k (volume_prefix i) tag = Some (d, v)" by auto
  with tag_parameter_Some [OF this(2)] a t show ?thesis by blast
qed

lemma sample_delete_parameters:
  "run_state (cloud_GetDeleteParameters sample_sdk ''fs-1'') 0 = (Ok [(''SkipFinalBackup'', ''true'')], 0)"
  by code_simp

theorem delete_parameters_from_tags_witness:
  "\<exists>arn w1 tags tag x. run_state (resource_arn sample_sdk ''fs-1'') 0 = (Ok arn, w1)
    \<and> run_state (fsx_ListTagsForResource (sdk_fsx sample_sdk) arn) w1 = (Ok (Some tags), 0)
    \<and> tag \<in> set tags \<and> tag_Key tag = Some (''SkipFinalBackup'' @ ''OnDeletion'') \<and> tag_Value tag = Some x
    \<and> ''true'' = DecodeDeletionTag x
    \<and> valid_delete_parameter sample_sdk (volume_prefix ''fs-1'') ''SkipFinalBackup'' ''true''"
  by (rule delete_parameters_from_tags [OF sample_delete_parameters]) simp

lemma run_cloud_GetVolumeId:
  "run_state (cloud_GetVolumeId k i) w = (Ok v, w') \<longleftrightarrow>
     (length (Split CHR ''-'' i) = 2 \<and> Split CHR ''-'' i ! 0 = ''fs'' \<and> v \<noteq> [] \<and>
        (\<exists>fs. run_state (fsx_DescribeFileSystems (sdk_fsx k) [i]) w = (Ok (Some [fs]), w') \<and> sfs_RootVolumeId fs = Some (Some v)))
     \<or> (length (Split CHR ''-'' i) = 2 \<and> Split CHR ''-'' i ! 0 = ''fsvol'' \<and> v = i \<and> w' = w)"
  by (auto simp: cloud_GetVolumeId_def FilesystemPrefix_def VolumePrefix_def Let_def run_check_Ok getFileSystem_Ok run_deref
      split: if_splits option.splits)

text \<open>
  \<^verbatim>\<open>GetVolumeId\<close> answers for exactly two shapes of id: for \<^verbatim>\<open>fs-\<close> and one more part it is the root
  volume the service reports for that file system, for \<^verbatim>\<open>fsvol-\<close> and one more part it is the id itself,
  without a call.
\<close>

theorem volume_id_of:
  "run_state (cloud_GetVolumeId k i) w = (Ok v, w') \<longleftrightarrow>
    (\<exists>rest. CHR ''-'' \<notin> set rest \<and>
       ((i = ''fs-'' @ rest \<and> v \<noteq> [] \<and>
           (\<exists>fs. run_state (fsx_DescribeFileSystems (sdk_fsx k) [i]) w = (Ok (Some [fs]), w') \<and> sfs_RootVolumeId fs = Some (Some v)))
        \<or> (i = ''fsvol-'' @ rest \<and> v = i \<and> w' = w)))"
  unfolding run_cloud_GetVolumeId conj_assoc [symmetric] Split_two by auto

lemma poll_rounds_reach:
  assumes "\<forall>i < m. run_state cond ((pause ^^ Suc i) w) = (Ok False, (pause ^^ Suc i) w)"
    and "run_state cond ((pause ^^ Suc m) w) = (Ok True, w')" and "m < n"
  shows "poll_rounds n pause cond w = (Ok (), w')"
  using assms
proof (induction n arbitrary: m w)
  case (Suc n)
  show ?case
  proof (cases m)
    case 0
    with Suc.prems show ?thesis by simp
  next
    case (Suc m')
    have "run_state cond (pause w) = (Ok False, pause w)" using Suc.prems(1) Suc by auto
    moreover have "poll_rounds n pause cond (pause w) = (Ok (), w')"
    proof (rule Suc.IH)
      show "\<forall>i < m'. run_state cond ((pause ^^ Suc i) (pause w)) = (Ok False, (pause ^^ Suc i) (pause w))"
        using Suc.prems(1) Suc by (auto simp: funpow_swap1 dest: spec [of _ "Suc _"])
    qed (use Suc.prems(2,3) Suc in \<open>simp_all add: funpow_swap1\<close>)
    ultimately show ?thesis by simp
  qed
qed simp

text \<open>
  C18. A wait comes to an end: with a poll loop of \<open>n\<close> rounds, if the file system is reported as being
  created in the first \<open>m\<close> rounds and as available in the next, within the bound, then
  \<^verbatim>\<open>WaitForFileSystemAvailable\<close> returns without error in the world of that round.
\<close>

theorem wait_returns:
  assumes "sdk_Poll k = (\<lambda>i t cond. State (poll_rounds n pause cond))" and "m < n"
    and "\<forall>i < m. \<exists>fs. run_state (fsx_DescribeFileSystems (sdk_fsx k) [fsid]) ((pause ^^ Suc i) w) =
        (Ok (Some [fs]), (pause ^^ Suc i) w) \<and> sfs_Lifecycle fs = ''CREATING''"
    and "run_state (fsx_DescribeFileSystems (sdk_fsx k) [fsid]) ((pause ^^ Suc m) w) = (Ok (Some [fs]), w')"
    and "sfs_Lifecycle fs = ''AVAILABLE''"
  shows "run_state (cloud_WaitForFileSystemAvailable k fsid) w = (Ok (), w')"
proof -
  have "\<forall>i < m. run_state (filesystem_available k fsid) ((pause ^^ Suc i) w) = (Ok False, (pause ^^ Suc i) w)"
  proof (intro allI impI)
    fix i assume "i < m"
    with assms(3) obtain fs1 where "run_state (fsx_DescribeFileSystems (sdk_fsx k) [fsid]) ((pause ^^ Suc i) w) =
        (Ok (Some [fs1]), (pause ^^ Suc i) w)" "sfs_Lifecycle fs1 = ''CREATING''" by blast
    then show "run_state (filesystem_available k fsid) ((pause ^^ Suc i) w) = (Ok False, (pause ^^ Suc i) w)"
      by (simp add: filesystem_available_def getFileSystem_def run_check run_single del: funpow.simps)
  qed
  moreover have "run_state (filesystem_available k fsid) ((pause ^^ Suc m) w) = (Ok True, w')"
    using assms(4,5) by (auto simp: filesystem_available_True simp del: funpow.simps)
  ultimately have "poll_rounds n pause (filesystem_available k fsid) w = (Ok (), w')"
    using assms(2) by (rule poll_rounds_reach)
  then show ?thesis by (simp add: cloud_WaitForFileSystemAvailable_def assms(1))
qed

theorem wait_returns_witness: "run_state (cloud_WaitForFileSystemAvailable sample_sdk ''fs-1'') 0 = (Ok (), 2)"
  by (rule wait_returns [where m = 1 and n = 60 and pause = Suc and fs = "sample_filesystem 2"])
    (auto simp: sample_fsx_def sample_filesystem_def numeral_2_eq_2)

end
