(* ===== verification/ControllerSpec.thy ===== *)
theory ControllerSpec
  imports Controller CloudSpec FakeCloud
begin

text \<open>
  What the controller service promises: the frame of its handlers, the checks on requests, and,
  against the interface \<open>cloud_provider\<close>, the outcome of an expansion. The interface is interpreted
  on both clouds of the repository, the FSx client and the fake.
\<close>

section \<open>Requests in flight\<close>

text \<open>A handler leaves the table of requests in flight as it found it, whatever its outcome.\<close>

definition handler_frame :: "(InFlight \<times> 'w, 'a) go \<Rightarrow> bool" where
  "handler_frame h \<longleftrightarrow> (\<forall>db w. table_ok db \<longrightarrow>
     (let db' = fst (snd (run_state h (db, w))) in table_ok db' \<and> in_flight_keys db' = in_flight_keys db))"

lemma frame_guarded: "handler_frame (with_inflight k busy body)"
  by (simp add: handler_frame_def Let_def table.guarded_keeps)

lemma frame_ret: "handler_frame (ret r)"
  by (simp add: handler_frame_def Let_def)

lemmas frames = frame_guarded frame_ret

lemma run_with_inflight_busy:
  "table_ok db \<Longrightarrow> k \<in> in_flight_keys db \<Longrightarrow>
    run_state (with_inflight k busy body) (db, w) = (Err busy, db, w)"
  by (rule table.guarded_busy)

lemma run_with_inflight_free:
  assumes "table_ok db" and "k \<notin> in_flight_keys db"
  shows "run_state (with_inflight k busy body) (db, w) = (r, s) \<longleftrightarrow>
     fst (run_state body w) = r \<and> snd (run_state body w) = snd s \<and>
     Delete (fst (Insert db k)) k = fst s"
proof -
  have "snd (Insert db k)" using table.ins_ok [OF assms(1)] assms(2) by simp
  then show ?thesis by (cases s) (auto simp: run_guarded split: prod.splits)
qed

text \<open>A handler that returned a result held its key alone, and its work ran to completion.\<close>

lemma run_with_inflight_Ok:
  assumes "run_state (with_inflight k busy body) (db, w) = (Ok x, db', w')"
  shows "run_state body w = (Ok x, w')"
  using assms by (auto simp: run_guarded split: prod.splits if_splits)

section \<open>Capabilities\<close>

lemma hasSupport_iff:
  "hasSupport cs cap \<longleftrightarrow> (case vc_AccessMode cap of None \<Rightarrow> UNKNOWN | Some m \<Rightarrow> m) \<in> set cs"
  by (induction cs) (auto split: option.splits)

lemma fold_all: "fold (\<lambda>c acc. if \<not> P c then False else acc) xs b \<longleftrightarrow> b \<and> list_all P xs"
  by (induction xs arbitrary: b) auto

lemma isValidVolumeCapabilities_iff:
  "isValidVolumeCapabilities caps \<longleftrightarrow>
     list_all (\<lambda>cap. vc_AccessMode cap = Some SINGLE_NODE_WRITER
       \<or> vc_AccessMode cap = Some MULTI_NODE_MULTI_WRITER) caps"
  unfolding isValidVolumeCapabilities_def fold_all
  by (auto simp: list_all_iff hasSupport_iff volumeCaps_def split: option.splits)

section \<open>Parameters\<close>

lemma map_of_deleteReservedParameters:
  "map_of (deleteReservedParameters ps) key =
     (if HasPrefix key reservedVolumeParamsPrefix then None else map_of ps key)"
  by (simp add: deleteReservedParameters_def map_of_filter_keys)

lemma gomap_deleteReservedParameters [simp]: "gomap ps \<Longrightarrow> gomap (deleteReservedParameters ps)"
  by (simp add: deleteReservedParameters_def)

lemma containsDriverProvidedParameters_None:
  "containsDriverProvidedParameters ps = None \<longleftrightarrow>
     keys ps \<inter> set driverDefinedParameters = {} \<and> \<not> Contains (get_param ps ''OriginSnapshot'') ''SnapshotARN''"
proof -
  have "keys ps \<inter> set driverDefinedParameters = {} \<longleftrightarrow>
      List.find (has_param ps) driverDefinedParameters = None"
    unfolding find_None_iff has_param_iff by blast
  then show ?thesis by (simp add: containsDriverProvidedParameters_def split: option.splits)
qed

section \<open>Creating\<close>

text \<open>The parameters \<^verbatim>\<open>CreateVolume\<close> sends for a file system and for a volume, or its error.\<close>

definition filesystem_params ::
    "'z sdk_types_scheme \<Rightarrow> CreateVolumeRequest \<Rightarrow> 32 word \<Rightarrow> params \<Rightarrow> goerr + params" where
  "filesystem_params T req g ps =
     (if cvr_VolumeContentSource req \<noteq> None
      then Inl (status_Error Unimplemented ''Cannot create new file system from a snapshot. To create a new volume from a snapshot, set ResourceType to volume.'')
      else
        let ps = AList.update ''FileSystemType'' (quote T ''OPENZFS'') ps;
            tiering = (get_param ps ''StorageType'' = quote T ''INTELLIGENT_TIERING'')
        in if tiering \<and> g \<noteq> 1
           then Inl (status_Error InvalidArgument ''storageType INTELLIGENT_TIERING expects storage capacity to be 1Gi'')
           else case CollapseCreateFileSystemParameters T
                  (if tiering then ps else AList.update ''StorageCapacity'' (Itoa (sint g)) ps) of
                (_, Inl err) \<Rightarrow> Inl (StatusErr InvalidArgument ErrIncorrectlyFormatted [AStr ''OpenZFSConfiguration'', AErr err])
              | (ps', Inr _) \<Rightarrow> Inr ps')"

lemma create_filesystem_eq:
  "create_filesystem T c req g ps =
     (case filesystem_params T req g ps of
        Inl e \<Rightarrow> ret (Err e)
      | Inr ps' \<Rightarrow>
          check (CreateFileSystem c ps') (could_not_create (cvr_Name req)) (\<lambda>fsp. deref fsp (\<lambda>fs.
            check (WaitForFileSystemAvailable c (fs_FileSystemId fs))
              (\<lambda>err. StatusErr Internal ''Filesystem is not ready: %v'' [AErr err]) (\<lambda>_.
            ret (Ok \<lparr>CapacityBytes = GiBToBytes (fs_StorageCapacity fs), csi_VolumeId = fs_FileSystemId fs,
              VolumeContext = [(''DNSName'', fs_DnsName fs), (''ResourceType'', fsType)],
              ContentSource = None\<rparr>)))))"
proof (cases "cvr_VolumeContentSource req")
  case None
  let ?ps = "AList.update ''FileSystemType'' (quote T ''OPENZFS'') ps"
  let ?tiering = "get_param ?ps ''StorageType'' = quote T ''INTELLIGENT_TIERING''"
  let ?c = "CollapseCreateFileSystemParameters T
    (if ?tiering then ?ps else AList.update ''StorageCapacity'' (Itoa (sint g)) ?ps)"
  obtain ps' r where c: "?c = (ps', r)" by fastforce
  show ?thesis
    unfolding create_filesystem_def filesystem_params_def Let_def None c
    by (cases r) simp_all
next
  case (Some x)
  then show ?thesis by (simp add: create_filesystem_def filesystem_params_def)
qed

lemma run_deref_Ok: "run_state (deref p k) w = (Ok y, w') \<longleftrightarrow> (\<exists>x. p = Some x \<and> run_state (k x) w = (Ok y, w'))"
  by (cases p) (simp_all add: run_deref)

lemma create_filesystem_Ok:
  "run_state (create_filesystem T c req g ps) w = (Ok v, w') \<longleftrightarrow>
     (\<exists>ps' fs w1. filesystem_params T req g ps = Inr ps'
        \<and> run_state (CreateFileSystem c ps') w = (Ok (Some fs), w1)
        \<and> run_state (WaitForFileSystemAvailable c (fs_FileSystemId fs)) w1 = (Ok (), w')
        \<and> v = \<lparr>CapacityBytes = GiBToBytes (fs_StorageCapacity fs), csi_VolumeId = fs_FileSystemId fs,
              VolumeContext = [(''DNSName'', fs_DnsName fs), (''ResourceType'', fsType)],
              ContentSource = None\<rparr>)"
  unfolding create_filesystem_eq
  by (cases "filesystem_params T req g ps") (auto simp: run_check_Ok run_deref_Ok)

text \<open>The parameters for a volume, after the content source has been resolved.\<close>

definition volume_params :: "'z sdk_types_scheme \<Rightarrow> CreateVolumeRequest \<Rightarrow> params \<Rightarrow> goerr + params" where
  "volume_params T req ps =
     (case CollapseCreateVolumeParameters T
        (AList.update ''VolumeType'' (quote T ''OPENZFS'') (AList.update ''Name'' (quote T (cvr_Name req)) ps)) of
        (_, Inl err) \<Rightarrow> Inl (StatusErr InvalidArgument ErrIncorrectlyFormatted [AStr ''OpenZFSConfiguration'', AErr err])
      | (ps', Inr _) \<Rightarrow> Inr ps')"

lemma create_openzfs_volume_Ok:
  "run_state (create_openzfs_volume T c req g ps) w = (Ok x, w') \<longleftrightarrow>
     g = 1 \<and> (\<exists>ps1 src w1 ps2 v w2 w3 fs.
        run_state (content_source_params c req ps) w = (Ok (ps1, src), w1)
        \<and> volume_params T req ps1 = Inr ps2
        \<and> run_state (CreateVolume c ps2) w1 = (Ok (Some v), w2)
        \<and> run_state (WaitForVolumeAvailable c (vol_VolumeId v)) w2 = (Ok (), w3)
        \<and> run_state (DescribeFileSystem c (vol_FileSystemId v)) w3 = (Ok (Some fs), w')
        \<and> x = \<lparr>CapacityBytes = GiBToBytes 1, csi_VolumeId = vol_VolumeId v,
              VolumeContext = [(''DNSName'', fs_DnsName fs), (''ResourceType'', volType), (''VolumePath'', vol_VolumePath v)],
              ContentSource = src\<rparr>)"
proof -
  have e: "(case CollapseCreateVolumeParameters T
        (AList.update ''VolumeType'' (quote T ''OPENZFS'') (AList.update ''Name'' (quote T (cvr_Name req)) ps1)) of
        (_, Inl err) \<Rightarrow> ret (Err (StatusErr InvalidArgument ErrIncorrectlyFormatted [AStr ''OpenZFSConfiguration'', AErr err]))
      | (ps', Inr _) \<Rightarrow> F ps') = (case volume_params T req ps1 of Inl e \<Rightarrow> ret (Err e) | Inr ps' \<Rightarrow> F ps')" for ps1 F
    by (simp add: volume_params_def split: prod.split sum.split)
  have r: "run_state (case volume_params T req ps1 of Inl e \<Rightarrow> ret (Err e) | Inr ps' \<Rightarrow> F ps') w1 = (Ok y, w2) \<longleftrightarrow>
      (\<exists>ps2. volume_params T req ps1 = Inr ps2 \<and> run_state (F ps2) w1 = (Ok y, w2))" for ps1 F w1 w2 and y :: csi_Volume
    by (cases "volume_params T req ps1") auto
  show ?thesis
    unfolding create_openzfs_volume_def Let_def e
    by (simp add: run_check_Ok run_deref_Ok r) blast
qed

section \<open>Repeating a request\<close>

text \<open>Insert and delete of a key that was absent restore the table exactly.\<close>

lemma delete_update_absent: "k \<notin> keys m \<Longrightarrow> AList.delete k (AList.update k v m) = m"
  by (induction m) (auto simp: AList.delete_eq filter_id_conv)

lemma Delete_Insert: "k \<notin> in_flight_keys db \<Longrightarrow> Delete (fst (Insert db k)) k = db"
  by (simp add: Delete_def Insert_def in_flight_keys_def has_param_iff delete_update_absent)

lemma guarded_twice:
  assumes "\<And>w x w'. run_state body w = (Ok x, w') \<Longrightarrow> run_state body w' = (Ok x, w')"
    and "table_ok db" and "run_state (with_inflight k busy body) (db, w) = (Ok x, s)"
  shows "fst s = db \<and> run_state (with_inflight k busy body) s = (Ok x, s)"
proof -
  have k: "k \<notin> in_flight_keys db"
    using run_with_inflight_busy [OF assms(2), of k busy body w] assms(3) by auto
  obtain db' w' where s: "s = (db', w')" by fastforce
  have b: "run_state body w = (Ok x, w')" using assms(3) unfolding s by (rule run_with_inflight_Ok)
  have "db' = db"
    using run_with_inflight_free [OF assms(2) k, THEN iffD1, OF assms(3)] s Delete_Insert [OF k] by simp
  with s assms(1) [OF b] show ?thesis
    using run_with_inflight_free [OF assms(2) k, of busy body w'] Delete_Insert [OF k] by simp
qed

section \<open>The interface of a cloud\<close>

locale cloud_provider =
  fixes c :: "'w Cloud"
  assumes resize_size: "run_state (ResizeFileSystem c i g) w = (Ok p, w') \<Longrightarrow> p = Some g"
    and describe_filesystem: "run_state (DescribeFileSystem c i) w = (Ok q, w') \<Longrightarrow> q \<noteq> None"
begin

lemma expand_filesystem_Ok:
  assumes "run_state (expand_filesystem c i g) w = (Ok r, w')"
  obtains fs w1 where "run_state (DescribeFileSystem c i) w = (Ok (Some fs), w1)"
    and "fs_StorageType fs \<noteq> ''INTELLIGENT_TIERING''"
    and "(sint g \<le> sint (fs_StorageCapacity fs) \<and> w' = w1 \<and> expand_CapacityBytes r = GiBToBytes (fs_StorageCapacity fs))
       \<or> (sint (fs_StorageCapacity fs) < sint g \<and> expand_CapacityBytes r = GiBToBytes g
          \<and> (\<exists>w2. run_state (ResizeFileSystem c i g) w1 = (Ok (Some g), w2)
               \<and> run_state (WaitForFileSystemResize c i g) w2 = (Ok (), w')))"
proof -
  from assms obtain p w1 where d: "run_state (DescribeFileSystem c i) w = (Ok p, w1)"
    by (auto simp: expand_filesystem_def run_check_Ok)
  then obtain fs where p: "p = Some fs" using describe_filesystem by blast
  show thesis
  proof (rule that [of fs w1])
    show "run_state (DescribeFileSystem c i) w = (Ok (Some fs), w1)" using d p by simp
    show "fs_StorageType fs \<noteq> ''INTELLIGENT_TIERING''"
      using assms d p by (auto simp: expand_filesystem_def run_go)
    show "(sint g \<le> sint (fs_StorageCapacity fs) \<and> w' = w1 \<and> expand_CapacityBytes r = GiBToBytes (fs_StorageCapacity fs))
       \<or> (sint (fs_StorageCapacity fs) < sint g \<and> expand_CapacityBytes r = GiBToBytes g
          \<and> (\<exists>w2. run_state (ResizeFileSystem c i g) w1 = (Ok (Some g), w2)
               \<and> run_state (WaitForFileSystemResize c i g) w2 = (Ok (), w')))"
    proof (cases "sint g \<le> sint (fs_StorageCapacity fs)")
      case True
      with assms d p show ?thesis
        by (auto simp: expand_filesystem_def run_check run_deref word_sle_eq split: if_splits)
    next
      case False
      with assms d p obtain q w2 where q: "run_state (ResizeFileSystem c i g) w1 = (Ok q, w2)"
        by (auto simp: expand_filesystem_def run_check run_deref word_sle_eq
            split: if_splits prod.splits res.splits)
      moreover from this have "q = Some g" by (rule resize_size)
      ultimately show ?thesis using False assms d p
        by (auto simp: expand_filesystem_def run_check run_deref word_sle_eq
            split: if_splits prod.splits res.splits)
    qed
  qed
qed

end

interpretation real: cloud_provider "cloud k" for k
proof
  fix i g w p q w'
  show "run_state (ResizeFileSystem (cloud k) i g) w = (Ok p, w') \<Longrightarrow> p = Some g"
    by (simp add: cloud_def cloud_ResizeFileSystem_size)
  show "run_state (DescribeFileSystem (cloud k) i) w = (Ok q, w') \<Longrightarrow> q \<noteq> None"
    by (auto simp: cloud_def cloud_DescribeFileSystem_def run_check_Ok)
qed

interpretation fake: cloud_provider fake_cloud
proof
  fix i g w p q w'
  show "run_state (ResizeFileSystem fake_cloud i g) w = (Ok p, w') \<Longrightarrow> p = Some g"
    by (auto simp: fake_cloud_def fake_ResizeFileSystem_def split: option.splits)
  show "run_state (DescribeFileSystem fake_cloud i) w = (Ok q, w') \<Longrightarrow> q \<noteq> None"
    by (auto simp: fake_cloud_def fake_DescribeFileSystem_def split: option.splits prod.splits)
qed

section \<open>Properties\<close>

text \<open>
  C21. A request for a name or id that is already being worked on is answered \<^verbatim>\<open>Aborted\<close> by every
  controller handler, and neither the table nor the cloud is touched.
\<close>

theorem busy_aborted:
  assumes "table_ok db" and "k \<in> in_flight_keys db" and "k \<noteq> []"
  shows "run_state (controller_DeleteVolume T c k) (db, w) =
      (Err (StatusErr Aborted (''DeleteVolume: '' @ VolumeOperationAlreadyExistsErrorMsg) [AStr k]), db, w)
    \<and> run_state (controller_DeleteSnapshot T c k) (db, w) =
      (Err (StatusErr Aborted (''DeleteSnapshot: '' @ SnapshotOperationAlreadyExistsErrorMsg) [AStr k]), db, w)
    \<and> (cvr_Name create = k \<longrightarrow> run_state (controller_CreateVolume T c create) (db, w) =
      (Err (StatusErr Aborted (''CreateVolume: '' @ VolumeOperationAlreadyExistsErrorMsg) [AStr k]), db, w))
    \<and> (cer_VolumeId expand = k \<longrightarrow> run_state (controller_ControllerExpandVolume c expand) (db, w) =
      (Err (StatusErr Aborted (''ControllerExpandVolume: '' @ VolumeOperationAlreadyExistsErrorMsg) [AStr k]), db, w))
    \<and> (csr_Name snap = k \<and> csr_SourceVolumeId snap \<noteq> [] \<longrightarrow> run_state (controller_CreateSnapshot T c snap) (db, w) =
      (Err (StatusErr Aborted (''CreateSnapshot: '' @ SnapshotOperationAlreadyExistsErrorMsg) [AStr k]), db, w))"
  using assms
  by (auto simp: controller_DeleteVolume_def controller_DeleteSnapshot_def controller_CreateVolume_def
      controller_ControllerExpandVolume_def controller_CreateSnapshot_def Let_def run_with_inflight_busy)

theorem busy_aborted_witness:
  "run_state (controller_DeleteVolume sample_types fake_cloud ''fs-1'')
      (fst (Insert NewInFlight ''fs-1''), NewFakeCloudProvider (\<lambda>_. 0) (\<lambda>_. 0)) =
    (Err (StatusErr Aborted (''DeleteVolume: '' @ VolumeOperationAlreadyExistsErrorMsg) [AStr ''fs-1'']),
     fst (Insert NewInFlight ''fs-1''), NewFakeCloudProvider (\<lambda>_. 0) (\<lambda>_. 0))"
proof -
  have "table_ok (fst (Insert NewInFlight ''fs-1''))" "''fs-1'' \<in> in_flight_keys (fst (Insert NewInFlight ''fs-1''))"
    by (simp_all add: table.ins_inv table.ins_mem table.new_inv)
  then show ?thesis by (rule busy_aborted [THEN conjunct1]) simp
qed

lemma create_volume_Ok:
  assumes "run_state (controller_CreateVolume T c req) (db, w) = (Ok v, db', w')"
  obtains g rt ps where "run_state (create_volume_body T c req) w = (Ok v, w')"
    and "requested_capacity (cvr_CapacityRange req) = Inr g"
    and "create_volume_params T (cvr_Name req) (case cvr_Parameters req of None \<Rightarrow> [] | Some p \<Rightarrow> p) = Inr (rt, ps)"
    and "(rt = fsType \<and> run_state (create_filesystem T c req g ps) w = (Ok v, w'))
       \<or> (rt = volType \<and> run_state (create_openzfs_volume T c req g ps) w = (Ok v, w'))"
proof -
  have n: "cvr_Name req \<noteq> []" using assms by (auto simp: controller_CreateVolume_def Let_def)
  with assms have b: "run_state (create_volume_body T c req) w = (Ok v, w')"
    by (auto simp: controller_CreateVolume_def Let_def dest: run_with_inflight_Ok)
  then show thesis using that
    by (auto simp: create_volume_body_def split: if_splits sum.splits)
qed

lemma resource_type_given:
  "get_param (deleteReservedParameters ps) ''ResourceType'' = x \<Longrightarrow> x \<noteq> [] \<Longrightarrow> map_of ps ''ResourceType'' = Some x"
proof -
  have "\<not> HasPrefix ''ResourceType'' reservedVolumeParamsPrefix" by code_simp
  then show "get_param (deleteReservedParameters ps) ''ResourceType'' = x \<Longrightarrow> x \<noteq> [] \<Longrightarrow> map_of ps ''ResourceType'' = Some x"
    by (auto simp: get_param_def map_of_deleteReservedParameters split: option.splits)
qed

lemma driver_parameters_absent:
  assumes "containsDriverProvidedParameters (AList.delete ''ResourceType'' (deleteReservedParameters ps)) = None"
  shows "keys ps \<inter> set driverDefinedParameters = {}"
proof -
  have n: "list_all (\<lambda>k. \<not> HasPrefix k reservedVolumeParamsPrefix \<and> k \<noteq> ''ResourceType'') driverDefinedParameters"
    by code_simp
  have "k \<notin> keys ps" if "k \<in> set driverDefinedParameters" for k
  proof -
    from assms that have "map_of (AList.delete ''ResourceType'' (deleteReservedParameters ps)) k = None"
      unfolding containsDriverProvidedParameters_None map_of_eq_None_iff by blast
    with n that show ?thesis by (auto simp: list_all_iff map_of_deleteReservedParameters map_of_eq_None_iff)
  qed
  then show ?thesis by blast
qed

lemma create_volume_params_Inr:
  assumes "create_volume_params T name ps = Inr (rt, ps')"
  shows "get_param (deleteReservedParameters ps) ''ResourceType'' = rt \<and> (rt = fsType \<or> rt = volType)
    \<and> containsDriverProvidedParameters (AList.delete ''ResourceType'' (deleteReservedParameters ps)) = None"
  using assms by (auto simp: create_volume_params_def Let_def split: if_splits option.splits sum.splits)

text \<open>
  C20. \<^verbatim>\<open>CreateVolume\<close> succeeds only for valid requests: a name, at least one capability and each of them
  a mount with one of the two supported access modes, one of the two resource types, and none of
  the parameters that only the driver may set.
\<close>

theorem create_volume_validated:
  assumes "run_state (controller_CreateVolume T c req) (db, w) = (Ok v, db', w')"
  shows "cvr_Name req \<noteq> [] \<and> cvr_VolumeCapabilities req \<noteq> []
    \<and> list_all (\<lambda>cap. vc_AccessMode cap = Some SINGLE_NODE_WRITER
         \<or> vc_AccessMode cap = Some MULTI_NODE_MULTI_WRITER) (cvr_VolumeCapabilities req)
    \<and> (\<exists>ps. cvr_Parameters req = Some ps
         \<and> (map_of ps ''ResourceType'' = Some ''filesystem'' \<or> map_of ps ''ResourceType'' = Some ''volume'')
         \<and> keys ps \<inter> set driverDefinedParameters = {})"
proof -
  from assms obtain g rt ps where b: "run_state (create_volume_body T c req) w = (Ok v, w')"
    and "create_volume_params T (cvr_Name req) (case cvr_Parameters req of None \<Rightarrow> [] | Some p \<Rightarrow> p) = Inr (rt, ps)"
    by (rule create_volume_Ok) blast
  from create_volume_params_Inr [OF this(2)] have p: "\<exists>ps. cvr_Parameters req = Some ps
         \<and> (map_of ps ''ResourceType'' = Some ''filesystem'' \<or> map_of ps ''ResourceType'' = Some ''volume'')
         \<and> keys ps \<inter> set driverDefinedParameters = {}"
    by (cases "cvr_Parameters req")
      (auto simp: fsType_def volType_def driver_parameters_absent dest: resource_type_given)
  have "cvr_Name req \<noteq> []" using assms by (auto simp: controller_CreateVolume_def Let_def)
  moreover from b have "cvr_VolumeCapabilities req \<noteq> []" "isValidVolumeCapabilities (cvr_VolumeCapabilities req)"
    by (auto simp: create_volume_body_def split: if_splits)
  ultimately show ?thesis using p by (simp add: isValidVolumeCapabilities_iff)
qed

text \<open>A request that creates a file system, and its outcome on the fake cloud.\<close>

definition sample_request :: CreateVolumeRequest where
  "sample_request =
     \<lparr>cvr_Name = ''pvc-1'', cvr_CapacityRange = Some \<lparr>RequiredBytes = 68719476736, LimitBytes = 0\<rparr>,
      cvr_VolumeCapabilities = [\<lparr>vc_AccessMode = Some SINGLE_NODE_WRITER, vc_Mount = Some []\<rparr>],
      cvr_Parameters = Some [(''ResourceType'', ''filesystem''), (''SkipFinalBackupOnDeletion'', ''true'')],
      cvr_VolumeContentSource = None\<rparr>"

abbreviation sample_fake :: FakeCloudProvider where
  "sample_fake \<equiv> NewFakeCloudProvider (\<lambda>n. 7) (\<lambda>n. 0)"

lemma sample_create:
  "\<exists>v db' w'. run_state (controller_CreateVolume small_sdk fake_cloud sample_request) (NewInFlight, sample_fake) = (Ok v, db', w')
     \<and> VolumeContext v = [(''DNSName'', ''test.us-east-1.fsx.amazonaws.com''), (''ResourceType'', ''filesystem'')]"
proof -
  have "case fst (run_state (controller_CreateVolume small_sdk fake_cloud sample_request) (NewInFlight, sample_fake)) of
      Ok v \<Rightarrow> VolumeContext v = [(''DNSName'', ''test.us-east-1.fsx.amazonaws.com''), (''ResourceType'', ''filesystem'')]
    | _ \<Rightarrow> False"
    by code_simp
  then show ?thesis by (auto split: res.splits) (metis prod.collapse)
qed

theorem create_volume_validated_witness:
  "\<exists>ps. cvr_Parameters sample_request = Some ps
     \<and> (map_of ps ''ResourceType'' = Some ''filesystem'' \<or> map_of ps ''ResourceType'' = Some ''volume'')
     \<and> keys ps \<inter> set driverDefinedParameters = {}"
  using sample_create create_volume_validated [of small_sdk fake_cloud sample_request] by blast

text \<open>
  \<^verbatim>\<open>ValidateVolumeCapabilities\<close> confirms a list of capabilities exactly when the volume exists and
  every capability has a supported access mode, and confirms them unchanged; for an existing
  volume with another access mode it succeeds without confirming.
\<close>

theorem capabilities_confirmed:
  assumes "volumeID \<noteq> []" and "caps \<noteq> []" and "volume_prefix volumeID = FilesystemPrefix"
    and "run_state (DescribeFileSystem c volumeID) w = (r, w')"
  shows "run_state (controller_ValidateVolumeCapabilities c volumeID caps) w =
     (case r of
        Ok _ \<Rightarrow> Ok (if list_all (\<lambda>cap. vc_AccessMode cap \<in> {Some SINGLE_NODE_WRITER, Some MULTI_NODE_MULTI_WRITER}) caps
                 then Some caps else None)
      | Err e \<Rightarrow> Err (if e = ErrNotFound then StatusErr NotFound ''Volume not found with ID %q'' [AStr volumeID]
                 else StatusErr Internal ''Could not get volume with ID %q: %v'' [AStr volumeID, AErr e])
      | Panic \<Rightarrow> Panic, w')"
  using assms
  by (auto simp: controller_ValidateVolumeCapabilities_def run_check Let_def isValidVolumeCapabilities_iff
      split: res.splits)

theorem capabilities_confirmed_witness:
  "run_state (controller_ValidateVolumeCapabilities fake_cloud ''fs-1234''
      [\<lparr>vc_AccessMode = Some SINGLE_NODE_READER_ONLY, vc_Mount = None\<rparr>]) sample_fake = (Ok None, sample_fake)"
proof -
  have d: "run_state (DescribeFileSystem fake_cloud ''fs-1234'') sample_fake =
      (Ok (Some \<lparr>fs_DnsName = ''test.us-east-1.fsx.amazonaws.com'', fs_FileSystemId = ''fs-1234'',
            fs_StorageCapacity = 100, fs_StorageType = ''SSD''\<rparr>), sample_fake)"
    by (simp add: fake_cloud_def fake_DescribeFileSystem_def NewFakeCloudProvider_def Let_def)
  have p: "volume_prefix ''fs-1234'' = FilesystemPrefix" by code_simp
  show ?thesis by (subst capabilities_confirmed [OF _ _ p d]) simp_all
qed

lemma expand_Ok:
  assumes "run_state (controller_ControllerExpandVolume c req) (db, w) = (Ok r, db', w')"
  obtains cr g where "cer_CapacityRange req = Some cr" and "BytesToGiB (RequiredBytes cr) = Inr g"
    and "\<not> (0 <s LimitBytes cr \<and> LimitBytes cr <s RequiredBytes cr)"
    and "run_state (expand_filesystem c (cer_VolumeId req) g) w = (Ok r, w')"
proof -
  have "run_state (expand_volume_body c req) w = (Ok r, w')"
    using assms by (auto simp: controller_ControllerExpandVolume_def Let_def split: if_splits dest: run_with_inflight_Ok)
  then show thesis using that
    by (auto simp: expand_volume_body_def Let_def split: option.splits if_splits sum.splits)
qed

lemma run_expand_node: "run_state (expand_filesystem c i g) w = (Ok r, w') \<Longrightarrow> NodeExpansionRequired r = False"
  by (auto simp: expand_filesystem_def run_check_Ok run_deref_Ok split: if_splits)

context cloud_provider
begin

lemma expand_filesystem_max:
  assumes "run_state (expand_filesystem c i g) w = (Ok r, w')"
  shows "\<exists>fs w1. run_state (DescribeFileSystem c i) w = (Ok (Some fs), w1)
    \<and> sint (expand_CapacityBytes r) = max (sint g) (sint (fs_StorageCapacity fs)) * GiB"
  using assms by (rule expand_filesystem_Ok) (auto simp: GiBToBytes_exact)

end

text \<open>
  C2. \<^verbatim>\<open>ControllerExpandVolume\<close> against FSx never shrinks and never promises less than asked: on success
  the capacity it reports is the larger of the current capacity and the requested whole GiB, and
  the node has nothing to do.
\<close>

theorem expand_never_shrinks:
  assumes "run_state (controller_ControllerExpandVolume (cloud k) req) (db, w) = (Ok r, db', w')"
  shows "\<exists>cr g fs w1. cer_CapacityRange req = Some cr \<and> BytesToGiB (RequiredBytes cr) = Inr g
    \<and> run_state (cloud_DescribeFileSystem k (cer_VolumeId req)) w = (Ok (Some fs), w1)
    \<and> sint (expand_CapacityBytes r) = max (sint g) (sint (fs_StorageCapacity fs)) * GiB
    \<and> \<not> NodeExpansionRequired r"
proof -
  from assms obtain cr g where c: "cer_CapacityRange req = Some cr" "BytesToGiB (RequiredBytes cr) = Inr g"
    and e: "run_state (expand_filesystem (cloud k) (cer_VolumeId req) g) w = (Ok r, w')" by (rule expand_Ok)
  from real.expand_filesystem_max [OF e] run_expand_node [OF e] c show ?thesis
    by (auto simp: cloud_def)
qed

lemma sample_expand:
  "run_state (controller_ControllerExpandVolume (cloud sample_sdk)
     \<lparr>cer_VolumeId = ''fs-1'', cer_CapacityRange = Some \<lparr>RequiredBytes = 137438953472, LimitBytes = 0\<rparr>\<rparr>) (NewInFlight, 0) =
   (Ok \<lparr>expand_CapacityBytes = 137438953472, NodeExpansionRequired = False\<rparr>, NewInFlight, 3)"
  by code_simp

theorem expand_never_shrinks_witness:
  "\<exists>g fs w1. BytesToGiB 137438953472 = Inr g
    \<and> run_state (cloud_DescribeFileSystem sample_sdk ''fs-1'') 0 = (Ok (Some fs), w1)
    \<and> sint (137438953472 :: 64 word) = max (sint g) (sint (fs_StorageCapacity fs)) * GiB"
  using expand_never_shrinks [OF sample_expand] by auto

end
