(* ===== verification/NodeSpec.thy ===== *)
theory NodeSpec
  imports Driver ControllerSpec
begin

text \<open>
  What the node service promises: keys of different publish operations differ, mount options are
  the request's without repetition, publishing is idempotent, the startup taint and only it is removed, and the retry
  loop around the removal returns exactly when some attempt does not fail. What the handlers do to the
  mounts of a node is in \<open>MountSpec\<close>.
\<close>

section \<open>In-flight keys\<close>

lemma in_flight_key_inj:
  assumes "CHR ''/'' \<notin> set v" and "CHR ''/'' \<notin> set v'" and "v @ CHR ''/'' # p = v' @ CHR ''/'' # p'"
  shows "v = v' \<and> p = p'"
  using assms by (induction v arbitrary: v') (case_tac [!] v', auto)

section \<open>Mount options\<close>

lemma hasOption_iff: "hasOption opts opt \<longleftrightarrow> opt \<in> set opts"
  by (induction opts) auto

lemma add_mount_flags_spec:
  "distinct opts \<Longrightarrow> distinct (add_mount_flags opts flags) \<and> prefix opts (add_mount_flags opts flags)
     \<and> set (add_mount_flags opts flags) = set opts \<union> set flags"
proof (induction opts flags rule: add_mount_flags.induct)
  case (2 opts f flags)
  show ?case
  proof (cases "f \<in> set opts")
    case True
    with 2 show ?thesis by (auto simp: hasOption_iff)
  next
    case False
    with 2 show ?thesis by (auto simp: hasOption_iff dest: append_prefixD)
  qed
qed simp

section \<open>Publishing\<close>

lemma publish_body_Ok:
  "run_state (publish_body env m req cap) w = (Ok (), w') \<longleftrightarrow>
     (\<exists>source w1 w2 mounted. mount_source (npr_VolumeContext req) = Inr source
        \<and> run_state (MakeDir m (npr_TargetPath req)) w = (Ok (), w1)
        \<and> run_state (isMounted m source (npr_TargetPath req)) w1 = (Ok mounted, w2)
        \<and> (if mounted then w' = w2
           else run_state (Mount m source (npr_TargetPath req) ''nfs'' (mount_options (npr_Readonly req) cap)) w2 = (Ok (), w')))"
  by (auto simp: publish_body_def run_check_Ok Let_def split: sum.splits if_splits)

lemma run_isMounted_answer:
  "run_state (IsLikelyNotMountPoint m p) w = (Ok (notMnt, None), w') \<Longrightarrow>
     run_state (isMounted m s p) w = (Ok (\<not> notMnt), w')"
  by (simp add: isMounted_def run_go)

lemma run_isMounted_missing:
  "run_state (IsLikelyNotMountPoint m p) w = (Ok (notMnt, Some e), w') \<Longrightarrow> os_IsNotExist e \<Longrightarrow>
     run_state (isMounted m s p) w = (Ok False, w')"
  by (simp add: isMounted_def run_go)

lemma run_isMounted_corrupted:
  assumes "run_state (IsLikelyNotMountPoint m p) w = (Ok (notMnt, Some e), w1)" and "\<not> os_IsNotExist e"
    and "run_state (PathExists m p) w1 = (Err pe, w2)" and "IsCorruptedMnt m pe"
  shows "run_state (isMounted m s p) w =
    (case run_state (Unmount m p) w2 of
       (Ok _, w3) \<Rightarrow> (Ok False, w3)
     | (Err ue, w3) \<Rightarrow> (Err (StatusErr Internal ''NodePublishVolume: Unable to unmount the target %q : %v'' [AStr p, AErr ue]), w3)
     | (Panic, w3) \<Rightarrow> (Panic, w3))"
  using assms by (simp add: isMounted_def run_go split: prod.splits res.splits)

section \<open>The startup taint\<close>

lemma taints_to_keep_filter: "taints_to_keep ts = filter (\<lambda>t. taint_Key t \<noteq> AgentNotReadyNodeTaintKey) ts"
  by (induction ts) auto

lemma taints_to_keep_same:
  "length (taints_to_keep ts) = length ts \<longleftrightarrow> (\<forall>t \<in> set ts. taint_Key t \<noteq> AgentNotReadyNodeTaintKey)"
proof -
  have "length (filter P ts) = length ts \<longleftrightarrow> (\<forall>t \<in> set ts. P t)" for P
  proof (induction ts)
    case (Cons t ts)
    have "length (filter P ts) \<noteq> Suc (length ts)" using length_filter_le [of P ts] by linarith
    with Cons show ?case by simp
  qed simp
  then show ?thesis by (simp add: taints_to_keep_filter)
qed

lemma run_removeNotReadyTaint:
  assumes "getenv ''CSI_NODE_NAME'' = name" and "name \<noteq> []"
    and "run_state client w = (Ok cs, w1)" and "run_state (Nodes_Get cs name) w1 = (Ok node, w2)"
  shows "run_state (removeNotReadyTaint tj getenv client) w =
    (if \<forall>t \<in> set (node_Taints node). taint_Key t \<noteq> AgentNotReadyNodeTaintKey then (Ok (), w2)
     else run_state (Nodes_Patch cs name (Marshal (patchRemoveTaints tj (node_Taints node)))) w2)"
proof -
  have u: "(case x of (Ok y, w') \<Rightarrow> (Ok (), w') | (Err e, w') \<Rightarrow> (Err e, w') | (Panic, w') \<Rightarrow> (Panic, w')) = x"
    for x :: "unit res \<times> 'a" by (auto split: prod.splits res.splits)
  show ?thesis
    using assms taints_to_keep_same [of "node_Taints node"]
    by (auto simp: removeNotReadyTaint_def run_go Let_def u split: prod.splits res.splits)
qed

section \<open>Retrying\<close>

text \<open>The world before the \<open>n\<close>-th attempt.\<close>

fun before_attempt :: "('w \<Rightarrow> 'w) \<Rightarrow> ('w, unit) go \<Rightarrow> nat \<Rightarrow> 'w \<Rightarrow> 'w" where
  "before_attempt sleep f 0 w = w"
| "before_attempt sleep f (Suc n) w = before_attempt sleep f n (sleep (snd (run_state f w)))"

definition failed :: "'a res \<Rightarrow> bool" where
  "failed r = (\<exists>e. r = Err e)"

lemma retry_returns:
  "(\<forall>i < n. failed (fst (run_state f (before_attempt sleep f i w)))) \<Longrightarrow>
   run_state f (before_attempt sleep f n w) = (r, w') \<Longrightarrow> \<not> failed r \<Longrightarrow>
     tryRemoveNotReadyTaintUntilSucceed sleep f w = Some (r, w')"
proof (induction n arbitrary: w)
  case 0
  then show ?case
    by (subst tryRemoveNotReadyTaintUntilSucceed.simps) (auto simp: failed_def split: res.splits)
next
  case (Suc n)
  from Suc.prems(1) have "failed (fst (run_state f (before_attempt sleep f 0 w)))" by blast
  then obtain e w1 where e: "run_state f w = (Err e, w1)" by (cases "run_state f w") (auto simp: failed_def)
  have "tryRemoveNotReadyTaintUntilSucceed sleep f (sleep w1) = Some (r, w')"
  proof (rule Suc.IH)
    show "\<forall>i < n. failed (fst (run_state f (before_attempt sleep f i (sleep w1))))"
      using Suc.prems(1) e by (auto dest: spec [of _ "Suc _"])
  qed (use Suc.prems e in simp_all)
  with e show ?case by (subst tryRemoveNotReadyTaintUntilSucceed.simps) simp
qed

lemma retry_returned:
  assumes "tryRemoveNotReadyTaintUntilSucceed sleep f w = Some y"
  shows "\<exists>n. (\<forall>i < n. failed (fst (run_state f (before_attempt sleep f i w))))
       \<and> run_state f (before_attempt sleep f n w) = y \<and> \<not> failed (fst y)"
  using assms
proof (induction sleep f w y
    rule: tryRemoveNotReadyTaintUntilSucceed.raw_induct [rotated, consumes 1, case_names retry])
  case (retry rec sleep f w y)
  obtain x w1 where x: "run_state f w = (x, w1)" by fastforce
  show ?case
  proof (cases x)
    case (Err e)
    with retry(2) x have "rec sleep f (sleep w1) = Some y" by simp
    from retry(1) [OF this] obtain n where n: "\<forall>i < n. failed (fst (run_state f (before_attempt sleep f i (sleep w1))))"
      "run_state f (before_attempt sleep f n (sleep w1)) = y" "\<not> failed (fst y)" by blast
    have "\<forall>i < Suc n. failed (fst (run_state f (before_attempt sleep f i w)))"
      using n(1) x Err by (auto simp: less_Suc_eq_0_disj failed_def)
    with n x show ?thesis by (intro exI [of _ "Suc n"]) simp
  qed (use retry(2) x in \<open>auto simp: failed_def intro!: exI [of _ 0]\<close>)
qed

section \<open>Properties\<close>

text \<open>
  C8. Every handler of the two services that guards its work with the table of requests in flight
  leaves the table as it found it, on success, on every error and on a panic.
\<close>

theorem handlers_keep_table:
  "handler_frame (controller_CreateVolume T c create) \<and> handler_frame (controller_DeleteVolume T c volumeID)
    \<and> handler_frame (controller_CreateSnapshot T c snap) \<and> handler_frame (controller_DeleteSnapshot T c snapshotID)
    \<and> handler_frame (controller_ControllerExpandVolume c expand)
    \<and> handler_frame (node_NodePublishVolume env m publish) \<and> handler_frame (node_NodeUnpublishVolume os m unpublish)"
  by (simp add: controller_CreateVolume_def controller_DeleteVolume_def controller_CreateSnapshot_def
      controller_DeleteSnapshot_def controller_ControllerExpandVolume_def node_NodePublishVolume_def
      node_NodeUnpublishVolume_def Let_def frames split: option.split)

text \<open>A node whose world is the list of mounted targets.\<close>

definition sample_mounter :: "string list Mounter" where
  "sample_mounter =
     \<lparr>IsLikelyNotMountPoint = (\<lambda>p. State (\<lambda>w. (Ok (\<not> List.member w p, None), w))),
      Mount = (\<lambda>s t f opts. State (\<lambda>w. (Ok (), t # w))),
      Unmount = (\<lambda>t. State (\<lambda>w. (Ok (), removeAll t w))),
      IsCorruptedMnt = (\<lambda>e. False),
      PathExists = (\<lambda>p. ret (Ok True)),
      MakeDir = (\<lambda>p. ret (Ok ()))\<rparr>"

definition sample_publish :: NodePublishVolumeRequest where
  "sample_publish =
     \<lparr>npr_VolumeId = ''fs-1'', npr_VolumeCapability = Some \<lparr>vc_AccessMode = Some SINGLE_NODE_WRITER, vc_Mount = Some [''nfsvers=4.1'']\<rparr>,
      npr_TargetPath = ''/t'', npr_VolumeContext = [(''DNSName'', ''d''), (''ResourceType'', ''filesystem'')], npr_Readonly = True\<rparr>"

lemma sample_published:
  "run_state (node_NodePublishVolume sample_env sample_mounter sample_publish) (NewInFlight, []) = (Ok (), NewInFlight, [''/t''])"
  by code_simp

lemma isMounted_True:
  "run_state (isMounted m s t) w = (Ok True, w') \<longleftrightarrow> run_state (IsLikelyNotMountPoint m t) w = (Ok (False, None), w')"
proof (cases "run_state (IsLikelyNotMountPoint m t) w")
  case (Pair r w1)
  show ?thesis
  proof (cases r)
    case (Ok x)
    with Pair show ?thesis
      by (cases x; cases "snd x") (auto simp: isMounted_def run_go split: prod.splits res.splits if_splits)
  qed (use Pair in \<open>auto simp: isMounted_def run_go\<close>)
qed

text \<open>
  What a second publication relies on: a target that was mounted, or reported as a mount point, is
  reported as one when asked again, and creating its directory again changes nothing.
\<close>

definition stable_mounts :: "'w Mounter \<Rightarrow> bool" where
  "stable_mounts m \<longleftrightarrow>
     (\<forall>s t f opts w w'. run_state (Mount m s t f opts) w = (Ok (), w') \<longrightarrow>
        run_state (IsLikelyNotMountPoint m t) w' = (Ok (False, None), w'))
     \<and> (\<forall>t w w'. run_state (IsLikelyNotMountPoint m t) w = (Ok (False, None), w') \<longrightarrow>
        run_state (IsLikelyNotMountPoint m t) w' = (Ok (False, None), w') \<and> run_state (MakeDir m t) w' = (Ok (), w'))"

lemma publish_body_twice:
  assumes "stable_mounts m" and "run_state (publish_body env m req cap) w = (Ok (), w')"
  shows "run_state (publish_body env m req cap) w' = (Ok (), w')"
proof -
  from assms(2) obtain source w1 w2 mounted where s: "mount_source (npr_VolumeContext req) = Inr source"
    and q: "run_state (isMounted m source (npr_TargetPath req)) w1 = (Ok mounted, w2)"
    and r: "if mounted then w' = w2
       else run_state (Mount m source (npr_TargetPath req) ''nfs'' (mount_options (npr_Readonly req) cap)) w2 = (Ok (), w')"
    unfolding publish_body_Ok by blast
  have p: "run_state (IsLikelyNotMountPoint m (npr_TargetPath req)) w' = (Ok (False, None), w')"
  proof (cases mounted)
    case True
    with q r have "run_state (IsLikelyNotMountPoint m (npr_TargetPath req)) w1 = (Ok (False, None), w')"
      by (simp add: isMounted_True)
    with assms(1) show ?thesis unfolding stable_mounts_def by blast
  next
    case False
    with r assms(1) show ?thesis unfolding stable_mounts_def by (metis (full_types))
  qed
  with assms(1) have d: "run_state (MakeDir m (npr_TargetPath req)) w' = (Ok (), w')"
    unfolding stable_mounts_def by blast
  from p s d show ?thesis unfolding publish_body_Ok
    by (intro exI [of _ source] exI [of _ w'] exI [of _ True]) (simp add: isMounted_True)
qed

text \<open>
  C25. Publishing again changes nothing: for a mounter that reports a target it has just mounted as a
  mount point and may create an existing directory again, a repeated \<^verbatim>\<open>NodePublishVolume\<close> succeeds
  without a second mount.
\<close>

theorem publish_idempotent:
  assumes "stable_mounts m" and "table_ok db"
    and "run_state (node_NodePublishVolume env m req) (db, w) = (Ok (), db', w')"
  shows "db' = db \<and> run_state (node_NodePublishVolume env m req) (db', w') = (Ok (), db', w')"
proof -
  from assms(3) obtain cap busy
    where c: "node_NodePublishVolume env m req = with_inflight (npr_VolumeId req @ npr_TargetPath req) busy (publish_body env m req cap)"
    by (auto simp: node_NodePublishVolume_def Let_def split: option.splits if_splits)
  have "fst (db', w') = db \<and> run_state (node_NodePublishVolume env m req) (db', w') = (Ok (), db', w')"
    unfolding c by (rule guarded_twice [OF _ assms(2) assms(3) [unfolded c]]) (simp add: publish_body_twice [OF assms(1)])
  then show ?thesis by auto
qed

lemma sample_stable: "stable_mounts sample_mounter"
  by (auto simp: stable_mounts_def sample_mounter_def)

theorem publish_idempotent_witness:
  "run_state (node_NodePublishVolume sample_env sample_mounter sample_publish) (NewInFlight, [''/t'']) = (Ok (), NewInFlight, [''/t''])"
  using publish_idempotent [OF sample_stable table.new_inv sample_published] by simp

text \<open>
  The options of a mount are the capability's flags, preceded by \<^verbatim>\<open>ro\<close> exactly when the request is
  read-only; no option is repeated.
\<close>

theorem mount_options_exact:
  "distinct (mount_options readonly cap)
    \<and> set (mount_options readonly cap) = (if readonly then {''ro''} else {}) \<union> (case vc_Mount cap of None \<Rightarrow> {} | Some flags \<Rightarrow> set flags)
    \<and> (if readonly then \<exists>rest. mount_options readonly cap = ''ro'' # rest else True)"
proof (cases "vc_Mount cap")
  case None
  then show ?thesis by (simp add: mount_options_def)
next
  case (Some flags)
  have d: "distinct (if readonly then [''ro''] else [])" by simp
  from add_mount_flags_spec [OF d, of flags] Some show ?thesis
    by (cases readonly) (auto simp: mount_options_def prefix_def)
qed

definition sample_os :: "string list os_ops" where
  "sample_os = \<lparr>os_MkdirAll = (\<lambda>p n. ret (Ok ())), os_Stat = (\<lambda>p. ret (Ok ())), os_RemoveAll = (\<lambda>p. ret (Ok ()))\<rparr>"

text \<open>
  Requests for different targets do not block each other: while one publish or unpublish request
  is in flight, a request for another volume or another absolute target path runs as if it were
  alone, since volume ids hold no slash and so the concatenated keys differ.
\<close>

theorem other_target_not_blocked:
  assumes "CHR ''/'' \<notin> set v" and "CHR ''/'' \<notin> set v'" and "v' \<noteq> []" and "(v, p) \<noteq> (v', p')"
    and "table_ok db" and "in_flight_keys db = {v @ CHR ''/'' # p}"
  shows "run_state (node_NodeUnpublishVolume os m \<lparr>nur_VolumeId = v', nur_TargetPath = CHR ''/'' # p'\<rparr>) (db, w) =
    (fst (run_state (unpublish_body os m (CHR ''/'' # p')) w), db, snd (run_state (unpublish_body os m (CHR ''/'' # p')) w))"
proof -
  have k: "v' @ CHR ''/'' # p' \<notin> in_flight_keys db"
    using in_flight_key_inj [OF assms(1,2), of p p'] assms(4,6) by auto
  show ?thesis
    by (simp add: node_NodeUnpublishVolume_def Let_def assms(3) run_with_inflight_free [OF assms(5) k] Delete_Insert [OF k])
qed

theorem other_target_not_blocked_witness:
  "run_state (node_NodeUnpublishVolume sample_os sample_mounter \<lparr>nur_VolumeId = ''fs-2'', nur_TargetPath = ''/t''\<rparr>)
     (fst (Insert NewInFlight ''fs-1/t''), [''/t'']) =
   (fst (run_state (unpublish_body sample_os sample_mounter ''/t'') [''/t'']), fst (Insert NewInFlight ''fs-1/t''),
    snd (run_state (unpublish_body sample_os sample_mounter ''/t'') [''/t'']))"
proof -
  have "in_flight_keys (fst (Insert NewInFlight ''fs-1/t'')) = {''fs-1'' @ CHR ''/'' # ''t''}"
    "table_ok (fst (Insert NewInFlight ''fs-1/t''))"
    by (simp_all add: table.ins_inv table.ins_mem table.new_inv table.new_mem)
  from other_target_not_blocked [OF _ _ _ _ this(2,1), of "''fs-2''" "''t''"] show ?thesis by simp
qed

text \<open>
  C27. The startup taint is removed and no other: when the node carries the driver's taint the API
  server is sent one JSON patch, which tests that the taints are still those read and replaces them
  by the same list without that taint; when it does not, nothing is sent.
\<close>

theorem startup_taint_removed:
  assumes "getenv ''CSI_NODE_NAME'' = name" and "name \<noteq> []"
    and "run_state client w = (Ok cs, w1)" and "run_state (Nodes_Get cs name) w1 = (Ok node, w2)"
  shows "run_state (removeNotReadyTaint tj getenv client) w =
    (let others = filter (\<lambda>t. taint_Key t \<noteq> AgentNotReadyNodeTaintKey) (node_Taints node)
     in if others = node_Taints node then (Ok (), w2)
        else run_state (Nodes_Patch cs name (Marshal (VSlice
               [JSONPatch ''test'' ''/spec/taints'' (VSlice (map tj (node_Taints node))),
                JSONPatch ''replace'' ''/spec/taints'' (if others = [] then VNil else VSlice (map tj others))]))) w2)"
proof -
  have f: "filter (\<lambda>t. taint_Key t \<noteq> AgentNotReadyNodeTaintKey) ts = ts \<longleftrightarrow>
      (\<forall>t \<in> set ts. taint_Key t \<noteq> AgentNotReadyNodeTaintKey)" for ts
    by (rule filter_id_conv)
  show ?thesis
    unfolding run_removeNotReadyTaint [where getenv = getenv, OF assms] Let_def f patchRemoveTaints_def taints_value_def taints_to_keep_filter
    by auto
qed

definition sample_taint :: Taint where
  "sample_taint = \<lparr>taint_Key = ''fsx.openzfs.csi.aws.com/agent-not-ready'', taint_Value = [], taint_Effect = ''NoExecute''\<rparr>"

definition sample_clientset :: "string list clientset" where
  "sample_clientset =
     \<lparr>Nodes_Get = (\<lambda>n. ret (Ok \<lparr>node_ProviderID = ''aws:///us-east-1a/i-1'', node_Taints = [sample_taint]\<rparr>)),
      Nodes_Patch = (\<lambda>n p. State (\<lambda>w. (Ok (), p # w)))\<rparr>"

theorem startup_taint_removed_witness:
  "run_state (removeNotReadyTaint (\<lambda>t. VString (taint_Key t)) (\<lambda>v. ''n'') (ret (Ok sample_clientset))) [] =
     (Ok (), [Marshal (VSlice
        [JSONPatch ''test'' ''/spec/taints'' (VSlice [VString ''fsx.openzfs.csi.aws.com/agent-not-ready'']),
         JSONPatch ''replace'' ''/spec/taints'' VNil])])"
proof -
  have "run_state (ret (Ok sample_clientset)) [] = (Ok sample_clientset, [])"
    "run_state (Nodes_Get sample_clientset ''n'') [] =
      (Ok \<lparr>node_ProviderID = ''aws:///us-east-1a/i-1'', node_Taints = [sample_taint]\<rparr>, [])"
    by (simp_all add: sample_clientset_def)
  from startup_taint_removed [where getenv = "\<lambda>v. ''n''", OF refl _ this] show ?thesis
    by (simp add: sample_clientset_def sample_taint_def AgentNotReadyNodeTaintKey_def)
qed

text \<open>
  C14. The retry loop around the removal returns if and only if some attempt does not fail, and then with
  the outcome of the first such attempt: it neither gives up nor goes on after a success.
\<close>

theorem retry_returns_iff:
  "tryRemoveNotReadyTaintUntilSucceed sleep f w = Some y \<longleftrightarrow>
     (\<exists>n. (\<forall>i < n. failed (fst (run_state f (before_attempt sleep f i w))))
        \<and> run_state f (before_attempt sleep f n w) = y \<and> \<not> failed (fst y))"
proof
  assume "\<exists>n. (\<forall>i < n. failed (fst (run_state f (before_attempt sleep f i w))))
        \<and> run_state f (before_attempt sleep f n w) = y \<and> \<not> failed (fst y)"
  then show "tryRemoveNotReadyTaintUntilSucceed sleep f w = Some y"
    by (cases y) (auto intro: retry_returns)
qed (rule retry_returned)

theorem retry_returns_iff_witness:
  "tryRemoveNotReadyTaintUntilSucceed Suc (State (\<lambda>w. (if w < 2 then Err (ExtErr ''conflict'') else Ok (), w))) 0 = Some (Ok (), 2)"
proof (rule retry_returns_iff [THEN iffD2], rule exI [of _ 2], intro conjI)
  show "\<forall>i < 2. failed (fst (run_state (State (\<lambda>w. (if w < 2 then Err (ExtErr ''conflict'') else Ok (), w)))
      (before_attempt Suc (State (\<lambda>w. (if w < 2 then Err (ExtErr ''conflict'') else Ok (), w))) i (0 :: nat))))"
    by (auto simp: less_2_cases_iff failed_def)
qed (simp_all add: failed_def numeral_2_eq_2)

end
