(* ===== verification/DriverSpec.thy ===== *)
theory DriverSpec
  imports NodeSpec Sample
begin

text \<open>
  Start-up: where the instance metadata comes from and what it holds, and which services a mode
  starts.
\<close>

section \<open>Start-up\<close>

lemma KubernetesAPIInstanceInfo_Ok:
  assumes "run_state (KubernetesAPIInstanceInfo getenv cs) w = (Ok m, w')"
  shows "\<exists>node. run_state (Nodes_Get cs (getenv ''CSI_NODE_NAME'')) w = (Ok node, w')
    \<and> InstanceID m = find_instance_id (node_ProviderID node) \<and> InstanceID m \<noteq> []"
  using assms by (auto simp: KubernetesAPIInstanceInfo_def run_check_Ok Let_def split: if_splits)

lemma IMDSInstanceInfo_Ok:
  assumes "run_state (IMDSInstanceInfo svc region) w = (Ok m, w')"
  shows "\<exists>doc. run_state (GetInstanceIdentityDocument svc) w = (Ok (Some doc), w')
    \<and> m = \<lparr>InstanceID = doc_InstanceID doc, InstanceType = doc_InstanceType doc,
        Region = (if doc_Region doc = [] then region else doc_Region doc), AvailabilityZone = doc_AvailabilityZone doc\<rparr>
    \<and> InstanceID m \<noteq> [] \<and> InstanceType m \<noteq> [] \<and> Region m \<noteq> [] \<and> AvailabilityZone m \<noteq> []"
proof -
  from assms obtain doc w1 where g: "run_state (GetInstanceIdentityDocument svc) w = (Ok (Some doc), w1)"
    and r: "run_state (case metadata_of_document region doc of Inl err \<Rightarrow> ret (Err err) | Inr m \<Rightarrow> ret (Ok m)) w1 = (Ok m, w')"
    by (auto simp: IMDSInstanceInfo_def run_check_Ok run_deref_Ok)
  from r have m: "metadata_of_document region doc = Inr m" and "w' = w1"
    by (cases "metadata_of_document region doc"; simp)+
  with g have d: "run_state (GetInstanceIdentityDocument svc) w = (Ok (Some doc), w')" by simp
  have "m = \<lparr>InstanceID = doc_InstanceID doc, InstanceType = doc_InstanceType doc,
        Region = (if doc_Region doc = [] then region else doc_Region doc), AvailabilityZone = doc_AvailabilityZone doc\<rparr>"
    and "doc_InstanceID doc \<noteq> []" "doc_InstanceType doc \<noteq> []" "\<not> (doc_Region doc = [] \<and> region = [])" "doc_AvailabilityZone doc \<noteq> []"
    using m by (simp_all add: metadata_of_document_def split: if_split_asm)
  with d show ?thesis by (intro exI [of _ doc]) simp
qed

lemma metadata_from_kubernetes_Ok:
  assumes "run_state (metadata_from_kubernetes getenv k8s) w1 = (Ok m, w')"
  shows "\<exists>cs w2 node p q i. run_state k8s w1 = (Ok cs, w2)
      \<and> run_state (Nodes_Get cs (getenv ''CSI_NODE_NAME'')) w2 = (Ok node, w')
      \<and> node_ProviderID node = p @ InstanceID m @ q
      \<and> i \<noteq> [] \<and> list_all id_char i \<and> (InstanceID m = ''i-'' @ i \<or> InstanceID m = ''s.i-'' @ i)"
proof -
  from assms obtain cs w2 where cs: "run_state k8s w1 = (Ok cs, w2)" and k: "run_state (KubernetesAPIInstanceInfo getenv cs) w2 = (Ok m, w')"
    by (auto simp: metadata_from_kubernetes_def run_invoke split: prod.splits res.splits)
  from KubernetesAPIInstanceInfo_Ok [OF k] obtain node where n: "run_state (Nodes_Get cs (getenv ''CSI_NODE_NAME'')) w2 = (Ok node, w')"
    and i: "InstanceID m = find_instance_id (node_ProviderID node)" "InstanceID m \<noteq> []" by blast
  from find_instance_id_found [of "node_ProviderID node"] i obtain p r
    where pr: "node_ProviderID node = p @ r" "instance_id_at r = Some (InstanceID m)" by auto
  from instance_id_at_shape [OF pr(2)] obtain q i where q: "r = InstanceID m @ q"
    and i: "i \<noteq> []" "list_all id_char i" "InstanceID m = ''i-'' @ i \<or> InstanceID m = ''s.i-'' @ i"
    unfolding prefix_def by blast
  with pr(1) have "node_ProviderID node = p @ InstanceID m @ q" by simp
  with cs n i show ?thesis by blast
qed

text \<open>
  C40. Metadata comes whole from one source: when \<^verbatim>\<open>NewMetadataService\<close> succeeds, the metadata service answered
  and the metadata is its identity document, with the given region where the document has none and no
  field empty; or the metadata service could not be used, and the instance id is a piece \<^verbatim>\<open>i-...\<close> or \<^verbatim>\<open>s.i-...\<close> of the
  provider id of the node that the Kubernetes client, asked then, gave for \<^verbatim>\<open>CSI_NODE_NAME\<close>.
\<close>

theorem metadata_complete:
  assumes "run_state (NewMetadataService getenv imds k8s region) w = (Ok m, w')"
  shows "(\<exists>svc w1 x w2 doc. run_state imds w = (Ok svc, w1) \<and> run_state (GetMetadata svc ''instance-id'') w1 = (Ok x, w2)
      \<and> run_state (GetInstanceIdentityDocument svc) w2 = (Ok (Some doc), w')
      \<and> m = \<lparr>InstanceID = doc_InstanceID doc, InstanceType = doc_InstanceType doc,
          Region = (if doc_Region doc = [] then region else doc_Region doc), AvailabilityZone = doc_AvailabilityZone doc\<rparr>
      \<and> InstanceID m \<noteq> [] \<and> InstanceType m \<noteq> [] \<and> Region m \<noteq> [] \<and> AvailabilityZone m \<noteq> [])
    \<or> (\<exists>w1 cs w2 node p q i.
        ((\<exists>e. run_state imds w = (Err e, w1))
         \<or> (\<exists>svc w0 e. run_state imds w = (Ok svc, w0) \<and> run_state (GetMetadata svc ''instance-id'') w0 = (Err e, w1)))
        \<and> run_state k8s w1 = (Ok cs, w2) \<and> run_state (Nodes_Get cs (getenv ''CSI_NODE_NAME'')) w2 = (Ok node, w')
        \<and> node_ProviderID node = p @ InstanceID m @ q
        \<and> i \<noteq> [] \<and> list_all id_char i \<and> (InstanceID m = ''i-'' @ i \<or> InstanceID m = ''s.i-'' @ i))"
proof -
  obtain r w1 where r: "run_state imds w = (r, w1)" by fastforce
  show ?thesis
  proof (cases r)
    case (Ok svc)
    obtain q w2 where q: "run_state (GetMetadata svc ''instance-id'') w1 = (q, w2)" by fastforce
    show ?thesis
    proof (cases q)
      case (Ok x)
      with assms r q \<open>r = Ok svc\<close> have "run_state (IMDSInstanceInfo svc region) w2 = (Ok m, w')"
        by (simp add: NewMetadataService_def run_invoke)
      from IMDSInstanceInfo_Ok [OF this] r q Ok \<open>r = Ok svc\<close> show ?thesis by blast
    next
      case (Err e)
      with assms r q \<open>r = Ok svc\<close> have "run_state (metadata_from_kubernetes getenv k8s) w2 = (Ok m, w')"
        by (simp add: NewMetadataService_def run_invoke)
      from metadata_from_kubernetes_Ok [OF this] r q Err \<open>r = Ok svc\<close> show ?thesis by blast
    qed (use assms r q Ok in \<open>simp add: NewMetadataService_def run_invoke\<close>)
  next
    case (Err e)
    with assms r have "run_state (metadata_from_kubernetes getenv k8s) w1 = (Ok m, w')"
      by (simp add: NewMetadataService_def run_invoke)
    from metadata_from_kubernetes_Ok [OF this] r Err show ?thesis by blast
  qed (use assms r in \<open>simp add: NewMetadataService_def run_invoke\<close>)
qed

text \<open>A platform without a metadata service, on which the node's provider id names the instance.\<close>

definition sample_platform :: "(nat, unit, unit) platform" where
  "sample_platform =
     \<lparr>os_Getenv = (\<lambda>v. if v = ''AWS_REGION'' then ''us-east-1'' else ''n''),
      os_Setenv = (\<lambda>k v. ret (Ok ())),
      LoadDefaultConfig = (\<lambda>opts. ret (Ok ())),
      imds_NewFromConfig = (\<lambda>c. \<lparr>GetMetadata = (\<lambda>path. ret (Err (ExtErr ''no metadata service''))),
        GetInstanceIdentityDocument = ret (Err (ExtErr ''no metadata service''))\<rparr>),
      rest_InClusterConfig = ret (Ok ()),
      kubernetes_NewForConfig = (\<lambda>c. ret (Ok
        \<lparr>Nodes_Get = (\<lambda>n. ret (Ok \<lparr>node_ProviderID = ''aws:///us-east-1a/i-1'', node_Taints = []\<rparr>)),
         Nodes_Patch = (\<lambda>n p. ret (Ok ()))\<rparr>)),
      NewFromConfig = (\<lambda>c. sample_sdk),
      mount_New = \<lparr>mi_IsLikelyNotMountPoint = (\<lambda>p. ret (Ok (True, None))), mi_Mount = (\<lambda>s t f opts. ret (Ok ())),
        mi_Unmount = (\<lambda>t. ret (Ok ())), mi_IsCorruptedMnt = (\<lambda>e. False)\<rparr>,
      platform_os = \<lparr>os_MkdirAll = (\<lambda>p n. ret (Ok ())), os_Stat = (\<lambda>p. ret (Ok ())), os_RemoveAll = (\<lambda>p. ret (Ok ()))\<rparr>,
      taint_json = (\<lambda>t. VString (taint_Key t)),
      driverVersion = ''v1''\<rparr>"

lemma sample_metadata:
  "run_state (NewMetadataService (os_Getenv sample_platform) (DefaultIMDSClient sample_platform)
      (DefaultKubernetesAPIClient sample_platform) ''us-east-1'') 0 =
   (Ok \<lparr>InstanceID = ''i-1'', InstanceType = [], Region = [], AvailabilityZone = []\<rparr>, 0)"
  by code_simp

theorem metadata_complete_witness:
  "\<exists>p q. ''aws:///us-east-1a/i-1'' = p @ ''i-1'' @ q"
proof -
  have k: "run_state (DefaultKubernetesAPIClient sample_platform) w1 = (Ok cs, w2) \<Longrightarrow>
      run_state (Nodes_Get cs n) w2 = (Ok node, w3) \<Longrightarrow> node_ProviderID node = ''aws:///us-east-1a/i-1''" for w1 cs w2 n node w3
    by (auto simp: DefaultKubernetesAPIClient_def sample_platform_def run_check_Ok)
  from metadata_complete [OF sample_metadata] k show ?thesis by fastforce
qed

lemma run_must_Ok:
  "run_state (must m k) w = (Ok y, w'') \<longleftrightarrow>
     (\<exists>x w'. run_state m w = (Ok x, w') \<and> run_state (k x) w' = (Ok y, w''))"
  by (auto simp: must_def run_invoke split: prod.splits res.splits)

lemma newControllerService_Ok:
  "run_state (newControllerService p opts) w = (Ok c, w') \<Longrightarrow> cs_inFlight c = NewInFlight"
  by (auto simp: newControllerService_def Let_def run_must_Ok split: if_splits)

lemma newNodeService_Ok:
  "run_state (newNodeService p opts) w = (Ok n, w') \<Longrightarrow> ns_inFlight (fst n) = NewInFlight"
  by (auto simp: newNodeService_def run_must_Ok)

lemma NewDriver_Ok:
  assumes "run_state (NewDriver p options) w = (Ok d, w')"
  shows "driver_options d = fold (\<lambda>option opts. option opts) options \<lparr>endpoint = DefaultCSIEndpoint, mode = AllMode\<rparr>
    \<and> mode (driver_options d) \<in> {''controller'', ''node'', ''all''}
    \<and> (driver_controllerService d \<noteq> None) = (mode (driver_options d) \<in> {''controller'', ''all''})
    \<and> (driver_nodeService d \<noteq> None) = (mode (driver_options d) \<in> {''node'', ''all''})
    \<and> pred_option (\<lambda>c. cs_inFlight c = NewInFlight) (driver_controllerService d)
    \<and> pred_option (\<lambda>(n, _). ns_inFlight n = NewInFlight) (driver_nodeService d)"
  using assms
  by (auto simp: NewDriver_def ControllerMode_def NodeMode_def AllMode_def Let_def run_check_Ok case_prod_unfold
      dest!: newControllerService_Ok newNodeService_Ok split: if_splits)

lemma NewDriver_unknown_mode:
  assumes "m \<notin> {''controller'', ''node'', ''all''}"
  shows "run_state (NewDriver p [WithEndpoint e, WithMode m]) w = (Err (Errorf ''unknown mode: %s'' [AStr m]), w)"
  using assms by (simp add: NewDriver_def WithEndpoint_def WithMode_def ControllerMode_def NodeMode_def AllMode_def)

text \<open>
  The mode selects the services: a driver that starts in a known mode has a controller service
  exactly in the modes \<^verbatim>\<open>controller\<close> and \<^verbatim>\<open>all\<close> and a node service exactly in \<^verbatim>\<open>node\<close> and \<^verbatim>\<open>all\<close>, each
  with an empty table of requests in flight; in any other mode it does not start.
\<close>

theorem driver_mode_services:
  assumes "run_state (NewDriver p options) w = (Ok d, w')"
  shows "driver_options d = fold (\<lambda>option opts. option opts) options \<lparr>endpoint = DefaultCSIEndpoint, mode = AllMode\<rparr>
    \<and> mode (driver_options d) \<in> {''controller'', ''node'', ''all''}
    \<and> (driver_controllerService d \<noteq> None) = (mode (driver_options d) \<in> {''controller'', ''all''})
    \<and> (driver_nodeService d \<noteq> None) = (mode (driver_options d) \<in> {''node'', ''all''})
    \<and> pred_option (\<lambda>c. in_flight_keys (cs_inFlight c) = {}) (driver_controllerService d)
    \<and> pred_option (\<lambda>(n, _). in_flight_keys (ns_inFlight n) = {}) (driver_nodeService d)"
  using NewDriver_Ok [OF assms] by (auto simp: table.new_mem case_prod_unfold option.pred_set)

lemma sample_driver: "\<exists>d. run_state (NewDriver sample_platform [WithMode ''controller'']) 0 = (Ok d, 0)"
  by (simp add: NewDriver_def WithMode_def ControllerMode_def newControllerService_def NewCloud_def must_def
      sample_platform_def Let_def run_check run_invoke)

theorem driver_mode_services_witness:
  "\<exists>d. run_state (NewDriver sample_platform [WithMode ''controller'']) 0 = (Ok d, 0)
     \<and> driver_controllerService d \<noteq> None \<and> driver_nodeService d = None"
proof -
  obtain d where d: "run_state (NewDriver sample_platform [WithMode ''controller'']) 0 = (Ok d, 0)" using sample_driver by blast
  from driver_mode_services [OF d] d show ?thesis by (auto simp: WithMode_def)
qed

section \<open>The node's id\<close>

text \<open>The interface between the metadata and the node service: a source that answers, identifies the instance.\<close>

locale metadata_source =
  fixes fetch :: "('w, Metadata) go"
  assumes identified: "run_state fetch w = (Ok m, w') \<Longrightarrow> InstanceID m \<noteq> []"
begin

lemma node_id:
  "run_state fetch w = (Ok m, w') \<Longrightarrow> \<exists>i. run_state (node_NodeGetInfo m) v = (Ok i, v) \<and> i \<noteq> []"
  using identified by (simp add: node_NodeGetInfo_def GetInstanceID_def)

end

interpretation imds: metadata_source "IMDSInstanceInfo svc region" for svc region
  by unfold_locales (blast dest: IMDSInstanceInfo_Ok)

interpretation kubernetes: metadata_source "KubernetesAPIInstanceInfo getenv cs" for getenv cs
  by unfold_locales (blast dest: KubernetesAPIInstanceInfo_Ok)

interpretation fallback: metadata_source "metadata_from_kubernetes getenv client" for getenv client
  by unfold_locales
    (auto simp: metadata_from_kubernetes_def run_invoke split: prod.splits res.splits dest: kubernetes.identified)

interpretation service: metadata_source "NewMetadataService getenv imds client region" for getenv imds client region
  by unfold_locales
    (auto simp: NewMetadataService_def run_invoke split: prod.splits res.splits dest: imds.identified fallback.identified)

lemma newNodeService_node_id:
  assumes "run_state (newNodeService p opts) w = (Ok n, w')"
  shows "\<exists>i. run_state (node_NodeGetInfo (ns_metadata (fst n))) v = (Ok i, v) \<and> i \<noteq> []"
  using assms by (auto simp: newNodeService_def run_must_Ok dest: service.node_id [where v = v])

text \<open>
  A driver that has a node service answers \<^verbatim>\<open>NodeGetInfo\<close> with an id that is not empty, whichever source its
  metadata came from.
\<close>

theorem node_info_identified:
  assumes "run_state (NewDriver p options) w = (Ok d, w')" and "driver_nodeService d = Some (n, taint)"
  shows "\<exists>i. run_state (node_NodeGetInfo (ns_metadata n)) v = (Ok i, v) \<and> i \<noteq> []"
  using assms
  by (auto simp: NewDriver_def Let_def run_check_Ok split: if_splits dest: newNodeService_node_id [where v = v])

lemma sample_node_driver:
  "\<exists>d n t. run_state (NewDriver sample_platform [WithMode ''node'']) 0 = (Ok d, 0) \<and> driver_nodeService d = Some (n, t)
     \<and> InstanceID (ns_metadata n) = ''i-1''"
  using sample_metadata
  by (simp add: NewDriver_def WithMode_def ControllerMode_def NodeMode_def newNodeService_def must_def
      Let_def run_check run_invoke) (simp add: sample_platform_def run_invoke)

theorem node_info_identified_witness:
  "\<exists>d n t i. run_state (NewDriver sample_platform [WithMode ''node'']) 0 = (Ok d, 0) \<and> driver_nodeService d = Some (n, t)
     \<and> run_state (node_NodeGetInfo (ns_metadata n)) (0::nat) = (Ok i, 0) \<and> i \<noteq> []"
  using sample_node_driver node_info_identified [of sample_platform "[WithMode ''node'']" 0 _ 0 _ _ 0] by blast

end
