(* ===== verification/ServerSpec.thy ===== *)
theory ServerSpec
  imports Server DriverSpec
begin

text \<open>
  The running driver and the program: what \<^verbatim>\<open>Run\<close> offers and where it listens, how the flags reach the
  driver, and how the process ends.
\<close>

section \<open>Run\<close>

text \<open>The reference: register exactly the services the driver was built with.\<close>

definition offered :: "('w, 's, 'l, 'q, 'r) server_env \<Rightarrow> 'w Driver \<Rightarrow> 's" where
  "offered env d =
     (let s0 = RegisterIdentityServer env (grpc_NewServer env logErr) d;
          s1 = (if driver_controllerService d = None then s0 else RegisterControllerServer env s0 d)
      in if driver_nodeService d = None then s1 else RegisterNodeServer env s1 d)"

lemma run_on_world: "run_state (on_world m) (srv, w) = (case run_state m w of (r, w') \<Rightarrow> (r, (srv, w')))"
  by (simp add: on_world_def)

lemma run_on_world_Ok:
  "run_state (on_world m) (srv, w) = (Ok x, s) \<longleftrightarrow> (\<exists>w'. run_state m w = (Ok x, w') \<and> s = (srv, w'))"
  by (auto simp: run_on_world split: prod.splits)

lemma run_set_srv: "run_state (set_srv s) (srv, w) = (Ok (), (Some s, w))"
  by (simp add: set_srv_def)

lemma Run_offered:
  assumes "run_state (NewDriver p options) w0 = (Ok d, w1)"
  shows "Run env d =
    check (on_world (ParseEndpoint (os_Remove env) (endpoint (driver_options d)))) id (\<lambda>(scheme, addr).
    check (on_world (net_Listen env scheme addr)) id (\<lambda>listener.
    check (set_srv (offered env d)) id (\<lambda>_. on_world (grpc_Serve env (offered env d) listener))))"
  using NewDriver_Ok [OF assms]
  by (auto simp: Run_def offered_def ControllerMode_def NodeMode_def AllMode_def Let_def)

lemma logErr_transparent: "run_state (logErr req handler) w = run_state (handler req) w"
  by (simp add: logErr_def run_invoke split: prod.splits res.splits)

text \<open>
  C36. A driver that \<^verbatim>\<open>NewDriver\<close> built offers exactly the services it holds. \<^verbatim>\<open>Run\<close> parses the endpoint, then
  listens, then serves; it fails with the first error of the three and gives the field \<^verbatim>\<open>srv\<close> its server only
  when the listener is open. The branch for an unknown mode is never taken.
\<close>

theorem run_offers_built_services:
  assumes "run_state (NewDriver p options) w0 = (Ok d, w1)"
  shows "run_state (Run env d) (srv, w) =
    (case run_state (ParseEndpoint (os_Remove env) (endpoint (driver_options d))) w of
       (Ok (scheme, addr), wa) \<Rightarrow>
         (case run_state (net_Listen env scheme addr) wa of
            (Ok listener, wb) \<Rightarrow>
              (case run_state (grpc_Serve env (offered env d) listener) wb of
                 (r, w') \<Rightarrow> (r, (Some (offered env d), w')))
          | (Err e, wb) \<Rightarrow> (Err e, (srv, wb))
          | (Panic, wb) \<Rightarrow> (Panic, (srv, wb)))
     | (Err e, wa) \<Rightarrow> (Err e, (srv, wa))
     | (Panic, wa) \<Rightarrow> (Panic, (srv, wa)))"
  by (auto simp: Run_offered [OF assms] run_check run_on_world run_set_srv split: prod.splits res.splits)

text \<open>A server that records what is registered; listening and serving always succeed.\<close>

definition sample_server :: "(nat, string list, string, unit, unit) server_env" where
  "sample_server =
     \<lparr>os_Remove = (\<lambda>p. ret (Err (OsErr OsNotExist ''no such file''))),
      net_Listen = (\<lambda>n a. ret (Ok (n @ ''!'' @ a))),
      grpc_NewServer = (\<lambda>i. []),
      RegisterIdentityServer = (\<lambda>s d. s @ [''identity'']),
      RegisterControllerServer = (\<lambda>s d. s @ [''controller'']),
      RegisterNodeServer = (\<lambda>s d. s @ [''node'']),
      grpc_Serve = (\<lambda>s l. ret (Ok ())),
      grpc_Stop = (\<lambda>s. ret (case s of None \<Rightarrow> Panic | Some _ \<Rightarrow> Ok ()))\<rparr>"

lemma sample_endpoint:
  "run_state (ParseEndpoint (os_Remove sample_server) ''unix://tmp/csi.sock'') 0 = (Ok (''unix'', ''/tmp/csi.sock''), 0)"
  by code_simp

theorem run_offers_built_services_witness:
  "\<exists>d. run_state (NewDriver sample_platform [WithMode ''controller'']) 0 = (Ok d, 0)
     \<and> run_state (Run sample_server d) (None, 0) = (Ok (), (Some [''identity'', ''controller''], 0))"
proof -
  obtain d where d: "run_state (NewDriver sample_platform [WithMode ''controller'']) 0 = (Ok d, 0)" using sample_driver by blast
  from NewDriver_Ok [OF d] have "offered sample_server d = [''identity'', ''controller'']"
    "endpoint (driver_options d) = ''unix://tmp/csi.sock''"
    by (auto simp: offered_def sample_server_def WithMode_def DefaultCSIEndpoint_def Let_def)
  with run_offers_built_services [OF d, of sample_server None 0] d sample_endpoint show ?thesis
    by (auto simp: sample_server_def)
qed

section \<open>Command line\<close>

text \<open>What the driver relies on in the flag library: defining a flag sets its value to the default.\<close>

definition flag_default :: "'f flag_lib \<Rightarrow> bool" where
  "flag_default lib =
     (\<forall>fs n d m. string_value lib (fs_StringVar lib n d fs) m = (if m = n then d else string_value lib fs m))"

text \<open>The flags of the driver, in the order they are defined.\<close>

definition driver_flags :: "'f flag_lib \<Rightarrow> 'f \<Rightarrow> 'f" where
  "driver_flags lib fs =
     logsapi_AddFlags lib (fs_StringVar lib ''endpoint'' DefaultCSIEndpoint (fs_StringVar lib ''mode'' AllMode
       (fs_Bool lib ''logtostderr'' False (fs_Bool lib ''version'' False fs))))"

lemma GetOptions_flags:
  assumes "flag_default lib"
  shows "GetOptions lib b args fs = parse_options lib b args (driver_flags lib fs)"
  using assms
  by (simp add: GetOptions_def ServerOptions_AddFlags_def flag_default_def driver_flags_def AllMode_def
      ControllerMode_def NodeMode_def NodeOptions_AddFlags_def ControllerOptions_AddFlags_def Let_def)

text \<open>
  C37. \<^verbatim>\<open>GetOptions\<close> hands over the mode and the endpoint exactly as parsed, whatever they are: its own check of
  the mode sees the default and never rejects one. With \<^verbatim>\<open>--version\<close> it prints the version and ends
  the process with status 0; a parse error is a panic.
\<close>

theorem options_as_parsed:
  assumes "flag_default lib"
  shows "GetOptions lib b args fs =
    (case fs_Parse lib args (driver_flags lib fs) of
       Parsed fs' \<Rightarrow>
         if bool_value lib fs' ''version''
         then ([(''%s'' @ [CHR 0x0A], [AStr (projr (GetVersionJSON b))])], Exited 0)
         else ([], Returned \<lparr>so_DriverMode = string_value lib fs' ''mode'', so_Endpoint = string_value lib fs' ''endpoint''\<rparr>)
     | ParseError e \<Rightarrow> ([], Panicked)
     | ParseExit n \<Rightarrow> ([], Exited n))"
  by (simp add: GetOptions_flags [OF assms] parse_options_def GetVersionJSON_def Let_def split: parsed.splits)

text \<open>
  C35. A mode that does not exist ends the process with status 1 before anything is touched: no endpoint is
  parsed, no socket removed, no listener opened and no client of a cloud or of Kubernetes created.
\<close>

theorem unknown_mode_exits:
  assumes "flag_default lib"
    and "fs_Parse lib args (driver_flags lib (NewFlagSet lib ''aws-fsx-openzfs-csi-driver'')) = Parsed fs"
    and "\<not> bool_value lib fs ''version''"
    and "string_value lib fs ''mode'' \<notin> {''controller'', ''node'', ''all''}"
  shows "main lib b p env args s = (([], Exited 1), s)"
  using assms(2-) by (cases s) (simp add: main_def GetOptions_flags [OF assms(1)] parse_options_def exit_on_error_def
      run_on_world NewDriver_unknown_mode)

text \<open>
  C34. The program returns normally only after a server ended without error that offered exactly the services of
  the mode on the command line, on a listener for the endpoint on the command line.
\<close>

theorem main_serves:
  assumes "flag_default lib" "main lib b p env args (srv, w) = ((out, Returned ()), (srv', w'))"
  shows "\<exists>fs d w1 scheme addr w2 listener w3.
     fs_Parse lib args (driver_flags lib (NewFlagSet lib ''aws-fsx-openzfs-csi-driver'')) = Parsed fs
     \<and> run_state (NewDriver p [WithEndpoint (string_value lib fs ''endpoint''), WithMode (string_value lib fs ''mode'')]) w = (Ok d, w1)
     \<and> run_state (ParseEndpoint (os_Remove env) (string_value lib fs ''endpoint'')) w1 = (Ok (scheme, addr), w2)
     \<and> (scheme = ''tcp'' \<or> scheme = ''unix'' \<and> clean_abs addr)
     \<and> run_state (net_Listen env scheme addr) w2 = (Ok listener, w3)
     \<and> run_state (grpc_Serve env (offered env d) listener) w3 = (Ok (), w')
     \<and> srv' = Some (offered env d) \<and> out = []"
proof -
  from assms(2) obtain fs d s1 where fs: "fs_Parse lib args (driver_flags lib (NewFlagSet lib ''aws-fsx-openzfs-csi-driver'')) = Parsed fs" "out = []"
    and d: "run_state (on_world (NewDriver p [WithEndpoint (string_value lib fs ''endpoint''), WithMode (string_value lib fs ''mode'')])) (srv, w) = (Ok d, s1)"
    and r: "run_state (Run env d) s1 = (Ok (), (srv', w'))"
    by (auto simp: main_def GetOptions_flags [OF assms(1)] parse_options_def exit_on_error_def GetVersionJSON_def Let_def
        split: parsed.splits if_splits prod.splits res.splits)
  from d obtain w1 where w1: "s1 = (srv, w1)"
    "run_state (NewDriver p [WithEndpoint (string_value lib fs ''endpoint''), WithMode (string_value lib fs ''mode'')]) w = (Ok d, w1)"
    by (auto simp: run_on_world split: prod.splits)
  have e: "endpoint (driver_options d) = string_value lib fs ''endpoint''"
    using NewDriver_Ok [OF w1(2)] by (simp add: WithEndpoint_def WithMode_def)
  from r obtain scheme addr w2 listener w3
    where pe: "run_state (ParseEndpoint (os_Remove env) (string_value lib fs ''endpoint'')) w1 = (Ok (scheme, addr), w2)"
      and li: "run_state (net_Listen env scheme addr) w2 = (Ok listener, w3)"
        "run_state (grpc_Serve env (offered env d) listener) w3 = (Ok (), w')" "srv' = Some (offered env d)"
    by (auto simp: Run_offered [OF w1(2)] w1(1) e run_check_Ok run_on_world_Ok run_set_srv)
  show ?thesis
    by (intro exI conjI) (rule fs w1(2) pe ParseEndpoint_scheme [OF pe] li)+
qed

text \<open>A flag library that keeps the values of flags in a list and understands \<^verbatim>\<open>--name=value\<close>.\<close>

definition sample_flags :: "(string \<times> string) list flag_lib" where
  "sample_flags =
     \<lparr>NewFlagSet = (\<lambda>n. []),
      fs_Bool = (\<lambda>n d fs. AList.update n (if d then ''true'' else ''false'') fs),
      fs_StringVar = (\<lambda>n d fs. AList.update n d fs),
      bool_value = (\<lambda>fs n. get_param fs n = ''true''),
      string_value = get_param,
      fs_Parse = (\<lambda>args fs. Parsed (fold (\<lambda>a fs. case Cut (CHR ''='') (drop 2 a) of (n, v) \<Rightarrow> AList.update n v fs) args fs)),
      logsapi_AddFlags = (\<lambda>fs. fs)\<rparr>"

lemma sample_flag_default: "flag_default sample_flags"
  by (simp add: flag_default_def sample_flags_def get_param_update)

definition sample_build :: build_info where
  "sample_build =
     \<lparr>build_driverVersion = ''v1'', build_gitCommit = ''c'', build_buildDate = ''d'', runtime_Version = ''go1.25.1'',
      runtime_Compiler = ''gc'', runtime_GOOS = ''linux'', runtime_GOARCH = ''amd64''\<rparr>"

theorem options_as_parsed_witness:
  "GetOptions sample_flags sample_build [''--mode=nodes''] [] =
     ([], Returned \<lparr>so_DriverMode = ''nodes'', so_Endpoint = ''unix://tmp/csi.sock''\<rparr>)"
  using options_as_parsed [OF sample_flag_default, of sample_build "[''--mode=nodes'']" "[]"]
  by (simp add: sample_flags_def driver_flags_def Cut_def get_param_def DefaultCSIEndpoint_def AllMode_def)

lemma sample_parse:
  "fs_Parse sample_flags [a] (driver_flags sample_flags (NewFlagSet sample_flags n)) =
     Parsed (case Cut (CHR ''='') (drop 2 a) of (n, v) \<Rightarrow> AList.update n v
       [(''version'', ''false''), (''logtostderr'', ''false''), (''mode'', ''all''), (''endpoint'', ''unix://tmp/csi.sock'')])"
  by (simp add: sample_flags_def driver_flags_def DefaultCSIEndpoint_def AllMode_def)

lemma sample_bool: "bool_value sample_flags fs n = (get_param fs n = ''true'')"
  and sample_string: "string_value sample_flags fs n = get_param fs n"
  by (simp_all add: sample_flags_def)

theorem unknown_mode_exits_witness:
  "main sample_flags sample_build sample_platform sample_server [''--mode=nodes''] (None, 0) = (([], Exited 1), (None, 0))"
  by (rule unknown_mode_exits [OF sample_flag_default sample_parse])
    (simp_all add: sample_bool sample_string Cut_def get_param_def)

lemma sample_main:
  "main sample_flags sample_build sample_platform sample_server [''--mode=controller''] (None, 0) =
     (([], Returned ()), (Some [''identity'', ''controller''], 0))"
proof -
  obtain d where d: "run_state (NewDriver sample_platform [WithEndpoint ''unix://tmp/csi.sock'', WithMode ''controller'']) 0 = (Ok d, 0)"
    by (simp add: NewDriver_def WithMode_def WithEndpoint_def ControllerMode_def newControllerService_def NewCloud_def must_def
        sample_platform_def Let_def run_check run_invoke)
  from NewDriver_Ok [OF d] have "offered sample_server d = [''identity'', ''controller'']"
    "endpoint (driver_options d) = ''unix://tmp/csi.sock''"
    by (auto simp: offered_def sample_server_def WithEndpoint_def WithMode_def Let_def)
  then show ?thesis
    using d sample_endpoint
    by (simp add: main_def GetOptions_flags [OF sample_flag_default] parse_options_def sample_parse sample_bool sample_string
        Cut_def get_param_def exit_on_error_def run_on_world Run_offered [OF d] run_check run_set_srv)
      (simp add: sample_server_def run_check run_on_world run_set_srv)
qed

theorem main_serves_witness:
  "\<exists>d scheme addr. run_state (ParseEndpoint (os_Remove sample_server) ''unix://tmp/csi.sock'') 0 = (Ok (scheme, addr), 0)
     \<and> offered sample_server (d :: nat Driver) = [''identity'', ''controller'']"
  using main_serves [OF sample_flag_default sample_main] sample_endpoint by auto

end
