(* ===== verification/ReadySpec.thy ===== *)
theory ReadySpec
  imports ControllerSpec
begin

text \<open>
  What the controller reports as created against the FSx client: file systems and volumes
  are reported only after the service described them as available. The last section shows a request
  on which a volume from a snapshot does not get that far.
\<close>

section \<open>File systems\<close>

lemma cloud_CreateFileSystem_Ok:
  assumes "run_state (cloud_CreateFileSystem k ps) w = (Ok r, w')"
  shows "\<exists>input fs. run_state (fsx_CreateFileSystem (sdk_fsx k) input) w = (Ok (Some (Some fs)), w') \<and> r = Some (to_FileSystem fs)"
  using assms by (auto simp: cloud_CreateFileSystem_def run_check_Ok run_deref_Ok split: prod.splits sum.splits)

lemma cloud_sel:
  "CreateFileSystem (cloud k) = cloud_CreateFileSystem k" "CreateVolume (cloud k) = cloud_CreateVolume k"
  "WaitForFileSystemAvailable (cloud k) = cloud_WaitForFileSystemAvailable k"
  "WaitForVolumeAvailable (cloud k) = cloud_WaitForVolumeAvailable k"
  "DescribeFileSystem (cloud k) = cloud_DescribeFileSystem k"
  "GetDeleteParameters (cloud k) = cloud_GetDeleteParameters k" "DeleteSnapshot (cloud k) = cloud_DeleteSnapshot k"
  "CreateSnapshot (cloud k) = cloud_CreateSnapshot k" "GetVolumeId (cloud k) = cloud_GetVolumeId k"
  "WaitForSnapshotAvailable (cloud k) = cloud_WaitForSnapshotAvailable k"
  by (simp_all add: cloud_def)

lemma created_filesystem_available:
  assumes "poll_spec elapse k" and "run_state (create_filesystem T (cloud k) req g ps) w = (Ok v, w')"
  shows "\<exists>input fs w1 w2 fs'.
      run_state (fsx_CreateFileSystem (sdk_fsx k) input) w = (Ok (Some (Some fs)), w1)
      \<and> csi_VolumeId v = ToString (sfs_FileSystemId fs)
      \<and> CapacityBytes v = GiBToBytes (ToInt32 (sfs_StorageCapacity fs))
      \<and> run_state (fsx_DescribeFileSystems (sdk_fsx k) [csi_VolumeId v]) w2 = (Ok (Some [fs']), w')
      \<and> sfs_Lifecycle fs' = ''AVAILABLE''"
proof -
  from assms(2) obtain ps' f w1 where c: "run_state (cloud_CreateFileSystem k ps') w = (Ok (Some f), w1)"
    and a: "run_state (cloud_WaitForFileSystemAvailable k (fs_FileSystemId f)) w1 = (Ok (), w')"
    and v: "csi_VolumeId v = fs_FileSystemId f" "CapacityBytes v = GiBToBytes (fs_StorageCapacity f)"
    by (auto simp: create_filesystem_Ok cloud_sel)
  from cloud_CreateFileSystem_Ok [OF c] obtain input fs
    where i: "run_state (fsx_CreateFileSystem (sdk_fsx k) input) w = (Ok (Some (Some fs)), w1)" and f: "f = to_FileSystem fs" by blast
  from poll_Ok [OF assms(1) a [unfolded cloud_WaitForFileSystemAvailable_def]] obtain w2 fs'
    where "run_state (fsx_DescribeFileSystems (sdk_fsx k) [fs_FileSystemId f]) w2 = (Ok (Some [fs']), w')" "sfs_Lifecycle fs' = ''AVAILABLE''"
    by (auto simp: filesystem_available_True)
  with i v f show ?thesis by (auto simp: to_FileSystem_def)
qed

text \<open>
  C1. Against FSx, \<^verbatim>\<open>CreateVolume\<close> reports a file system only after the service has created it and then
  described it as available under the id of the response, with the capacity the service gave.
\<close>

theorem created_filesystem_ready:
  assumes "poll_spec elapse k" and "run_state (controller_CreateVolume T (cloud k) req) (db, w) = (Ok v, db', w')"
    and "get_param (VolumeContext v) ''ResourceType'' = ''filesystem''"
  shows "\<exists>input fs w1 w2 fs'.
      run_state (fsx_CreateFileSystem (sdk_fsx k) input) w = (Ok (Some (Some fs)), w1)
      \<and> csi_VolumeId v = ToString (sfs_FileSystemId fs)
      \<and> CapacityBytes v = GiBToBytes (ToInt32 (sfs_StorageCapacity fs))
      \<and> run_state (fsx_DescribeFileSystems (sdk_fsx k) [csi_VolumeId v]) w2 = (Ok (Some [fs']), w')
      \<and> sfs_Lifecycle fs' = ''AVAILABLE''"
proof -
  from assms(2) obtain g rt ps where "(rt = fsType \<and> run_state (create_filesystem T (cloud k) req g ps) w = (Ok v, w'))
       \<or> (rt = volType \<and> run_state (create_openzfs_volume T (cloud k) req g ps) w = (Ok v, w'))"
    by (rule create_volume_Ok)
  then show ?thesis
  proof
    assume "rt = fsType \<and> run_state (create_filesystem T (cloud k) req g ps) w = (Ok v, w')"
    with created_filesystem_available [OF assms(1)] show ?thesis by blast
  next
    assume "rt = volType \<and> run_state (create_openzfs_volume T (cloud k) req g ps) w = (Ok v, w')"
    with assms(3) show ?thesis by (auto simp: create_openzfs_volume_Ok get_param_def volType_def)
  qed
qed

lemma sample_create_real:
  "\<exists>v db' w'. run_state (controller_CreateVolume small_sdk (cloud small_sdk) sample_request) (NewInFlight, 0) = (Ok v, db', w')
     \<and> get_param (VolumeContext v) ''ResourceType'' = ''filesystem''"
proof -
  have "case fst (run_state (controller_CreateVolume small_sdk (cloud small_sdk) sample_request) (NewInFlight, 0)) of
      Ok v \<Rightarrow> get_param (VolumeContext v) ''ResourceType'' = ''filesystem'' | _ \<Rightarrow> False"
    by code_simp
  then show ?thesis by (auto split: res.splits) (metis prod.collapse)
qed

theorem created_filesystem_ready_witness:
  "\<exists>v db' w' w2 fs'. run_state (controller_CreateVolume small_sdk (cloud small_sdk) sample_request) (NewInFlight, 0) = (Ok v, db', w')
     \<and> run_state (fsx_DescribeFileSystems sample_fsx [csi_VolumeId v]) w2 = (Ok (Some [fs']), w')
     \<and> sfs_Lifecycle fs' = ''AVAILABLE''"
proof -
  obtain v db' w' where r: "run_state (controller_CreateVolume small_sdk (cloud small_sdk) sample_request) (NewInFlight, 0) = (Ok v, db', w')"
    and v: "get_param (VolumeContext v) ''ResourceType'' = ''filesystem''"
    using sample_create_real by blast
  have s: "sdk_fsx small_sdk = sample_fsx" by (simp add: small_sdk_def)
  from created_filesystem_ready [OF small_poll r v] obtain w2 fs'
    where "run_state (fsx_DescribeFileSystems sample_fsx [csi_VolumeId v]) w2 = (Ok (Some [fs']), w')"
      and "sfs_Lifecycle fs' = ''AVAILABLE''" unfolding s by blast
  with r show ?thesis by blast
qed

lemma cloud_CreateVolume_Ok:
  assumes "run_state (cloud_CreateVolume k ps) w = (Ok r, w')"
  shows "\<exists>input v path. run_state (fsx_CreateVolume (sdk_fsx k) input) w = (Ok (Some (Some v)), w')
    \<and> sv_VolumePath v = Some path
    \<and> r = Some \<lparr>vol_FileSystemId = ToString (sv_FileSystemId v), vol_VolumeId = ToString (sv_VolumeId v), vol_VolumePath = ToString path\<rparr>"
  using assms by (auto simp: cloud_CreateVolume_def run_check_Ok run_deref_Ok split: prod.splits sum.splits if_splits)

section \<open>Volumes\<close>

text \<open>
  C15. Against FSx, \<^verbatim>\<open>CreateVolume\<close> reports a volume only after the service has created it and then
  described it as available under the id of the response. The response names the path the service
  gave, and the DNS name of the file system that the service says the volume is on.
\<close>

theorem created_openzfs_volume_ready:
  assumes "poll_spec elapse k" and "run_state (controller_CreateVolume T (cloud k) req) (db, w) = (Ok x, db', w')"
    and "get_param (VolumeContext x) ''ResourceType'' = ''volume''"
  shows "\<exists>w0 input v path w1 w2 v' w3 fs.
      run_state (fsx_CreateVolume (sdk_fsx k) input) w0 = (Ok (Some (Some v)), w1)
      \<and> csi_VolumeId x = ToString (sv_VolumeId v) \<and> sv_VolumePath v = Some path
      \<and> run_state (fsx_DescribeVolumes (sdk_fsx k) [csi_VolumeId x]) w2 = (Ok (Some [v']), w3)
      \<and> sv_Lifecycle v' = ''AVAILABLE''
      \<and> run_state (fsx_DescribeFileSystems (sdk_fsx k) [ToString (sv_FileSystemId v)]) w3 = (Ok (Some [fs]), w')
      \<and> VolumeContext x = [(''DNSName'', ToString (sfs_DNSName fs)), (''ResourceType'', ''volume''), (''VolumePath'', ToString path)]
      \<and> CapacityBytes x = GiBToBytes 1"
proof -
  from assms(2) obtain g rt ps where "(rt = fsType \<and> run_state (create_filesystem T (cloud k) req g ps) w = (Ok x, w'))
       \<or> (rt = volType \<and> run_state (create_openzfs_volume T (cloud k) req g ps) w = (Ok x, w'))"
    by (rule create_volume_Ok)
  with assms(3) have "run_state (create_openzfs_volume T (cloud k) req g ps) w = (Ok x, w')"
    by (auto simp: create_filesystem_Ok get_param_def fsType_def)
  then obtain w0 ps2 y w1 w3 fsy src where c: "run_state (cloud_CreateVolume k ps2) w0 = (Ok (Some y), w1)"
    and a: "run_state (cloud_WaitForVolumeAvailable k (vol_VolumeId y)) w1 = (Ok (), w3)"
    and d: "run_state (cloud_DescribeFileSystem k (vol_FileSystemId y)) w3 = (Ok (Some fsy), w')"
    and x: "x = \<lparr>CapacityBytes = GiBToBytes 1, csi_VolumeId = vol_VolumeId y,
        VolumeContext = [(''DNSName'', fs_DnsName fsy), (''ResourceType'', volType), (''VolumePath'', vol_VolumePath y)],
        ContentSource = src\<rparr>"
    by (auto simp: create_openzfs_volume_Ok cloud_sel)
  from cloud_CreateVolume_Ok [OF c] obtain input v path
    where v: "run_state (fsx_CreateVolume (sdk_fsx k) input) w0 = (Ok (Some (Some v)), w1)" "sv_VolumePath v = Some path"
      "y = \<lparr>vol_FileSystemId = ToString (sv_FileSystemId v), vol_VolumeId = ToString (sv_VolumeId v), vol_VolumePath = ToString path\<rparr>"
    by blast
  from poll_Ok [OF assms(1) a [unfolded cloud_WaitForVolumeAvailable_def]] obtain w2 v'
    where v': "run_state (fsx_DescribeVolumes (sdk_fsx k) [vol_VolumeId y]) w2 = (Ok (Some [v']), w3)" "sv_Lifecycle v' = ''AVAILABLE''"
    by (auto simp: volume_available_True)
  from d obtain fs where "run_state (fsx_DescribeFileSystems (sdk_fsx k) [vol_FileSystemId y]) w3 = (Ok (Some [fs]), w')"
    and "fsy = to_FileSystem fs"
    by (auto simp: cloud_DescribeFileSystem_def run_check_Ok getFileSystem_Ok)
  with v v' x show ?thesis by (fastforce simp: to_FileSystem_def volType_def)
qed

text \<open>The small structs with a short input for volumes, and a request for one.\<close>

definition small_volume_config :: gotype where
  "small_volume_config = GStruct ''types'' ''CreateOpenZFSVolumeConfiguration'' [(''ParentVolumeId'', True, GPtr str_t)]"

definition volume_sdk :: "nat sdk" where
  "volume_sdk = small_sdk
     \<lparr>CreateOpenZFSVolumeConfiguration := small_volume_config,
      CreateVolumeInput := GStruct ''fsx'' ''CreateVolumeInput''
        [(''Name'', True, GPtr str_t), (''VolumeType'', True, GString ''types.VolumeType''), (''ClientRequestToken'', True, GPtr str_t),
         (''OpenZFSConfiguration'', True, GPtr small_volume_config), (''Tags'', True, GSlice sample_Tag)]\<rparr>"

lemma volume_poll: "poll_spec (\<lambda>w w'. w' = Suc w) volume_sdk"
  by (rule poll_spec_rounds [of _ 60]) (simp add: volume_sdk_def small_sdk_def)

definition volume_request :: CreateVolumeRequest where
  "volume_request = sample_request
     \<lparr>cvr_CapacityRange := Some \<lparr>RequiredBytes = 1073741824, LimitBytes = 0\<rparr>,
      cvr_Parameters := Some [(''ResourceType'', ''volume''),
        (''ParentVolumeId'', CHR 0x22 # ''fsvol-1'' @ [CHR 0x22])]\<rparr>"

lemma sample_create_volume:
  "\<exists>v db' w'. run_state (controller_CreateVolume volume_sdk (cloud volume_sdk) volume_request) (NewInFlight, 0) = (Ok v, db', w')
     \<and> get_param (VolumeContext v) ''ResourceType'' = ''volume''"
proof -
  have "case fst (run_state (controller_CreateVolume volume_sdk (cloud volume_sdk) volume_request) (NewInFlight, 0)) of
      Ok v \<Rightarrow> get_param (VolumeContext v) ''ResourceType'' = ''volume'' | _ \<Rightarrow> False"
    by code_simp
  then show ?thesis by (auto split: res.splits) (metis prod.collapse)
qed

theorem created_openzfs_volume_ready_witness:
  "\<exists>v db' w' w2 v' w3. run_state (controller_CreateVolume volume_sdk (cloud volume_sdk) volume_request) (NewInFlight, 0) = (Ok v, db', w')
     \<and> run_state (fsx_DescribeVolumes sample_fsx [csi_VolumeId v]) w2 = (Ok (Some [v']), w3)
     \<and> sv_Lifecycle v' = ''AVAILABLE''"
proof -
  obtain v db' w' where r: "run_state (controller_CreateVolume volume_sdk (cloud volume_sdk) volume_request) (NewInFlight, 0) = (Ok v, db', w')"
    and v: "get_param (VolumeContext v) ''ResourceType'' = ''volume''"
    using sample_create_volume by blast
  have s: "sdk_fsx volume_sdk = sample_fsx" by (simp add: volume_sdk_def small_sdk_def)
  from created_openzfs_volume_ready [OF volume_poll r v] obtain w2 v' w3
    where "run_state (fsx_DescribeVolumes sample_fsx [csi_VolumeId v]) w2 = (Ok (Some [v']), w3)"
      and "sv_Lifecycle v' = ''AVAILABLE''" unfolding s by blast
  with r show ?thesis by blast
qed

section \<open>A nil map\<close>

text \<open>
  C31. A volume from a snapshot whose \<^verbatim>\<open>OriginSnapshot\<close> parameter is the JSON value \<^verbatim>\<open>null\<close> makes
  \<^verbatim>\<open>appendSnapshotARN\<close> panic, whatever the cloud, once the snapshot is found: decoding \<^verbatim>\<open>null\<close> makes the
  map nil, and the code then writes to it.
\<close>

theorem null_origin_snapshot_panics:
  assumes "get_param ps ''OriginSnapshot'' = ''null''" "run_state (DescribeSnapshot c i) w = (Ok s, w')"
  shows "run_state (appendSnapshotARN c ps i) w = (Panic, w')"
proof -
  have "ConvertJsonStringToObject ''null'' (GMap (GString ''string'')) (VMap []) = Inr VNil" by code_simp
  then show ?thesis using assms by (cases s) (simp_all add: appendSnapshotARN_def run_check run_deref)
qed

theorem null_origin_snapshot_panics_witness:
  "run_state (appendSnapshotARN (cloud sample_sdk) [(''OriginSnapshot'', ''null'')] ''fsvolsnap-1'') 5 = (Panic, 5)"
proof -
  have "fst (run_state (DescribeSnapshot (cloud sample_sdk) ''fsvolsnap-1'') 5) = Ok (Some (to_Snapshot (sample_snapshot 5)))
      \<and> snd (run_state (DescribeSnapshot (cloud sample_sdk) ''fsvolsnap-1'') 5) = 5"
    by code_simp
  then have "run_state (DescribeSnapshot (cloud sample_sdk) ''fsvolsnap-1'') 5 = (Ok (Some (to_Snapshot (sample_snapshot 5))), 5)"
    by (simp add: prod_eq_iff)
  from null_origin_snapshot_panics [OF _ this] show ?thesis by (simp add: get_param_def)
qed

end
