(* ===== verification/TagsSpec.thy ===== *)
theory TagsSpec
  imports ControllerSpec
begin

text \<open>
  Delete parameters travel through tags: \<^verbatim>\<open>CreateVolume\<close> takes the parameters that end in
  \<^verbatim>\<open>OnDeletion\<close> out of the request and stores them as tags of the new resource, \<^verbatim>\<open>DeleteVolume\<close>
  reads them back through \<^verbatim>\<open>GetDeleteParameters\<close>. This theory shows what the tags of the input
  are and that the parameters survive the way through them.
\<close>

section \<open>Tag lists\<close>

text \<open>The JSON text of a tag list decodes to that list.\<close>

lemma wt_tags_depth: "wt v tags_type \<Longrightarrow> depth (enc v) \<le> 2"
proof -
  have str: "wt x (GString n) \<Longrightarrow> depth (enc x) = 0" for x n by (cases x) auto
  have m: "wt x (GMap (GString n)) \<Longrightarrow> depth (enc x) \<le> 1" for x n
  proof (cases x)
    case (VMap m)
    assume "wt x (GMap (GString n))"
    then have "y \<in> set (map (\<lambda>p. depth (snd p)) (sort_key fst (map (\<lambda>(k, v). (k, enc v)) m))) \<Longrightarrow> y \<le> 0" for y
      using str by (fastforce simp: VMap)
    then show ?thesis using foldr_max_le [of "map (\<lambda>p. depth (snd p)) (sort_key fst (map (\<lambda>(k, v). (k, enc v)) m))" 0]
      by (auto simp: VMap comp_def case_prod_unfold)
  qed auto
  assume "wt v tags_type"
  then show ?thesis
  proof (cases v)
    case (VSlice vs)
    with \<open>wt v tags_type\<close> have "\<forall>y \<in> set (map (\<lambda>x. depth (enc x)) vs). y \<le> 1" using m by (auto simp: tags_type_def)
    from foldr_max_le [OF this] VSlice show ?thesis by (simp add: comp_def)
  qed (auto simp: tags_type_def)
qed


lemma tags_type_wf [simp]: "wf_type tags_type" "zero_value tags_type = VNil"
  by (simp_all add: tags_type_def)

lemma tags_roundtrip:
  assumes "wt v tags_type"
  shows "ConvertJsonStringToObject (Marshal v) tags_type VNil = Inr v"
proof -
  have "Marshal v \<noteq> []" using render_start [of "enc v"] by (auto simp: Marshal_def)
  with Unmarshal_Marshal [OF assms] wt_tags_depth [OF assms] show ?thesis
    by (simp add: ConvertJsonStringToObject_def maxNestingDepth_def)
qed

lemma wt_existing_tags:
  assumes "ConvertJsonStringToObject s tags_type VNil = Inr v"
  shows "wt v tags_type"
proof (cases "s = []")
  case True
  with assms show ?thesis by (simp add: ConvertJsonStringToObject_def tags_type_def)
next
  case False
  with assms obtain j where "dec j ([], []) tags_type VNil = Inr v"
    by (auto simp: ConvertJsonStringToObject_def Unmarshal_def split: sum.splits)
  then show ?thesis by (rule dec_wt(1)) (simp_all add: tags_type_def)
qed

lemma append_tag_slice: "wt v tags_type \<Longrightarrow> append_tag v t = VSlice (slice_elems v @ [t])"
  by (cases v) (auto simp: append_tag_def tags_type_def)

lemma wt_tag_value: "valid_utf8 k \<Longrightarrow> valid_utf8 x \<Longrightarrow> wt (tag_value k x) (GMap (GString ''string''))"
  by (simp add: tag_value_def)

lemma wt_tags_slice: "wt v tags_type \<Longrightarrow> \<forall>t \<in> set (slice_elems v). wt t (GMap (GString ''string''))"
  by (cases v) (auto simp: tags_type_def)

lemma wt_append_tags:
  "wt v tags_type \<Longrightarrow> list_all (\<lambda>(k, x). valid_utf8 k \<and> valid_utf8 x) kxs \<Longrightarrow>
     wt (VSlice (slice_elems v @ map (\<lambda>(k, x). tag_value k x) kxs)) tags_type"
  using wt_tags_slice [of v] wt_tag_value by (fastforce simp: tags_type_def list_all_iff)

lemma appendCustomTags_Inr:
  assumes "appendCustomTags ps rt = Inr ps'"
  shows "\<exists>tags. ConvertJsonStringToObject (get_param ps ''Tags'') tags_type VNil = Inr tags
    \<and> ConvertJsonStringToObject (get_param ps' ''Tags'') tags_type VNil =
        Inr (VSlice (slice_elems tags @ [tag_value AwsFsxOpenZfsDriverTagKey ''true'']))
    \<and> (\<forall>k. k \<noteq> ''Tags'' \<longrightarrow> map_of ps' k = map_of ps k)"
proof -
  from assms obtain tags where t: "ConvertJsonStringToObject (get_param ps ''Tags'') tags_type VNil = Inr tags"
    and ps': "ps' = AList.update ''Tags'' (Marshal (append_tag tags (tag_value AwsFsxOpenZfsDriverTagKey ''true''))) ps"
    by (auto simp: appendCustomTags_def ConvertObjectToJsonString_def split: sum.splits)
  have w: "wt tags tags_type" using t by (rule wt_existing_tags)
  have v: "valid_utf8 AwsFsxOpenZfsDriverTagKey" "valid_utf8 ''true''"
    by (simp_all add: AwsFsxOpenZfsDriverTagKey_def)
  from wt_append_tags [OF w, of "[(AwsFsxOpenZfsDriverTagKey, ''true'')]"] v t ps' show ?thesis
    by (simp add: append_tag_slice [OF w] tags_roundtrip)
qed

section \<open>Delete tags\<close>

definition delete_params :: "params \<Rightarrow> params" where
  "delete_params ps = filter (\<lambda>(k, v). HasSuffix k deletionSuffix) ps"

lemma fold_append_tag:
  "wt v tags_type \<Longrightarrow> list_all (\<lambda>(k, x). valid_utf8 k \<and> valid_utf8 x) kxs \<Longrightarrow>
   fold (\<lambda>(k, x) tags. append_tag tags (tag_value k x)) kxs v =
     (if kxs = [] then v else VSlice (slice_elems v @ map (\<lambda>(k, x). tag_value k x) kxs))"
proof (induction kxs arbitrary: v)
  case (Cons kx kxs)
  obtain k x where kx: "kx = (k, x)" by fastforce
  have "wt (VSlice (slice_elems v @ [tag_value k x])) tags_type"
    using wt_append_tags [OF Cons.prems(1), of "[(k, x)]"] Cons.prems(2) kx by simp
  from Cons.IH [OF this] Cons.prems kx show ?case by (simp add: append_tag_slice)
qed simp

lemma delete_tags_loop_fold:
  "delete_tags_loop ps dp tags acc =
     (fold (\<lambda>(k, v). AList.update (TrimSuffix k deletionSuffix) v) (delete_params ps) dp,
      fold (\<lambda>(k, v) tags. append_tag tags (tag_value k (deletion_tag_value v))) (delete_params ps) tags,
      fold (\<lambda>(k, v). AList.delete k) (delete_params ps) acc)"
  by (induction ps dp tags acc rule: delete_tags_loop.induct) (simp_all add: delete_params_def)

lemma fold_delete: "fold (\<lambda>(k, v). AList.delete k) ds acc = filter (\<lambda>(k, v). k \<notin> keys ds) acc"
proof (induction ds arbitrary: acc)
  case (Cons d ds)
  then show ?case by (cases d) (auto simp: AList.delete_eq intro!: filter_cong)
qed (induction acc, auto)

lemma kept_params: "fold (\<lambda>(k, v). AList.delete k) (delete_params ps) ps = filter (\<lambda>(k, v). \<not> HasSuffix k deletionSuffix) ps"
  unfolding fold_delete by (rule filter_cong) (force simp: delete_params_def)+

lemma fold_update_fresh:
  "gomap (acc @ ds) \<Longrightarrow> fold (\<lambda>(k, v). AList.update k v) ds acc = acc @ ds"
proof (induction ds arbitrary: acc)
  case (Cons d ds)
  obtain k v where d: "d = (k, v)" by fastforce
  have "AList.update k v acc = acc @ [(k, v)]" using Cons.prems d update_append [of k acc v "[]"] by simp
  with Cons d show ?case by simp
qed simp


text \<open>The delete parameters with the suffix trimmed.\<close>

definition trimmed_params :: "params \<Rightarrow> params" where
  "trimmed_params ps = map (\<lambda>(k, v). (TrimSuffix k deletionSuffix, v)) (delete_params ps)"

lemma delete_params_suffix: "(k, v) \<in> set (delete_params ps) \<Longrightarrow> k = TrimSuffix k deletionSuffix @ deletionSuffix"
  by (simp add: delete_params_def TrimSuffix_HasSuffix)

lemma gomap_trimmed: "gomap ps \<Longrightarrow> gomap (trimmed_params ps)"
proof -
  assume "gomap ps"
  then have g: "gomap (delete_params ps)" by (simp add: delete_params_def)
  have "inj_on (\<lambda>k. TrimSuffix k deletionSuffix) (keys (delete_params ps))"
    by (rule inj_onI) (auto, metis delete_params_suffix)
  with g have "distinct (map (\<lambda>k. TrimSuffix k deletionSuffix) (map fst (delete_params ps)))"
    by (simp add: distinct_map comp_inj_on)
  then show ?thesis by (simp add: trimmed_params_def comp_def case_prod_unfold)
qed

lemma loop_delete_params:
  assumes "gomap ps"
  shows "fold (\<lambda>(k, v). AList.update (TrimSuffix k deletionSuffix) v) (delete_params ps) [] = trimmed_params ps"
proof -
  have "fold (\<lambda>(k, v). AList.update (TrimSuffix k deletionSuffix) v) ds acc =
      fold (\<lambda>(k, v). AList.update k v) (map (\<lambda>(k, v). (TrimSuffix k deletionSuffix, v)) ds) acc" for ds acc
    by (induction ds arbitrary: acc) auto
  from this [of "delete_params ps" "[]"] show ?thesis
    using fold_update_fresh [of "[]" "trimmed_params ps"] gomap_trimmed [OF assms] by (simp add: trimmed_params_def)
qed

text \<open>Encoding a tag keeps UTF-8 valid: only ASCII characters are replaced, by ASCII text.\<close>

lemma tag_text_append: "tag_text D (a @ b) = tag_text D a @ tag_text D b"
  by (simp add: tag_text_def)

lemma tag_code_ascii: "tag_code c = Some x \<Longrightarrow> byte c < 128 \<and> byte x < 128"
  by (auto simp: tag_code_def split: if_splits)

lemma tag_text_high: "list_all (\<lambda>c. 128 \<le> byte c) s \<Longrightarrow> tag_text D s = s"
proof (induction s)
  case (Cons c s)
  then have "tag_code c = None" using tag_code_ascii [of c] by (cases "tag_code c") auto
  with Cons show ?case by (simp add: tag_text_Cons)
qed (simp add: tag_text_def)

lemma valid_utf8_tag_text: "valid_utf8 s \<Longrightarrow> valid_utf8 (tag_text D s)"
proof (induction s rule: rune_induct)
  case Nil
  then show ?case by (simp add: tag_text_def)
next
  case (ascii c cs)
  then have "valid_utf8 cs" by simp
  moreover have "valid_utf8 (case tag_code c of Some x \<Rightarrow> if c \<in> D then [c] else [CHR '' '', x, CHR '' ''] | None \<Rightarrow> [c])"
    using ascii(1) tag_code_ascii [of c] by (auto split: option.splits)
  ultimately show ?case using ascii unfolding tag_text_Cons by (intro valid_utf8_append) auto
next
  case (invalid c cs)
  then show ?case by (subst (asm) (2) valid_utf8.simps) simp
next
  case (rune c cs)
  let ?n = "rune_width (c # cs)"
  have v: "valid_utf8 (drop ?n (c # cs))"
    using rune.prems by (subst (asm) valid_utf8.simps) (simp split: if_splits)
  have h: "tag_text D (take ?n (c # cs)) = take ?n (c # cs)"
    by (rule tag_text_high) (rule rune_width_high [OF rune(1)])
  have "tag_text D (c # cs) = take ?n (c # cs) @ tag_text D (drop ?n (c # cs))"
    using tag_text_append [of D "take ?n (c # cs)" "drop ?n (c # cs)"] h by simp
  moreover have "valid_utf8 (take ?n (c # cs))" using rune(2) by (simp add: valid_utf8_rune)
  ultimately show ?case using rune(3) [OF v] by (simp add: valid_utf8_append)
qed

lemma valid_utf8_deletion_tag_value: "valid_utf8 v \<Longrightarrow> valid_utf8 (deletion_tag_value v)"
  by (simp add: deletion_tag_value_def EncodeDeletionTag_text valid_utf8_tag_text)


lemma appendDeleteTags_Inr:
  assumes "appendDeleteTags T ps rt = Inr ps'" and "gomap ps"
    and "list_all (\<lambda>(k, v). valid_utf8 k \<and> valid_utf8 v) (delete_params ps)"
  shows "\<exists>tags tags'. ConvertJsonStringToObject (get_param ps ''Tags'') tags_type VNil = Inr tags
    \<and> ConvertJsonStringToObject (get_param ps' ''Tags'') tags_type VNil = Inr tags'
    \<and> slice_elems tags' = slice_elems tags @ map (\<lambda>(k, v). tag_value k (deletion_tag_value v)) (delete_params ps)
    \<and> validate_delete_tags T rt (trimmed_params ps) = None
    \<and> ps' = AList.update ''Tags'' (Marshal tags') (filter (\<lambda>(k, v). \<not> HasSuffix k deletionSuffix) ps)"
proof -
  let ?kxs = "map (\<lambda>(k, v). (k, deletion_tag_value v)) (delete_params ps)"
  let ?add = "\<lambda>tags. fold (\<lambda>(k, v) tags. append_tag tags (tag_value k (deletion_tag_value v))) (delete_params ps) tags"
  from assms(1) obtain tags where t: "ConvertJsonStringToObject (get_param ps ''Tags'') tags_type VNil = Inr tags"
    and v: "validate_delete_tags T rt (trimmed_params ps) = None"
    and ps': "ps' = AList.update ''Tags'' (Marshal (?add tags)) (filter (\<lambda>(k, v). \<not> HasSuffix k deletionSuffix) ps)"
    by (auto simp: appendDeleteTags_def ConvertObjectToJsonString_def delete_tags_loop_fold
        loop_delete_params [OF assms(2)] kept_params split: sum.splits option.splits)
  have w: "wt tags tags_type" using t by (rule wt_existing_tags)
  have u: "list_all (\<lambda>(k, x). valid_utf8 k \<and> valid_utf8 x) ?kxs"
    using assms(3) by (auto simp: list_all_iff valid_utf8_deletion_tag_value)
  have "?add tags = fold (\<lambda>(k, x) tags. append_tag tags (tag_value k x)) ?kxs tags"
    by (simp add: fold_map comp_def case_prod_unfold)
  with fold_append_tag [OF w u] have a: "?add tags =
      (if ?kxs = [] then tags else VSlice (slice_elems tags @ map (\<lambda>(k, x). tag_value k x) ?kxs))" by simp
  then have "wt (?add tags) tags_type" using wt_append_tags [OF w u] w by simp
  then have "ConvertJsonStringToObject (get_param ps' ''Tags'') tags_type VNil = Inr (?add tags)"
    unfolding ps' by (simp add: tags_roundtrip)
  moreover have "slice_elems (?add tags) = slice_elems tags @ map (\<lambda>(k, v). tag_value k (deletion_tag_value v)) (delete_params ps)"
    unfolding a by (simp add: comp_def case_prod_unfold)
  ultimately show ?thesis using t v ps' by blast
qed

section \<open>From tags back to delete parameters\<close>

text \<open>A tag of the input as the service reports it.\<close>

definition tag_of_value :: "govalue \<Rightarrow> sdk_Tag" where
  "tag_of_value v =
     (let field = (\<lambda>f. case map_of (map_entries v) f of Some (VString s) \<Rightarrow> Some s | _ \<Rightarrow> None)
      in \<lparr>tag_Key = field ''Key'', tag_Value = field ''Value''\<rparr>)"

lemma tag_of_tag_value [simp]: "tag_of_value (tag_value k x) = \<lparr>tag_Key = Some k, tag_Value = Some x\<rparr>"
  by (simp add: tag_of_value_def tag_value_def)

lemma delete_parameters_of_tags_append:
  "delete_parameters_of_tags k p (xs @ ys) acc = delete_parameters_of_tags k p ys (delete_parameters_of_tags k p xs acc)"
  by (induction k p xs acc rule: delete_parameters_of_tags.induct) (auto simp: Let_def split: option.splits)

lemma delete_parameters_of_tags_other:
  assumes "\<forall>tag \<in> set tags. \<forall>v. tag_parameter k p tag \<noteq> Some (d, v)"
  shows "map_of (delete_parameters_of_tags k p tags acc) d = map_of acc d"
  using assms
proof (induction tags arbitrary: acc)
  case (Cons tag tags)
  show ?case
  proof (cases "tag_parameter k p tag")
    case None
    with Cons show ?thesis unfolding delete_parameters_of_tags_Cons by simp
  next
    case (Some dv)
    with Cons.prems have "fst dv \<noteq> d" by (cases dv) auto
    with Cons Some show ?thesis unfolding delete_parameters_of_tags_Cons by (cases dv) auto
  qed
qed simp

lemma delete_parameters_of_tags_last:
  assumes "tag_parameter k p tag = Some (d, v)" and "\<forall>t \<in> set after. \<forall>v. tag_parameter k p t \<noteq> Some (d, v)"
  shows "map_of (delete_parameters_of_tags k p (before @ tag # after) acc) d = Some v"
  unfolding delete_parameters_of_tags_append delete_parameters_of_tags_Cons
  using assms(1) delete_parameters_of_tags_other [OF assms(2)] by simp

lemma Decode_deletion_tag_value: "tag_safe v \<Longrightarrow> DecodeDeletionTag (deletion_tag_value v) = v"
  by (simp add: deletion_tag_value_def Decode_Encode Decode_unencoded)

text \<open>
  Whatever tags stand before and after, a delete parameter whose value survives the encoding is
  recovered from its tag, unless a later tag has the same key.
\<close>

lemma delete_parameter_recovered:
  assumes "(key, v) \<in> set (delete_params ps)" and "gomap ps" and "d = TrimSuffix key deletionSuffix"
    and "tag_safe v" and "valid_delete_parameter k p d v"
    and "\<forall>t \<in> set after. \<forall>x. tag_parameter k p t \<noteq> Some (d, x)"
  shows "map_of (delete_parameters_of_tags k p
      (before @ map (\<lambda>(k, v). tag_of_value (tag_value k (deletion_tag_value v))) (delete_params ps) @ after) []) d = Some v"
proof -
  let ?f = "\<lambda>(k, v). tag_of_value (tag_value k (deletion_tag_value v))"
  obtain xs ys where s: "delete_params ps = xs @ (key, v) # ys" using assms(1) by (auto dest: split_list)
  have g: "gomap (delete_params ps)" using assms(2) by (simp add: delete_params_def)
  have key: "key = d @ ''OnDeletion''"
    using delete_params_suffix [OF assms(1)] assms(3) by (simp add: deletionSuffix_def)
  have "tag_parameter k p (?f (key, v)) = Some (d, v)"
    using assms(4,5) by (simp add: tag_parameter_def key Decode_deletion_tag_value)
  moreover have "\<forall>t \<in> set (map ?f ys @ after). \<forall>x. tag_parameter k p t \<noteq> Some (d, x)"
  proof (intro ballI allI notI)
    fix t x assume t: "t \<in> set (map ?f ys @ after)" and x: "tag_parameter k p t = Some (d, x)"
    with assms(6) obtain key' v' where "(key', v') \<in> set ys" "t = ?f (key', v')" by auto
    moreover from tag_parameter_Some [OF x] this key have "key' = key" by simp
    ultimately have "key \<in> keys ys" by (metis fst_conv image_eqI)
    then show False using g s by simp
  qed
  ultimately show ?thesis
    using delete_parameters_of_tags_last [of k p "?f (key, v)" d v "map ?f ys @ after" "before @ map ?f xs" "[]"] s by simp
qed


section \<open>Properties\<close>

text \<open>
  \<^verbatim>\<open>appendCustomTags\<close> adds the driver's own tag and nothing else: the resulting \<^verbatim>\<open>Tags\<close> parameter
  decodes to the tags of the request followed by the driver's tag, and every other parameter is
  unchanged.
\<close>

theorem custom_tags_appended:
  assumes "appendCustomTags ps rt = Inr ps'"
  shows "\<exists>tags. ConvertJsonStringToObject (get_param ps ''Tags'') tags_type VNil = Inr tags
    \<and> ConvertJsonStringToObject (get_param ps' ''Tags'') tags_type VNil =
        Inr (VSlice (slice_elems tags @ [tag_value AwsFsxOpenZfsDriverTagKey ''true'']))
    \<and> (\<forall>k. k \<noteq> ''Tags'' \<longrightarrow> map_of ps' k = map_of ps k)"
  using assms by (rule appendCustomTags_Inr)

theorem custom_tags_appended_witness:
  "\<exists>ps'. appendCustomTags [] fsType = Inr ps'
     \<and> ConvertJsonStringToObject (get_param ps' ''Tags'') tags_type VNil =
         Inr (VSlice [tag_value AwsFsxOpenZfsDriverTagKey ''true''])"
proof -
  have "\<exists>ps'. appendCustomTags [] fsType = Inr ps'"
    by (simp add: appendCustomTags_def ConvertJsonStringToObject_def ConvertObjectToJsonString_def get_param_def)
  then obtain ps' where "appendCustomTags [] fsType = Inr ps'" by blast
  with custom_tags_appended [OF this] show ?thesis
    by (auto simp: ConvertJsonStringToObject_def get_param_def)
qed

text \<open>
  \<^verbatim>\<open>appendDeleteTags\<close> moves the delete parameters into tags: on success no parameter ending in
  \<^verbatim>\<open>OnDeletion\<close> is left, the tags are those of the request followed by one tag per delete
  parameter with its encoded value, every other parameter is unchanged, and the delete parameters
  pass the validation for the kind of resource.
\<close>

theorem delete_tags_stored:
  assumes "appendDeleteTags T ps rt = Inr ps'" and "gomap ps"
    and "list_all (\<lambda>(k, v). valid_utf8 k \<and> valid_utf8 v) (delete_params ps)"
  shows "(\<forall>k. k \<noteq> ''Tags'' \<longrightarrow> map_of ps' k = (if HasSuffix k deletionSuffix then None else map_of ps k))
    \<and> validate_delete_tags T rt (trimmed_params ps) = None
    \<and> (\<exists>tags tags'. ConvertJsonStringToObject (get_param ps ''Tags'') tags_type VNil = Inr tags
        \<and> ConvertJsonStringToObject (get_param ps' ''Tags'') tags_type VNil = Inr tags'
        \<and> slice_elems tags' = slice_elems tags @ map (\<lambda>(k, v). tag_value k (deletion_tag_value v)) (delete_params ps))"
  using appendDeleteTags_Inr [OF assms] by (auto simp: map_of_filter_keys)

lemma sample_delete_tags:
  "\<exists>ps'. appendDeleteTags small_sdk [(''SkipFinalBackupOnDeletion'', ''true'')] fsType = Inr ps'"
proof -
  have "case appendDeleteTags small_sdk [(''SkipFinalBackupOnDeletion'', ''true'')] fsType of Inr ps' \<Rightarrow> True | Inl e \<Rightarrow> False"
    by code_simp
  then show ?thesis by (auto split: sum.splits)
qed

lemma sample_delete_params:
  "delete_params [(''SkipFinalBackupOnDeletion'', ''true'')] = [(''SkipFinalBackupOnDeletion'', ''true'')]"
  by code_simp

theorem delete_tags_stored_witness:
  "\<exists>ps'. appendDeleteTags small_sdk [(''SkipFinalBackupOnDeletion'', ''true'')] fsType = Inr ps'
     \<and> map_of ps' ''SkipFinalBackupOnDeletion'' = None"
proof -
  obtain ps' where a: "appendDeleteTags small_sdk [(''SkipFinalBackupOnDeletion'', ''true'')] fsType = Inr ps'"
    using sample_delete_tags by blast
  have "HasSuffix ''SkipFinalBackupOnDeletion'' deletionSuffix" by code_simp
  with delete_tags_stored [OF a] a show ?thesis by (auto simp: sample_delete_params)
qed

text \<open>
  C3. Delete parameters survive the tags: when a request's parameters have passed
  \<^verbatim>\<open>appendDeleteTags\<close> and \<^verbatim>\<open>appendCustomTags\<close> and the service reports the tags of the input, then
  \<^verbatim>\<open>GetDeleteParameters\<close> recovers every delete parameter with its value, if the value has no code
  letter alone between two gaps and is valid on its own for the kind of resource.
\<close>

theorem delete_parameters_survive:
  assumes "appendDeleteTags T ps rt = Inr ps1" and "appendCustomTags ps1 rt = Inr ps2" and "gomap ps"
    and "list_all (\<lambda>(k, v). valid_utf8 k \<and> valid_utf8 v) (delete_params ps)"
    and "ConvertJsonStringToObject (get_param ps2 ''Tags'') tags_type VNil = Inr tags"
    and "(key, v) \<in> set (delete_params ps)" and "d = TrimSuffix key deletionSuffix"
    and "tag_safe v" and "valid_delete_parameter k p d v"
  shows "map_of (delete_parameters_of_tags k p (map tag_of_value (slice_elems tags)) []) d = Some v"
proof -
  from appendDeleteTags_Inr [OF assms(1,3,4)] obtain tags0 tags1
    where "ConvertJsonStringToObject (get_param ps1 ''Tags'') tags_type VNil = Inr tags1"
      and "slice_elems tags1 = slice_elems tags0 @ map (\<lambda>(k, v). tag_value k (deletion_tag_value v)) (delete_params ps)"
    by blast
  with appendCustomTags_Inr [OF assms(2)] assms(5)
  have t: "slice_elems tags = slice_elems tags0 @ map (\<lambda>(k, v). tag_value k (deletion_tag_value v)) (delete_params ps)
      @ [tag_value AwsFsxOpenZfsDriverTagKey ''true'']" by auto
  have "\<not> HasSuffix AwsFsxOpenZfsDriverTagKey ''OnDeletion''" by code_simp
  then have "tag_parameter k p (tag_of_value (tag_value AwsFsxOpenZfsDriverTagKey ''true'')) = None"
    by (simp add: tag_parameter_def)
  with delete_parameter_recovered [OF assms(6,3,7,8,9),
      of "[tag_of_value (tag_value AwsFsxOpenZfsDriverTagKey ''true'')]" "map tag_of_value (slice_elems tags0)"]
  show ?thesis unfolding t by (simp add: comp_def case_prod_unfold)
qed

lemma sample_valid_delete: "valid_delete_parameter small_sdk ''fs'' ''SkipFinalBackup'' ''true''"
  by code_simp

theorem delete_parameters_survive_witness:
  "\<exists>ps1 ps2 tags. appendDeleteTags small_sdk [(''SkipFinalBackupOnDeletion'', ''true'')] fsType = Inr ps1
     \<and> appendCustomTags ps1 fsType = Inr ps2
     \<and> ConvertJsonStringToObject (get_param ps2 ''Tags'') tags_type VNil = Inr tags
     \<and> map_of (delete_parameters_of_tags small_sdk ''fs'' (map tag_of_value (slice_elems tags)) []) ''SkipFinalBackup'' = Some ''true''"
proof -
  let ?ps = "[(''SkipFinalBackupOnDeletion'', ''true'')]"
  have u: "gomap ?ps" "list_all (\<lambda>(k, v). valid_utf8 k \<and> valid_utf8 v) (delete_params ?ps)"
    by (simp_all add: sample_delete_params)
  obtain ps1 where a: "appendDeleteTags small_sdk ?ps fsType = Inr ps1" using sample_delete_tags by blast
  from appendDeleteTags_Inr [OF a u] obtain ps2 where b: "appendCustomTags ps1 fsType = Inr ps2"
    by (auto simp: appendCustomTags_def ConvertObjectToJsonString_def)
  from appendCustomTags_Inr [OF b] obtain tags
    where c: "ConvertJsonStringToObject (get_param ps2 ''Tags'') tags_type VNil = Inr tags" by blast
  have k: "(''SkipFinalBackupOnDeletion'', ''true'') \<in> set (delete_params ?ps)" by (simp add: sample_delete_params)
  have d: "''SkipFinalBackup'' = TrimSuffix ''SkipFinalBackupOnDeletion'' deletionSuffix" "tag_safe ''true''"
    by code_simp+
  from delete_parameters_survive [OF a b u c k d sample_valid_delete] a b c show ?thesis by blast
qed

end
