(* ===== verification/SnapshotSpec.thy ===== *)
theory SnapshotSpec
  imports ReadySpec TagsSpec
begin

text \<open>
  Creating a snapshot against the FSx client: the resolved volume id goes through \<^verbatim>\<open>strconv.Quote\<close>, the parameter
  map and JSON into the input of the service, and the snapshot is reported only after the service
  described it as available.
\<close>

section \<open>Ids as parameters\<close>

text \<open>The ids of the service: lower case letters, digits and dashes. Quoting and decoding gives them back.\<close>

definition aws_id :: "string \<Rightarrow> bool" where
  "aws_id s = list_all (\<lambda>c. id_char c \<or> c = CHR ''-'') s"

lemma id_char_byte: "id_char c \<or> c = CHR ''-'' \<Longrightarrow> byte c = 45 \<or> 48 \<le> byte c \<and> byte c \<le> 57 \<or> 97 \<le> byte c \<and> byte c \<le> 122"
  unfolding id_char_def less_eq_char_def by auto

lemma escape_rune_id: "id_char c \<or> c = CHR ''-'' \<Longrightarrow> escape_rune pr [c] = [c]"
  using id_char_byte [of c] by (auto simp: escape_rune_def IsPrint_def Let_def)

lemma quote_aws_id: "aws_id s \<Longrightarrow> Quote pr s = CHR 0x22 # s @ [CHR 0x22]"
proof -
  have "aws_id s \<Longrightarrow> quote_body pr s = s"
  proof (induction s)
    case (Cons c s)
    then have "byte c < 128" using id_char_byte [of c] by (auto simp: aws_id_def)
    with Cons show ?case by (simp add: aws_id_def quote_body_ascii escape_rune_id)
  qed simp
  then show "aws_id s \<Longrightarrow> ?thesis" by (simp add: Quote_def)
qed

lemma any_of_string_quoted: "any_of_string (CHR 0x22 # s) = AnyRaw (CHR 0x22 # s)"
  by (simp add: any_of_string_def ParseInt_def ParseUint_def ParseBool_def is_digit_def)

lemma any_of_string_list: "any_of_string (CHR ''['' # s) = AnyRaw (CHR ''['' # s)"
  by (simp add: any_of_string_def ParseInt_def ParseUint_def ParseBool_def is_digit_def)

lemma escape_ascii_id:
  assumes "id_char c \<or> c = CHR ''-''" shows "escape_ascii c = [c]"
proof -
  have "byte c \<noteq> 34" "byte c \<noteq> 92" "\<not> byte c < 32" "byte c \<noteq> 38" "byte c \<noteq> 60" "byte c \<noteq> 62"
    using id_char_byte [OF assms] by auto
  then have "c \<notin> {CHR 0x22, CHR 0x5C, CHR 0x26, CHR 0x3C, CHR 0x3E, CHR 0x08, CHR 0x0C, CHR 0x0A, CHR 0x0D, CHR 0x09}" by auto
  with \<open>\<not> byte c < 32\<close> show ?thesis by (simp add: escape_ascii_def html_unsafe_def)
qed

lemma json_escape_id: "aws_id s \<Longrightarrow> json_escape s = s"
proof (induction s)
  case (Cons c s)
  then have "byte c < 128" using id_char_byte [of c] by (auto simp: aws_id_def)
  with Cons show ?case by (simp add: aws_id_def json_escape_ascii escape_ascii_id)
qed simp

lemma valid_utf8_id: "aws_id s \<Longrightarrow> valid_utf8 s"
proof (induction s)
  case (Cons c s)
  then have "byte c < 128" using id_char_byte [of c] by (auto simp: aws_id_def)
  with Cons show ?case by (simp add: aws_id_def)
qed simp

lemma param_json_id: "aws_id s \<Longrightarrow> param_json (Quote pr s) = Inr (enc (VString s))"
proof -
  assume i: "aws_id s"
  have m: "CHR 0x22 # s @ [CHR 0x22] = Marshal (VString s)" by (simp add: Marshal_def json_escape_id [OF i])
  have "json_parse (Marshal (VString s)) = Inr (enc (VString s))"
    unfolding Marshal_def by (rule json_parse_render) simp_all
  then have "any_json (AnyRaw (Marshal (VString s))) = Inr (enc (VString s))"
    unfolding any_json_def anyval.case by (simp only: sum.case html_json_enc)
  then show ?thesis
    using any_of_string_quoted [of "s @ [CHR 0x22]"]
    unfolding param_json_def quote_aws_id [OF i] m [symmetric] by (simp only:)
qed

lemma dec_id: "aws_id s \<Longrightarrow> dec (enc (VString s)) ctx (GPtr (GString n)) VNil = Inr (VPtr (VString s))"
  using unquote_json_escape [OF valid_utf8_id] by simp

lemma json_parse_quoted:
  assumes "json_parse (CHR 0x22 # s) = Inr j" shows "depth j = 0"
proof -
  have s: "json_step BeginValue [] (CHR 0x22 # s) = (case scan_str s of
      Inl e \<Rightarrow> Done (Inl e) | Inr (r, t) \<Rightarrow> Next (EndValue (JStr r)) [] t)"
    by (simp add: json_step_def begin_value_def is_ws_def)
  have e: "json_run (EndValue v) [] t = Inr j \<Longrightarrow> j = v" for v t
    by (subst (asm) json_run.simps) (auto simp: json_step_def end_value_def split: list.splits)
  from assms obtain r where "j = JStr r"
    unfolding json_parse_def
    by (subst (asm) json_run.simps) (auto simp: s split: sum.splits prod.splits intro: e)
  then show ?thesis by simp
qed

lemma param_depth_quoted: "param_depth (CHR 0x22 # s) = 0"
  by (auto simp: param_depth_def param_json_def any_of_string_quoted any_json_def split: sum.splits dest: json_parse_quoted)


lemma appendCustomTags_depth:
  assumes "appendCustomTags ps rt = Inr ps'"
  shows "\<exists>s. ps' = AList.update ''Tags'' s ps \<and> param_depth s < maxNestingDepth"
proof -
  from assms obtain tags where t: "ConvertJsonStringToObject (get_param ps ''Tags'') tags_type VNil = Inr tags"
    and ps': "ps' = AList.update ''Tags'' (Marshal (append_tag tags (tag_value AwsFsxOpenZfsDriverTagKey ''true''))) ps"
    by (auto simp: appendCustomTags_def ConvertObjectToJsonString_def split: sum.splits)
  have w: "wt tags tags_type" using t by (rule wt_existing_tags)
  let ?v = "VSlice (slice_elems tags @ [tag_value AwsFsxOpenZfsDriverTagKey ''true''])"
  have "valid_utf8 AwsFsxOpenZfsDriverTagKey" "valid_utf8 ''true''" by (simp_all add: AwsFsxOpenZfsDriverTagKey_def)
  then have v: "wt ?v tags_type" using wt_append_tags [OF w, of "[(AwsFsxOpenZfsDriverTagKey, ''true'')]"] by simp
  have d: "depth (enc ?v) < maxNestingDepth" using wt_tags_depth [OF v] by (simp add: maxNestingDepth_def)
  obtain s where s: "Marshal ?v = CHR ''['' # s" by (simp add: Marshal_def)
  have "json_parse (Marshal ?v) = Inr (enc ?v)"
    unfolding Marshal_def by (rule json_parse_render [OF wf_json_enc]) (use d in linarith)
  then have "param_json (Marshal ?v) = Inr (enc ?v)"
    unfolding param_json_def s any_of_string_list by (simp only: any_json_def anyval.case sum.case html_json_enc)
  with d have "param_depth (Marshal ?v) < maxNestingDepth" by (simp only: param_depth_def sum.case)
  with ps' show ?thesis unfolding append_tag_slice [OF w] by blast
qed

section \<open>The input of the service\<close>

text \<open>What is documented of the SDK's input: a struct whose field \<^verbatim>\<open>VolumeId\<close> points to a string, and with no hidden field but one.\<close>

definition snapshot_input :: "gotype \<Rightarrow> bool" where
  "snapshot_input t \<longleftrightarrow> (\<exists>pkg n fs m. t = GStruct pkg n fs \<and> wf_type t \<and> (''VolumeId'', GPtr (GString m)) \<in> set (exported fs)
     \<and> (\<forall>(f, e, u) \<in> set fs. \<not> e \<longrightarrow> f = ''noSmithyDocumentSerde''))"

lemma snapshot_input_VolumeId:
  assumes "StrictRemoveParametersAndPopulateObject env t ps = (rest, Inr v)" and "snapshot_input t"
    and "gomap ps" and "''noSmithyDocumentSerde'' \<notin> keys ps"
    and "\<forall>(k, s) \<in> set ps. param_depth s < maxNestingDepth"
    and "map_of ps ''VolumeId'' = Some (Quote pr i)" and "aws_id i"
  shows "string_field v ''VolumeId'' = Some i"
proof -
  from assms(2) obtain pkg n fs m where t: "t = GStruct pkg n fs" "wf_type t" "(''VolumeId'', GPtr (GString m)) \<in> set (exported fs)"
    and u: "\<forall>(f, e, u) \<in> set fs. \<not> e \<longrightarrow> f = ''noSmithyDocumentSerde''" unfolding snapshot_input_def by blast
  have no: "f \<notin> keys ps" if "(f, False, x) \<in> set fs" for f x
    using u [THEN bspec, OF that] assms(4) by simp
  have "\<forall>(f, e, u) \<in> set fs. \<not> e \<longrightarrow> f \<notin> keys ps"
  proof
    fix x assume x: "x \<in> set fs"
    obtain f e u where e: "x = (f, e, u)" by (cases x)
    show "case x of (f, e, u) \<Rightarrow> \<not> e \<longrightarrow> f \<notin> keys ps" using no [of f u] x unfolding e by (cases e) auto
  qed
  from Strict_populates [OF assms(1) [unfolded t(1)] assms(3) t(2) [unfolded t(1)] this assms(5)] obtain fv where v: "v = VStruct fv"
    and f: "\<forall>(f, t) \<in> set (exported fs).
        case map_of ps f of
          None \<Rightarrow> map_of fv f = Some (zero_value t)
        | Some s \<Rightarrow> \<exists>j w. param_json s = Inr j \<and> dec j (n, [f]) t (zero_value t) = Inr w \<and> map_of fv f = Some w" by blast
  from f [THEN bspec, OF t(3)] assms(6) obtain j w where "param_json (Quote pr i) = Inr j"
    "dec j (n, [''VolumeId'']) (GPtr (GString m)) VNil = Inr w" "map_of fv ''VolumeId'' = Some w" by auto
  with v param_json_id [OF assms(7), of pr] dec_id [OF assms(7)] show ?thesis by (auto simp add: string_field_def simp del: enc.simps dec.simps)
qed

definition snapshot_params :: "'z sdk_types_scheme \<Rightarrow> CreateSnapshotRequest \<Rightarrow> string \<Rightarrow> params \<Rightarrow> params" where
  "snapshot_params T req i sp =
     AList.update ''Name'' (quote T (csr_Name req)) (AList.update ''VolumeId'' (quote T i)
       (AList.update ''ClientRequestToken'' (quote T (csr_Name req)) sp))"

definition snapshot_steps ::
    "'z sdk_types_scheme \<Rightarrow> 'w Cloud \<Rightarrow> CreateSnapshotRequest \<Rightarrow> params \<Rightarrow> ('w, csi_Snapshot) go" where
  "snapshot_steps T c req sp =
     check (GetVolumeId c (csr_SourceVolumeId req)) (\<lambda>err. status_Error Internal ''Custom tags incorrectly added'') (\<lambda>i.
     check (CreateSnapshot c (snapshot_params T req i sp)) (could_not_snapshot (csr_Name req)) (\<lambda>p. deref p (\<lambda>s.
     check (WaitForSnapshotAvailable c (snap_SnapshotID s))
       (\<lambda>err. StatusErr Internal ''Snapshot %s is not ready: %v'' [AStr (csr_Name req), AErr err]) (\<lambda>_.
     ret (Ok \<lparr>csi_SnapshotId = snap_SnapshotID s, csi_SourceVolumeId = snap_SourceVolumeID s,
       csi_CreationTime = snap_CreationTime s, csi_ReadyToUse = True\<rparr>)))))"

lemma create_snapshot_body_steps:
  "create_snapshot_body T c req =
     (let ps = deleteReservedParameters (case csr_Parameters req of None \<Rightarrow> [] | Some p \<Rightarrow> p) in
      case containsDriverProvidedParameters ps of
        Some err \<Rightarrow> ret (Err (status_ErrorOf InvalidArgument err))
      | None \<Rightarrow> (case appendCustomTags ps snapshotType of
          Inl err \<Rightarrow> ret (Err (status_ErrorOf Internal err))
        | Inr sp \<Rightarrow> snapshot_steps T c req sp))"
  unfolding create_snapshot_body_def snapshot_steps_def snapshot_params_def Let_def ..

lemma snapshot_params_facts:
  assumes "appendCustomTags (deleteReservedParameters ps) snapshotType = Inr sp" and "gomap ps"
    and "''noSmithyDocumentSerde'' \<notin> keys ps" and "\<forall>(k, s) \<in> set ps. param_depth s < maxNestingDepth"
  shows "gomap (snapshot_params T req i sp) \<and> ''noSmithyDocumentSerde'' \<notin> keys (snapshot_params T req i sp)
    \<and> (\<forall>(k, s) \<in> set (snapshot_params T req i sp). param_depth s < maxNestingDepth)
    \<and> map_of (snapshot_params T req i sp) ''VolumeId'' = Some (quote T i)"
proof -
  from appendCustomTags_depth [OF assms(1)] obtain t where sp: "sp = AList.update ''Tags'' t (deleteReservedParameters ps)"
    and t: "param_depth t < maxNestingDepth" by blast
  have upd: "\<forall>(k, s) \<in> set m. param_depth s < maxNestingDepth \<Longrightarrow> param_depth v < maxNestingDepth \<Longrightarrow>
      \<forall>(k, s) \<in> set (AList.update key v m). param_depth s < maxNestingDepth" for key v m
    by (induction m) auto
  have q: "param_depth (quote T s) < maxNestingDepth" for s
    by (simp add: Quote_def param_depth_quoted maxNestingDepth_def)
  have r: "\<forall>(k, s) \<in> set (deleteReservedParameters ps). param_depth s < maxNestingDepth"
    "''noSmithyDocumentSerde'' \<notin> keys (deleteReservedParameters ps)"
    using assms(3,4) by (auto simp: deleteReservedParameters_def)
  show ?thesis
    unfolding snapshot_params_def sp using assms(2) r by (intro conjI upd q t) (auto simp: gomap_update)
qed


section \<open>Creating a snapshot\<close>

lemma create_snapshot_Ok:
  assumes "run_state (controller_CreateSnapshot T c req) (db, w) = (Ok x, db', w')"
  obtains i w0 sp s w1 where "run_state (GetVolumeId c (csr_SourceVolumeId req)) w = (Ok i, w0)"
    "appendCustomTags (deleteReservedParameters (case csr_Parameters req of None \<Rightarrow> [] | Some p \<Rightarrow> p)) snapshotType = Inr sp"
    "run_state (CreateSnapshot c (snapshot_params T req i sp)) w0 = (Ok (Some s), w1)"
    "run_state (WaitForSnapshotAvailable c (snap_SnapshotID s)) w1 = (Ok (), w')"
    "x = \<lparr>csi_SnapshotId = snap_SnapshotID s, csi_SourceVolumeId = snap_SourceVolumeID s,
       csi_CreationTime = snap_CreationTime s, csi_ReadyToUse = True\<rparr>"
proof -
  have b: "run_state (create_snapshot_body T c req) w = (Ok x, w')"
    using assms by (auto simp: controller_CreateSnapshot_def split: if_splits dest: run_with_inflight_Ok)
  then obtain sp where t: "appendCustomTags (deleteReservedParameters (case csr_Parameters req of None \<Rightarrow> [] | Some p \<Rightarrow> p)) snapshotType = Inr sp"
    and "run_state (snapshot_steps T c req sp) w = (Ok x, w')"
    unfolding create_snapshot_body_steps Let_def
    by (cases "containsDriverProvidedParameters (deleteReservedParameters (case csr_Parameters req of None \<Rightarrow> [] | Some p \<Rightarrow> p))";
        cases "appendCustomTags (deleteReservedParameters (case csr_Parameters req of None \<Rightarrow> [] | Some p \<Rightarrow> p)) snapshotType")
      simp_all
  then obtain i w0 s w1 where o: "run_state (GetVolumeId c (csr_SourceVolumeId req)) w = (Ok i, w0)"
    "run_state (CreateSnapshot c (snapshot_params T req i sp)) w0 = (Ok (Some s), w1)"
    "run_state (WaitForSnapshotAvailable c (snap_SnapshotID s)) w1 = (Ok (), w')"
    "x = \<lparr>csi_SnapshotId = snap_SnapshotID s, csi_SourceVolumeId = snap_SourceVolumeID s,
       csi_CreationTime = snap_CreationTime s, csi_ReadyToUse = True\<rparr>"
    unfolding snapshot_steps_def by (auto simp: run_check_Ok run_deref_Ok)
  show thesis by (rule that [OF o(1) t o(2-4)])
qed

lemma cloud_CreateSnapshot_Ok:
  assumes "run_state (cloud_CreateSnapshot k ps) w = (Ok r, w')"
  shows "\<exists>rest input s. StrictRemoveParametersAndPopulateObject (sdk_env k) (CreateSnapshotInput k) ps = (rest, Inr input)
    \<and> run_state (fsx_CreateSnapshot (sdk_fsx k) input) w = (Ok (Some (Some s)), w') \<and> r = Some (to_Snapshot s)"
  using assms by (auto simp: cloud_CreateSnapshot_def run_invoke run_deref
      split: prod.splits sum.splits if_splits res.splits option.splits)

text \<open>
  C16. Against FSx, \<^verbatim>\<open>CreateSnapshot\<close> reports a snapshot as ready only after the service has created it from an
  input whose \<^verbatim>\<open>VolumeId\<close> is the volume that \<^verbatim>\<open>GetVolumeId\<close> resolved the source to (an id of lower case letters,
  digits and dashes, as the service gives them), and has then described it as available.
\<close>

theorem created_snapshot_ready:
  assumes "poll_spec elapse k" and "snapshot_input (CreateSnapshotInput k)"
    and "ps = (case csr_Parameters req of None \<Rightarrow> [] | Some p \<Rightarrow> p)" and "gomap ps"
    and "''noSmithyDocumentSerde'' \<notin> keys ps" and "\<forall>(k, s) \<in> set ps. param_depth s < maxNestingDepth"
    and "run_state (controller_CreateSnapshot T (cloud k) req) (db, w) = (Ok x, db', w')"
  shows "\<exists>i w0 input s w1 w2 s'.
      run_state (cloud_GetVolumeId k (csr_SourceVolumeId req)) w = (Ok i, w0)
      \<and> (aws_id i \<longrightarrow> string_field input ''VolumeId'' = Some i)
      \<and> run_state (fsx_CreateSnapshot (sdk_fsx k) input) w0 = (Ok (Some (Some s)), w1)
      \<and> csi_SnapshotId x = ToString (ss_SnapshotId s) \<and> csi_SourceVolumeId x = ToString (ss_VolumeId s)
      \<and> csi_SnapshotId x \<noteq> [] \<and> csi_ReadyToUse x
      \<and> run_state (fsx_DescribeSnapshots (sdk_fsx k) [csi_SnapshotId x]) w2 = (Ok (Some [s']), w')
      \<and> ss_Lifecycle s' = ''AVAILABLE''"
proof -
  from assms(7) obtain i w0 sp y w1 where i: "run_state (cloud_GetVolumeId k (csr_SourceVolumeId req)) w = (Ok i, w0)"
    and sp: "appendCustomTags (deleteReservedParameters ps) snapshotType = Inr sp"
    and c: "run_state (cloud_CreateSnapshot k (snapshot_params T req i sp)) w0 = (Ok (Some y), w1)"
    and a: "run_state (cloud_WaitForSnapshotAvailable k (snap_SnapshotID y)) w1 = (Ok (), w')"
    and x: "x = \<lparr>csi_SnapshotId = snap_SnapshotID y, csi_SourceVolumeId = snap_SourceVolumeID y,
       csi_CreationTime = snap_CreationTime y, csi_ReadyToUse = True\<rparr>"
    by (rule create_snapshot_Ok) (simp_all add: cloud_sel assms(3))
  from cloud_CreateSnapshot_Ok [OF c] obtain rest input s
    where p: "StrictRemoveParametersAndPopulateObject (sdk_env k) (CreateSnapshotInput k) (snapshot_params T req i sp) = (rest, Inr input)"
      and s: "run_state (fsx_CreateSnapshot (sdk_fsx k) input) w0 = (Ok (Some (Some s)), w1)" "y = to_Snapshot s" by blast
  have v: "aws_id i \<Longrightarrow> string_field input ''VolumeId'' = Some i"
    using snapshot_input_VolumeId [OF p assms(2)] snapshot_params_facts [OF sp assms(4-6), of T req i] by blast
  from a have n: "snap_SnapshotID y \<noteq> []" by (auto simp: cloud_WaitForSnapshotAvailable_def)
  with a have "run_state (sdk_Poll k PollCheckInterval PollCheckTimeout (snapshot_available k (snap_SnapshotID y))) w1 = (Ok (), w')"
    by (simp add: cloud_WaitForSnapshotAvailable_def)
  from poll_Ok [OF assms(1) this] obtain w2 s'
    where "run_state (fsx_DescribeSnapshots (sdk_fsx k) [snap_SnapshotID y]) w2 = (Ok (Some [s']), w')" "ss_Lifecycle s' = ''AVAILABLE''"
    by (auto simp: snapshot_available_True)
  with i s n x v show ?thesis by (fastforce simp: to_Snapshot_def)
qed

definition snapshot_request :: CreateSnapshotRequest where
  "snapshot_request = \<lparr>csr_Name = ''snap'', csr_SourceVolumeId = ''fsvol-2'', csr_Parameters = None\<rparr>"

lemma sample_create_snapshot:
  "\<exists>x db' w'. run_state (controller_CreateSnapshot volume_sdk (cloud volume_sdk) snapshot_request) (NewInFlight, 0) = (Ok x, db', w')"
proof -
  have "is_ok (fst (run_state (controller_CreateSnapshot volume_sdk (cloud volume_sdk) snapshot_request) (NewInFlight, 0)))"
    by code_simp
  then show ?thesis by (metis is_ok.elims(2) prod.collapse)
qed

lemma sample_snapshot_input: "snapshot_input (CreateSnapshotInput volume_sdk)"
proof -
  have w: "wf_type (CreateSnapshotInput volume_sdk)" by code_simp
  have t: "CreateSnapshotInput volume_sdk = GStruct ''fsx'' ''CreateSnapshotInput''
      [(''Name'', True, GPtr str_t), (''VolumeId'', True, GPtr str_t), (''ClientRequestToken'', True, GPtr str_t),
       (''Tags'', True, GSlice sample_Tag)]"
    by (simp add: volume_sdk_def small_sdk_def sample_sdk_def sdk_types.extend_def sample_types_def)
  show ?thesis unfolding snapshot_input_def using t w by (auto simp: exported_def)
qed

lemma sample_volume_id: "fst (run_state (cloud_GetVolumeId volume_sdk ''fsvol-2'') 0) = Ok ''fsvol-2''" "aws_id ''fsvol-2''"
  by code_simp+

theorem created_snapshot_ready_witness:
  "\<exists>x db' w' input s w0 w1. run_state (controller_CreateSnapshot volume_sdk (cloud volume_sdk) snapshot_request) (NewInFlight, 0) = (Ok x, db', w')
     \<and> string_field input ''VolumeId'' = Some ''fsvol-2''
     \<and> run_state (fsx_CreateSnapshot (sdk_fsx volume_sdk) input) w0 = (Ok (Some (Some s)), w1) \<and> csi_SnapshotId x = ToString (ss_SnapshotId s)"
proof -
  obtain x db' w' where r: "run_state (controller_CreateSnapshot volume_sdk (cloud volume_sdk) snapshot_request) (NewInFlight, 0) = (Ok x, db', w')"
    using sample_create_snapshot by blast
  from created_snapshot_ready [OF volume_poll sample_snapshot_input _ _ _ _ r, of "[]"] sample_volume_id r
  show ?thesis by (fastforce simp: snapshot_request_def)
qed

end
