(* ===== verification/FakeCloudSpec.thy ===== *)
theory FakeCloudSpec
  imports FakeCloud ControllerSpec
begin

text \<open>
  The fake cloud keeps its maps consistent, the same name with other parameters is refused, and an
  expansion is what a later description reports.
\<close>

section \<open>Invariant\<close>

lemma find_inj:
  assumes "inj_on f (set xs)" and "e \<in> set xs"
  shows "List.find (\<lambda>x. f x = f e) xs = Some e"
proof (cases "List.find (\<lambda>x. f x = f e) xs")
  case None
  with assms(2) show ?thesis by (auto simp: find_None_iff)
next
  case (Some y)
  from find_SomeD [OF Some] have "y = e" using inj_onD [OF assms(1), of y e] assms(2) by simp
  with Some show ?thesis by simp
qed

lemma find_perm:
  assumes "inj_on f (set m)" and "set m' = set m"
  shows "List.find (\<lambda>x. f x = t) m' = List.find (\<lambda>x. f x = t) m"
proof (cases "\<exists>e \<in> set m. f e = t")
  case True
  then obtain e where "e \<in> set m" "f e = t" by blast
  then show ?thesis using find_inj [of f m e] find_inj [of f m' e] assms by simp
next
  case False
  then have "List.find (\<lambda>x. f x = t) m = None" "List.find (\<lambda>x. f x = t) m' = None"
    unfolding find_None_iff assms(2) by blast+
  then show ?thesis by simp
qed
text \<open>What the loop over a Go map finds does not depend on the order of the iteration.\<close>

definition token_of :: "string \<times> params \<Rightarrow> string" where
  "token_of e = get_param (snd e) ''ClientRequestToken''"

lemma find_token_find: "find_token p m = List.find (\<lambda>e. token_of e = get_param p ''ClientRequestToken'') m"
  by (induction p m rule: find_token.induct) (auto simp: token_of_def)

lemma distinct_token_update:
  assumes "distinct (map token_of m)" and "find_token p m = None"
  shows "distinct (map token_of (AList.update i p m))"
proof -
  have n: "token_of (i, p) \<notin> set (map token_of m)"
  proof -
    have "\<forall>e \<in> set m. token_of e \<noteq> get_param p ''ClientRequestToken''"
      using assms(2) unfolding find_token_find find_None_iff by blast
    moreover have "token_of (i, p) = get_param p ''ClientRequestToken''" by (simp add: token_of_def)
    ultimately show ?thesis by (metis imageE list.set_map)
  qed
  have s: "set (map token_of (AList.update i p m)) \<subseteq> insert (token_of (i, p)) (set (map token_of m))"
    for m :: "(string \<times> params) list"
    by (induction m) auto
  show ?thesis using assms(1) n
  proof (induction m)
    case (Cons e m)
    obtain j q where e: "e = (j, q)" by fastforce
    show ?case
    proof (cases "j = i")
      case True
      with Cons.prems e show ?thesis by simp
    next
      case False
      with Cons e s [of m] show ?thesis by auto
    qed
  qed simp
qed

lemma distinct_token_delete: "distinct (map token_of m) \<Longrightarrow> distinct (map token_of (AList.delete i m))"
  by (simp add: AList.delete_eq distinct_map_filter)

definition fake_inv :: "FakeCloudProvider \<Rightarrow> bool" where
  "fake_inv w \<longleftrightarrow>
     list_all (\<lambda>(i, fs). fs_FileSystemId fs = i) (fake_fileSystems w)
     \<and> keys (fake_fileSystemsParameters w) \<subseteq> keys (fake_fileSystems w)
     \<and> list_all (\<lambda>(i, v). vol_VolumeId v = i) (fake_volumes w)
     \<and> keys (fake_volumesParameters w) \<subseteq> keys (fake_volumes w)
     \<and> list_all (\<lambda>(i, s). snap_SnapshotID s = i) (fake_snapshots w)
     \<and> keys (fake_snapshotsParameters w) \<subseteq> keys (fake_snapshots w)
     \<and> distinct (map token_of (fake_fileSystemsParameters w))
     \<and> distinct (map token_of (fake_volumesParameters w))
     \<and> distinct (map token_of (fake_snapshotsParameters w))"

lemma list_all_update: "list_all P m \<Longrightarrow> P (k, v) \<Longrightarrow> list_all P (AList.update k v m)"
  by (induction m) auto

lemma list_all_delete: "list_all P m \<Longrightarrow> list_all P (AList.delete k m)"
  by (simp add: AList.delete_eq list_all_iff)

lemma resize_first_keeps:
  "resize_first i g m = Some m' \<Longrightarrow> list_all (\<lambda>(i, fs). fs_FileSystemId fs = i) m \<Longrightarrow>
     list_all (\<lambda>(i, fs). fs_FileSystemId fs = i) m' \<and> map fst m' = map fst m"
  by (induction i g m arbitrary: m' rule: resize_first.induct) (auto split: if_splits)

lemmas fake_op_defs = fake_CreateFileSystem_def fake_ResizeFileSystem_def fake_DeleteFileSystem_def
  fake_DescribeFileSystem_def fake_WaitForFileSystemAvailable_def fake_WaitForFileSystemResize_def
  fake_CreateVolume_def fake_DeleteVolume_def fake_DescribeVolume_def fake_WaitForVolumeAvailable_def
  fake_WaitForVolumeResize_def fake_CreateSnapshot_def fake_DeleteSnapshot_def fake_DescribeSnapshot_def
  fake_WaitForSnapshotAvailable_def fake_GetDeleteParameters_def fake_GetVolumeId_def

definition keeps_inv :: "'a fake \<Rightarrow> bool" where
  "keeps_inv m \<longleftrightarrow> (\<forall>w. fake_inv w \<longrightarrow> fake_inv (snd (run_state m w)))"

lemma keeps_inv_ret: "keeps_inv (ret r)"
  by (simp add: keeps_inv_def)

lemma fake_inv_new: "fake_inv (NewFakeCloudProvider r n)"
  by (simp add: fake_inv_def NewFakeCloudProvider_def Let_def)

lemma keeps_inv_CreateFileSystem: "keeps_inv (fake_CreateFileSystem p)"
  by (auto simp: keeps_inv_def fake_CreateFileSystem_def fake_inv_def random_Uint64_def Let_def
      split: option.splits sum.splits intro!: list_all_update distinct_token_update)

lemma keeps_inv_ResizeFileSystem: "keeps_inv (fake_ResizeFileSystem i g)"
  unfolding keeps_inv_def
proof (intro allI impI)
  fix w assume w: "fake_inv w"
  show "fake_inv (snd (run_state (fake_ResizeFileSystem i g) w))"
  proof (cases "resize_first i g (fake_fileSystems w)")
    case None
    with w show ?thesis by (simp add: fake_ResizeFileSystem_def)
  next
    case (Some m)
    have k: "list_all (\<lambda>(i, fs). fs_FileSystemId fs = i) m" "map fst m = map fst (fake_fileSystems w)"
      using resize_first_keeps [OF Some] w by (simp_all add: fake_inv_def)
    have "keys m = keys (fake_fileSystems w)" using arg_cong [OF k(2), of set] by simp
    with Some w k(1) show ?thesis by (simp add: fake_ResizeFileSystem_def fake_inv_def)
  qed
qed

lemma keeps_inv_CreateVolume: "keeps_inv (fake_CreateVolume p)"
  by (auto simp: keeps_inv_def fake_CreateVolume_def fake_inv_def random_Uint64_def Let_def
      split: option.splits intro!: list_all_update distinct_token_update)

lemma keeps_inv_CreateSnapshot: "keeps_inv (fake_CreateSnapshot p)"
  by (auto simp: keeps_inv_def fake_CreateSnapshot_def fake_inv_def random_Uint64_def Let_def
      split: option.splits intro!: list_all_update distinct_token_update)

lemma keeps_inv_deletes:
  "keeps_inv (fake_DeleteFileSystem p)" "keeps_inv (fake_DeleteVolume p)" "keeps_inv (fake_DeleteSnapshot p)"
  by (auto simp: keeps_inv_def fake_DeleteFileSystem_def fake_DeleteVolume_def fake_DeleteSnapshot_def
      fake_inv_def intro!: list_all_delete distinct_token_delete)

lemma keeps_inv_reads:
  "keeps_inv (fake_DescribeFileSystem i)" "keeps_inv (fake_DescribeVolume i)" "keeps_inv (fake_DescribeSnapshot i)"
  by (auto simp: keeps_inv_def fake_DescribeFileSystem_def fake_DescribeVolume_def fake_DescribeSnapshot_def
      split: option.splits)

lemma keeps_inv_GetVolumeId: "keeps_inv (fake_GetVolumeId i)"
  by (auto simp: keeps_inv_def fake_GetVolumeId_def fake_inv_def random_Uint64_def Let_def split: option.splits)

section \<open>Creating twice\<close>

lemma DeepEqual_refl [simp]: "DeepEqual p p"
  by (simp add: DeepEqual_def list_all_iff)

lemma find_token_update: "find_token p m = None \<Longrightarrow> find_token p (AList.update i p m) = Some (i, p)"
  by (induction p m rule: find_token.induct) (auto split: if_splits)

lemma fake_CreateSnapshot_twice:
  "run_state (fake_CreateSnapshot p) w = (Ok r, w') \<Longrightarrow> run_state (fake_CreateSnapshot p) w' = (Ok r, w')"
  by (auto simp: fake_CreateSnapshot_def random_Uint64_def Let_def find_token_update
      split: option.splits if_splits)

lemma fake_GetVolumeId_twice:
  "run_state (fake_GetVolumeId i) w = (Ok r, w') \<Longrightarrow> run_state (fake_GetVolumeId i) w' = (Ok r, w')"
proof (cases "map_of (fake_volumeIds w) i")
  case None
  assume "run_state (fake_GetVolumeId i) w = (Ok r, w')"
  with None have "map_of (fake_volumeIds w') i = Some r"
    by (auto simp: fake_GetVolumeId_def random_Uint64_def Let_def split: if_splits)
  then show ?thesis by (simp add: fake_GetVolumeId_def)
qed (auto simp: fake_GetVolumeId_def)

text \<open>Creating a volume leaves what the rest of the handler reads unchanged.\<close>

lemma fake_CreateVolume_frame:
  "run_state (fake_CreateVolume p) w = (r, w') \<Longrightarrow>
     fake_fileSystems w' = fake_fileSystems w \<and> fake_snapshots w' = fake_snapshots w"
  by (auto simp: fake_CreateVolume_def random_Uint64_def Let_def split: option.splits if_splits)

lemma run_DescribeFileSystem_same:
  "fake_fileSystems w' = fake_fileSystems w \<Longrightarrow>
     run_state (fake_DescribeFileSystem i) w = (r, w1) \<longleftrightarrow> w1 = w \<and> run_state (fake_DescribeFileSystem i) w' = (r, w')"
  by (auto simp: fake_DescribeFileSystem_def split: option.splits prod.splits)

lemma run_DescribeSnapshot_same:
  "fake_snapshots w' = fake_snapshots w \<Longrightarrow>
     run_state (fake_DescribeSnapshot i) w = (r, w1) \<longleftrightarrow> w1 = w \<and> run_state (fake_DescribeSnapshot i) w' = (r, w')"
  by (auto simp: fake_DescribeSnapshot_def split: option.splits prod.splits)

section \<open>Reachable states\<close>

inductive fake_reachable :: "FakeCloudProvider \<Rightarrow> bool" where
  new: "fake_reachable (NewFakeCloudProvider r n)"
| create_filesystem: "fake_reachable w \<Longrightarrow> fake_reachable (snd (run_state (CreateFileSystem fake_cloud p) w))"
| resize_filesystem: "fake_reachable w \<Longrightarrow> fake_reachable (snd (run_state (ResizeFileSystem fake_cloud i g) w))"
| delete_filesystem: "fake_reachable w \<Longrightarrow> fake_reachable (snd (run_state (DeleteFileSystem fake_cloud p) w))"
| describe_filesystem: "fake_reachable w \<Longrightarrow> fake_reachable (snd (run_state (DescribeFileSystem fake_cloud i) w))"
| create_volume: "fake_reachable w \<Longrightarrow> fake_reachable (snd (run_state (CreateVolume fake_cloud p) w))"
| delete_volume: "fake_reachable w \<Longrightarrow> fake_reachable (snd (run_state (DeleteVolume fake_cloud p) w))"
| describe_volume: "fake_reachable w \<Longrightarrow> fake_reachable (snd (run_state (DescribeVolume fake_cloud i) w))"
| create_snapshot: "fake_reachable w \<Longrightarrow> fake_reachable (snd (run_state (CreateSnapshot fake_cloud p) w))"
| delete_snapshot: "fake_reachable w \<Longrightarrow> fake_reachable (snd (run_state (DeleteSnapshot fake_cloud p) w))"
| describe_snapshot: "fake_reachable w \<Longrightarrow> fake_reachable (snd (run_state (DescribeSnapshot fake_cloud i) w))"
| get_volume_id: "fake_reachable w \<Longrightarrow> fake_reachable (snd (run_state (GetVolumeId fake_cloud i) w))"

lemmas keeps_inv_ops = keeps_inv_CreateFileSystem keeps_inv_ResizeFileSystem keeps_inv_deletes keeps_inv_reads
  keeps_inv_CreateVolume keeps_inv_CreateSnapshot keeps_inv_GetVolumeId

lemma fake_cloud_sel [simp]:
  "CreateFileSystem fake_cloud = fake_CreateFileSystem" "ResizeFileSystem fake_cloud = fake_ResizeFileSystem"
  "DeleteFileSystem fake_cloud = fake_DeleteFileSystem" "DescribeFileSystem fake_cloud = fake_DescribeFileSystem"
  "CreateVolume fake_cloud = fake_CreateVolume" "DeleteVolume fake_cloud = fake_DeleteVolume"
  "DescribeVolume fake_cloud = fake_DescribeVolume" "CreateSnapshot fake_cloud = fake_CreateSnapshot"
  "DeleteSnapshot fake_cloud = fake_DeleteSnapshot" "DescribeSnapshot fake_cloud = fake_DescribeSnapshot"
  "GetVolumeId fake_cloud = fake_GetVolumeId"
  by (simp_all add: fake_cloud_def)

lemma fake_reachable_inv: "fake_reachable w \<Longrightarrow> fake_inv w"
  by (induction rule: fake_reachable.induct)
    (simp_all add: fake_inv_new keeps_inv_ops [unfolded keeps_inv_def, rule_format])

text \<open>The lookup loops find the entry of a key that is in the map.\<close>

lemma find_entry:
  assumes "list_all (\<lambda>(i, x). f x = i) m" and "i \<in> keys m"
  shows "\<exists>j x. List.find (\<lambda>(j, x). f x = i) m = Some (j, x) \<and> f x = i"
proof (cases "List.find (\<lambda>(j, x). f x = i) m")
  case None
  with assms show ?thesis by (fastforce simp: find_None_iff list_all_iff)
next
  case (Some e)
  with find_SomeD [OF Some] show ?thesis by (cases e) simp
qed

lemma resize_first_find:
  "resize_first i g m = Some m' \<Longrightarrow>
    \<exists>j fs. List.find (\<lambda>(j, fs). fs_FileSystemId fs = i) m = Some (j, fs)
      \<and> List.find (\<lambda>(j, fs). fs_FileSystemId fs = i) m' = Some (j, fs\<lparr>fs_StorageCapacity := g\<rparr>)"
  by (induction i g m arbitrary: m' rule: resize_first.induct) (auto split: if_splits)

lemma find_token_same:
  "get_param p' ''ClientRequestToken'' = get_param p ''ClientRequestToken'' \<Longrightarrow> find_token p' m = find_token p m"
  by (simp add: find_token_find)

lemma DeepEqual_iff: "DeepEqual a b \<longleftrightarrow> map_of a = map_of b"
proof
  assume d: "DeepEqual a b"
  show "map_of a = map_of b"
  proof
    fix k
    show "map_of a k = map_of b k"
    proof (cases "k \<in> keys a \<union> keys b")
      case True
      with d show ?thesis unfolding DeepEqual_def list_all_iff set_append set_map by blast
    next
      case False
      then have "map_of a k = None" "map_of b k = None" unfolding map_of_eq_None_iff by blast+
      then show ?thesis by simp
    qed
  qed
qed (simp add: DeepEqual_def list_all_iff)

lemma expand_filesystem_stored:
  assumes "run_state (expand_filesystem fake_cloud i g) w = (Ok r, w')"
  shows "\<exists>fs. run_state (fake_DescribeFileSystem i) w' = (Ok (Some fs), w')
    \<and> GiBToBytes (fs_StorageCapacity fs) = expand_CapacityBytes r"
  using assms
proof (rule fake.expand_filesystem_Ok)
  fix fs w1
  assume d: "run_state (DescribeFileSystem fake_cloud i) w = (Ok (Some fs), w1)"
  then have w1: "w1 = w" by (auto simp: fake_DescribeFileSystem_def split: option.splits)
  assume "(sint g \<le> sint (fs_StorageCapacity fs) \<and> w' = w1 \<and> expand_CapacityBytes r = GiBToBytes (fs_StorageCapacity fs))
     \<or> (sint (fs_StorageCapacity fs) < sint g \<and> expand_CapacityBytes r = GiBToBytes g
        \<and> (\<exists>w2. run_state (ResizeFileSystem fake_cloud i g) w1 = (Ok (Some g), w2)
             \<and> run_state (WaitForFileSystemResize fake_cloud i g) w2 = (Ok (), w')))"
  then show ?thesis
  proof
    assume "sint g \<le> sint (fs_StorageCapacity fs) \<and> w' = w1 \<and> expand_CapacityBytes r = GiBToBytes (fs_StorageCapacity fs)"
    with d w1 show ?thesis by simp
  next
    assume "sint (fs_StorageCapacity fs) < sint g \<and> expand_CapacityBytes r = GiBToBytes g
        \<and> (\<exists>w2. run_state (ResizeFileSystem fake_cloud i g) w1 = (Ok (Some g), w2)
             \<and> run_state (WaitForFileSystemResize fake_cloud i g) w2 = (Ok (), w'))"
    then obtain m where "resize_first i g (fake_fileSystems w) = Some m" "w' = w\<lparr>fake_fileSystems := m\<rparr>"
      and r: "expand_CapacityBytes r = GiBToBytes g"
      by (auto simp: w1 fake_ResizeFileSystem_def fake_cloud_def fake_WaitForFileSystemResize_def split: option.splits)
    with resize_first_find [OF this(1)] show ?thesis by (auto simp: fake_DescribeFileSystem_def)
  qed
qed

section \<open>Properties\<close>

text \<open>
  C22. In every state of the fake cloud that its operations can reach, each resource whose
  creation parameters are stored can be described under its id, and the lookup of a request by its
  token has the same outcome for every order in which Go may iterate over the stored parameters of
  file systems, of volumes and of snapshots.
\<close>

theorem fake_maps_consistent:
  assumes "fake_reachable w"
  shows "(i \<in> keys (fake_fileSystemsParameters w) \<longrightarrow>
      (\<exists>fs. run_state (fake_DescribeFileSystem i) w = (Ok (Some fs), w) \<and> fs_FileSystemId fs = i))
    \<and> (i \<in> keys (fake_volumesParameters w) \<longrightarrow>
      (\<exists>v. run_state (fake_DescribeVolume i) w = (Ok (Some v), w) \<and> vol_VolumeId v = i))
    \<and> (i \<in> keys (fake_snapshotsParameters w) \<longrightarrow>
      (\<exists>s. run_state (fake_DescribeSnapshot i) w = (Ok (Some s), w) \<and> snap_SnapshotID s = i))
    \<and> (mset m = mset (fake_fileSystemsParameters w) \<longrightarrow> find_token p m = find_token p (fake_fileSystemsParameters w))
    \<and> (mset m = mset (fake_volumesParameters w) \<longrightarrow> find_token p m = find_token p (fake_volumesParameters w))
    \<and> (mset m = mset (fake_snapshotsParameters w) \<longrightarrow> find_token p m = find_token p (fake_snapshotsParameters w))"
proof -
  have inv: "fake_inv w" using assms by (rule fake_reachable_inv)
  have p: "find_token p m = find_token p m'" if "distinct (map token_of m')" "mset m = mset m'" for m'
    unfolding find_token_find using that by (intro find_perm) (auto simp: distinct_map dest: mset_eq_setD)
  have "\<exists>fs. run_state (fake_DescribeFileSystem i) w = (Ok (Some fs), w) \<and> fs_FileSystemId fs = i"
    if "i \<in> keys (fake_fileSystemsParameters w)"
  proof -
    have "list_all (\<lambda>(i, x). fs_FileSystemId x = i) (fake_fileSystems w)" "i \<in> keys (fake_fileSystems w)"
      using inv that unfolding fake_inv_def by blast+
    from find_entry [OF this] show ?thesis by (auto simp: fake_DescribeFileSystem_def)
  qed
  moreover have "\<exists>v. run_state (fake_DescribeVolume i) w = (Ok (Some v), w) \<and> vol_VolumeId v = i"
    if "i \<in> keys (fake_volumesParameters w)"
  proof -
    have "list_all (\<lambda>(i, x). vol_VolumeId x = i) (fake_volumes w)" "i \<in> keys (fake_volumes w)"
      using inv that unfolding fake_inv_def by blast+
    from find_entry [OF this] show ?thesis by (auto simp: fake_DescribeVolume_def)
  qed
  moreover have "\<exists>s. run_state (fake_DescribeSnapshot i) w = (Ok (Some s), w) \<and> snap_SnapshotID s = i"
    if "i \<in> keys (fake_snapshotsParameters w)"
  proof -
    have "list_all (\<lambda>(i, x). snap_SnapshotID x = i) (fake_snapshots w)" "i \<in> keys (fake_snapshots w)"
      using inv that unfolding fake_inv_def by blast+
    from find_entry [OF this] show ?thesis by (auto simp: fake_DescribeSnapshot_def)
  qed
  moreover have "distinct (map token_of (fake_fileSystemsParameters w))" "distinct (map token_of (fake_volumesParameters w))"
    "distinct (map token_of (fake_snapshotsParameters w))" using inv by (simp_all add: fake_inv_def)
  ultimately show ?thesis using p by blast
qed

text \<open>
  Creating with a token that is in use but with other parameters is refused with
  \<^verbatim>\<open>ErrAlreadyExists\<close> and changes nothing, for file systems, volumes and snapshots.
\<close>

theorem fake_create_conflict:
  assumes "get_param p' ''ClientRequestToken'' = get_param p ''ClientRequestToken''" and "map_of p \<noteq> map_of p'"
  shows "(\<forall>r w'. run_state (fake_CreateFileSystem p) w = (Ok r, w') \<longrightarrow>
        run_state (fake_CreateFileSystem p') w' = (Err ErrAlreadyExists, w'))
    \<and> (\<forall>r w'. run_state (fake_CreateVolume p) w = (Ok r, w') \<longrightarrow>
        run_state (fake_CreateVolume p') w' = (Err ErrAlreadyExists, w'))
    \<and> (\<forall>r w'. run_state (fake_CreateSnapshot p) w = (Ok r, w') \<longrightarrow>
        run_state (fake_CreateSnapshot p') w' = (Err ErrAlreadyExists, w'))"
  using assms find_token_update
  by (intro conjI allI impI)
    (auto simp: fake_CreateFileSystem_def fake_CreateVolume_def fake_CreateSnapshot_def random_Uint64_def Let_def
      find_token_same [OF assms(1)] DeepEqual_iff split: option.splits sum.splits if_splits)

text \<open>
  An expansion through the fake cloud is what a later description reports: the file system's
  capacity is the capacity of the response.
\<close>

theorem fake_expand_stored:
  assumes "run_state (controller_ControllerExpandVolume fake_cloud req) (db, w) = (Ok r, db', w')"
  shows "\<exists>fs. run_state (fake_DescribeFileSystem (cer_VolumeId req)) w' = (Ok (Some fs), w')
    \<and> GiBToBytes (fs_StorageCapacity fs) = expand_CapacityBytes r"
  using assms by (rule expand_Ok) (rule expand_filesystem_stored)

theorem fake_create_conflict_witness:
  "run_state (fake_CreateVolume [(''ClientRequestToken'', ''t''), (''ReadOnly'', ''true'')])
     (snd (run_state (fake_CreateVolume [(''ClientRequestToken'', ''t'')]) sample_fake)) =
   (Err ErrAlreadyExists, snd (run_state (fake_CreateVolume [(''ClientRequestToken'', ''t'')]) sample_fake))"
proof -
  have g: "get_param [(''ClientRequestToken'', ''t''), (''ReadOnly'', ''true'')] ''ClientRequestToken'' =
      get_param [(''ClientRequestToken'', ''t'')] ''ClientRequestToken''" by (simp add: get_param_def)
  have "map_of [(''ClientRequestToken'', ''t'')] ''ReadOnly'' \<noteq>
      map_of [(''ClientRequestToken'', ''t''), (''ReadOnly'', ''true'')] ''ReadOnly''" by simp
  then have m: "map_of [(''ClientRequestToken'', ''t'')] \<noteq> map_of [(''ClientRequestToken'', ''t''), (''ReadOnly'', ''true'')]"
    by metis
  have "\<exists>r. run_state (fake_CreateVolume [(''ClientRequestToken'', ''t'')]) sample_fake =
      (Ok r, snd (run_state (fake_CreateVolume [(''ClientRequestToken'', ''t'')]) sample_fake))"
    by (simp add: fake_CreateVolume_def NewFakeCloudProvider_def random_Uint64_def Let_def)
  with fake_create_conflict [OF g m, of sample_fake] show ?thesis by blast
qed

lemma sample_reachable:
  "fake_reachable (snd (run_state (CreateVolume fake_cloud [(''ClientRequestToken'', ''t'')]) sample_fake))"
  by (intro fake_reachable.intros)

theorem fake_maps_consistent_witness:
  "\<exists>v. run_state (fake_DescribeVolume ''fsvol-7'') (snd (run_state (fake_CreateVolume [(''ClientRequestToken'', ''t'')]) sample_fake)) =
     (Ok (Some v), snd (run_state (fake_CreateVolume [(''ClientRequestToken'', ''t'')]) sample_fake)) \<and> vol_VolumeId v = ''fsvol-7''"
proof -
  have "numbered ''fsvol-'' 7 = ''fsvol-7''" by code_simp
  then have "''fsvol-7'' \<in> keys (fake_volumesParameters (snd (run_state (fake_CreateVolume [(''ClientRequestToken'', ''t'')]) sample_fake)))"
    by (simp add: fake_CreateVolume_def NewFakeCloudProvider_def random_Uint64_def Let_def)
  with fake_maps_consistent [OF sample_reachable, of "''fsvol-7''" "[]" "[]"] show ?thesis by simp
qed

lemma sample_expand_fake:
  "fst (run_state (controller_ControllerExpandVolume fake_cloud
     \<lparr>cer_VolumeId = ''fs-1234'', cer_CapacityRange = Some \<lparr>RequiredBytes = 137438953472, LimitBytes = 0\<rparr>\<rparr>) (NewInFlight, sample_fake)) =
   Ok \<lparr>expand_CapacityBytes = 137438953472, NodeExpansionRequired = False\<rparr>"
  by code_simp

theorem fake_expand_stored_witness:
  "\<exists>fs w'. run_state (fake_DescribeFileSystem ''fs-1234'') w' = (Ok (Some fs), w')
     \<and> GiBToBytes (fs_StorageCapacity fs) = 137438953472"
proof -
  obtain db' w' where r: "run_state (controller_ControllerExpandVolume fake_cloud
     \<lparr>cer_VolumeId = ''fs-1234'', cer_CapacityRange = Some \<lparr>RequiredBytes = 137438953472, LimitBytes = 0\<rparr>\<rparr>) (NewInFlight, sample_fake) =
     (Ok \<lparr>expand_CapacityBytes = 137438953472, NodeExpansionRequired = False\<rparr>, db', w')"
    using sample_expand_fake by (metis prod.collapse)
  from fake_expand_stored [OF r] show ?thesis by auto
qed

end
