(* ===== verification/RetrySpec.thy ===== *)
theory RetrySpec
  imports FakeCloudSpec TagsSpec
begin

text \<open>
  Repeating \<^verbatim>\<open>CreateVolume\<close> against the fake cloud. The retry brings the same parameter map, and Go may
  range over it in another order: the two calls take two lists for one map. The order matters at one
  place, the tags that \<^verbatim>\<open>appendDeleteTags\<close> makes of the delete parameters. When the retry visits those in the same
  order it is answered as before; when it does not, its tags differ and it is refused.
\<close>

section \<open>Parameters in another order\<close>

lemma ValidateDeleteFileSystem_same:
  "same_map ps ps' \<Longrightarrow> ValidateDeleteFileSystemParameters T ps = None \<Longrightarrow> ValidateDeleteFileSystemParameters T ps' = None"
  by (auto simp: ValidateDeleteFileSystemParameters_def split: prod.splits sum.splits dest!: Strict_Inr_same)

lemma ValidateDeleteVolume_same:
  "same_map ps ps' \<Longrightarrow> ValidateDeleteVolumeParameters T ps = None \<Longrightarrow> ValidateDeleteVolumeParameters T ps' = None"
  by (auto simp: ValidateDeleteVolumeParameters_def split: prod.splits sum.splits dest!: Strict_Inr_same)

lemma validate_delete_tags_same:
  assumes s: "same_map d d'" and v: "validate_delete_tags T rt d = None"
  shows "validate_delete_tags T rt d' = None"
proof -
  have h: "has_param d' k = has_param d k" for k using s by (simp add: has_param_def same_map_def)
  show ?thesis
  proof (cases "rt = fsType")
    case True
    let ?u = "AList.update volumeParamsFileSystemId (quote T ''fs-1234567890abc'')"
    from v True obtain q x where c: "CollapseDeleteFileSystemParameters T (?u d) = (q, Inr x)"
      and p: "has_param d volumeParamsSkipFinalBackup" "ValidateDeleteFileSystemParameters T q = None"
      by (auto simp: validate_delete_tags_def split: if_splits prod.splits sum.splits)
    from Replace_Inr_same [OF same_map_update [OF s] c [unfolded CollapseDeleteFileSystemParameters_def]]
    obtain q' where "CollapseDeleteFileSystemParameters T (?u d') = (q', Inr x)" "same_map q q'"
      unfolding CollapseDeleteFileSystemParameters_def by blast
    with True p h show ?thesis by (simp add: validate_delete_tags_def ValidateDeleteFileSystem_same)
  next
    case False
    show ?thesis
    proof (cases "rt = volType")
      case True
      let ?u = "AList.update volumeParamsVolumeId (quote T ''fsvol-1234567890abcdefghijm'')"
      from v True False obtain q x where c: "CollapseDeleteVolumeParameters T (?u d) = (q, Inr x)"
        and p: "ValidateDeleteVolumeParameters T q = None"
        by (auto simp: validate_delete_tags_def split: if_splits prod.splits sum.splits)
      from Replace_Inr_same [OF same_map_update [OF s] c [unfolded CollapseDeleteVolumeParameters_def]]
      obtain q' where "CollapseDeleteVolumeParameters T (?u d') = (q', Inr x)" "same_map q q'"
        unfolding CollapseDeleteVolumeParameters_def by blast
      with True False p h show ?thesis by (simp add: validate_delete_tags_def ValidateDeleteVolume_same)
    qed (simp add: validate_delete_tags_def False)
  qed
qed

lemma appendDeleteTags_iff:
  "appendDeleteTags T ps rt = Inr q \<longleftrightarrow>
     (\<exists>tags. ConvertJsonStringToObject (get_param ps ''Tags'') tags_type VNil = Inr tags
        \<and> validate_delete_tags T rt (fold (\<lambda>(k, v). AList.update (TrimSuffix k deletionSuffix) v) (delete_params ps) []) = None
        \<and> q = AList.update ''Tags''
            (Marshal (fold (\<lambda>(k, v) tags. append_tag tags (tag_value k (deletion_tag_value v))) (delete_params ps) tags))
            (filter (\<lambda>(k, v). \<not> HasSuffix k deletionSuffix) ps))"
  by (auto simp: appendDeleteTags_def ConvertObjectToJsonString_def delete_tags_loop_fold kept_params
      split: sum.splits option.splits)

lemma appendDeleteTags_same:
  assumes "same_map ps ps'" and "delete_params ps' = delete_params ps" and "appendDeleteTags T ps rt = Inr q"
  shows "\<exists>q'. appendDeleteTags T ps' rt = Inr q' \<and> same_map q q'"
proof -
  have "same_map (filter (\<lambda>(k, v). \<not> HasSuffix k deletionSuffix) ps) (filter (\<lambda>(k, v). \<not> HasSuffix k deletionSuffix) ps')"
    using assms(1) by (rule same_map_filter)
  with assms(3) show ?thesis
    unfolding appendDeleteTags_iff assms(2) same_map_get [OF assms(1)] by blast
qed

lemma appendCustomTags_same:
  assumes "same_map ps ps'" and "appendCustomTags ps rt = Inr q"
  shows "\<exists>q'. appendCustomTags ps' rt = Inr q' \<and> same_map q q'"
  using assms by (auto simp: appendCustomTags_def ConvertObjectToJsonString_def same_map_get split: sum.splits)

lemma containsDriverProvidedParameters_same:
  "same_map ps ps' \<Longrightarrow> containsDriverProvidedParameters ps' = containsDriverProvidedParameters ps"
proof -
  assume s: "same_map ps ps'"
  then have "has_param ps' = has_param ps" by (simp add: fun_eq_iff has_param_def same_map_def)
  with same_map_get [OF s] show ?thesis by (simp add: containsDriverProvidedParameters_def)
qed

lemma delete_params_update: "\<not> HasSuffix k deletionSuffix \<Longrightarrow> delete_params (AList.update k v ps) = delete_params ps"
  by (induction ps) (auto simp: delete_params_def)

lemma delete_params_delete: "\<not> HasSuffix k deletionSuffix \<Longrightarrow> delete_params (AList.delete k ps) = delete_params ps"
  by (induction ps) (auto simp: delete_params_def)

lemma delete_params_reserved:
  "delete_params (deleteReservedParameters ps) =
     filter (\<lambda>(k, v). \<not> HasPrefix k reservedVolumeParamsPrefix) (delete_params ps)"
  by (simp add: delete_params_def deleteReservedParameters_def conj_commute case_prod_unfold)

text \<open>The parameters of a request as \<^verbatim>\<open>appendDeleteTags\<close> gets them.\<close>

definition tagged_params :: "'z sdk_types_scheme \<Rightarrow> string \<Rightarrow> params \<Rightarrow> params" where
  "tagged_params T name ps =
     AList.update ''ClientRequestToken'' (quote T name) (AList.delete ''ResourceType'' (deleteReservedParameters ps))"

lemma tagged_params_same: "same_map ps ps' \<Longrightarrow> same_map (tagged_params T name ps) (tagged_params T name ps')"
  unfolding tagged_params_def deleteReservedParameters_def by (intro same_map_update same_map_delete same_map_filter)

lemma delete_params_tagged:
  "delete_params (tagged_params T name ps) = filter (\<lambda>(k, v). \<not> HasPrefix k reservedVolumeParamsPrefix) (delete_params ps)"
proof -
  have "\<not> HasSuffix ''ClientRequestToken'' deletionSuffix" "\<not> HasSuffix ''ResourceType'' deletionSuffix" by code_simp+
  then show ?thesis by (simp add: tagged_params_def delete_params_update delete_params_delete delete_params_reserved)
qed

lemma create_volume_params_iff:
  "create_volume_params T name ps = Inr (rt, r) \<longleftrightarrow>
     rt = get_param (deleteReservedParameters ps) ''ResourceType'' \<and> (rt = fsType \<or> rt = volType)
     \<and> containsDriverProvidedParameters (AList.delete ''ResourceType'' (deleteReservedParameters ps)) = None
     \<and> (\<exists>q. appendDeleteTags T (tagged_params T name ps) rt = Inr q \<and> appendCustomTags q rt = Inr r)"
proof -
  define x where "x = get_param (deleteReservedParameters ps) ''ResourceType''"
  have e: "create_volume_params T name ps =
      (if x \<noteq> fsType \<and> x \<noteq> volType
       then (if x = [] then Inl (status_Error InvalidArgument ErrResourceTypeNotProvided)
             else Inl (StatusErr InvalidArgument ErrResourceTypeNotSupported [AStr x]))
       else case containsDriverProvidedParameters (AList.delete ''ResourceType'' (deleteReservedParameters ps)) of
         Some err \<Rightarrow> Inl (status_ErrorOf InvalidArgument err)
       | None \<Rightarrow> (case appendDeleteTags T (tagged_params T name ps) x of
           Inl err \<Rightarrow> Inl (StatusErr InvalidArgument ErrIncorrectlyFormatted [AStr ''Delete Parameters'', AErr err])
         | Inr q \<Rightarrow> (case appendCustomTags q x of Inl err \<Rightarrow> Inl (status_ErrorOf Internal err) | Inr r \<Rightarrow> Inr (x, r))))"
    unfolding create_volume_params_def tagged_params_def Let_def x_def ..
  have g: "(if x \<noteq> fsType \<and> x \<noteq> volType then (if x = [] then Inl e1 else Inl e2)
      else case c of Some err \<Rightarrow> Inl (f err)
       | None \<Rightarrow> (case a of Inl err \<Rightarrow> Inl (h err)
         | Inr q \<Rightarrow> (case b q of Inl err \<Rightarrow> Inl (k err) | Inr r \<Rightarrow> Inr (x, r)))) = Inr (rt, r) \<longleftrightarrow>
     rt = x \<and> (x = fsType \<or> x = volType) \<and> c = None \<and> (\<exists>q. a = Inr q \<and> b q = Inr r)"
    for e1 e2 and c :: "goerr option" and a :: "goerr + params" and b :: "params \<Rightarrow> goerr + params" and f h k
    by (cases c; cases a) (auto split: sum.splits)
  show ?thesis
    unfolding e g x_def [symmetric] by (cases "rt = x") simp_all
qed

lemma create_volume_params_same:
  assumes "same_map ps ps'" and "delete_params ps' = delete_params ps" and "create_volume_params T name ps = Inr (rt, r)"
  shows "\<exists>r'. create_volume_params T name ps' = Inr (rt, r') \<and> same_map r r'"
proof -
  have s: "same_map (deleteReservedParameters ps) (deleteReservedParameters ps')"
    unfolding deleteReservedParameters_def using assms(1) by (rule same_map_filter)
  from assms(3) obtain q where q: "appendDeleteTags T (tagged_params T name ps) rt = Inr q" "appendCustomTags q rt = Inr r"
    by (auto simp: create_volume_params_iff)
  have "delete_params (tagged_params T name ps') = delete_params (tagged_params T name ps)"
    by (simp add: delete_params_tagged assms(2))
  from appendDeleteTags_same [OF tagged_params_same [OF assms(1)] this q(1)] obtain q'
    where q': "appendDeleteTags T (tagged_params T name ps') rt = Inr q'" "same_map q q'" by blast
  from appendCustomTags_same [OF q'(2) q(2)] q' assms(3) show ?thesis
    by (auto simp: create_volume_params_iff same_map_get [OF s] containsDriverProvidedParameters_same [OF same_map_delete [OF s]])
qed

section \<open>The fake cloud in another order\<close>

lemma filesystem_params_same:
  assumes "same_map ps ps'" and "filesystem_params T req g ps = Inr q"
  shows "\<exists>q'. filesystem_params T req g ps' = Inr q' \<and> same_map q q'"
proof -
  let ?u = "AList.update ''FileSystemType'' (quote T ''OPENZFS'')"
  define tier where "tier = (get_param (?u ps) ''StorageType'' = quote T ''INTELLIGENT_TIERING'')"
  have tier': "(get_param (?u ps') ''StorageType'' = quote T ''INTELLIGENT_TIERING'') = tier"
    by (simp add: tier_def same_map_get [OF assms(1)])
  let ?c = "\<lambda>ps. if tier then ?u ps else AList.update ''StorageCapacity'' (Itoa (sint g)) (?u ps)"
  have s: "same_map (?c ps) (?c ps')" using assms(1) by (simp add: same_map_update)
  have n: "cvr_VolumeContentSource req = None" "\<not> (tier \<and> g \<noteq> 1)"
    using assms(2) by (auto simp: filesystem_params_def Let_def tier_def split: if_splits)
  have f: "filesystem_params T req g qs = (case CollapseCreateFileSystemParameters T (?c qs) of
        (_, Inl err) \<Rightarrow> Inl (StatusErr InvalidArgument ErrIncorrectlyFormatted [AStr ''OpenZFSConfiguration'', AErr err])
      | (ps', Inr _) \<Rightarrow> Inr ps')"
    if "(get_param (?u qs) ''StorageType'' = quote T ''INTELLIGENT_TIERING'') = tier" for qs
    unfolding filesystem_params_def Let_def that using n by (simp only: simp_thms if_False)
  from assms(2) obtain v where "CollapseCreateFileSystemParameters T (?c ps) = (q, Inr v)"
    unfolding f [OF tier_def [symmetric]] by (auto split: prod.splits sum.splits)
  from Replace_Inr_same [OF s this [unfolded CollapseCreateFileSystemParameters_def]] show ?thesis
    unfolding f [OF tier'] CollapseCreateFileSystemParameters_def by auto
qed

lemma volume_params_same:
  assumes "same_map ps ps'" and "volume_params T req ps = Inr q"
  shows "\<exists>q'. volume_params T req ps' = Inr q' \<and> same_map q q'"
proof -
  let ?c = "\<lambda>ps. AList.update ''VolumeType'' (quote T ''OPENZFS'') (AList.update ''Name'' (quote T (cvr_Name req)) ps)"
  have s: "same_map (?c ps) (?c ps')" using assms(1) by (simp add: same_map_update)
  from assms(2) obtain v where "CollapseCreateVolumeParameters T (?c ps) = (q, Inr v)"
    unfolding volume_params_def by (auto split: prod.splits sum.splits)
  from Replace_Inr_same [OF s this [unfolded CollapseCreateVolumeParameters_def]] show ?thesis
    unfolding volume_params_def CollapseCreateVolumeParameters_def by auto
qed

lemma appendSnapshotARN_again:
  assumes "fake_snapshots w' = fake_snapshots w" and "same_map ps ps'"
    and "run_state (appendSnapshotARN fake_cloud ps i) w = (Ok r, w1)"
  shows "w1 = w \<and> (\<exists>r'. run_state (appendSnapshotARN fake_cloud ps' i) w' = (Ok r', w') \<and> same_map r r')"
proof -
  obtain x w2 where x: "run_state (fake_DescribeSnapshot i) w = (x, w2)" by fastforce
  with run_DescribeSnapshot_same [OF assms(1), of i x w2]
  have w2: "w2 = w" "run_state (fake_DescribeSnapshot i) w' = (x, w')" by simp_all
  obtain m where m: "ConvertJsonStringToObject (get_param ps ''OriginSnapshot'') (GMap (GString ''string'')) (VMap []) = Inr m"
    using assms(3) by (auto simp: appendSnapshotARN_def split: sum.splits)
  from assms(2) have s: "same_map (AList.update k v ps) (AList.update k v ps')" for k v by (rule same_map_update)
  show ?thesis
    using x w2 assms(3) m s
    by (cases x; cases m)
      (auto simp: appendSnapshotARN_def same_map_get [OF assms(2)] ConvertObjectToJsonString_def run_go
        split: option.splits)
qed

lemma content_source_params_again:
  assumes "fake_snapshots w' = fake_snapshots w" and "same_map ps ps'"
    and "run_state (content_source_params fake_cloud req ps) w = (Ok (q, src), w1)"
  shows "w1 = w \<and> (\<exists>q'. run_state (content_source_params fake_cloud req ps') w' = (Ok (q', src), w') \<and> same_map q q')"
proof (cases "cvr_VolumeContentSource req")
  case None
  with assms show ?thesis by (simp add: content_source_params_def)
next
  case (Some cs)
  with assms(3) obtain i where cs: "cs = Some (Source_Snapshot (Some i))"
    by (auto simp: content_source_params_def split: option.splits content_source.splits)
  with Some assms(3) have a: "run_state (appendSnapshotARN fake_cloud ps i) w = (Ok q, w1)" and src: "src = Some cs"
    by (auto simp: content_source_params_def run_check_Ok)
  from appendSnapshotARN_again [OF assms(1,2) a] Some cs src show ?thesis
    by (auto simp: content_source_params_def run_check_Ok)
qed

lemma fake_CreateFileSystem_again:
  assumes "same_map p p'" and "run_state (fake_CreateFileSystem p) w = (Ok r, w')"
  shows "run_state (fake_CreateFileSystem p') w' = (Ok r, w')"
proof -
  have m: "map_of p' = map_of p" using assms(1) by (simp add: same_map_def)
  have t: "find_token p' m = find_token p m" for m by (rule find_token_same) (rule same_map_get [OF assms(1)])
  show ?thesis using assms(2)
    by (auto simp: fake_CreateFileSystem_def random_Uint64_def Let_def find_token_update t DeepEqual_iff m
        split: option.splits sum.splits if_splits)
qed

lemma fake_CreateVolume_again:
  assumes "same_map p p'" and "run_state (fake_CreateVolume p) w = (Ok r, w')"
  shows "run_state (fake_CreateVolume p') w' = (Ok r, w')"
proof -
  have m: "map_of p' = map_of p" using assms(1) by (simp add: same_map_def)
  have t: "find_token p' m = find_token p m" for m by (rule find_token_same) (rule same_map_get [OF assms(1)])
  show ?thesis using assms(2)
    by (auto simp: fake_CreateVolume_def random_Uint64_def Let_def find_token_update t DeepEqual_iff m
        split: option.splits if_splits)
qed

lemma create_filesystem_again:
  assumes "same_map ps ps'" and "run_state (create_filesystem T fake_cloud req g ps) w = (Ok v, w')"
  shows "run_state (create_filesystem T fake_cloud req g ps') w' = (Ok v, w')"
proof -
  have r: "WaitForFileSystemAvailable fake_cloud = (\<lambda>i. ret (Ok ()))"
    by (simp add: fake_cloud_def fake_WaitForFileSystemAvailable_def fun_eq_iff)
  from assms(2) obtain q fs where p: "filesystem_params T req g ps = Inr q"
    and c: "run_state (fake_CreateFileSystem q) w = (Ok (Some fs), w')"
    and v: "v = \<lparr>CapacityBytes = GiBToBytes (fs_StorageCapacity fs), csi_VolumeId = fs_FileSystemId fs,
              VolumeContext = [(''DNSName'', fs_DnsName fs), (''ResourceType'', fsType)], ContentSource = None\<rparr>"
    unfolding create_filesystem_Ok r by auto
  from filesystem_params_same [OF assms(1) p] obtain q' where q: "filesystem_params T req g ps' = Inr q'" "same_map q q'" by blast
  from fake_CreateFileSystem_again [OF q(2) c] q(1) v show ?thesis
    unfolding create_filesystem_Ok r by auto
qed

lemma create_openzfs_volume_again:
  assumes "same_map ps ps'" and "run_state (create_openzfs_volume T fake_cloud req g ps) w = (Ok x, w')"
  shows "run_state (create_openzfs_volume T fake_cloud req g ps') w' = (Ok x, w')"
proof -
  have r: "WaitForVolumeAvailable fake_cloud = (\<lambda>i. ret (Ok ()))"
    by (simp add: fake_cloud_def fake_WaitForVolumeAvailable_def fun_eq_iff)
  from assms(2) obtain ps1 src w1 ps2 v w2 fs where g: "g = 1"
    and s: "run_state (content_source_params fake_cloud req ps) w = (Ok (ps1, src), w1)"
    and p: "volume_params T req ps1 = Inr ps2"
    and c: "run_state (fake_CreateVolume ps2) w1 = (Ok (Some v), w2)"
    and d: "run_state (fake_DescribeFileSystem (vol_FileSystemId v)) w2 = (Ok (Some fs), w')"
    and x: "x = \<lparr>CapacityBytes = GiBToBytes 1, csi_VolumeId = vol_VolumeId v,
      VolumeContext = [(''DNSName'', fs_DnsName fs), (''ResourceType'', volType), (''VolumePath'', vol_VolumePath v)],
      ContentSource = src\<rparr>"
    unfolding create_openzfs_volume_Ok r by auto
  have w': "w' = w2" using run_DescribeFileSystem_same [OF refl, THEN iffD1, OF d] by (rule conjunct1)
  have "w1 = w" using content_source_params_again [OF refl assms(1) s] by simp
  then have "fake_snapshots w' = fake_snapshots w" using fake_CreateVolume_frame [OF c] w' by simp
  from content_source_params_again [OF this assms(1) s] obtain q1
    where q1: "run_state (content_source_params fake_cloud req ps') w' = (Ok (q1, src), w')" "same_map ps1 q1" by blast
  from volume_params_same [OF q1(2) p] obtain q2 where q2: "volume_params T req q1 = Inr q2" "same_map ps2 q2" by blast
  have "run_state (fake_CreateVolume q2) w' = (Ok (Some v), w')"
    using fake_CreateVolume_again [OF q2(2) c] w' by simp
  with q1(1) q2(1) g d w' x show ?thesis unfolding create_openzfs_volume_Ok r
    by (intro conjI exI) simp_all
qed

lemma create_volume_body_parameters:
  "create_filesystem T c (req\<lparr>cvr_Parameters := p\<rparr>) = create_filesystem T c req"
  "create_openzfs_volume T c (req\<lparr>cvr_Parameters := p\<rparr>) = create_openzfs_volume T c req"
proof -
  have sel: "cvr_Name (req\<lparr>cvr_Parameters := p\<rparr>) = cvr_Name req"
    "cvr_VolumeContentSource (req\<lparr>cvr_Parameters := p\<rparr>) = cvr_VolumeContentSource req" by simp_all
  show "create_filesystem T c (req\<lparr>cvr_Parameters := p\<rparr>) = create_filesystem T c req"
    by (intro ext) (simp only: create_filesystem_def sel)
  show "create_openzfs_volume T c (req\<lparr>cvr_Parameters := p\<rparr>) = create_openzfs_volume T c req"
    by (intro ext) (simp only: create_openzfs_volume_def content_source_params_def sel)
qed

lemma create_volume_body_Ok:
  "run_state (create_volume_body T c req) w = (Ok v, w') \<longleftrightarrow>
     cvr_VolumeCapabilities req \<noteq> [] \<and> isValidVolumeCapabilities (cvr_VolumeCapabilities req)
     \<and> (\<exists>g rt r. requested_capacity (cvr_CapacityRange req) = Inr g
          \<and> create_volume_params T (cvr_Name req) (case cvr_Parameters req of None \<Rightarrow> [] | Some p \<Rightarrow> p) = Inr (rt, r)
          \<and> (if rt = fsType then run_state (create_filesystem T c req g r) w = (Ok v, w')
             else rt = volType \<and> run_state (create_openzfs_volume T c req g r) w = (Ok v, w')))"
  by (cases "requested_capacity (cvr_CapacityRange req)";
      cases "create_volume_params T (cvr_Name req) (case cvr_Parameters req of None \<Rightarrow> [] | Some p \<Rightarrow> p)")
    (auto simp: create_volume_body_def split: if_splits)

lemma create_volume_body_again:
  assumes "same_map ps ps'" and "delete_params ps' = delete_params ps" and "cvr_Parameters req = Some ps"
    and "run_state (create_volume_body T fake_cloud req) w = (Ok x, w')"
  shows "run_state (create_volume_body T fake_cloud (req\<lparr>cvr_Parameters := Some ps'\<rparr>)) w' = (Ok x, w')"
proof -
  from assms(4) obtain g rt r where b: "cvr_VolumeCapabilities req \<noteq> []" "isValidVolumeCapabilities (cvr_VolumeCapabilities req)"
    "requested_capacity (cvr_CapacityRange req) = Inr g"
    and p: "create_volume_params T (cvr_Name req) ps = Inr (rt, r)"
    and c: "if rt = fsType then run_state (create_filesystem T fake_cloud req g r) w = (Ok x, w')
       else rt = volType \<and> run_state (create_openzfs_volume T fake_cloud req g r) w = (Ok x, w')"
    unfolding create_volume_body_Ok assms(3) by auto
  from create_volume_params_same [OF assms(1,2) p] obtain r'
    where r': "create_volume_params T (cvr_Name req) ps' = Inr (rt, r')" "same_map r r'" by blast
  have "if rt = fsType then run_state (create_filesystem T fake_cloud req g r') w' = (Ok x, w')
       else rt = volType \<and> run_state (create_openzfs_volume T fake_cloud req g r') w' = (Ok x, w')"
    using c create_filesystem_again [OF r'(2)] create_openzfs_volume_again [OF r'(2)] by (cases "rt = fsType") auto
  with b r'(1) show ?thesis unfolding create_volume_body_Ok
    by (auto simp: create_volume_body_parameters)
qed

section \<open>A second request\<close>

lemma guarded_then:
  assumes "table_ok db" and "run_state (with_inflight k busy body) (db, w) = (Ok x, db', w')"
  shows "db' = db \<and> run_state body w = (Ok x, w')
    \<and> run_state (with_inflight k busy body') (db', w') = (fst (run_state body' w'), db', snd (run_state body' w'))"
proof -
  have k: "k \<notin> in_flight_keys db"
    using run_with_inflight_busy [OF assms(1), of k busy body w] assms(2) by auto
  have "db' = db"
    using run_with_inflight_free [OF assms(1) k, THEN iffD1, OF assms(2)] Delete_Insert [OF k] by simp
  then show ?thesis
    using run_with_inflight_Ok [OF assms(2)] run_with_inflight_free [OF assms(1) k, of busy body' w'] Delete_Insert [OF k] by simp
qed

lemma create_volume_then:
  assumes "table_ok db" and "run_state (controller_CreateVolume T c req) (db, w) = (Ok v, db', w')"
    and "cvr_Name req' = cvr_Name req"
  shows "db' = db \<and> run_state (create_volume_body T c req) w = (Ok v, w')
    \<and> run_state (controller_CreateVolume T c req') (db', w') =
        (fst (run_state (create_volume_body T c req') w'), db', snd (run_state (create_volume_body T c req') w'))"
proof -
  have n: "cvr_Name req \<noteq> []" using assms(2) by (auto simp: controller_CreateVolume_def Let_def)
  let ?busy = "StatusErr Aborted (''CreateVolume: '' @ VolumeOperationAlreadyExistsErrorMsg) [AStr (cvr_Name req)]"
  have e: "controller_CreateVolume T c r = with_inflight (cvr_Name req) ?busy (create_volume_body T c r)"
    if "cvr_Name r = cvr_Name req" for r
    unfolding controller_CreateVolume_def Let_def that using n by (simp only: if_False)
  show ?thesis
    using guarded_then [OF assms(1), of "cvr_Name req" ?busy "create_volume_body T c req" w v db' w' "create_volume_body T c req'"]
      assms(2) unfolding e [OF refl] e [OF assms(3)] by blast
qed

lemma delete_params_perm: "mset ps' = mset ps \<Longrightarrow> mset (delete_params ps') = mset (delete_params ps)"
  by (simp add: delete_params_def)

lemma single_perm: "length xs \<le> 1 \<Longrightarrow> mset ys = mset xs \<Longrightarrow> ys = xs"
  by (cases xs) auto

section \<open>The tags of another order\<close>

lemma tags_of_params:
  assumes "create_volume_params T name ps = Inr (rt, r)" and "gomap ps"
    and "list_all (\<lambda>(k, v). valid_utf8 k \<and> valid_utf8 v) (delete_params ps)"
  shows "\<exists>tags0 tags. ConvertJsonStringToObject (get_param (tagged_params T name ps) ''Tags'') tags_type VNil = Inr tags0
    \<and> ConvertJsonStringToObject (get_param r ''Tags'') tags_type VNil = Inr tags
    \<and> slice_elems tags = slice_elems tags0
        @ map (\<lambda>(k, v). tag_value k (deletion_tag_value v)) (delete_params (tagged_params T name ps))
        @ [tag_value AwsFsxOpenZfsDriverTagKey ''true'']
    \<and> (\<forall>k. k \<noteq> ''Tags'' \<longrightarrow> map_of r k = (if HasSuffix k deletionSuffix then None else map_of (tagged_params T name ps) k))"
proof -
  let ?ps = "tagged_params T name ps"
  from assms(1) obtain q where q: "appendDeleteTags T ?ps rt = Inr q" "appendCustomTags q rt = Inr r"
    by (auto simp: create_volume_params_iff)
  have g: "gomap ?ps" using assms(2) by (simp add: tagged_params_def)
  have u: "list_all (\<lambda>(k, v). valid_utf8 k \<and> valid_utf8 v) (delete_params ?ps)"
    using assms(3) by (auto simp: delete_params_tagged list_all_iff)
  from appendDeleteTags_Inr [OF q(1) g u] obtain tags tags'
    where t: "ConvertJsonStringToObject (get_param ?ps ''Tags'') tags_type VNil = Inr tags"
      "ConvertJsonStringToObject (get_param q ''Tags'') tags_type VNil = Inr tags'"
      "slice_elems tags' = slice_elems tags @ map (\<lambda>(k, v). tag_value k (deletion_tag_value v)) (delete_params ?ps)"
      "q = AList.update ''Tags'' (Marshal tags') (filter (\<lambda>(k, v). \<not> HasSuffix k deletionSuffix) ?ps)" by blast
  from appendCustomTags_Inr [OF q(2)] t(2) have
    "ConvertJsonStringToObject (get_param r ''Tags'') tags_type VNil =
       Inr (VSlice (slice_elems tags' @ [tag_value AwsFsxOpenZfsDriverTagKey ''true'']))"
    and "\<forall>k. k \<noteq> ''Tags'' \<longrightarrow> map_of r k = map_of q k" by auto
  with t show ?thesis by (auto simp: map_of_filter_keys)
qed

lemma same_map_keys_eq:
  "gomap a \<Longrightarrow> set a = set b \<Longrightarrow> map fst a = map fst b \<Longrightarrow> a = b"
proof (intro nth_equalityI)
  assume g: "gomap a" and s: "set a = set b" and k: "map fst a = map fst b"
  from k show l: "length a = length b" by (metis length_map)
  fix i assume i: "i < length a"
  have "fst (b ! i) = fst (a ! i)" using k i l by (metis nth_map)
  moreover have "a ! i \<in> set a" "b ! i \<in> set a" using i l s nth_mem [of i a] nth_mem [of i b] by simp_all
  ultimately show "a ! i = b ! i" using g by (metis eq_key_imp_eq_value prod.collapse)
qed

lemma tags_differ:
  assumes "create_volume_params T name ps = Inr (rt, r)" and "create_volume_params T name ps' = Inr (rt', r')"
    and "gomap ps" and "mset ps' = mset ps"
    and "list_all (\<lambda>(k, v). valid_utf8 k \<and> valid_utf8 v) (delete_params ps)"
    and "delete_params (deleteReservedParameters ps') \<noteq> delete_params (deleteReservedParameters ps)"
  shows "get_param r' ''Tags'' \<noteq> get_param r ''Tags'' \<and> (\<forall>k. k \<noteq> ''Tags'' \<longrightarrow> map_of r' k = map_of r k)"
proof -
  let ?t = "tagged_params T name"
  have s: "same_map ps ps'" using assms(3,4) by (rule same_map_perm)
  then have g: "gomap ps'" by (simp add: same_map_def)
  have u: "list_all (\<lambda>(k, v). valid_utf8 k \<and> valid_utf8 v) (delete_params ps')"
    using assms(5) same_map_set [OF s] unfolding list_all_iff delete_params_def by auto
  note st = tagged_params_same [OF s, of T name]
  from tags_of_params [OF assms(1,3,5)] obtain t0 t where t:
    "ConvertJsonStringToObject (get_param (?t ps) ''Tags'') tags_type VNil = Inr t0"
    "ConvertJsonStringToObject (get_param r ''Tags'') tags_type VNil = Inr t"
    "slice_elems t = slice_elems t0 @ map (\<lambda>(k, v). tag_value k (deletion_tag_value v)) (delete_params (?t ps))
        @ [tag_value AwsFsxOpenZfsDriverTagKey ''true'']"
    "\<forall>k. k \<noteq> ''Tags'' \<longrightarrow> map_of r k = (if HasSuffix k deletionSuffix then None else map_of (?t ps) k)" by blast
  from tags_of_params [OF assms(2) g u] obtain t0' t' where t':
    "ConvertJsonStringToObject (get_param (?t ps') ''Tags'') tags_type VNil = Inr t0'"
    "ConvertJsonStringToObject (get_param r' ''Tags'') tags_type VNil = Inr t'"
    "slice_elems t' = slice_elems t0' @ map (\<lambda>(k, v). tag_value k (deletion_tag_value v)) (delete_params (?t ps'))
        @ [tag_value AwsFsxOpenZfsDriverTagKey ''true'']"
    "\<forall>k. k \<noteq> ''Tags'' \<longrightarrow> map_of r' k = (if HasSuffix k deletionSuffix then None else map_of (?t ps') k)" by blast
  have "get_param r' ''Tags'' \<noteq> get_param r ''Tags''"
  proof
    assume e: "get_param r' ''Tags'' = get_param r ''Tags''"
    let ?f = "\<lambda>(k, v). tag_value k (deletion_tag_value v)"
    have "t0' = t0" "t' = t" using t(1,2) t'(1,2) e same_map_get [OF st] by simp_all
    with t(3) t'(3) have "map ?f (delete_params (?t ps')) = map ?f (delete_params (?t ps))" by simp
    then have "map (\<lambda>x. tag_Key (tag_of_value x)) (map ?f (delete_params (?t ps'))) =
        map (\<lambda>x. tag_Key (tag_of_value x)) (map ?f (delete_params (?t ps)))" by simp
    then have "map (Some \<circ> fst) (delete_params (?t ps')) = map (Some \<circ> fst) (delete_params (?t ps))"
      by (simp add: comp_def case_prod_unfold)
    then have k: "map fst (delete_params (?t ps')) = map fst (delete_params (?t ps))"
      by (metis inj_Some inj_map_eq_map map_map)
    have "gomap (delete_params (?t ps'))" "set (delete_params (?t ps')) = set (delete_params (?t ps))"
      using st same_map_set [OF st] by (simp_all add: same_map_def delete_params_def)
    from same_map_keys_eq [OF this k] assms(6) show False by (simp add: delete_params_tagged delete_params_reserved)
  qed
  moreover have "map_of (?t ps') = map_of (?t ps)" using st by (simp add: same_map_def)
  ultimately show ?thesis using t(4) t'(4) by simp
qed

lemma filesystem_params_map_of:
  assumes "filesystem_params T req g ps = Inr q" and "k \<notin> {''FileSystemType'', ''StorageCapacity'', ''OpenZFSConfiguration''}"
  shows "map_of q k = (if k \<in> set (field_names (CreateFileSystemOpenZFSConfiguration T)) then None else map_of ps k)"
  using assms
  by (auto simp: filesystem_params_def Let_def CollapseCreateFileSystemParameters_def map_of_delete_fields
      split: if_splits prod.splits sum.splits dest!: Replace_Inr)

lemma volume_params_map_of:
  assumes "volume_params T req ps = Inr q" and "k \<notin> {''VolumeType'', ''Name'', ''OpenZFSConfiguration''}"
  shows "map_of q k = (if k \<in> set (field_names (CreateOpenZFSVolumeConfiguration T)) then None else map_of ps k)"
  using assms
  by (auto simp: volume_params_def CollapseCreateVolumeParameters_def map_of_delete_fields
      split: prod.splits sum.splits dest!: Replace_Inr)

lemma content_source_params_map_of:
  assumes "run_state (content_source_params c req ps) w = (Ok (q, src), w')" and "k \<noteq> ''OriginSnapshot''"
  shows "map_of q k = map_of ps k"
proof (cases "cvr_VolumeContentSource req")
  case None
  with assms show ?thesis by (simp add: content_source_params_def)
next
  case (Some cs)
  with assms(1) obtain i where "cs = Some (Source_Snapshot (Some i))"
    by (auto simp: content_source_params_def split: option.splits content_source.splits)
  with Some assms(1) have "run_state (appendSnapshotARN c ps i) w = (Ok q, w')"
    by (auto simp: content_source_params_def run_check_Ok)
  moreover from this obtain b where
    "ConvertJsonStringToObject (get_param ps ''OriginSnapshot'') (GMap (GString ''string'')) (VMap []) = Inr b"
    by (auto simp: appendSnapshotARN_def split: sum.splits)
  ultimately obtain s m where "q = AList.update ''OriginSnapshot'' (Marshal (VMap (AList.update ''SnapshotARN'' s m))) ps"
    by (cases b) (auto simp: appendSnapshotARN_def ConvertObjectToJsonString_def run_check_Ok run_deref_Ok)
  with assms(2) show ?thesis by simp
qed

lemma fake_CreateFileSystem_conflict:
  assumes "get_param p' ''ClientRequestToken'' = get_param p ''ClientRequestToken''" and "get_param p' k \<noteq> get_param p k"
    and "run_state (fake_CreateFileSystem p) w = (Ok r, w')"
  shows "run_state (fake_CreateFileSystem p') w' = (Err ErrAlreadyExists, w')"
proof -
  have "map_of p \<noteq> map_of p'" using assms(2) by (auto simp: get_param_def)
  from fake_create_conflict [OF assms(1) this] assms(3) show ?thesis by blast
qed

lemma fake_CreateVolume_conflict:
  assumes "get_param p' ''ClientRequestToken'' = get_param p ''ClientRequestToken''" and "get_param p' k \<noteq> get_param p k"
    and "run_state (fake_CreateVolume p) w = (Ok r, w')"
  shows "run_state (fake_CreateVolume p') w' = (Err ErrAlreadyExists, w')"
proof -
  have "map_of p \<noteq> map_of p'" using assms(2) by (auto simp: get_param_def)
  from fake_create_conflict [OF assms(1) this] assms(3) show ?thesis by blast
qed

lemma create_filesystem_conflict:
  assumes d: "get_param r' ''Tags'' \<noteq> get_param r ''Tags''" "\<forall>k. k \<noteq> ''Tags'' \<longrightarrow> map_of r' k = map_of r k"
    and f: "''Tags'' \<notin> set (field_names (CreateFileSystemOpenZFSConfiguration T))"
    and c: "run_state (create_filesystem T fake_cloud req g r) w = (Ok v, w')"
  shows "run_state (create_filesystem T fake_cloud req g r') w' \<noteq> (Ok v', w'')"
proof
  assume c': "run_state (create_filesystem T fake_cloud req g r') w' = (Ok v', w'')"
  have r: "WaitForFileSystemAvailable fake_cloud = (\<lambda>i. ret (Ok ()))"
    by (simp add: fake_cloud_def fake_WaitForFileSystemAvailable_def fun_eq_iff)
  from c obtain q fs where q: "filesystem_params T req g r = Inr q" "run_state (fake_CreateFileSystem q) w = (Ok (Some fs), w')"
    unfolding create_filesystem_Ok r by auto
  from c' obtain q' fs' where q': "filesystem_params T req g r' = Inr q'" "run_state (fake_CreateFileSystem q') w' = (Ok (Some fs'), w'')"
    unfolding create_filesystem_Ok r by auto
  have "get_param q' ''ClientRequestToken'' = get_param q ''ClientRequestToken''" "get_param q' ''Tags'' \<noteq> get_param q ''Tags''"
    using d f by (simp_all add: get_param_def filesystem_params_map_of [OF q(1)] filesystem_params_map_of [OF q'(1)])
  from fake_CreateFileSystem_conflict [OF this q(2)] q'(2) show False by simp
qed

lemma create_openzfs_volume_conflict:
  assumes d: "get_param r' ''Tags'' \<noteq> get_param r ''Tags''" "\<forall>k. k \<noteq> ''Tags'' \<longrightarrow> map_of r' k = map_of r k"
    and f: "''Tags'' \<notin> set (field_names (CreateOpenZFSVolumeConfiguration T))"
    and c: "run_state (create_openzfs_volume T fake_cloud req g r) w = (Ok v, w')" and g: "gomap r" "gomap r'"
  shows "run_state (create_openzfs_volume T fake_cloud req g r') w' \<noteq> (Ok v', w'')"
proof
  assume c': "run_state (create_openzfs_volume T fake_cloud req g r') w' = (Ok v', w'')"
  from c obtain q1 src w1 q y w2 w3 fs where q: "run_state (content_source_params fake_cloud req r) w = (Ok (q1, src), w1)"
    "volume_params T req q1 = Inr q" "run_state (fake_CreateVolume q) w1 = (Ok (Some y), w2)"
    "run_state (WaitForVolumeAvailable fake_cloud (vol_VolumeId y)) w2 = (Ok (), w3)"
    "run_state (fake_DescribeFileSystem (vol_FileSystemId y)) w3 = (Ok (Some fs), w')"
    unfolding create_openzfs_volume_Ok by auto
  have w': "w' = w2" using run_DescribeFileSystem_same [OF refl, THEN iffD1, OF q(5)] q(4)
    by (simp add: fake_cloud_def fake_WaitForVolumeAvailable_def)
  from c' obtain q1' src' w1' q' y' w2' where q': "run_state (content_source_params fake_cloud req r') w' = (Ok (q1', src'), w1')"
    "volume_params T req q1' = Inr q'" "run_state (fake_CreateVolume q') w1' = (Ok (Some y'), w2')"
    unfolding create_openzfs_volume_Ok by auto
  have w1': "w1' = w'" using content_source_params_again [OF refl _ q'(1), of r'] g(2) by (simp add: same_map_def)
  have m: "map_of q1 k = map_of r k" "map_of q1' k = map_of r' k" if "k \<noteq> ''OriginSnapshot''" for k
    using content_source_params_map_of [OF q(1) that] content_source_params_map_of [OF q'(1) that] by simp_all
  have "get_param q' ''ClientRequestToken'' = get_param q ''ClientRequestToken''" "get_param q' ''Tags'' \<noteq> get_param q ''Tags''"
    using d f by (simp_all add: get_param_def m volume_params_map_of [OF q(2)] volume_params_map_of [OF q'(2)])
  from fake_CreateVolume_conflict [OF this q(3)] q'(3) w' w1' show False by simp
qed

lemma gomap_create_volume_params: "create_volume_params T name ps = Inr (rt, r) \<Longrightarrow> gomap ps \<Longrightarrow> gomap r"
  using create_volume_params_same [of ps ps T name rt r] by (auto simp: same_map_def)

section \<open>Properties\<close>

text \<open>
  C4. \<^verbatim>\<open>CreateVolume\<close> through the fake cloud is idempotent: a request that succeeded, repeated with the
  same parameter map in any order of iteration, gives the same volume and changes neither the cloud
  nor the table, if the map has at most one \<^verbatim>\<open>OnDeletion\<close> parameter or the retry visits them in the
  same order.
\<close>

theorem create_volume_idempotent:
  assumes "table_ok db" and "cvr_Parameters req = Some ps" and "gomap ps" and "mset ps' = mset ps"
    and "length (delete_params ps) \<le> 1 \<or> delete_params ps' = delete_params ps"
    and "run_state (controller_CreateVolume T fake_cloud req) (db, w) = (Ok v, db', w')"
  shows "db' = db \<and> run_state (controller_CreateVolume T fake_cloud (req\<lparr>cvr_Parameters := Some ps'\<rparr>)) (db', w') = (Ok v, db', w')"
proof -
  have o: "delete_params ps' = delete_params ps"
    using assms(5) single_perm [OF _ delete_params_perm [OF assms(4)]] by blast
  have "cvr_Name (req\<lparr>cvr_Parameters := Some ps'\<rparr>) = cvr_Name req" by simp
  note t = create_volume_then [OF assms(1,6) this]
  have "run_state (create_volume_body T fake_cloud (req\<lparr>cvr_Parameters := Some ps'\<rparr>)) w' = (Ok v, w')"
    using create_volume_body_again [OF same_map_perm [OF assms(3,4)] o assms(2)] t by blast
  then show ?thesis using t [THEN conjunct1] t [THEN conjunct2, THEN conjunct2] by auto
qed

text \<open>
  C23. Otherwise it is not: when the retry visits the \<^verbatim>\<open>OnDeletion\<close> parameters in another order, it does not
  succeed, although the request is the same, since the tags of the two calls differ. The configuration
  structs of the SDK are assumed to have no field \<^verbatim>\<open>Tags\<close>, so that the parameter reaches the cloud.
\<close>

theorem retry_order_conflict:
  assumes "table_ok db" and "cvr_Parameters req = Some ps" and "gomap ps" and "mset ps' = mset ps"
    and "list_all (\<lambda>(k, v). valid_utf8 k \<and> valid_utf8 v) (delete_params ps)"
    and "delete_params (deleteReservedParameters ps') \<noteq> delete_params (deleteReservedParameters ps)"
    and "''Tags'' \<notin> set (field_names (CreateFileSystemOpenZFSConfiguration T))"
    and "''Tags'' \<notin> set (field_names (CreateOpenZFSVolumeConfiguration T))"
    and "run_state (controller_CreateVolume T fake_cloud req) (db, w) = (Ok v, db', w')"
  shows "\<not> is_ok (fst (run_state (controller_CreateVolume T fake_cloud (req\<lparr>cvr_Parameters := Some ps'\<rparr>)) (db', w')))"
proof
  let ?req = "req\<lparr>cvr_Parameters := Some ps'\<rparr>"
  have "cvr_Name ?req = cvr_Name req" by simp
  note t = create_volume_then [OF assms(1,9) this]
  assume "is_ok (fst (run_state (controller_CreateVolume T fake_cloud ?req) (db', w')))"
  with t have "is_ok (fst (run_state (create_volume_body T fake_cloud ?req) w'))" by (metis fst_conv)
  then obtain v' w'' where b': "run_state (create_volume_body T fake_cloud ?req) w' = (Ok v', w'')"
    by (metis is_ok.elims(2) prod.collapse)
  from t have b: "run_state (create_volume_body T fake_cloud req) w = (Ok v, w')" by blast
  from b obtain g rt r where g: "requested_capacity (cvr_CapacityRange req) = Inr g"
    and r: "create_volume_params T (cvr_Name req) ps = Inr (rt, r)"
    and c: "if rt = fsType then run_state (create_filesystem T fake_cloud req g r) w = (Ok v, w')
       else rt = volType \<and> run_state (create_openzfs_volume T fake_cloud req g r) w = (Ok v, w')"
    unfolding create_volume_body_Ok assms(2) by auto
  from b' g obtain rt' r' where r': "create_volume_params T (cvr_Name req) ps' = Inr (rt', r')"
    and c': "if rt' = fsType then run_state (create_filesystem T fake_cloud req g r') w' = (Ok v', w'')
       else rt' = volType \<and> run_state (create_openzfs_volume T fake_cloud req g r') w' = (Ok v', w'')"
    unfolding create_volume_body_Ok create_volume_body_parameters by auto
  have s: "same_map ps ps'" using assms(3,4) by (rule same_map_perm)
  then have "same_map (deleteReservedParameters ps) (deleteReservedParameters ps')"
    unfolding deleteReservedParameters_def by (rule same_map_filter)
  from same_map_get [OF this] r r' have rt: "rt' = rt" by (simp add: create_volume_params_iff)
  from tags_differ [OF r r' assms(3,4,5,6)]
  have d: "get_param r' ''Tags'' \<noteq> get_param r ''Tags''" "\<forall>k. k \<noteq> ''Tags'' \<longrightarrow> map_of r' k = map_of r k" by blast+
  have gm: "gomap r" "gomap r'" using gomap_create_volume_params r r' s by (auto simp: same_map_def)
  show False
    using c c' rt create_filesystem_conflict [OF d assms(7)] create_openzfs_volume_conflict [OF d assms(8) _ gm]
    by (cases "rt = fsType") auto
qed

text \<open>Structs with two delete parameters, and a request with both.\<close>

definition two_delete_config :: gotype where
  "two_delete_config = GStruct ''types'' ''DeleteFileSystemOpenZFSConfiguration''
     [(''Options'', True, GSlice (GString ''types.DeleteFileSystemOpenZFSOption'')), (''SkipFinalBackup'', True, GPtr GBool)]"

definition two_sdk :: "nat sdk" where
  "two_sdk = small_sdk
     \<lparr>DeleteFileSystemOpenZFSConfiguration := two_delete_config,
      DeleteFileSystemInput := GStruct ''fsx'' ''DeleteFileSystemInput''
        [(''FileSystemId'', True, GPtr str_t), (''OpenZFSConfiguration'', True, GPtr two_delete_config)]\<rparr>"

definition two_params :: params where
  "two_params = [(''ResourceType'', ''filesystem''), (''SkipFinalBackupOnDeletion'', ''true''), (''OptionsOnDeletion'', ''[]'')]"

definition two_request :: CreateVolumeRequest where
  "two_request = sample_request\<lparr>cvr_Parameters := Some two_params\<rparr>"

lemma two_create:
  "\<exists>v db' w'. run_state (controller_CreateVolume two_sdk fake_cloud two_request) (NewInFlight, sample_fake) = (Ok v, db', w')"
proof -
  have "is_ok (fst (run_state (controller_CreateVolume two_sdk fake_cloud two_request) (NewInFlight, sample_fake)))"
    by code_simp
  then show ?thesis by (metis is_ok.elims(2) prod.collapse)
qed

lemma two_facts:
  "cvr_Parameters two_request = Some two_params" "gomap two_params"
  "list_all (\<lambda>(k, v). valid_utf8 k \<and> valid_utf8 v) (delete_params two_params)"
  "delete_params (deleteReservedParameters (rev two_params)) \<noteq> delete_params (deleteReservedParameters two_params)"
  "''Tags'' \<notin> set (field_names (CreateFileSystemOpenZFSConfiguration two_sdk))"
  "''Tags'' \<notin> set (field_names (CreateOpenZFSVolumeConfiguration two_sdk))"
  "delete_params (rotate1 two_params) = delete_params two_params"
  by (simp add: two_request_def) code_simp+

theorem retry_order_conflict_witness:
  "\<exists>v w'. run_state (controller_CreateVolume two_sdk fake_cloud two_request) (NewInFlight, sample_fake) = (Ok v, NewInFlight, w')
     \<and> \<not> is_ok (fst (run_state (controller_CreateVolume two_sdk fake_cloud (two_request\<lparr>cvr_Parameters := Some (rev two_params)\<rparr>)) (NewInFlight, w')))"
proof -
  obtain v db' w' where r: "run_state (controller_CreateVolume two_sdk fake_cloud two_request) (NewInFlight, sample_fake) = (Ok v, db', w')"
    using two_create by blast
  have "mset (rev two_params) = mset two_params" by simp
  from retry_order_conflict [OF table.new_inv two_facts(1,2) this two_facts(3-6) r] create_volume_then [OF table.new_inv r refl] r
  show ?thesis by auto
qed

theorem create_volume_idempotent_witness:
  "\<exists>v w'. run_state (controller_CreateVolume two_sdk fake_cloud two_request) (NewInFlight, sample_fake) = (Ok v, NewInFlight, w')
     \<and> run_state (controller_CreateVolume two_sdk fake_cloud (two_request\<lparr>cvr_Parameters := Some (rotate1 two_params)\<rparr>)) (NewInFlight, w') = (Ok v, NewInFlight, w')"
proof -
  obtain v db' w' where r: "run_state (controller_CreateVolume two_sdk fake_cloud two_request) (NewInFlight, sample_fake) = (Ok v, db', w')"
    using two_create by blast
  have "mset (rotate1 two_params) = mset two_params" by (simp add: two_params_def)
  from create_volume_idempotent [OF table.new_inv two_facts(1,2) this disjI2 [OF two_facts(7)] r] r
  show ?thesis by auto
qed

end
