(* ===== verification/NodeSystem.thy ===== *)
theory NodeSystem
  imports NodeSpec
begin

text \<open>
  The node service under concurrent requests. The work of a handler is cut into its calls of the
  mounter and the operating system, one call per step, and any number of requests run interleaved, each behind
  the table of requests in flight. The mount library and the operating system are assumed to keep
  track of mounts as documented (\<open>mount_laws\<close>).
\<close>

section \<open>Handlers in steps\<close>

datatype node_request = Publish NodePublishVolumeRequest | Unpublish NodeUnpublishVolumeRequest

text \<open>The next call of a request: five points of a publication and three of an unpublication.\<close>

datatype point = P_MakeDir | P_Check | P_PathExists goerr | P_Unmount | P_Mount | U_Check | U_Unmount | U_Remove | P_Done

definition could_not_check :: "string \<Rightarrow> goerr \<Rightarrow> goerr" where
  "could_not_check target err = StatusErr Internal ''Could not check if %q is mounted: %v'' [AStr target, AErr err]"

definition publish_point ::
    "text_env \<Rightarrow> 'w Mounter \<Rightarrow> string \<Rightarrow> string \<Rightarrow> string list \<Rightarrow> point \<Rightarrow> ('w, point) go" where
  "publish_point env m source target opts p =
     (case p of
        P_MakeDir \<Rightarrow> check (MakeDir m target)
          (\<lambda>err. StatusErr Internal ''NodePublishVolume: Could not create target dir %q: %v'' [AStr target, AErr err])
          (\<lambda>_. ret (Ok P_Check))
      | P_Check \<Rightarrow> check (IsLikelyNotMountPoint m target) (could_not_check target) (\<lambda>(notMnt, err).
          ret (Ok (case err of
              None \<Rightarrow> if notMnt then P_Mount else P_Done
            | Some e \<Rightarrow> if os_IsNotExist e then P_Mount else P_PathExists e)))
      | P_PathExists e \<Rightarrow> invoke (PathExists m target) (\<lambda>r. case r of
            Inl pathErr \<Rightarrow>
              if IsCorruptedMnt m pathErr then ret (Ok P_Unmount)
              else ret (Err (could_not_check target
                     (StatusErr Internal ''NodePublishVolume: Could not check if %q is a mount point: %v, %v''
                        [AStr target, AErr e, AErr pathErr])))
          | Inr _ \<Rightarrow> ret (Err (could_not_check target
                     (StatusErr Internal ''NodePublishVolume: Could not check if %q is a mount point: %v, %v''
                        [AStr target, AErr e, AStr ''<nil>'']))))
      | P_Unmount \<Rightarrow> check (Unmount m target)
          (\<lambda>mntErr. could_not_check target
             (StatusErr Internal ''NodePublishVolume: Unable to unmount the target %q : %v'' [AStr target, AErr mntErr]))
          (\<lambda>_. ret (Ok P_Mount))
      | P_Mount \<Rightarrow> check (Mount m source target ''nfs'' opts) (mount_error env) (\<lambda>_. ret (Ok P_Done))
      | _ \<Rightarrow> ret (Ok P_Done))"

definition unpublish_point :: "'w os_ops \<Rightarrow> 'w Mounter \<Rightarrow> string \<Rightarrow> point \<Rightarrow> ('w, point) go" where
  "unpublish_point os m target p =
     (case p of
        U_Check \<Rightarrow> check (IsLikelyNotMountPoint m target) id (\<lambda>(notMnt, _). ret (Ok (if notMnt then P_Done else U_Unmount)))
      | U_Unmount \<Rightarrow> check (Unmount m target)
          (\<lambda>err. StatusErr Internal ''NodeUnpublishVolume: Could not unmount %q: %v'' [AStr target, AErr err])
          (\<lambda>_. ret (Ok U_Remove))
      | U_Remove \<Rightarrow> check (os_RemoveAll os target)
          (\<lambda>err. StatusErr Internal ''NodeUnpublishVolume: Could not delete %q: %v'' [AStr target, AErr err])
          (\<lambda>_. ret (Ok P_Done))
      | _ \<Rightarrow> ret (Ok P_Done))"

text \<open>All steps of one request in a row; no request has more than five.\<close>

fun run_points :: "nat \<Rightarrow> (point \<Rightarrow> ('w, point) go) \<Rightarrow> point \<Rightarrow> ('w, unit) go" where
  "run_points n f P_Done = ret (Ok ())"
| "run_points 0 f p = ret Panic"
| "run_points (Suc n) f p = check (f p) id (run_points n f)"

lemma run_state_eqI: "(\<And>w. run_state f w = run_state g w) \<Longrightarrow> f = g"
  by (cases f; cases g) auto

lemma publish_check_point:
  "run_points (Suc (Suc (Suc (Suc 0)))) (publish_point env m source x opts) P_Check =
     check (isMounted m source x) (could_not_check x) (\<lambda>mounted.
       if mounted then ret (Ok ()) else check (Mount m source x ''nfs'' opts) (mount_error env) (\<lambda>_. ret (Ok ())))"
proof (rule run_state_eqI)
  fix w
  obtain r w1 where r: "run_state (IsLikelyNotMountPoint m x) w = (r, w1)" by fastforce
  obtain q w2 where q: "run_state (PathExists m x) w1 = (q, w2)" by fastforce
  obtain v w3 where v: "run_state (Unmount m x) w2 = (v, w3)" by fastforce
  note defs = publish_point_def [of env m source x opts P_Check] publish_point_def [of env m source x opts P_Unmount]
    publish_point_def [of env m source x opts "P_PathExists e" for e] publish_point_def [of env m source x opts P_Mount]
  show "run_state (run_points (Suc (Suc (Suc (Suc 0)))) (publish_point env m source x opts) P_Check) w =
    run_state (check (isMounted m source x) (could_not_check x) (\<lambda>mounted.
       if mounted then ret (Ok ()) else check (Mount m source x ''nfs'' opts) (mount_error env) (\<lambda>_. ret (Ok ())))) w"
  proof (cases r)
    case (Ok y)
    then show ?thesis
      by (cases y; cases "snd y"; cases q; cases v)
        (simp_all add: defs isMounted_def r q v run_go split: prod.splits res.splits)
  qed (simp_all add: defs isMounted_def r run_go)
qed

lemma publish_first_point:
  "run_points 5 (publish_point env m source x opts) P_MakeDir =
     check (MakeDir m x)
       (\<lambda>err. StatusErr Internal ''NodePublishVolume: Could not create target dir %q: %v'' [AStr x, AErr err])
       (\<lambda>_. run_points (Suc (Suc (Suc (Suc 0)))) (publish_point env m source x opts) P_Check)"
proof -
  have s: "run_points (Suc n) f P_MakeDir = check (f P_MakeDir) id (run_points n f)" for n and f :: "point \<Rightarrow> ('a, point) go"
    by simp
  have five: "(5::nat) = Suc (Suc (Suc (Suc (Suc 0))))" by simp
  show ?thesis
    unfolding five by (intro run_state_eqI) (simp add: s publish_point_def [of _ _ _ _ _ P_MakeDir] run_check del: run_points.simps
        split: prod.splits res.splits)
qed

text \<open>
  The steps are the handlers: run in a row they are exactly the work of \<^verbatim>\<open>NodePublishVolume\<close> and
  \<^verbatim>\<open>NodeUnpublishVolume\<close>, with the same result and the same effects.
\<close>

lemma handlers_in_steps:
  "publish_body env m req cap =
     (case mount_source (npr_VolumeContext req) of
        Inl err \<Rightarrow> ret (Err err)
      | Inr source \<Rightarrow> run_points 5
          (publish_point env m source (npr_TargetPath req) (mount_options (npr_Readonly req) cap)) P_MakeDir)
   \<and> unpublish_body os m target = run_points 3 (unpublish_point os m target) U_Check"
proof
  show "publish_body env m req cap = (case mount_source (npr_VolumeContext req) of
        Inl err \<Rightarrow> ret (Err err)
      | Inr source \<Rightarrow> run_points 5
          (publish_point env m source (npr_TargetPath req) (mount_options (npr_Readonly req) cap)) P_MakeDir)"
    by (simp add: publish_body_def publish_first_point publish_check_point could_not_check_def [abs_def] Let_def
        del: run_points.simps split: sum.splits)
  show "unpublish_body os m target = run_points 3 (unpublish_point os m target) U_Check"
    by (rule run_state_eqI)
      (auto simp: unpublish_body_def unpublish_point_def run_check numeral_3_eq_3 split: prod.splits res.splits)
qed

section \<open>Mounts\<close>

text \<open>
  What is documented of the mount library and the operating system, on the number of mounts at each
  path: creating, inspecting and removing files leaves mounts alone; an answer without an error tells
  whether the path is a mount point, and a path that does not exist is none; a mount or an unmount that
  succeeds adds or takes away one mount at its path, and one that fails changes nothing.
\<close>

definition mount_laws :: "'w os_ops \<Rightarrow> 'w mount_interface \<Rightarrow> ('w \<Rightarrow> string \<Rightarrow> nat) \<Rightarrow> bool" where
  "mount_laws os mi mounts \<longleftrightarrow>
     (\<forall>p n w r w'. run_state (os_MkdirAll os p n) w = (r, w') \<longrightarrow> mounts w' = mounts w)
     \<and> (\<forall>p w r w'. run_state (os_Stat os p) w = (r, w') \<longrightarrow> mounts w' = mounts w)
     \<and> (\<forall>p w r w'. run_state (os_RemoveAll os p) w = (r, w') \<longrightarrow> mounts w' = mounts w)
     \<and> (\<forall>p w r w'. run_state (mi_IsLikelyNotMountPoint mi p) w = (r, w') \<longrightarrow>
          mounts w' = mounts w
          \<and> (\<forall>notMnt. r = Ok (notMnt, None) \<longrightarrow> notMnt = (mounts w p = 0))
          \<and> (\<forall>notMnt e. r = Ok (notMnt, Some e) \<longrightarrow> os_IsNotExist e \<longrightarrow> mounts w p = 0))
     \<and> (\<forall>s p f opts w r w'. run_state (mi_Mount mi s p f opts) w = (r, w') \<longrightarrow>
          mounts w' = (if r = Ok () then (mounts w)(p := Suc (mounts w p)) else mounts w))
     \<and> (\<forall>p w r w'. run_state (mi_Unmount mi p) w = (r, w') \<longrightarrow>
          mounts w' = (if r = Ok () then (mounts w)(p := mounts w p - 1) else mounts w))"

lemma mount_lawsD:
  assumes "mount_laws os mi mounts"
  shows "run_state (os_MkdirAll os p n) w = (ru, w') \<Longrightarrow> mounts w' = mounts w"
    and "run_state (os_Stat os p) w = (ru, w') \<Longrightarrow> mounts w' = mounts w"
    and "run_state (os_RemoveAll os p) w = (ru, w') \<Longrightarrow> mounts w' = mounts w"
    and "run_state (mi_IsLikelyNotMountPoint mi p) w = (rb, w') \<Longrightarrow> mounts w' = mounts w"
    and "run_state (mi_IsLikelyNotMountPoint mi p) w = (Ok (notMnt, None), w') \<Longrightarrow> notMnt \<longleftrightarrow> mounts w p = 0"
    and "run_state (mi_IsLikelyNotMountPoint mi p) w = (Ok (notMnt, Some e), w') \<Longrightarrow> os_IsNotExist e \<Longrightarrow> mounts w p = 0"
    and "run_state (mi_Mount mi s p f opts) w = (ru, w') \<Longrightarrow>
      mounts w' = (if ru = Ok () then (mounts w)(p := Suc (mounts w p)) else mounts w)"
    and "run_state (mi_Unmount mi p) w = (ru, w') \<Longrightarrow>
      mounts w' = (if ru = Ok () then (mounts w)(p := mounts w p - 1) else mounts w)"
  using assms unfolding mount_laws_def by - (elim conjE, metis)+

section \<open>Requests at work\<close>

fun request_key :: "node_request \<Rightarrow> string" where
  "request_key (Publish r) = npr_VolumeId r @ npr_TargetPath r"
| "request_key (Unpublish r) = nur_VolumeId r @ nur_TargetPath r"

fun request_target :: "node_request \<Rightarrow> string" where
  "request_target (Publish r) = npr_TargetPath r"
| "request_target (Unpublish r) = nur_TargetPath r"

fun request_volume :: "node_request \<Rightarrow> string" where
  "request_volume (Publish r) = npr_VolumeId r"
| "request_volume (Unpublish r) = nur_VolumeId r"

text \<open>The checks before a handler asks for its key, and the first call after it has it.\<close>

fun request_valid :: "node_request \<Rightarrow> bool" where
  "request_valid (Publish r) =
     (npr_VolumeId r \<noteq> [] \<and> npr_TargetPath r \<noteq> []
      \<and> (case npr_VolumeCapability r of None \<Rightarrow> False | Some cap \<Rightarrow> isValidVolumeCapabilities [cap]))"
| "request_valid (Unpublish r) = (nur_VolumeId r \<noteq> [] \<and> nur_TargetPath r \<noteq> [])"

fun first_point :: "node_request \<Rightarrow> point" where
  "first_point (Publish r) = (case mount_source (npr_VolumeContext r) of Inl _ \<Rightarrow> P_Done | Inr _ \<Rightarrow> P_MakeDir)"
| "first_point (Unpublish r) = U_Check"

fun request_point :: "text_env \<Rightarrow> 'w os_ops \<Rightarrow> 'w Mounter \<Rightarrow> node_request \<Rightarrow> point \<Rightarrow> ('w, point) go" where
  "request_point env os m (Publish r) p =
     (case (mount_source (npr_VolumeContext r), npr_VolumeCapability r) of
        (Inr source, Some cap) \<Rightarrow> publish_point env m source (npr_TargetPath r) (mount_options (npr_Readonly r) cap) p
      | _ \<Rightarrow> ret (Ok P_Done))"
| "request_point env os m (Unpublish r) p = unpublish_point os m (nur_TargetPath r) p"

text \<open>A call that fails or panics ends the work of its request.\<close>

fun next_point :: "point res \<Rightarrow> point" where
  "next_point (Ok p) = p"
| "next_point r = P_Done"

text \<open>
  The requests of the threads are given; the state is that of the concurrent system of the table,
  with the next call of every thread.
\<close>

record 'w node_system =
  sys :: "'w system"
  at_point :: "nat \<Rightarrow> point"

inductive node_step ::
    "text_env \<Rightarrow> 'w os_ops \<Rightarrow> 'w Mounter \<Rightarrow> (nat \<Rightarrow> node_request) \<Rightarrow> 'w node_system \<Rightarrow> 'w node_system \<Rightarrow> bool"
  for env os m rq where
  enter: "phase_of (sys s) t = Waiting \<Longrightarrow> request_valid (rq t) \<Longrightarrow>
    Insert (table (sys s)) (request_key (rq t)) = (db, True) \<Longrightarrow>
    node_step env os m rq s
      \<lparr>sys = (sys s)\<lparr>table := db, phase_of := (phase_of (sys s))(t := Holding (request_key (rq t)))\<rparr>,
       at_point = (at_point s)(t := first_point (rq t))\<rparr>"
| refuse: "phase_of (sys s) t = Waiting \<Longrightarrow> request_valid (rq t) \<Longrightarrow>
    Insert (table (sys s)) (request_key (rq t)) = (db, False) \<Longrightarrow>
    node_step env os m rq s (s\<lparr>sys := (sys s)\<lparr>table := db, phase_of := (phase_of (sys s))(t := Refused)\<rparr>\<rparr>)"
| work: "phase_of (sys s) t = Holding k \<Longrightarrow> at_point s t \<noteq> P_Done \<Longrightarrow>
    run_state (request_point env os m (rq t) (at_point s t)) (sys_world (sys s)) = (r, w) \<Longrightarrow>
    node_step env os m rq s \<lparr>sys = (sys s)\<lparr>sys_world := w\<rparr>, at_point = (at_point s)(t := next_point r)\<rparr>"
| leave: "phase_of (sys s) t = Holding k \<Longrightarrow> at_point s t = P_Done \<Longrightarrow>
    node_step env os m rq s
      (s\<lparr>sys := (sys s)\<lparr>table := Delete (table (sys s)) k, phase_of := (phase_of (sys s))(t := Finished)\<rparr>\<rparr>)"

inductive node_reachable ::
    "text_env \<Rightarrow> 'w os_ops \<Rightarrow> 'w Mounter \<Rightarrow> (nat \<Rightarrow> node_request) \<Rightarrow> 'w \<Rightarrow> 'w node_system \<Rightarrow> bool"
  for env os m rq w where
  start: "node_reachable env os m rq w
    \<lparr>sys = \<lparr>table = NewInFlight, phase_of = (\<lambda>t. Waiting), sys_world = w\<rparr>, at_point = (\<lambda>t. P_Done)\<rparr>"
| step: "node_reachable env os m rq w s \<Longrightarrow> node_step env os m rq s s' \<Longrightarrow> node_reachable env os m rq w s'"

lemma node_step_sys: "node_step env os m rq s s' \<Longrightarrow> sys_step (sys s) (sys s')"
  by (induction rule: node_step.induct) (auto intro: sys_step.intros)

section \<open>One step at a target\<close>

text \<open>A point is safe when its call may run: nothing is mounted where it mounts or removes.\<close>

definition point_safe :: "nat \<Rightarrow> point \<Rightarrow> bool" where
  "point_safe n p \<longleftrightarrow> (p = P_Mount \<or> p = U_Remove \<longrightarrow> n = 0)"

lemma NodeMounter_sel [simp]:
  "IsLikelyNotMountPoint (NodeMounter os mi) = mi_IsLikelyNotMountPoint mi" "Mount (NodeMounter os mi) = mi_Mount mi"
  "Unmount (NodeMounter os mi) = mi_Unmount mi" "PathExists (NodeMounter os mi) = NodeMounter_PathExists os"
  "MakeDir (NodeMounter os mi) = NodeMounter_MakeDir os"
  by (simp_all add: NodeMounter_def)

lemma run_MakeDir_mounts:
  "mount_laws os mi mounts \<Longrightarrow> run_state (NodeMounter_MakeDir os p) w = (r, w') \<Longrightarrow> mounts w' = mounts w"
  by (auto simp: NodeMounter_MakeDir_def run_invoke split: prod.splits res.splits if_splits dest: mount_lawsD(1))

lemma run_PathExists_mounts:
  "mount_laws os mi mounts \<Longrightarrow> run_state (NodeMounter_PathExists os p) w = (r, w') \<Longrightarrow> mounts w' = mounts w"
  by (auto simp: NodeMounter_PathExists_def run_invoke split: prod.splits res.splits if_splits dest: mount_lawsD(2))

text \<open>The effect of one call on the mounts at its own path, and on whether the next call is safe.\<close>

definition good_step :: "('w \<Rightarrow> string \<Rightarrow> nat) \<Rightarrow> string \<Rightarrow> 'w \<Rightarrow> point res \<Rightarrow> 'w \<Rightarrow> bool" where
  "good_step mounts x w r w' \<longleftrightarrow>
     (\<forall>y. y \<noteq> x \<longrightarrow> mounts w' y = mounts w y) \<and> mounts w' x \<le> 1 \<and> point_safe (mounts w' x) (next_point r)"

lemma publish_point_good:
  assumes "mount_laws os mi mounts" and "mounts w x \<le> 1" and "point_safe (mounts w x) p"
    and "run_state (publish_point env (NodeMounter os mi) source x opts p) w = (r, w')"
  shows "good_step mounts x w r w'"
proof (cases p)
  case P_MakeDir
  with assms show ?thesis
    by (auto simp: publish_point_def run_check good_step_def point_safe_def split: prod.splits res.splits
        dest: run_MakeDir_mounts)
next
  case P_Check
  obtain rb where q: "run_state (mi_IsLikelyNotMountPoint mi x) w = (rb, w')"
    using assms(4) P_Check by (auto simp: publish_point_def run_check split: prod.splits res.splits)
  note same = mount_lawsD(4) [OF assms(1) q]
  from q P_Check assms same show ?thesis
    by (auto simp: publish_point_def run_check good_step_def point_safe_def same split: res.splits option.splits if_splits
        dest: mount_lawsD(5) mount_lawsD(6))
next
  case (P_PathExists e)
  with assms show ?thesis
    by (auto simp: publish_point_def run_invoke good_step_def point_safe_def split: prod.splits res.splits if_splits
        dest: run_PathExists_mounts)
next
  case P_Unmount
  with assms show ?thesis
    by (auto simp: publish_point_def run_check good_step_def point_safe_def split: prod.splits res.splits
        dest: mount_lawsD(8))
next
  case P_Mount
  with assms show ?thesis
    by (auto simp: publish_point_def run_check good_step_def point_safe_def split: prod.splits res.splits
        dest: mount_lawsD(7))
qed (use assms in \<open>auto simp: publish_point_def good_step_def point_safe_def\<close>)

lemma unpublish_point_good:
  assumes "mount_laws os mi mounts" and "mounts w x \<le> 1" and "point_safe (mounts w x) p"
    and "run_state (unpublish_point os (NodeMounter os mi) x p) w = (r, w')"
  shows "good_step mounts x w r w'"
proof (cases p)
  case U_Check
  with assms show ?thesis
    by (auto simp: unpublish_point_def run_check good_step_def point_safe_def split: prod.splits res.splits if_splits
        dest: mount_lawsD(4))
next
  case U_Unmount
  with assms show ?thesis
    by (auto simp: unpublish_point_def run_check good_step_def point_safe_def split: prod.splits res.splits
        dest: mount_lawsD(8))
next
  case U_Remove
  with assms show ?thesis
    by (auto simp: unpublish_point_def run_check good_step_def point_safe_def split: prod.splits res.splits
        dest: mount_lawsD(3))
qed (use assms in \<open>auto simp: unpublish_point_def good_step_def point_safe_def\<close>)

lemma request_point_good:
  assumes "mount_laws os mi mounts" and "mounts w (request_target q) \<le> 1" and "point_safe (mounts w (request_target q)) p"
    and "run_state (request_point env os (NodeMounter os mi) q p) w = (r, w')"
  shows "good_step mounts (request_target q) w r w'"
proof (cases q)
  case (Publish x)
  with assms show ?thesis
    by (auto intro: publish_point_good split: sum.splits option.splits) (auto simp: good_step_def point_safe_def)
next
  case (Unpublish x)
  with assms show ?thesis by (auto intro: unpublish_point_good)
qed

section \<open>The invariant\<close>

text \<open>What the orchestrator keeps to: requests for the same target path name the same volume.\<close>

definition one_volume_per_target :: "(nat \<Rightarrow> node_request) \<Rightarrow> bool" where
  "one_volume_per_target rq \<longleftrightarrow>
     (\<forall>t u. request_target (rq t) = request_target (rq u) \<longrightarrow> request_volume (rq t) = request_volume (rq u))"

lemma request_key_eq: "request_key q = request_volume q @ request_target q"
  by (cases q) auto

definition mounts_inv :: "('w \<Rightarrow> string \<Rightarrow> nat) \<Rightarrow> (nat \<Rightarrow> node_request) \<Rightarrow> 'w node_system \<Rightarrow> bool" where
  "mounts_inv mounts rq s \<longleftrightarrow>
     (\<forall>x. mounts (sys_world (sys s)) x \<le> 1)
     \<and> (\<forall>t k. phase_of (sys s) t = Holding k \<longrightarrow>
          k = request_key (rq t) \<and> point_safe (mounts (sys_world (sys s)) (request_target (rq t))) (at_point s t))"

lemma first_point_safe: "point_safe n (first_point q)"
  by (cases q) (auto simp: point_safe_def split: sum.splits)

lemma mounts_inv_work:
  assumes "mount_laws os mi mounts" and "one_volume_per_target rq" and "sys_inv (sys s)" and "mounts_inv mounts rq s"
    and "phase_of (sys s) t = Holding k"
    and "run_state (request_point env os (NodeMounter os mi) (rq t) (at_point s t)) (sys_world (sys s)) = (r, w)"
  shows "mounts_inv mounts rq \<lparr>sys = (sys s)\<lparr>sys_world := w\<rparr>, at_point = (at_point s)(t := next_point r)\<rparr>"
proof -
  let ?x = "request_target (rq t)"
  have g: "good_step mounts ?x (sys_world (sys s)) r w"
    using assms(4,5) by (intro request_point_good [OF assms(1) _ _ assms(6)]) (auto simp: mounts_inv_def)
  have other: "request_target (rq u) \<noteq> ?x" if "u \<noteq> t" "phase_of (sys s) u = Holding k'" for u k'
  proof
    assume "request_target (rq u) = ?x"
    with assms(2) have "request_key (rq u) = request_key (rq t)"
      unfolding one_volume_per_target_def request_key_eq by metis
    with that assms(3-5) show False by (auto simp: mounts_inv_def sys_inv_def)
  qed
  show ?thesis
    using assms(4) g other unfolding mounts_inv_def good_step_def by (auto split: if_splits) (metis le_refl)+
qed

lemma mounts_inv_step:
  assumes "node_step env os (NodeMounter os mi) rq s s'" and "mount_laws os mi mounts" and "one_volume_per_target rq"
    and "sys_inv (sys s)" and "mounts_inv mounts rq s"
  shows "mounts_inv mounts rq s'"
  using assms(1)
proof cases
  case (work t k r w)
  then show ?thesis using mounts_inv_work [OF assms(2-5)] by blast
qed (use assms(5) in \<open>auto simp: mounts_inv_def first_point_safe split: if_splits\<close>)

lemma node_reachable_inv:
  assumes "node_reachable env os (NodeMounter os mi) rq w s" and "mount_laws os mi mounts" and "one_volume_per_target rq"
    and "\<And>x. mounts w x \<le> 1"
  shows "sys_inv (sys s) \<and> mounts_inv mounts rq s"
  using assms(1)
proof (induction rule: node_reachable.induct)
  case start
  then show ?case using assms(4) by (simp add: sys_inv_start mounts_inv_def)
next
  case (step s s')
  then show ?case using sys_inv_step [OF node_step_sys] mounts_inv_step [OF _ assms(2,3)] by blast
qed

text \<open>
  C6. No mount is ever stacked on another: in every interleaving of publications and unpublications, each
  target has at most one mount, provided that requests for one target name one volume and that no
  target had more than one mount when the service started.
\<close>

theorem no_stacked_mounts:
  assumes "node_reachable env os (NodeMounter os mi) rq w s" and "mount_laws os mi mounts" and "one_volume_per_target rq"
    and "\<And>x. mounts w x \<le> 1"
  shows "mounts (sys_world (sys s)) x \<le> 1"
  using node_reachable_inv [OF assms] by (simp add: mounts_inv_def)

text \<open>
  C5. The data on a volume is never deleted by an unpublication: in every interleaving, when a request is
  about to remove its target directory, nothing is mounted there.
\<close>

theorem removal_only_unmounted:
  assumes "node_reachable env os (NodeMounter os mi) rq w s" and "mount_laws os mi mounts" and "one_volume_per_target rq"
    and "\<And>x. mounts w x \<le> 1"
    and "phase_of (sys s) t = Holding k" and "at_point s t = U_Remove"
  shows "mounts (sys_world (sys s)) (request_target (rq t)) = 0"
  using node_reachable_inv [OF assms(1-4)] assms(5,6) by (auto simp: mounts_inv_def point_safe_def)

text \<open>A node whose world is the list of mounted targets, and two requests for one target.\<close>

definition list_mounts :: "string list mount_interface" where
  "list_mounts =
     \<lparr>mi_IsLikelyNotMountPoint = (\<lambda>p. State (\<lambda>w. (Ok (\<not> List.member w p, None), w))),
      mi_Mount = (\<lambda>s p f opts. State (\<lambda>w. (Ok (), p # w))),
      mi_Unmount = (\<lambda>p. State (\<lambda>w. (Ok (), remove1 p w))),
      mi_IsCorruptedMnt = (\<lambda>e. False)\<rparr>"

lemma list_mounts_laws: "mount_laws sample_os list_mounts (\<lambda>w p. count_list w p)"
  by (auto simp: mount_laws_def sample_os_def list_mounts_def fun_eq_iff count_list_0_iff)

definition sample_requests :: "nat \<Rightarrow> node_request" where
  "sample_requests t =
     (if t = 0 then Publish sample_publish else Unpublish \<lparr>nur_VolumeId = ''fs-1'', nur_TargetPath = ''/t''\<rparr>)"

lemma sample_one_volume: "one_volume_per_target sample_requests"
  by (simp add: one_volume_per_target_def sample_requests_def sample_publish_def)

text \<open>The unpublication enters, asks whether its target is mounted, and unmounts it.\<close>

definition sample_state :: "point \<Rightarrow> string list \<Rightarrow> string list node_system" where
  "sample_state p w =
     \<lparr>sys = \<lparr>table = fst (Insert NewInFlight ''fs-1/t''), phase_of = (\<lambda>t. Waiting)(1 := Holding ''fs-1/t''), sys_world = w\<rparr>,
      at_point = (\<lambda>t. P_Done)(1 := p)\<rparr>"

lemma sample_work:
  assumes "node_reachable env sample_os (NodeMounter sample_os list_mounts) sample_requests w0 (sample_state p w)" and "p \<noteq> P_Done"
    and "run_state (unpublish_point sample_os (NodeMounter sample_os list_mounts) ''/t'' p) w = (Ok p', w')"
  shows "node_reachable env sample_os (NodeMounter sample_os list_mounts) sample_requests w0 (sample_state p' w')"
proof -
  have "node_step env sample_os (NodeMounter sample_os list_mounts) sample_requests (sample_state p w)
      \<lparr>sys = (sys (sample_state p w))\<lparr>sys_world := w'\<rparr>, at_point = (at_point (sample_state p w))(1 := next_point (Ok p'))\<rparr>"
    using assms(2,3) by (intro node_step.work [where k = "''fs-1/t''"]) (simp_all add: sample_state_def sample_requests_def)
  from node_reachable.step [OF assms(1) this] show ?thesis by (simp add: sample_state_def)
qed

lemma sample_reached:
  "node_reachable env sample_os (NodeMounter sample_os list_mounts) sample_requests [''/t''] (sample_state U_Remove [])"
proof -
  let ?s = "\<lparr>sys = \<lparr>table = NewInFlight, phase_of = (\<lambda>t. Waiting), sys_world = [''/t'']\<rparr>, at_point = (\<lambda>t. P_Done)\<rparr>"
  have "Insert NewInFlight ''fs-1/t'' = (fst (Insert NewInFlight ''fs-1/t''), True)"
    by (simp add: Insert_def NewInFlight_def has_param_iff)
  then have "node_step env sample_os (NodeMounter sample_os list_mounts) sample_requests ?s
      \<lparr>sys = (sys ?s)\<lparr>table := fst (Insert NewInFlight ''fs-1/t''),
          phase_of := (phase_of (sys ?s))(1 := Holding (request_key (sample_requests 1)))\<rparr>,
       at_point = (at_point ?s)(1 := first_point (sample_requests 1))\<rparr>"
    by (intro node_step.enter) (simp_all add: sample_requests_def)
  from node_reachable.step [OF node_reachable.start this]
  have "node_reachable env sample_os (NodeMounter sample_os list_mounts) sample_requests [''/t''] (sample_state U_Check [''/t''])"
    by (simp add: sample_state_def sample_requests_def)
  from sample_work [OF this, of U_Unmount "[''/t'']"]
  have "node_reachable env sample_os (NodeMounter sample_os list_mounts) sample_requests [''/t''] (sample_state U_Unmount [''/t''])"
    by (simp add: unpublish_point_def list_mounts_def run_check)
  from sample_work [OF this, of U_Remove "[]"] show ?thesis
    by (simp add: unpublish_point_def list_mounts_def run_check)
qed

lemma sample_start: "count_list [''/t''] x \<le> 1"
  by simp

theorem no_stacked_mounts_witness: "count_list (sys_world (sys (sample_state U_Remove []))) ''/t'' \<le> 1"
  using no_stacked_mounts [OF sample_reached list_mounts_laws sample_one_volume sample_start] .

theorem removal_only_unmounted_witness:
  "at_point (sample_state U_Remove []) 1 = U_Remove \<and> count_list (sys_world (sys (sample_state U_Remove []))) ''/t'' = 0"
  using removal_only_unmounted [OF sample_reached list_mounts_laws sample_one_volume sample_start, where t = 1 and k = "''fs-1/t''"]
  by (simp add: sample_state_def sample_requests_def)

section \<open>A target that does not answer\<close>

text \<open>
  C24. An unpublication that is told the target is not a mount point reports success and does nothing, also
  when the answer came with an error: a mount whose server does not answer is left in place, and so is
  a directory whose removal failed in an earlier attempt.
\<close>

theorem unpublish_ignores_error:
  assumes "nur_VolumeId req \<noteq> []" and "nur_TargetPath req \<noteq> []" and "table_ok db"
    and "nur_VolumeId req @ nur_TargetPath req \<notin> in_flight_keys db"
    and "run_state (IsLikelyNotMountPoint m (nur_TargetPath req)) w = (Ok (True, err), w')"
  shows "run_state (node_NodeUnpublishVolume os m req) (db, w) = (Ok (), db, w')"
proof -
  have "run_state (unpublish_body os m (nur_TargetPath req)) w = (Ok (), w')"
    using assms(5) by (simp add: unpublish_body_def run_check)
  then show ?thesis
    using assms(1,2) by (simp add: node_NodeUnpublishVolume_def Let_def run_with_inflight_free [OF assms(3,4)] Delete_Insert [OF assms(4)])
qed

text \<open>A mount whose server does not answer: the library answers \<^verbatim>\<open>true\<close> with an error.\<close>

definition stale_mounter :: "string list Mounter" where
  "stale_mounter = sample_mounter
     \<lparr>IsLikelyNotMountPoint := (\<lambda>p. State (\<lambda>w. (Ok (True, Some (OsErr OsOther ''stale NFS file handle'')), w)))\<rparr>"

theorem unpublish_ignores_error_witness:
  "run_state (node_NodeUnpublishVolume sample_os stale_mounter \<lparr>nur_VolumeId = ''fs-1'', nur_TargetPath = ''/t''\<rparr>)
     (NewInFlight, [''/t'']) = (Ok (), NewInFlight, [''/t''])"
  by (rule unpublish_ignores_error) (simp_all add: table.new_inv table.new_mem stale_mounter_def)

end
