(* ===== verification/MountSpec.thy ===== *)
theory MountSpec
  imports NodeSystem
begin

text \<open>
  The effect of one publication or unpublication on the mounts of the node and on the data of the volumes, for
  every outcome of the calls it makes, under the documented behaviour of the mount library and the
  operating system (\<open>mount_laws\<close>, \<open>data_laws\<close>).
\<close>

section \<open>Publishing\<close>

text \<open>A target reported as mounted is; one reported as not mounted has lost its corrupted mount, if it had one.\<close>

lemma run_isMounted_mounts:
  assumes "mount_laws os mi mounts" and "run_state (isMounted (NodeMounter os mi) s x) w = (r, w')"
  shows "case r of
      Ok True \<Rightarrow> mounts w' = mounts w \<and> 0 < mounts w x
    | Ok False \<Rightarrow> mounts w' = (mounts w)(x := mounts w x - 1)
    | _ \<Rightarrow> mounts w' = mounts w"
proof -
  obtain a w1 where a: "run_state (mi_IsLikelyNotMountPoint mi x) w = (a, w1)" by fastforce
  note m1 = mount_lawsD(4) [OF assms(1) a]
  obtain p w2 where p: "run_state (NodeMounter_PathExists os x) w1 = (p, w2)" by fastforce
  note m2 = run_PathExists_mounts [OF assms(1) p]
  obtain u w3 where u: "run_state (mi_Unmount mi x) w2 = (u, w3)" by fastforce
  note m3 = mount_lawsD(8) [OF assms(1) u]
  have c: "IsCorruptedMnt (NodeMounter os mi) = mi_IsCorruptedMnt mi" by (simp add: NodeMounter_def)
  show ?thesis
  proof (cases a)
    case (Ok y)
    obtain notMnt err where y: "y = (notMnt, err)" by fastforce
    show ?thesis
    proof (cases err)
      case None
      with assms(2) a Ok y m1 mount_lawsD(5) [OF assms(1) a [unfolded Ok y None]] show ?thesis
        by (auto simp: isMounted_def run_go fun_eq_iff)
    next
      case (Some e)
      show ?thesis
      proof (cases "os_IsNotExist e")
        case True
        with assms(2) a Ok y Some m1 mount_lawsD(6) [OF assms(1) a [unfolded Ok y Some] True] show ?thesis
          by (auto simp: isMounted_def run_go fun_eq_iff)
      next
        case False
        with assms(2) a Ok y Some p u m1 m2 m3 c show ?thesis
          by (cases p; cases u) (auto simp: isMounted_def run_go split: if_splits)
      qed
    qed
  qed (use assms(2) a m1 in \<open>auto simp: isMounted_def run_go\<close>)
qed

lemma publish_body_mounts:
  assumes l: "mount_laws os mi mounts" and b: "run_state (publish_body env (NodeMounter os mi) req cap) w = (r, w')"
  shows "(\<forall>y. y \<noteq> npr_TargetPath req \<longrightarrow> mounts w' y = mounts w y)
    \<and> (r \<noteq> Ok () \<longrightarrow> mounts w' (npr_TargetPath req) \<le> mounts w (npr_TargetPath req))
    \<and> (r = Ok () \<longrightarrow> mounts w' (npr_TargetPath req) = max 1 (mounts w (npr_TargetPath req))
        \<and> (\<exists>source. mount_source (npr_VolumeContext req) = Inr source
            \<and> (mounts w (npr_TargetPath req) = 0 \<longrightarrow> (\<exists>w2. run_state (mi_Mount mi source (npr_TargetPath req) ''nfs''
                 (mount_options (npr_Readonly req) cap)) w2 = (Ok (), w')))))"
proof (cases "mount_source (npr_VolumeContext req)")
  case (Inl e)
  with b show ?thesis by (auto simp: publish_body_def)
next
  case (Inr source)
  let ?x = "npr_TargetPath req" and ?opts = "mount_options (npr_Readonly req) cap"
  obtain d w1 where d: "run_state (NodeMounter_MakeDir os ?x) w = (d, w1)" by fastforce
  note m1 = run_MakeDir_mounts [OF l d]
  obtain q w2 where q: "run_state (isMounted (NodeMounter os mi) source ?x) w1 = (q, w2)" by fastforce
  note m2 = run_isMounted_mounts [OF l q]
  obtain n w3 where n: "run_state (mi_Mount mi source ?x ''nfs'' ?opts) w2 = (n, w3)" by fastforce
  note m3 = mount_lawsD(7) [OF l n]
  consider (made) "is_ok d" "q = Ok False" | (there) "is_ok d" "q = Ok True" | (failed) "\<not> is_ok d \<or> \<not> is_ok q"
    by (cases q rule: is_ok.cases) auto
  then show ?thesis
  proof cases
    case made
    then have e: "(r, w') = (case n of Ok _ \<Rightarrow> (Ok (), w3) | Err e \<Rightarrow> (Err (mount_error env e), w3) | Panic \<Rightarrow> (Panic, w3))"
      using b Inr d q n by (cases d; cases n) (auto simp: publish_body_def run_check Let_def)
    have m: "mounts w2 = (mounts w)(?x := mounts w ?x - 1)" using m1 m2 made by simp
    show ?thesis
    proof (cases n)
      case (Ok y)
      with e m m3 n Inr show ?thesis by (auto simp: max_def)
    qed (use e m m3 in auto)
  next
    case there
    then have "(r, w') = (Ok (), w2)" using b Inr d q by (cases d) (simp_all add: publish_body_def run_check Let_def)
    with m1 m2 there Inr show ?thesis by (auto simp: max_def)
  next
    case failed
    then have "r \<noteq> Ok ()" "mounts w' = mounts w"
      using b Inr d q m1 m2 by (cases d; cases q; auto simp: publish_body_def run_check Let_def)+
    then show ?thesis by simp
  qed
qed

text \<open>
  C11. \<^verbatim>\<open>NodePublishVolume\<close> mounts exactly when nothing is mounted yet. Whatever its outcome, it touches no
  other target and never adds a mount when it fails. When it succeeds the capability was supported,
  the volume context names a source, and the target has one mount if it had none, which is the NFS mount
  of that source with the request's options, and otherwise as many as before.
\<close>

theorem publish_mounts_once:
  assumes "mount_laws os mi mounts"
    and "run_state (node_NodePublishVolume env (NodeMounter os mi) req) (db, w) = (r, db', w')"
  shows "(\<forall>y. y \<noteq> npr_TargetPath req \<longrightarrow> mounts w' y = mounts w y)
    \<and> (r \<noteq> Ok () \<longrightarrow> mounts w' (npr_TargetPath req) \<le> mounts w (npr_TargetPath req))
    \<and> (r = Ok () \<longrightarrow> mounts w' (npr_TargetPath req) = max 1 (mounts w (npr_TargetPath req))
        \<and> (\<exists>cap source. npr_VolumeCapability req = Some cap
            \<and> vc_AccessMode cap \<in> {Some SINGLE_NODE_WRITER, Some MULTI_NODE_MULTI_WRITER}
            \<and> mount_source (npr_VolumeContext req) = Inr source
            \<and> (mounts w (npr_TargetPath req) = 0 \<longrightarrow> (\<exists>w2. run_state (mi_Mount mi source (npr_TargetPath req) ''nfs''
                 (mount_options (npr_Readonly req) cap)) w2 = (Ok (), w')))))"
proof (cases "w' = w \<and> r \<noteq> Ok ()")
  case True
  then show ?thesis by simp
next
  case False
  with assms(2) obtain cap busy where c: "npr_VolumeCapability req = Some cap" "isValidVolumeCapabilities [cap]"
    and "run_state (with_inflight (npr_VolumeId req @ npr_TargetPath req) busy (publish_body env (NodeMounter os mi) req cap)) (db, w) = (r, db', w')"
    by (auto simp: node_NodePublishVolume_def Let_def split: option.splits if_splits)
  with False have "run_state (publish_body env (NodeMounter os mi) req cap) w = (r, w')"
    by (auto simp: run_guarded split: prod.splits if_splits)
  from publish_body_mounts [OF assms(1) this] c show ?thesis by (auto simp: isValidVolumeCapabilities_iff)
qed

section \<open>Unpublishing\<close>

text \<open>
  What is documented of the calls an unpublication makes, on the data of the volumes: asking and
  unmounting leave it alone, and so does the recursive removal of a directory that has no mount at or
  below it.
\<close>

definition data_laws :: "'w os_ops \<Rightarrow> 'w mount_interface \<Rightarrow> ('w \<Rightarrow> string \<Rightarrow> nat) \<Rightarrow> ('w \<Rightarrow> 'd) \<Rightarrow> bool" where
  "data_laws os mi mounts data \<longleftrightarrow>
     (\<forall>p w r w'. run_state (mi_IsLikelyNotMountPoint mi p) w = (r, w') \<longrightarrow> data w' = data w)
     \<and> (\<forall>p w r w'. run_state (mi_Unmount mi p) w = (r, w') \<longrightarrow> data w' = data w)
     \<and> (\<forall>p w r w'. run_state (os_RemoveAll os p) w = (r, w') \<longrightarrow>
          (\<forall>q. q = p \<or> HasPrefix q (p @ ''/'') \<longrightarrow> mounts w q = 0) \<longrightarrow> data w' = data w)"

lemma unpublish_body_data:
  assumes l: "mount_laws os mi mounts" and d: "data_laws os mi mounts data" and n: "mounts w x \<le> 1"
    and below: "\<forall>q. HasPrefix q (x @ ''/'') \<longrightarrow> mounts w q = 0"
    and b: "run_state (unpublish_body os (NodeMounter os mi) x) w = (r, w')"
  shows "data w' = data w \<and> (\<forall>y. y \<noteq> x \<longrightarrow> mounts w' y = mounts w y) \<and> mounts w' x \<le> mounts w x
    \<and> (r = Ok () \<longrightarrow> (\<exists>notMnt w1. run_state (mi_IsLikelyNotMountPoint mi x) w = (Ok (notMnt, None), w1)) \<longrightarrow> mounts w' x = 0)"
proof -
  obtain a w1 where a: "run_state (mi_IsLikelyNotMountPoint mi x) w = (a, w1)" by fastforce
  have m1: "mounts w1 = mounts w" "data w1 = data w" using mount_lawsD(4) [OF l a] d a unfolding data_laws_def by blast+
  obtain u w2 where u: "run_state (mi_Unmount mi x) w1 = (u, w2)" by fastforce
  have m2: "mounts w2 = (if u = Ok () then (mounts w)(x := mounts w x - 1) else mounts w)" "data w2 = data w"
    using mount_lawsD(8) [OF l u] m1 d u unfolding data_laws_def by (simp, metis)
  obtain v w3 where v: "run_state (os_RemoveAll os x) w2 = (v, w3)" by fastforce
  have x: "\<not> HasPrefix x (x @ ''/'')" by (simp add: HasPrefix_def)
  have m3: "mounts w3 = mounts w2" using mount_lawsD(3) [OF l v] .
  have dv: "data w3 = data w" if "u = Ok ()"
  proof -
    have "\<forall>q. q = x \<or> HasPrefix q (x @ ''/'') \<longrightarrow> mounts w2 q = 0" using that m2(1) n below by auto
    with d v m2(2) show ?thesis unfolding data_laws_def by metis
  qed
  show ?thesis
  proof (cases a)
    case (Ok y)
    obtain notMnt err where y: "y = (notMnt, err)" by fastforce
    have z: "notMnt \<longleftrightarrow> mounts w x = 0" if "err = None"
      using mount_lawsD(5) [OF l, of x w notMnt w1] a Ok y that by simp
    show ?thesis
    proof (cases notMnt)
      case True
      with b a Ok y have "w' = w1" by (simp add: unpublish_body_def run_check Let_def)
      with m1 z True a Ok y show ?thesis by auto
    next
      case False
      with b a Ok y u v have "(r, w') = (case u of Ok _ \<Rightarrow> (case v of Ok _ \<Rightarrow> (Ok (), w3) | Err e \<Rightarrow> (r, w3) | Panic \<Rightarrow> (Panic, w3))
          | Err e \<Rightarrow> (r, w2) | Panic \<Rightarrow> (Panic, w2))"
        and "\<not> is_ok u \<longrightarrow> r \<noteq> Ok ()"
        by (cases u; cases v; auto simp: unpublish_body_def run_check Let_def)+
      with m2 m3 dv n a Ok y show ?thesis
        by (cases u; cases v) auto
    qed
  qed (use b a m1 in \<open>auto simp: unpublish_body_def run_check\<close>)
qed

text \<open>
  C26. \<^verbatim>\<open>NodeUnpublishVolume\<close> never deletes the data of a volume, whatever the outcome of its calls, in particular
  when the unmount fails: for a target with at most one mount and none below it, the data is as before,
  no other target is touched and no mount is added; and when the call succeeds after the mount library
  answered without an error, nothing is mounted on the target any more.
\<close>

theorem unpublish_keeps_data:
  assumes "mount_laws os mi mounts" and "data_laws os mi mounts data" and "mounts w (nur_TargetPath req) \<le> 1"
    and "\<forall>q. HasPrefix q (nur_TargetPath req @ ''/'') \<longrightarrow> mounts w q = 0"
    and "run_state (node_NodeUnpublishVolume os (NodeMounter os mi) req) (db, w) = (r, db', w')"
  shows "data w' = data w \<and> (\<forall>y. y \<noteq> nur_TargetPath req \<longrightarrow> mounts w' y = mounts w y)
    \<and> mounts w' (nur_TargetPath req) \<le> mounts w (nur_TargetPath req)
    \<and> (r = Ok () \<longrightarrow> (\<exists>notMnt w1. run_state (mi_IsLikelyNotMountPoint mi (nur_TargetPath req)) w = (Ok (notMnt, None), w1))
        \<longrightarrow> mounts w' (nur_TargetPath req) = 0)"
proof (cases "w' = w \<and> r \<noteq> Ok ()")
  case True
  then show ?thesis by simp
next
  case False
  with assms(5) obtain busy where
    "run_state (with_inflight (nur_VolumeId req @ nur_TargetPath req) busy (unpublish_body os (NodeMounter os mi) (nur_TargetPath req))) (db, w) = (r, db', w')"
    by (auto simp: node_NodeUnpublishVolume_def Let_def split: if_splits)
  with False have "run_state (unpublish_body os (NodeMounter os mi) (nur_TargetPath req)) w = (r, w')"
    by (auto simp: run_guarded split: prod.splits if_splits)
  from unpublish_body_data [OF assms(1-4) this] show ?thesis .
qed

section \<open>Witnesses\<close>

lemma sample_publication:
  "run_state (node_NodePublishVolume sample_env (NodeMounter sample_os list_mounts) sample_publish) (NewInFlight, []) =
     (Ok (), NewInFlight, [''/t''])"
  by code_simp

theorem publish_mounts_once_witness:
  "\<exists>source w2. mount_source (npr_VolumeContext sample_publish) = Inr source
     \<and> run_state (mi_Mount list_mounts source ''/t'' ''nfs'' [''ro'', ''nfsvers=4.1'']) w2 = (Ok (), [''/t''])"
  using publish_mounts_once [OF list_mounts_laws sample_publication]
  by (auto simp: sample_publish_def mount_options_def)

text \<open>A node with a list of mounts and one of files, which a removal empties when its target is mounted.\<close>

definition disk_os :: "(string list \<times> string list) os_ops" where
  "disk_os =
     \<lparr>os_MkdirAll = (\<lambda>p n. ret (Ok ())), os_Stat = (\<lambda>p. ret (Ok ())),
      os_RemoveAll = (\<lambda>p. State (\<lambda>(m, d). (Ok (), m, if List.member m p then [] else d)))\<rparr>"

definition disk_mounts :: "(string list \<times> string list) mount_interface" where
  "disk_mounts =
     \<lparr>mi_IsLikelyNotMountPoint = (\<lambda>p. State (\<lambda>(m, d). (Ok (\<not> List.member m p, None), m, d))),
      mi_Mount = (\<lambda>s p f opts. State (\<lambda>(m, d). (Ok (), p # m, d))),
      mi_Unmount = (\<lambda>p. State (\<lambda>(m, d). (Ok (), remove1 p m, d))),
      mi_IsCorruptedMnt = (\<lambda>e. False)\<rparr>"

lemma disk_laws:
  "mount_laws disk_os disk_mounts (\<lambda>w p. count_list (fst w) p)" "data_laws disk_os disk_mounts (\<lambda>w p. count_list (fst w) p) snd"
  by (auto simp: mount_laws_def data_laws_def disk_os_def disk_mounts_def fun_eq_iff count_list_0_iff split: prod.splits if_splits)

lemma sample_disk:
  "run_state (node_NodeUnpublishVolume disk_os (NodeMounter disk_os disk_mounts) \<lparr>nur_VolumeId = ''fs-1'', nur_TargetPath = ''/t''\<rparr>)
     (NewInFlight, [''/t''], [''file'']) = (Ok (), NewInFlight, [], [''file''])"
  by code_simp

theorem unpublish_keeps_data_witness:
  "snd ([] :: string list, [''file'']) = snd ([''/t''], [''file'']) \<and> count_list (fst ([] :: string list, [''file''])) ''/t'' = 0"
  using unpublish_keeps_data [OF disk_laws _ _ sample_disk] by (simp add: HasPrefix_def disk_mounts_def)

end
