(* ===== verification/Spec2Isabelle.thy ===== *)
theory Spec2Isabelle
  imports ServerSpec SnapshotSpec RetrySpec MountSpec
begin

text \<open>
  \<^bold>\<open>A verification development for the Amazon FSx for OpenZFS CSI driver.\<close>

  The program is a Go binary that Kubernetes talks to over gRPC. Its parts, and the theories that model
  them (source paths under \<^verbatim>\<open>src/pkg\<close>):

  \<^item> \<^verbatim>\<open>util/util.go\<close>: capacity conversion, the encoding of delete parameters in tags, and the
    conversion of a string map into an SDK struct by way of JSON. Theory \<open>Util\<close>, over \<open>GoTypes\<close>
    (\<^verbatim>\<open>json.Marshal\<close> and \<^verbatim>\<open>json.Unmarshal\<close> on values of the types the driver uses, reflection included),
    \<open>Json\<close> (the scanner of \<^verbatim>\<open>encoding/json\<close> as a machine over an explicit stack, and the escapes),
    \<open>GoStrings\<close> (\<^verbatim>\<open>strings\<close>, \<^verbatim>\<open>strconv\<close>, UTF-8) and \<open>Prelude\<close>. What is proved of them is in
    \<open>JsonPrint\<close>, \<open>JsonEscape\<close>, \<open>JsonSound\<close>, \<open>GoTypesSound\<close> and \<open>UtilSpec\<close>.
  \<^item> \<^verbatim>\<open>driver/internal/inflight.go\<close>: the table of requests in flight, which both services use to refuse a
    second request for the same key. Theory \<open>InFlight\<close>, with the locale \<open>in_flight\<close> for what a
    handler relies on and its interpretation \<open>table\<close> on the code's operations.
  \<^item> \<^verbatim>\<open>cloud/cloud.go\<close>: the layer over the FSx API. Theory \<open>Cloud\<close>: the SDK's client is a record of
    operations on an abstract world, and the record \<open>Cloud\<close> is the Go interface of that name. \<open>Polling\<close>
    states the documented behaviour of \<^verbatim>\<open>wait.Poll\<close>; \<open>CloudSpec\<close> holds the properties.
  \<^item> \<^verbatim>\<open>cloud/fakes.go\<close>: the in-memory cloud of the sanity tests, a second implementation of the
    interface. Theories \<open>FakeCloud\<close> and \<open>FakeCloudSpec\<close>; \<open>RetrySpec\<close> repeats a \<^verbatim>\<open>CreateVolume\<close> against it,
    with the request's parameters in any other order.
  \<^item> \<^verbatim>\<open>driver/controller.go\<close>: the controller service, which creates, deletes, expands and snapshots.
    Theory \<open>Controller\<close>: a handler is a function of the SDK's types, a cloud and a request, which
    runs over the pair of the table and the cloud's world. \<open>ControllerSpec\<close> has the locale
    \<open>cloud_provider\<close>, interpreted on both clouds; \<open>TagsSpec\<close> follows delete parameters through tags, \<open>ReadySpec\<close>
    shows that what is reported as created has been described as available, and \<open>SnapshotSpec\<close> that a
    snapshot is made of the volume its source resolves to.
  \<^item> \<^verbatim>\<open>driver/node.go\<close>, \<^verbatim>\<open>driver/mount.go\<close>: the node service, which mounts, unmounts and removes the startup
    taint. Theories \<open>Node\<close> and \<open>NodeSpec\<close>; \<open>NodeSystem\<close> cuts the two handlers into their calls and runs
    any number of requests interleaved behind the table of requests in flight; \<open>MountSpec\<close> says what one
    request does to the mounts and to the data behind them, whatever the calls answer.
  \<^item> \<^verbatim>\<open>cloud/metadata*.go\<close>, \<^verbatim>\<open>driver/driver.go\<close>, \<^verbatim>\<open>driver/identity.go\<close>, \<^verbatim>\<open>driver/version.go\<close>, \<^verbatim>\<open>driver/fakes.go\<close>:
    start-up and identity. Theories \<open>Metadata\<close>, \<open>Driver\<close> and \<open>DriverSpec\<close>, with the locale
    \<open>metadata_source\<close> between metadata and node service, interpreted on both sources and their choice.
  \<^item> \<^verbatim>\<open>util.ParseEndpoint\<close>, \<^verbatim>\<open>Driver.Run\<close>, \<^verbatim>\<open>Driver.Stop\<close>, and the program under \<^verbatim>\<open>src/cmd\<close>: flags, start-up and
    exit status. Theories \<open>GoUrl\<close> (\<^verbatim>\<open>net/url\<close>, \<^verbatim>\<open>path\<close>), \<open>Endpoint\<close>, \<open>Server\<close> and \<open>ServerSpec\<close>.

  \<^bold>\<open>How the code is represented.\<close> Go errors are values of the type \<open>goerr\<close>, which keeps a format and its
  arguments, so that \<^verbatim>\<open>errors.Is\<close>, \<^verbatim>\<open>errors.As\<close> and the text of an error can all be computed
  (\<open>GoErrors\<close>). A call returns a value, an error or a panic (a nil dereference, a write to a nil map), the
  type \<open>res\<close>; code with effects is in the state monad over its world, and \<open>check\<close>, \<open>invoke\<close> and \<open>deref\<close>
  are the ways the source treats a result. Pointers are options, \<^verbatim>\<open>int32\<close> and \<^verbatim>\<open>int64\<close> are words,
  string maps are association lists with distinct keys, whose order is the order in which a loop of one call
  visits the map; two calls with the same map may be given two orders (\<open>same_map\<close>, \<open>RetrySpec\<close>). A decoded map
  is kept in key order.
  The frame that every handler puts around its work, insert, \<^verbatim>\<open>defer\<close> delete, is \<open>guarded\<close>.

  \<^bold>\<open>What is proved.\<close>
  \<^item> Parameters: strict population gives each field the value of its own parameter (or zero), a
    collapsed configuration arrives unchanged, a parameter that is not JSON is named, decoding
    inverts encoding; capacity conversion is exact within its bounds.
  \<^item> Requests in flight: mutual exclusion and admission in every interleaving, refinement of a lock
    manager, every handler leaves the table as it was and aborts without effect when the key is taken.
  \<^item> Cloud layer: a wait returns only for the state waited for and does return within the bound of
    its poll loop, a resize succeeds only for an accepted update, delete parameters come from tags.
  \<^item> Controller: requests are validated, a created file system, volume or snapshot is available, a
    created volume can be published, an expansion never shrinks, delete parameters survive the tags, a missing snapshot is deleted with
    success; the fake cloud keeps its maps consistent and refuses conflicts. Through it a repeated
    \<^verbatim>\<open>CreateVolume\<close> gives the same volume when at most one parameter becomes a deletion tag or the tags
    are written in the same order, and a conflict when they are written in another.
  \<^item> Node: a publication leaves exactly one mount, or none and an error, and is idempotent, mount options are
    exact, an unpublication deletes no data and removes the target only when it is unmounted, other targets are not blocked, the startup taint and only it
    is removed, and the loop around that removal returns exactly when an attempt does not fail. In
    every interleaving a target has at most one mount and is removed only when nothing is mounted on it.
  \<^item> Start-up: metadata is that of the instance document and complete, or comes from the provider id of the node, the node's id is never
    empty, the mode selects the services; an endpoint is understood as written and only a cleaned absolute path is ever removed; \<^verbatim>\<open>Run\<close> offers
    exactly the services that were built; an unknown mode ends the process before any effect, and
    the program returns only after its server ended without error.

  \<^bold>\<open>Hypotheses.\<close> \<open>poll_spec\<close> (\<open>Polling\<close>) is the documented behaviour of \<^verbatim>\<open>wait.Poll\<close>: it succeeds only if an
  evaluation of the condition did, and time may pass between evaluations; \<open>wait_returns\<close> takes the
  bounded loop \<open>poll_rounds\<close>. \<open>stable_mounts\<close> (\<open>NodeSpec\<close>) says that a mounted target is reported
  as mounted. \<open>mount_laws\<close> (\<open>NodeSystem\<close>) says how calls of the mount library and the operating system
  change the number of mounts at a path, and \<open>one_volume_per_target\<close> that requests for one target
  name one volume, since the key in flight holds both; \<open>data_laws\<close> (\<open>MountSpec\<close>) says that of the calls of
  an unpublication only a removal can delete data, and only when something is mounted at or below the path.
  \<open>snapshot_input\<close> (\<open>SnapshotSpec\<close>) says that the SDK's input of a snapshot is a struct with a string field
  \<^verbatim>\<open>VolumeId\<close> and no unexported field but the SDK's marker. \<open>flag_default\<close> (\<open>ServerSpec\<close>) says that defining a flag sets
  its value to the default. The bound 10000 on nesting is that of \<^verbatim>\<open>encoding/json\<close>. The theories \<open>SampleTypes\<close> and
  \<open>Sample\<close> hold a concrete SDK with a service whose world is a clock, on which the hypotheses of the
  theorems are evaluated; 60 poll rounds are the 15 minutes at 15 second intervals of the code.

  \<^bold>\<open>Not modelled.\<close> Log output. The mocks, which are generated. The AWS SDK, \<^verbatim>\<open>wait.Poll\<close>, the mount library,
  the Kubernetes client and the operating system are arguments of the definitions. That a handler
  changes the map of the request it was given, which it owns, is modelled by passing the map by
  value. Nil elements in a list of capabilities. The gRPC server, the listener and the flag library
  are arguments; the configuration of the logger is dropped. Of a parsed URL, the query, the user and the
  fragment are checked and dropped.
\<close>

section \<open>From creation to publication\<close>

lemma create_volume_params_type:
  assumes "create_volume_params T name ps = Inr (rt, r)" shows "map_of ps ''ResourceType'' = Some rt"
proof -
  have "rt = get_param (deleteReservedParameters ps) ''ResourceType''" "rt \<noteq> []"
    using assms by (auto simp: create_volume_params_iff fsType_def volType_def)
  then show ?thesis using resource_type_given by metis
qed

text \<open>
  C12. What \<^verbatim>\<open>CreateVolume\<close> returns can be published, whichever cloud created it: from the volume context of the
  response \<^verbatim>\<open>NodePublishVolume\<close> takes as source the DNS name that the cloud gave for the new file system and
  the root volume, or, for a volume, the DNS name of the file system it is on and the path the cloud
  gave, if the cloud left none of them empty.
\<close>

theorem created_volume_publishable:
  assumes "run_state (controller_CreateVolume T c req) (db, w) = (Ok v, db', w')" and "cvr_Parameters req = Some ps"
  shows "if map_of ps ''ResourceType'' = Some ''filesystem''
    then \<exists>input fs w1. run_state (CreateFileSystem c input) w = (Ok (Some fs), w1) \<and> csi_VolumeId v = fs_FileSystemId fs
      \<and> (fs_DnsName fs \<noteq> [] \<longrightarrow> mount_source (VolumeContext v) = Inr (fs_DnsName fs @ '':fsx''))
    else \<exists>input w0 x w1 w2 fs. run_state (CreateVolume c input) w0 = (Ok (Some x), w1) \<and> csi_VolumeId v = vol_VolumeId x
      \<and> run_state (DescribeFileSystem c (vol_FileSystemId x)) w2 = (Ok (Some fs), w')
      \<and> (fs_DnsName fs \<noteq> [] \<and> vol_VolumePath x \<noteq> [] \<longrightarrow>
          mount_source (VolumeContext v) = Inr (fs_DnsName fs @ '':'' @ vol_VolumePath x))"
proof -
  from assms(1) obtain g rt r where p: "create_volume_params T (cvr_Name req) ps = Inr (rt, r)"
    and c: "(rt = fsType \<and> run_state (create_filesystem T c req g r) w = (Ok v, w'))
       \<or> (rt = volType \<and> run_state (create_openzfs_volume T c req g r) w = (Ok v, w'))"
    by (rule create_volume_Ok) (simp add: assms(2))
  note t = create_volume_params_type [OF p]
  from c show ?thesis
  proof
    assume "rt = fsType \<and> run_state (create_filesystem T c req g r) w = (Ok v, w')"
    then obtain input fs w1 where "run_state (CreateFileSystem c input) w = (Ok (Some fs), w1)" "csi_VolumeId v = fs_FileSystemId fs"
      "VolumeContext v = [(''DNSName'', fs_DnsName fs), (''ResourceType'', fsType)]" "rt = fsType"
      by (auto simp: create_filesystem_Ok)
    moreover from this have "fs_DnsName fs \<noteq> [] \<longrightarrow> mount_source (VolumeContext v) = Inr (fs_DnsName fs @ '':fsx'')"
      by (simp add: mount_source_def get_param_def fsType_def rootVolumePath_def)
    moreover have y: "map_of ps ''ResourceType'' = Some ''filesystem''" using t calculation(4) by (simp add: fsType_def)
    ultimately show ?thesis unfolding if_P [OF y] by blast
  next
    assume "rt = volType \<and> run_state (create_openzfs_volume T c req g r) w = (Ok v, w')"
    then obtain input w0 x w1 w2 fs where "run_state (CreateVolume c input) w0 = (Ok (Some x), w1)" "csi_VolumeId v = vol_VolumeId x"
      "run_state (DescribeFileSystem c (vol_FileSystemId x)) w2 = (Ok (Some fs), w')"
      "VolumeContext v = [(''DNSName'', fs_DnsName fs), (''ResourceType'', volType), (''VolumePath'', vol_VolumePath x)]" "rt = volType"
      by (auto simp: create_openzfs_volume_Ok)
    moreover from this have "fs_DnsName fs \<noteq> [] \<and> vol_VolumePath x \<noteq> [] \<longrightarrow>
        mount_source (VolumeContext v) = Inr (fs_DnsName fs @ '':'' @ vol_VolumePath x)"
      by (simp add: mount_source_def get_param_def fsType_def volType_def)
    moreover have n: "map_of ps ''ResourceType'' \<noteq> Some ''filesystem''" using t calculation(5) by (simp add: volType_def)
    ultimately show ?thesis unfolding if_not_P [OF n] by blast
  qed
qed

lemma sample_fake_DnsName:
  "run_state (fake_CreateFileSystem input) sample_fake = (Ok (Some fs), w1) \<Longrightarrow> fs_DnsName fs = ''test.us-east-1.fsx.amazonaws.com''"
  by (auto simp: fake_CreateFileSystem_def NewFakeCloudProvider_def random_Uint64_def Let_def split: sum.splits)

theorem created_volume_publishable_witness:
  "\<exists>v db' w'. run_state (controller_CreateVolume small_sdk fake_cloud sample_request) (NewInFlight, sample_fake) = (Ok v, db', w')
     \<and> mount_source (VolumeContext v) = Inr ''test.us-east-1.fsx.amazonaws.com:fsx''"
proof -
  obtain v db' w' where r: "run_state (controller_CreateVolume small_sdk fake_cloud sample_request) (NewInFlight, sample_fake) = (Ok v, db', w')"
    using sample_create by blast
  have p: "cvr_Parameters sample_request = Some [(''ResourceType'', ''filesystem''), (''SkipFinalBackupOnDeletion'', ''true'')]"
    by (simp add: sample_request_def)
  have "map_of [(''ResourceType'', ''filesystem''), (''SkipFinalBackupOnDeletion'', ''true'')] ''ResourceType'' = Some ''filesystem''"
    by simp
  from created_volume_publishable [OF r p, unfolded if_P [OF this]] obtain input fs w1
    where f: "run_state (fake_CreateFileSystem input) sample_fake = (Ok (Some fs), w1)"
      and m: "fs_DnsName fs \<noteq> [] \<longrightarrow> mount_source (VolumeContext v) = Inr (fs_DnsName fs @ '':fsx'')"
    unfolding fake_cloud_sel by blast
  have "mount_source (VolumeContext v) = Inr ''test.us-east-1.fsx.amazonaws.com:fsx''"
    using m unfolding sample_fake_DnsName [OF f] by simp
  with r show ?thesis by (intro exI conjI)
qed

section \<open>Deleting what is not there\<close>

text \<open>
  C28. Deleting a snapshot that the service does not know succeeds: the cloud layer words the error and
  the handler recognises the words, for whatever id.
\<close>

theorem delete_missing_snapshot:
  assumes "table_ok db" and "i \<notin> in_flight_keys db" and "i \<noteq> []"
    and "RemoveParametersAndPopulateObject (sdk_env k) (DeleteSnapshotInput k) [(''SnapshotId'', quote k i)] = (rest, Inr input)"
    and "string_field input ''SnapshotId'' = Some j"
    and "run_state (fsx_DeleteSnapshot (sdk_fsx k) input) w = (Err e, w')" and "is_sdk SnapshotNotFound e"
  shows "run_state (controller_DeleteSnapshot k (cloud k) i) (db, w) = (Ok (), db, w')"
proof -
  have "''DeleteSnapshot: Unable to find snapshot %s'' = ''DeleteSnapshot: '' @ ''Unable to find snapshot'' @ '' %s''" by simp
  have c: "Contains (Error (sdk_env k) (Errorf ''DeleteSnapshot: Unable to find snapshot %s'' [AStr j])) ''Unable to find snapshot''"
    unfolding Contains_iff_sublist by (intro exI [of _ "''DeleteSnapshot: ''"] exI [of _ "'' '' @ j"]) simp
  have "run_state (delete_snapshot_body k (cloud k) i) w = (Ok (), w')"
    using assms(4-7) c by (simp add: delete_snapshot_body_def cloud_sel cloud_DeleteSnapshot_def run_invoke run_deref)
  then show ?thesis using assms(1-3)
    by (simp add: controller_DeleteSnapshot_def run_with_inflight_free Delete_Insert)
qed

text \<open>
  C30. Deleting a file system that the service does not know does not succeed: the lookup of the delete
  parameters fails first and the handler answers \<^verbatim>\<open>Internal\<close>, so that the branch for a resource that
  is not found is never reached.
\<close>

theorem delete_missing_filesystem:
  assumes "table_ok db" and "i \<notin> in_flight_keys db" and "i \<noteq> []" and "volume_prefix i = FilesystemPrefix"
    and "run_state (fsx_DescribeFileSystems (sdk_fsx k) [i]) w = (r, w')"
    and "r = Ok (Some []) \<and> e = ErrNotFound \<or> r = Err e"
  shows "run_state (controller_DeleteVolume T (cloud k) i) (db, w) = (Err (StatusErr Internal ''%s'' [AErr e]), db, w')"
proof -
  have "run_state (resource_arn k i) w = (Err e, w')"
    using assms(4-6) by (auto simp: resource_arn_def getFileSystem_def run_check run_single)
  then have "run_state (delete_volume_body T (cloud k) i) w = (Err (StatusErr Internal ''%s'' [AErr e]), w')"
    by (simp add: delete_volume_body_def cloud_sel cloud_GetDeleteParameters_def run_check)
  then show ?thesis using assms(1-3)
    by (simp add: controller_DeleteVolume_def run_with_inflight_free Delete_Insert)
qed

text \<open>A service that knows neither file systems nor snapshots.\<close>

definition empty_sdk :: "nat sdk" where
  "empty_sdk = sample_sdk\<lparr>sdk_fsx := sample_fsx
     \<lparr>fsx_DescribeFileSystems := (\<lambda>ids. ret (Ok (Some []))),
      fsx_DeleteSnapshot := (\<lambda>input. ret (Err (SdkErr SnapshotNotFound ''no such snapshot'' ''SnapshotNotFound'')))\<rparr>\<rparr>"

lemma empty_delete_input:
  "RemoveParametersAndPopulateObject (sdk_env empty_sdk) (DeleteSnapshotInput empty_sdk) [(''SnapshotId'', quote empty_sdk ''s-1'')] =
     ([], Inr (VStruct [(''SnapshotId'', VPtr (VString ''s-1'')), (''ClientRequestToken'', VNil)]))"
  by code_simp

theorem delete_missing_snapshot_witness:
  "run_state (controller_DeleteSnapshot empty_sdk (cloud empty_sdk) ''s-1'') (NewInFlight, 0) = (Ok (), NewInFlight, 0)"
  by (rule delete_missing_snapshot [where e = "SdkErr SnapshotNotFound ''no such snapshot'' ''SnapshotNotFound''",
      OF table.new_inv _ _ empty_delete_input])
    (simp_all add: table.new_mem string_field_def empty_sdk_def is_sdk_def)

theorem delete_missing_filesystem_witness:
  "run_state (controller_DeleteVolume empty_sdk (cloud empty_sdk) ''fs-1'') (NewInFlight, 0) =
     (Err (StatusErr Internal ''%s'' [AErr ErrNotFound]), NewInFlight, 0)"
proof -
  have p: "volume_prefix ''fs-1'' = FilesystemPrefix" by code_simp
  show ?thesis
    by (rule delete_missing_filesystem [where r = "Ok (Some [])", OF table.new_inv _ _ p])
      (simp_all add: table.new_mem empty_sdk_def)
qed

end
